theory Spec2Isabelle
  imports Main "HOL-Library.Word" "HOL-Library.Signed_Division"
begin

unbundle bit_operations_syntax

section \<open>Go values: bytes, big integers, the key stream\<close>

type_synonym byte = "8 word"

text \<open>
  A \<^verbatim>\<open>*big.Int\<close> is a pointer to an unbounded integer. Integers are \<^typ>\<open>int\<close>;
  the pointers are addresses of an explicit store, since \<^verbatim>\<open>Clone\<close>, \<^verbatim>\<open>Set\<close> and
  \<^verbatim>\<open>Equal\<close> copy and mutate through them.
\<close>

datatype error = Panic | ErrInvalidEmbedLen | ErrInvalidPoint

text \<open>\<^verbatim>\<open>(*big.Int).SetBytes\<close>: the bytes read as a big-endian unsigned integer.\<close>

definition SetBytes :: "byte list \<Rightarrow> int" where
  "SetBytes bs = foldl (\<lambda>acc b. acc * 256 + uint b) 0 bs"

text \<open>\<^verbatim>\<open>(*big.Int).Bytes\<close>: the absolute value, big-endian, with no leading zero byte.\<close>

function Bytes_nat :: "nat \<Rightarrow> byte list" where
  "Bytes_nat n = (if n = 0 then [] else Bytes_nat (n div 256) @ [of_nat (n mod 256)])"
  by pat_completeness auto
termination
  by (relation "measure id") auto

declare Bytes_nat.simps [simp del]

definition Bytes :: "int \<Rightarrow> byte list" where
  "Bytes v = Bytes_nat (nat \<bar>v\<bar>)"

text \<open>\<^verbatim>\<open>(*big.Int).BitLen\<close>: the length of the absolute value in bits, 0 for 0.\<close>

function BitLen_nat :: "nat \<Rightarrow> int" where
  "BitLen_nat n = (if n = 0 then 0 else BitLen_nat (n div 2) + 1)"
  by pat_completeness auto
termination
  by (relation "measure id") auto

declare BitLen_nat.simps [simp del]

definition BitLen :: "int \<Rightarrow> int" where
  "BitLen v = BitLen_nat (nat \<bar>v\<bar>)"

text \<open>
  \<^verbatim>\<open>(*big.Int).Mod\<close> is the Euclidean modulus, in \<open>[0, |m|)\<close>; it panics on a zero
  modulus, which the callers below test before they use this value.
\<close>

definition Mod :: "int \<Rightarrow> int \<Rightarrow> int" where
  "Mod v m = v mod \<bar>m\<bar>"

text \<open>
  \<^verbatim>\<open>(*big.Int).Exp(x, y, m)\<close> for an exponent \<open>y \<ge> 0\<close>: \<open>x ^ y mod |m|\<close>, and
  \<open>x ^ y\<close> when \<open>m\<close> is zero.
\<close>

definition Exp :: "int \<Rightarrow> nat \<Rightarrow> int \<Rightarrow> int" where
  "Exp v e m = (if m = 0 then v ^ e else v ^ e mod \<bar>m\<bar>)"

text \<open>\<^verbatim>\<open>z.SetBit(x, i, 1)\<close>: \<open>x\<close> with bit \<open>i\<close> set.\<close>

definition SetBit1 :: "nat \<Rightarrow> nat \<Rightarrow> nat" where
  "SetBit1 v i = v OR push_bit i 1"

text \<open>\<^verbatim>\<open>z.Lsh(x, n)\<close>: \<open>x\<close> shifted left by \<open>n\<close> bits.\<close>

definition Lsh :: "int \<Rightarrow> nat \<Rightarrow> int" where
  "Lsh v n = v * 2 ^ n"

text \<open>
  A \<^verbatim>\<open>cipher.Stream\<close> is a stateful source of key bytes: its state is the sequence of
  the bytes still to come. \<^verbatim>\<open>XORKeyStream(dst, src)\<close> XORs \<open>src\<close> with the next
  \<open>len(src)\<close> key bytes and advances the stream by that many.
\<close>

type_synonym Stream = "nat \<Rightarrow> byte"

definition XORKeyStream :: "byte list \<Rightarrow> Stream \<Rightarrow> byte list \<times> Stream" where
  "XORKeyStream src rand =
     (map (\<lambda>i. src ! i XOR rand i) [0..<length src], \<lambda>i. rand (i + length src))"

text \<open>
  Modelled from the spec: \<^verbatim>\<open>random.Bits(bitlen, false, rand)\<close> of the package
  \<^verbatim>\<open>util/random\<close>, which is not among the sources. It draws
  \<open>\<lceil>bitlen / 8\<rceil>\<close> bytes from the key stream into a zeroed buffer and clears the bits
  of the first byte above \<open>bitlen\<close>, so that the buffer holds \<open>bitlen\<close> random bits.
\<close>

definition random_Bits :: "nat \<Rightarrow> Stream \<Rightarrow> byte list \<times> Stream" where
  "random_Bits bitlen rand =
     (let (b, rand) = XORKeyStream (replicate ((bitlen + 7) div 8) 0) rand;
          highbits = bitlen mod 8;
          b = (if highbits \<noteq> 0 then b[0 := b ! 0 AND NOT (push_bit highbits 0xff)] else b)
      in (b, rand))"

section \<open>The store of big integers\<close>

type_synonym addr = nat

record store =
  heap :: "addr \<Rightarrow> int"
  nxt :: addr

text \<open>\<^verbatim>\<open>new(big.Int)\<close> holding \<open>v\<close>: a fresh address.\<close>

definition new :: "int \<Rightarrow> store \<Rightarrow> addr \<times> store" where
  "new v s = (nxt s, s\<lparr>heap := (heap s)(nxt s := v), nxt := Suc (nxt s)\<rparr>)"

text \<open>An in-place operation \<^verbatim>\<open>z.Op(...)\<close> on the integer at address \<open>a\<close>.\<close>

definition upd :: "addr \<Rightarrow> int \<Rightarrow> store \<Rightarrow> store" where
  "upd a v s = s\<lparr>heap := (heap s)(a := v)\<rparr>"

section \<open>Curves\<close>

text \<open>\<^verbatim>\<open>elliptic.CurveParams\<close>.\<close>

record CurveParams =
  prm_P :: int
  prm_N :: int
  prm_B :: int
  prm_Gx :: int
  prm_Gy :: int
  prm_BitSize :: int

text \<open>
  The interface \<^verbatim>\<open>elliptic.Curve\<close> of the Go standard library, the external provider
  of the curve arithmetic: a record of its operations on coordinate values.
\<close>

record EllipticCurve =
  IsOnCurve :: "int \<Rightarrow> int \<Rightarrow> bool"
  ec_Add :: "int \<Rightarrow> int \<Rightarrow> int \<Rightarrow> int \<Rightarrow> int \<times> int"
  ec_ScalarMult :: "int \<Rightarrow> int \<Rightarrow> byte list \<Rightarrow> int \<times> int"
  ec_ScalarBaseMult :: "byte list \<Rightarrow> int \<times> int"

text \<open>
  \<^verbatim>\<open>type Curve struct { elliptic.Curve; curveOps; p *elliptic.CurveParams }\<close>:
  the provider, the curve-specific square root, the parameters.
\<close>

record Curve =
  elliptic :: EllipticCurve
  curve_sqrt :: "int \<Rightarrow> int"
  params :: CurveParams

definition coordLen :: "Curve \<Rightarrow> int" where
  "coordLen c = (prm_BitSize (params c) + 7) sdiv 8"

subsection \<open>P-256\<close>

definition p256_P :: int where
  "p256_P = 0xffffffff00000001000000000000000000000000ffffffffffffffffffffffff"

definition p256_N :: int where
  "p256_N = 0xffffffff00000000ffffffffffffffffbce6faada7179e84f3b9cac2fc632551"

definition p256_B :: int where
  "p256_B = 0x5ac635d8aa3a93e7b3ebbd55769886bc651d06b0cc53b0f63bce3c3e27d2604b"

definition p256_Gx :: int where
  "p256_Gx = 0x6b17d1f2e12c4247f8bce6e563a440f277037d812deb33a0f4a13945d898c296"

definition p256_Gy :: int where
  "p256_Gy = 0x4fe342e2fe1a7f9b8ee7eb4a7c0f9e162bce33576b315ececbb6406837bf51f5"

text \<open>The parameters of \<^verbatim>\<open>elliptic.P256()\<close>.\<close>

definition p256_params :: CurveParams where
  "p256_params = \<lparr>prm_P = p256_P, prm_N = p256_N, prm_B = p256_B,
     prm_Gx = p256_Gx, prm_Gy = p256_Gy, prm_BitSize = 256\<rparr>"

text \<open>
  A reference provider with the standard semantics of a short Weierstrass curve
  \<open>y\<^sup>2 = x\<^sup>3 - 3x + b\<close> over the field of \<open>P\<close> elements, as \<^verbatim>\<open>crypto/elliptic\<close>
  documents them: \<^verbatim>\<open>IsOnCurve\<close> holds of a pair of reduced coordinates that
  satisfies the equation, \<open>(0, 0)\<close> stands for the point at infinity in \<^verbatim>\<open>Add\<close>,
  and \<^verbatim>\<open>ScalarMult\<close> adds the point to itself \<open>k\<close> times, \<open>k\<close> given big-endian.
\<close>

definition std_IsOnCurve :: "CurveParams \<Rightarrow> int \<Rightarrow> int \<Rightarrow> bool" where
  "std_IsOnCurve prm xv yv =
     (0 \<le> xv \<and> xv < prm_P prm \<and> 0 \<le> yv \<and> yv < prm_P prm
      \<and> (yv * yv) mod prm_P prm = (xv * xv * xv - 3 * xv + prm_B prm) mod prm_P prm)"

definition inv_mod :: "int \<Rightarrow> int \<Rightarrow> int" where
  "inv_mod m a = a ^ nat (m - 2) mod m"

definition std_Add :: "CurveParams \<Rightarrow> int \<Rightarrow> int \<Rightarrow> int \<Rightarrow> int \<Rightarrow> int \<times> int" where
  "std_Add prm x1 y1 x2 y2 =
     (let m = prm_P prm in
      if x1 = 0 \<and> y1 = 0 then (x2, y2)
      else if x2 = 0 \<and> y2 = 0 then (x1, y1)
      else if x1 = x2 \<and> (y1 + y2) mod m = 0 then (0, 0)
      else
        (let lam = (if x1 = x2 then (3 * x1 * x1 - 3) * inv_mod m (2 * y1)
                    else (y2 - y1) * inv_mod m (x2 - x1)) mod m;
             x3 = (lam * lam - x1 - x2) mod m;
             y3 = (lam * (x1 - x3) - y1) mod m
         in (x3, y3)))"

definition std_ScalarMult :: "CurveParams \<Rightarrow> int \<Rightarrow> int \<Rightarrow> byte list \<Rightarrow> int \<times> int" where
  "std_ScalarMult prm xv yv k =
     ((\<lambda>(ax, ay). std_Add prm xv yv ax ay) ^^ nat (SetBytes k)) (0, 0)"

definition elliptic_std :: "CurveParams \<Rightarrow> EllipticCurve" where
  "elliptic_std prm =
     \<lparr>IsOnCurve = std_IsOnCurve prm, ec_Add = std_Add prm,
      ec_ScalarMult = std_ScalarMult prm,
      ec_ScalarBaseMult = std_ScalarMult prm (prm_Gx prm) (prm_Gy prm)\<rparr>"

text \<open>
  \<^verbatim>\<open>func (curve *P256) sqrt(c *big.Int) *big.Int\<close>, statement by statement; \<open>m\<close> is
  \<^verbatim>\<open>curve.p.P\<close>. The products are not reduced; \<^verbatim>\<open>Exp\<close> reduces.
\<close>

definition P256_sqrt :: "CurveParams \<Rightarrow> int \<Rightarrow> int" where
  "P256_sqrt prm c =
     (let m = prm_P prm;
          t1 = c * c;
          t1 = t1 * c;
          p2 = SetBit1 0 2;
          t2 = Exp t1 p2 m;
          t2 = t2 * t1;
          p3 = SetBit1 0 4;
          t3 = Exp t2 p3 m;
          t3 = t3 * t2;
          p4 = SetBit1 0 8;
          t4 = Exp t3 p4 m;
          t4 = t4 * t3;
          p5 = SetBit1 0 16;
          r = Exp t4 p5 m;
          r = r * t4;
          p6 = SetBit1 0 32;
          r = Exp r p6 m;
          r = r * c;
          p7 = SetBit1 0 96;
          r = Exp r p7 m;
          r = r * c;
          p8 = SetBit1 0 94;
          r = Exp r p8 m
      in r)"

text \<open>
  \<^verbatim>\<open>func (curve *P256) Init() Curve\<close>: the provider \<open>E\<close> is \<^verbatim>\<open>elliptic.P256()\<close>,
  the parameters are its parameters, the square root is the one above.
\<close>

definition P256_Init :: "EllipticCurve \<Rightarrow> Curve" where
  "P256_Init E = \<lparr>elliptic = E, curve_sqrt = P256_sqrt p256_params, params = p256_params\<rparr>"

text \<open>The P-256 curve over the reference provider.\<close>

definition P256 :: Curve where
  "P256 = P256_Init (elliptic_std p256_params)"

section \<open>Points\<close>

text \<open>
  \<^verbatim>\<open>type CurvePoint struct { x, y *big.Int; C *Curve }\<close>: two pointers, \<open>None\<close> for
  \<^verbatim>\<open>nil\<close>, and the curve.
\<close>

record CurvePoint =
  cp_x :: "addr option"
  cp_y :: "addr option"
  curve :: Curve

text \<open>\<^verbatim>\<open>func (c *Curve) Point()\<close>: a point bound to the curve, both coordinates nil.\<close>

definition Point :: "Curve \<Rightarrow> CurvePoint" where
  "Point c = \<lparr>cp_x = None, cp_y = None, curve = c\<rparr>"

definition Null :: "CurvePoint \<Rightarrow> store \<Rightarrow> CurvePoint \<times> store" where
  "Null Pt s =
     (let (ax, s) = new 0 s;
          (ay, s) = new 0 s
      in (Pt\<lparr>cp_x := Some ax, cp_y := Some ay\<rparr>, s))"

text \<open>
  \<^verbatim>\<open>Equal\<close> reduces the four integers in place, in the source's order, and compares.
  A nil coordinate or a zero modulus panics.
\<close>

definition Equal :: "CurvePoint \<Rightarrow> CurvePoint \<Rightarrow> store \<Rightarrow> error + bool \<times> store" where
  "Equal Pt P2 s =
     (case (cp_x Pt, cp_y Pt, cp_x P2, cp_y P2) of
        (Some px, Some py, Some qx, Some qy) \<Rightarrow>
          (let M = prm_P (params (curve Pt)) in
           if M = 0 then Inl Panic
           else
             (let s = upd px (Mod (heap s px) M) s;
                  s = upd py (Mod (heap s py) M) s;
                  s = upd qx (Mod (heap s qx) M) s;
                  s = upd qy (Mod (heap s qy) M) s
              in Inr (heap s px = heap s qx \<and> heap s py = heap s qy, s)))
      | _ \<Rightarrow> Inl Panic)"

definition Valid :: "CurvePoint \<Rightarrow> store \<Rightarrow> error + bool" where
  "Valid Pt s =
     (case (cp_x Pt, cp_y Pt) of
        (Some ax, Some ay) \<Rightarrow>
          Inr (IsOnCurve (elliptic (curve Pt)) (heap s ax) (heap s ay)
               \<or> (heap s ax = 0 \<and> heap s ay = 0))
      | _ \<Rightarrow> Inl Panic)"

definition EmbedLen :: "CurvePoint \<Rightarrow> int" where
  "EmbedLen Pt = (BitLen (prm_P (params (curve Pt))) - 8 - 8) sdiv 8"

text \<open>
  \<^verbatim>\<open>genPoint\<close>: \<open>ax\<close> is the address of the candidate \<open>x\<close>. The byte that chooses
  the sign is drawn before the check; the receiver is assigned only when the check
  passes.
\<close>

definition genPoint ::
  "CurvePoint \<Rightarrow> addr \<Rightarrow> Stream \<Rightarrow> store \<Rightarrow> error + bool \<times> CurvePoint \<times> Stream \<times> store"
where
  "genPoint Pt ax rand s =
     (let prm = params (curve Pt);
          xv = heap s ax;
          y2 = xv * xv;
          y2 = y2 * xv;
          threeX = Lsh xv 1;
          threeX = threeX + xv;
          y2 = y2 - threeX;
          y2 = y2 + prm_B prm
      in if prm_P prm = 0 then Inl Panic
         else
           (let y2 = Mod y2 (prm_P prm);
                (ay, s) = new (curve_sqrt (curve Pt) y2) s;
                (b, rand) = XORKeyStream [0] rand;
                s = (if (b ! 0) AND 0x80 \<noteq> 0 then upd ay (prm_P prm - heap s ay) s else s);
                y2t = heap s ay * heap s ay;
                y2t = Mod y2t (prm_P prm)
            in if y2t \<noteq> y2 then Inr (False, Pt, rand, s)
               else Inr (True, Pt\<lparr>cp_x := Some ax, cp_y := Some ay\<rparr>, rand, s)))"

text \<open>
  The body of the loop of \<^verbatim>\<open>Embed\<close> up to the call of \<^verbatim>\<open>genPoint\<close>: the candidate
  bytes, with the length and the data written over their low end when \<open>data\<close> is not
  nil. An index or a slice bound out of range panics.
\<close>

definition embed_bytes ::
  "int \<Rightarrow> int \<Rightarrow> byte list option \<Rightarrow> byte list \<Rightarrow> error + byte list" where
  "embed_bytes l dl data b =
     (case data of
        None \<Rightarrow> Inr b
      | Some d \<Rightarrow>
          if l - 1 < 0 \<or> int (length b) \<le> l - 1 then Inl Panic
          else
            (let b = b[nat (l - 1) := word_of_int dl] in
             if l - dl - 1 < 0 \<or> l - 1 < l - dl - 1 then Inl Panic
             else Inr (take (nat (l - dl - 1)) b @ take (nat dl) d @ drop (nat (l - 1)) b)))"

partial_function (option) Embed_loop ::
  "CurvePoint \<Rightarrow> byte list option \<Rightarrow> int \<Rightarrow> int \<Rightarrow> Stream \<Rightarrow> store
     \<Rightarrow> (error + CurvePoint \<times> Stream \<times> store) option"
where
  "Embed_loop Pt data l dl rand s =
     (case random_Bits (nat (BitLen (prm_P (params (curve Pt))))) rand of
        (b, rand) \<Rightarrow>
          (case embed_bytes l dl data b of
             Inl e \<Rightarrow> Some (Inl e)
           | Inr b \<Rightarrow>
               (case new (SetBytes b) s of
                  (ax, s) \<Rightarrow>
                    (case genPoint Pt ax rand s of
                       Inl e \<Rightarrow> Some (Inl e)
                     | Inr (ok, Pt', rand, s) \<Rightarrow>
                         if ok then Some (Inr (Pt', rand, s))
                         else Embed_loop Pt data l dl rand s))))"

text \<open>
  \<^verbatim>\<open>Embed\<close>: \<open>None\<close> is the loop that never ends; \<open>data = None\<close> is the nil slice,
  of length 0.
\<close>

definition Embed ::
  "CurvePoint \<Rightarrow> byte list option \<Rightarrow> Stream \<Rightarrow> store
     \<Rightarrow> (error + CurvePoint \<times> Stream \<times> store) option"
where
  "Embed Pt data rand s =
     (let l = coordLen (curve Pt);
          dl = EmbedLen Pt;
          len_data = (case data of None \<Rightarrow> 0 | Some d \<Rightarrow> int (length d));
          dl = (if dl > len_data then len_data else dl)
      in Embed_loop Pt data l dl rand s)"

definition Pick ::
  "CurvePoint \<Rightarrow> Stream \<Rightarrow> store \<Rightarrow> (error + CurvePoint \<times> Stream \<times> store) option" where
  "Pick Pt rand s = Embed Pt None rand s"

definition Data :: "CurvePoint \<Rightarrow> store \<Rightarrow> error + byte list" where
  "Data Pt s =
     (case cp_x Pt of
        None \<Rightarrow> Inl Panic
      | Some ax \<Rightarrow>
          (let b = Bytes (heap s ax);
               l = coordLen (curve Pt);
               b = (if int (length b) < l then replicate (nat (l - int (length b))) 0 @ b else b)
           in if l - 1 < 0 \<or> int (length b) \<le> l - 1 then Inl Panic
              else
                (let dl = uint (b ! nat (l - 1)) in
                 if dl > EmbedLen Pt then Inl ErrInvalidEmbedLen
                 else if l - dl - 1 < 0 then Inl Panic
                 else Inr (drop (nat (l - dl - 1)) (take (nat (l - 1)) b)))))"


text \<open>
  Two notions to speak about the loop of \<^verbatim>\<open>Embed\<close>. The verification of
  \<^verbatim>\<open>genPoint\<close> on a candidate of value \<open>xv\<close>, with the root as \<^verbatim>\<open>sqrt\<close> returns it
  (the sign byte does not change the square); and the candidate of iteration \<open>k\<close>,
  counted from 0, when no earlier iteration returned: every iteration takes the
  candidate bytes and one more byte from the key stream.
\<close>

definition residue_check :: "Curve \<Rightarrow> int \<Rightarrow> bool" where
  "residue_check c xv =
     (let prm = params c;
          y2 = Mod (xv * xv * xv - (Lsh xv 1 + xv) + prm_B prm) (prm_P prm);
          r = curve_sqrt c y2
      in Mod (r * r) (prm_P prm) = y2)"

definition candidate :: "CurvePoint \<Rightarrow> byte list option \<Rightarrow> Stream \<Rightarrow> nat \<Rightarrow> error + int" where
  "candidate Pt data rand k =
     (let l = coordLen (curve Pt);
          dl = EmbedLen Pt;
          len_data = (case data of None \<Rightarrow> 0 | Some d \<Rightarrow> int (length d));
          dl = (if dl > len_data then len_data else dl);
          n = nat (BitLen (prm_P (params (curve Pt))));
          (b, _) = random_Bits n (\<lambda>i. rand (i + k * ((n + 7) div 8 + 1)))
      in case embed_bytes l dl data b of Inl e \<Rightarrow> Inl e | Inr b' \<Rightarrow> Inr (SetBytes b'))"

text \<open>
  \<^verbatim>\<open>Set\<close> and \<^verbatim>\<open>Clone\<close> copy the two pointers: the receiver, or the new point,
  refers to the same two integers as the argument.
\<close>

definition Set :: "CurvePoint \<Rightarrow> CurvePoint \<Rightarrow> CurvePoint" where
  "Set Pt A = Pt\<lparr>cp_x := cp_x A, cp_y := cp_y A\<rparr>"

definition Clone :: "CurvePoint \<Rightarrow> CurvePoint" where
  "Clone Pt = \<lparr>cp_x = cp_x Pt, cp_y = cp_y Pt, curve = curve Pt\<rparr>"

text \<open>
  Modelled from the spec: the scalars of the package \<^verbatim>\<open>group/mod\<close>, which is not
  among the sources: an integer \<open>V\<close> held modulo \<open>M\<close>. \<^verbatim>\<open>Init64(v, m)\<close> and
  \<^verbatim>\<open>SetBytes(buf)\<close> (big-endian) reduce modulo \<open>M\<close>, \<^verbatim>\<open>One()\<close> is 1 and
  \<^verbatim>\<open>Neg\<close> is the additive inverse modulo \<open>M\<close>.
\<close>

record Scalar =
  sc_V :: int
  sc_M :: int

definition Init64 :: "int \<Rightarrow> int \<Rightarrow> Scalar" where
  "Init64 v m = \<lparr>sc_V = Mod v m, sc_M = m\<rparr>"

definition Scalar_SetBytes :: "Scalar \<Rightarrow> byte list \<Rightarrow> Scalar" where
  "Scalar_SetBytes sc buf = sc\<lparr>sc_V := Mod (SetBytes buf) (sc_M sc)\<rparr>"

definition Scalar_One :: "Scalar \<Rightarrow> Scalar" where
  "Scalar_One sc = sc\<lparr>sc_V := 1\<rparr>"

definition Scalar_Neg :: "Scalar \<Rightarrow> Scalar \<Rightarrow> Scalar" where
  "Scalar_Neg sc a = sc\<lparr>sc_V := Mod (- sc_V a) (sc_M sc)\<rparr>"

text \<open>\<^verbatim>\<open>func (c *Curve) Scalar()\<close>: \<^verbatim>\<open>mod.NewInt64(0, c.p.N)\<close>.\<close>

definition Curve_Scalar :: "Curve \<Rightarrow> Scalar" where
  "Curve_Scalar c = Init64 0 (prm_N (params c))"

text \<open>
  \<^verbatim>\<open>Add\<close>, \<^verbatim>\<open>Mul\<close> and \<^verbatim>\<open>Neg\<close> hand the coordinate values to the provider and
  bind the receiver to the two integers it returns. In \<^verbatim>\<open>Mul\<close> the argument
  \<open>None\<close> is the nil point, which stands for the generator.
\<close>

definition Add :: "CurvePoint \<Rightarrow> CurvePoint \<Rightarrow> CurvePoint \<Rightarrow> store \<Rightarrow> error + CurvePoint \<times> store" where
  "Add Pt A B s =
     (case (cp_x A, cp_y A, cp_x B, cp_y B) of
        (Some ax, Some ay, Some bx, Some by) \<Rightarrow>
          (let (x3, y3) = ec_Add (elliptic (curve Pt)) (heap s ax) (heap s ay) (heap s bx) (heap s by);
               (rx, s) = new x3 s;
               (ry, s) = new y3 s
           in Inr (Pt\<lparr>cp_x := Some rx, cp_y := Some ry\<rparr>, s))
      | _ \<Rightarrow> Inl Panic)"

definition AddPlain :: "CurvePoint \<Rightarrow> CurvePoint \<Rightarrow> CurvePoint \<Rightarrow> store \<Rightarrow> error + CurvePoint \<times> store" where
  "AddPlain Pt A B s =
     (case (cp_x A, cp_y A, cp_x B, cp_y B) of
        (Some ax, Some ay, Some bx, Some by) \<Rightarrow>
          (let (x3, y3) = ec_Add (elliptic (curve Pt)) (heap s ax) (heap s ay) (heap s bx) (heap s by);
               (rx, s) = new x3 s;
               (ry, s) = new y3 s
           in Inr (Pt\<lparr>cp_x := Some rx, cp_y := Some ry\<rparr>, s))
      | _ \<Rightarrow> Inl Panic)"

definition Mul :: "CurvePoint \<Rightarrow> Scalar \<Rightarrow> CurvePoint option \<Rightarrow> store \<Rightarrow> error + CurvePoint \<times> store" where
  "Mul Pt sc B s =
     (case B of
        Some cb \<Rightarrow>
          (case (cp_x cb, cp_y cb) of
             (Some bx, Some by) \<Rightarrow>
               (let (x3, y3) = ec_ScalarMult (elliptic (curve Pt)) (heap s bx) (heap s by) (Bytes (sc_V sc));
                    (rx, s) = new x3 s;
                    (ry, s) = new y3 s
                in Inr (Pt\<lparr>cp_x := Some rx, cp_y := Some ry\<rparr>, s))
           | _ \<Rightarrow> Inl Panic)
      | None \<Rightarrow>
          (let (x3, y3) = ec_ScalarBaseMult (elliptic (curve Pt)) (Bytes (sc_V sc));
               (rx, s) = new x3 s;
               (ry, s) = new y3 s
           in Inr (Pt\<lparr>cp_x := Some rx, cp_y := Some ry\<rparr>, s)))"

definition MulPlain :: "CurvePoint \<Rightarrow> Scalar \<Rightarrow> CurvePoint option \<Rightarrow> store \<Rightarrow> error + CurvePoint \<times> store" where
  "MulPlain Pt sc B s =
     (case B of
        Some cb \<Rightarrow>
          (case (cp_x cb, cp_y cb) of
             (Some bx, Some by) \<Rightarrow>
               (let (x3, y3) = ec_ScalarMult (elliptic (curve Pt)) (heap s bx) (heap s by) (Bytes (sc_V sc));
                    (rx, s) = new x3 s;
                    (ry, s) = new y3 s
                in Inr (Pt\<lparr>cp_x := Some rx, cp_y := Some ry\<rparr>, s))
           | _ \<Rightarrow> Inl Panic)
      | None \<Rightarrow>
          (let (x3, y3) = ec_ScalarBaseMult (elliptic (curve Pt)) (Bytes (sc_V sc));
               (rx, s) = new x3 s;
               (ry, s) = new y3 s
           in Inr (Pt\<lparr>cp_x := Some rx, cp_y := Some ry\<rparr>, s)))"

definition Neg :: "CurvePoint \<Rightarrow> CurvePoint \<Rightarrow> store \<Rightarrow> error + CurvePoint \<times> store" where
  "Neg Pt A s =
     (let sc = Scalar_One (Curve_Scalar (curve Pt));
          sc = Scalar_Neg sc sc
      in Mul Pt sc (Some A) s)"

subsection \<open>Decoding\<close>

text \<open>
  \<^verbatim>\<open>elliptic.Unmarshal\<close> of the Go standard library, as documented: nil unless the
  buffer has the length of an uncompressed point, starts with the byte 4, and holds
  two coordinates below \<open>P\<close> that are on the curve.
\<close>

definition elliptic_Unmarshal :: "Curve \<Rightarrow> byte list \<Rightarrow> store \<Rightarrow> (addr option \<times> addr option) \<times> store" where
  "elliptic_Unmarshal c data s =
     (let byteLen = (prm_BitSize (params c) + 7) sdiv 8 in
      if int (length data) \<noteq> 1 + 2 * byteLen then ((None, None), s)
      else if data ! 0 \<noteq> 4 then ((None, None), s)
      else
        (let xv = SetBytes (take (nat byteLen) (drop 1 data));
             yv = SetBytes (drop (1 + nat byteLen) data)
         in if xv \<ge> prm_P (params c) \<or> yv \<ge> prm_P (params c) then ((None, None), s)
            else if \<not> IsOnCurve (elliptic c) xv yv then ((None, None), s)
            else
              (let (ax, s) = new xv s;
                   (ay, s) = new yv s
               in ((Some ax, Some ay), s))))"

text \<open>
  \<^verbatim>\<open>UnmarshalBinary\<close>: the receiver is assigned before the checks; the returned error
  is \<open>None\<close> for \<^verbatim>\<open>nil\<close>. \<^verbatim>\<open>buf[1:]\<close> of an empty buffer panics.
\<close>

definition UnmarshalBinary :: "CurvePoint \<Rightarrow> byte list \<Rightarrow> store \<Rightarrow> error option \<times> CurvePoint \<times> store" where
  "UnmarshalBinary Pt buf s =
     (if buf = [] then (Some Panic, Pt, s)
      else
        (let c = foldl (OR) (0 :: byte) (drop 1 buf) in
         if c \<noteq> 0 then
           (let ((rx, ry), s) = elliptic_Unmarshal (curve Pt) buf s;
                Pt = Pt\<lparr>cp_x := rx, cp_y := ry\<rparr>
            in if cp_x Pt = None then (Some ErrInvalidPoint, Pt, s)
               else
                 (case Valid Pt s of
                    Inl e \<Rightarrow> (Some e, Pt, s)
                  | Inr v \<Rightarrow> if \<not> v then (Some ErrInvalidPoint, Pt, s) else (None, Pt, s)))
         else
           (let (ax, s) = new 0 s;
                (ay, s) = new 0 s
            in (None, Pt\<lparr>cp_x := Some ax, cp_y := Some ay\<rparr>, s))))"

subsection \<open>The contract of the provider\<close>

text \<open>\<open>k\<close>-fold addition of the point \<open>(xv, yv)\<close> with the provider's \<^verbatim>\<open>Add\<close>, from \<open>(0, 0)\<close>.\<close>

primrec iter_Add :: "EllipticCurve \<Rightarrow> nat \<Rightarrow> int \<Rightarrow> int \<Rightarrow> int \<times> int" where
  "iter_Add E 0 xv yv = (0, 0)"
| "iter_Add E (Suc k) xv yv = (case iter_Add E k xv yv of (ax, ay) \<Rightarrow> ec_Add E xv yv ax ay)"

text \<open>
  What the wrapper assumes of the provider on valid points (on the curve, or \<open>(0, 0)\<close>):
  \<open>(0, 0)\<close> is neutral on the right of \<^verbatim>\<open>Add\<close>, \<^verbatim>\<open>ScalarMult\<close> by \<open>k\<close> is \<open>k\<close>-fold
  addition, and \<open>N\<close>-fold addition gives \<open>(0, 0)\<close>: the group has order \<open>N\<close>.
\<close>

definition provider_contract :: "Curve \<Rightarrow> bool" where
  "provider_contract c =
     (0 < prm_P (params c) \<and> 0 < prm_N (params c) \<and>
      (\<forall>xv yv. IsOnCurve (elliptic c) xv yv \<or> (xv = 0 \<and> yv = 0) \<longrightarrow>
         ec_Add (elliptic c) xv yv 0 0 = (xv, yv)
         \<and> (\<forall>k. ec_ScalarMult (elliptic c) xv yv k = iter_Add (elliptic c) (nat (SetBytes k)) xv yv)
         \<and> iter_Add (elliptic c) (nat (prm_N (params c))) xv yv = (0, 0)))"

text \<open>
  A curve of the same family small enough to enumerate, \<open>y\<^sup>2 = x\<^sup>3 - 3x + 1\<close> over the
  field of 7 elements, of order 5, over the reference provider.
\<close>

definition toy_params :: CurveParams where
  "toy_params = \<lparr>prm_P = 7, prm_N = 5, prm_B = 1, prm_Gx = 0, prm_Gy = 1, prm_BitSize = 3\<rparr>"

definition toy_curve :: Curve where
  "toy_curve = \<lparr>elliptic = elliptic_std toy_params, curve_sqrt = (\<lambda>c. c ^ 2 mod 7),
     params = toy_params\<rparr>"

section \<open>The vector commitment\<close>

record PublicParams =
  Generators :: "CurvePoint list"

text \<open>
  \<^verbatim>\<open>type Commitment struct { generators []p256.CurvePoint; c p256.CurvePoint;
  suite *p256.Suite128 }\<close>; the suite is the P-256 curve it initialises.
\<close>

record Commitment =
  generators :: "CurvePoint list"
  cm_c :: CurvePoint
  suite :: Curve

text \<open>
  \<^verbatim>\<open>func (c Commitment) Add(i int, x []byte)\<close> has a value receiver: it works on a
  copy of the commitment. The copy's point is rebound to the sum; the method returns
  nothing, so all that reaches the caller is the store, with the integers the call
  allocated.
\<close>

definition Commitment_Add :: "Commitment \<Rightarrow> nat \<Rightarrow> byte list \<Rightarrow> store \<Rightarrow> error + store" where
  "Commitment_Add c i x s =
     (if length x \<noteq> 32 then Inl Panic
      else
        (let scalar = Init64 1 1;
             scalar = Scalar_SetBytes scalar x;
             toAdd = Point (suite c)
         in if i \<ge> length (generators c) then Inl Panic
            else
              (case MulPlain toAdd scalar (Some (generators c ! i)) s of
                 Inl e \<Rightarrow> Inl e
               | Inr (toAdd, s) \<Rightarrow>
                   (case AddPlain (cm_c c) toAdd (cm_c c) s of
                      Inl e \<Rightarrow> Inl e
                    | Inr (c_c, s) \<Rightarrow>
                        (let c_copy = c\<lparr>cm_c := c_c\<rparr> in Inr s)))))"

text \<open>The loop \<^verbatim>\<open>for i := 0; i < len(xs); i++ { c.Add(i, xs[i]) }\<close>.\<close>

primrec Commit_adds :: "Commitment \<Rightarrow> byte list list \<Rightarrow> nat list \<Rightarrow> store \<Rightarrow> error + store" where
  "Commit_adds c xs [] s = Inr s"
| "Commit_adds c xs (i # is) s =
     (case Commitment_Add c i (xs ! i) s of
        Inl e \<Rightarrow> Inl e
      | Inr s \<Rightarrow> Commit_adds c xs is s)"

definition Commit :: "EllipticCurve \<Rightarrow> PublicParams \<Rightarrow> byte list list \<Rightarrow> store \<Rightarrow> error + Commitment \<times> store" where
  "Commit E pp xs s =
     (if \<exists>i < length xs. length (xs ! i) \<noteq> 32 then Inl Panic
      else
        (let su = P256_Init E;
             (c_c, s) = Null (Point su) s;
             c = \<lparr>generators = Generators pp, cm_c = c_c, suite = su\<rparr>
         in case Commit_adds c xs [0..<length xs] s of
              Inl e \<Rightarrow> Inl e
            | Inr s \<Rightarrow> Inr (c, s)))"

section \<open>Primes\<close>

text \<open>The primes, for the modulus of P-256 and the residues modulo it.\<close>

definition is_prime :: "nat \<Rightarrow> bool" where
  "is_prime p = (1 < p \<and> (\<forall>d. d dvd p \<longrightarrow> d = 1 \<or> d = p))"

text \<open>No number from 2 to \<open>k\<close> divides \<open>n\<close>: trial division.\<close>

primrec no_divisor :: "nat \<Rightarrow> nat \<Rightarrow> bool" where
  "no_divisor n 0 = True"
| "no_divisor n (Suc k) = ((k = 0 \<or> \<not> Suc k dvd n) \<and> no_divisor n k)"

section \<open>Bytes and big integers\<close>

lemma SetBytes_Nil: "SetBytes [] = 0"
  by (simp add: SetBytes_def)

lemma SetBytes_snoc: "SetBytes (bs @ [b]) = SetBytes bs * 256 + uint b"
  by (simp add: SetBytes_def)

lemma SetBytes_nonneg: "0 \<le> SetBytes bs"
  by (induction bs rule: rev_induct) (simp_all add: SetBytes_Nil SetBytes_snoc)

lemma SetBytes_eq_0_iff: "SetBytes bs = 0 \<longleftrightarrow> (\<forall>b \<in> set bs. b = 0)"
proof (induction bs rule: rev_induct)
  case Nil
  show ?case by (simp add: SetBytes_Nil)
next
  case (snoc b bs)
  have "0 \<le> SetBytes bs" by (rule SetBytes_nonneg)
  moreover have "0 \<le> uint b" by simp
  ultimately have "SetBytes bs * 256 + uint b = 0 \<longleftrightarrow> SetBytes bs = 0 \<and> uint b = 0"
    by linarith
  then show ?case using snoc by (auto simp add: SetBytes_snoc uint_0_iff)
qed

lemma Bytes_nat_0: "Bytes_nat 0 = []"
  by (subst Bytes_nat.simps) simp

lemma Bytes_nat_step: "n \<noteq> 0 \<Longrightarrow> Bytes_nat n = Bytes_nat (n div 256) @ [of_nat (n mod 256)]"
  by (subst Bytes_nat.simps) simp

lemma Bytes_SetBytes: "Bytes (SetBytes bs) = dropWhile (\<lambda>b. b = 0) bs"
proof (induction bs rule: rev_induct)
  case Nil
  show ?case by (simp add: SetBytes_Nil Bytes_def Bytes_nat_0)
next
  case (snoc b bs)
  let ?n = "nat (SetBytes bs * 256 + uint b)"
  have nn: "0 \<le> SetBytes bs" by (rule SetBytes_nonneg)
  have ub: "0 \<le> uint b" "uint b < 256" using uint_bounded [of b] by simp_all
  show ?case
  proof (cases "SetBytes bs = 0 \<and> b = 0")
    case True
    then have "\<forall>c \<in> set (bs @ [b]). c = 0" by (simp add: SetBytes_eq_0_iff)
    then have "dropWhile (\<lambda>b. b = 0) (bs @ [b]) = []" by (simp only: dropWhile_eq_Nil_conv)
    then show ?thesis using True by (simp add: Bytes_def SetBytes_snoc Bytes_nat_0)
  next
    case False
    have "SetBytes bs * 256 + uint b = 0 \<longleftrightarrow> SetBytes bs = 0 \<and> uint b = 0"
      using nn ub by linarith
    then have "SetBytes bs * 256 + uint b \<noteq> 0"
      using False by (simp add: uint_0_iff)
    then have "0 < SetBytes bs * 256 + uint b" using nn ub by linarith
    then have n0: "?n \<noteq> 0" by simp
    have "int (?n div 256) = (SetBytes bs * 256 + uint b) div 256"
      using nn ub by (simp add: zdiv_int)
    also have "\<dots> = SetBytes bs" using ub by simp
    finally have d: "?n div 256 = nat (SetBytes bs)" by linarith
    have "int (?n mod 256) = (SetBytes bs * 256 + uint b) mod 256"
      using nn ub by (simp add: zmod_int)
    also have "\<dots> = uint b" using ub by simp
    finally have "?n mod 256 = unat b" by (metis nat_int unat_eq_nat_uint)
    then have m: "(of_nat (?n mod 256) :: byte) = b" by simp
    have "Bytes (SetBytes (bs @ [b])) = Bytes_nat ?n"
      using nn ub by (simp add: Bytes_def SetBytes_snoc)
    also have "\<dots> = Bytes_nat (nat (SetBytes bs)) @ [b]"
      by (simp only: Bytes_nat_step [OF n0] d m)
    also have "\<dots> = dropWhile (\<lambda>b. b = 0) bs @ [b]"
      using snoc nn by (simp add: Bytes_def)
    also have "\<dots> = dropWhile (\<lambda>b. b = 0) (bs @ [b])"
    proof (cases "\<forall>c \<in> set bs. c = 0")
      case True
      then have "b \<noteq> 0" using False by (simp add: SetBytes_eq_0_iff)
      moreover have "dropWhile (\<lambda>b. b = 0) bs = []" using True by (simp only: dropWhile_eq_Nil_conv)
      ultimately show ?thesis using True by (simp add: dropWhile_append2)
    next
      case False
      then show ?thesis by (auto simp add: dropWhile_append1)
    qed
    finally show ?thesis .
  qed
qed

lemma pad_dropWhile:
  "replicate (length bs - length (dropWhile (\<lambda>b. b = 0) bs)) (0 :: byte) @ dropWhile (\<lambda>b. b = 0) bs = bs"
proof (induction bs)
  case Nil
  show ?case by simp
next
  case (Cons a bs)
  show ?case
  proof (cases "a = 0")
    case True
    have "length (dropWhile (\<lambda>b. b = 0) bs) \<le> length bs" by (rule length_dropWhile_le)
    then show ?thesis using True Cons by (simp add: Suc_diff_le)
  next
    case False
    then show ?thesis by simp
  qed
qed

lemma SetBytes_Bytes_nat: "SetBytes (Bytes_nat n) = int n"
proof (induction n rule: Bytes_nat.induct)
  case (1 n)
  show ?case
  proof (cases "n = 0")
    case True
    then show ?thesis by (simp add: SetBytes_Nil Bytes_nat_0)
  next
    case False
    have "SetBytes (Bytes_nat n) = SetBytes (Bytes_nat (n div 256)) * 256 + uint (of_nat (n mod 256) :: byte)"
      by (simp only: Bytes_nat_step [OF False] SetBytes_snoc)
    also have "\<dots> = int (n div 256) * 256 + int (n mod 256)"
      using 1 False by (simp add: uint_nat unat_of_nat)
    also have "\<dots> = int n" by (simp add: zdiv_int zmod_int)
    finally show ?thesis .
  qed
qed

lemma Bytes_0: "Bytes 0 = []"
  by (simp add: Bytes_def Bytes_nat_0)

section \<open>P-256 constants\<close>

lemma BitLen_nat_bounds: "2 ^ k \<le> n \<Longrightarrow> n < 2 ^ Suc k \<Longrightarrow> BitLen_nat n = int k + 1"
proof (induction k arbitrary: n)
  case 0
  then have "n = 1" by simp
  then show ?case by (simp add: BitLen_nat.simps [of "Suc 0"] BitLen_nat.simps [of 0])
next
  case (Suc k)
  have n0: "n \<noteq> 0" using Suc.prems by auto
  have a: "2 ^ k \<le> n div 2" using Suc.prems by simp
  have b: "n div 2 < 2 ^ Suc k" using Suc.prems by simp
  have "BitLen_nat n = BitLen_nat (n div 2) + 1" using n0 by (subst BitLen_nat.simps) simp
  then show ?case using Suc.IH [OF a b] by simp
qed

lemma BitLen_p256: "BitLen p256_P = 256"
proof -
  have "BitLen_nat (nat \<bar>p256_P\<bar>) = int 255 + 1"
    by (rule BitLen_nat_bounds) (simp_all add: p256_P_def)
  then show ?thesis by (simp add: BitLen_def)
qed

lemma coordLen_P256: "coordLen (P256_Init E) = 32"
  by (simp add: coordLen_def P256_Init_def p256_params_def signed_divide_int_def)

lemma EmbedLen_P256: "curve Pt = P256_Init E \<Longrightarrow> EmbedLen Pt = 30"
  by (simp add: EmbedLen_def P256_Init_def p256_params_def BitLen_p256 signed_divide_int_def)





section \<open>Extraction from the identity\<close>

lemma params_P256: "params P256 = p256_params"
  by (simp add: P256_def P256_Init_def)

lemma prm_P_p256: "prm_P p256_params = p256_P"
  by (simp add: p256_params_def)

lemma p256_P_pos: "0 < p256_P"
  by (simp add: p256_P_def)

text \<open>
  Claim C9. For a point of the P-256 curve set to the identity by \<^verbatim>\<open>Null()\<close>,
  \<^verbatim>\<open>Data()\<close> returns the empty byte string and no error: the x-coordinate 0 is
  padded to 32 zero bytes, the length tag is 0, which does not exceed
  \<^verbatim>\<open>EmbedLen() = 30\<close>.
\<close>

theorem C9_Null_Data: "curve Pt = P256_Init E \<Longrightarrow> Null Pt s = (Pt', s') \<Longrightarrow> Data Pt' s' = Inr []"
  apply (simp add: Null_def new_def Data_def Let_def split: prod.splits)
  apply (auto simp add: coordLen_P256 EmbedLen_P256 Bytes_0 nth_replicate)
  done

theorem C9_witness:
  "curve (Point P256) = P256_Init (elliptic_std p256_params)
   \<and> Data (fst (Null (Point P256) \<lparr>heap = (\<lambda>a. 0), nxt = 0\<rparr>))
        (snd (Null (Point P256) \<lparr>heap = (\<lambda>a. 0), nxt = 0\<rparr>)) = Inr []"
proof -
  have c: "curve (Point P256) = P256_Init (elliptic_std p256_params)"
    by (simp add: Point_def P256_def)
  show ?thesis using c C9_Null_Data [OF c, of "\<lparr>heap = (\<lambda>a. 0), nxt = 0\<rparr>"] by simp
qed

section \<open>Equality\<close>

lemma heap_upd: "heap (upd a v s) = (heap s)(a := v)"
  by (simp add: upd_def)

lemma nxt_upd: "nxt (upd a v s) = nxt s"
  by (simp add: upd_def)

lemma Mod_idem: "Mod (Mod v m) m = Mod v m"
  by (simp add: Mod_def)

lemma Mod_pos: "0 < m \<Longrightarrow> Mod v m = v mod m"
  by (simp add: Mod_def)

lemma Equal_result:
  assumes M: "prm_P (params (curve Pt)) \<noteq> 0"
    and c: "cp_x Pt = Some px" "cp_y Pt = Some py" "cp_x Q = Some qx" "cp_y Q = Some qy"
  shows "\<exists>s'. Equal Pt Q s =
           Inr (Mod (heap s px) (prm_P (params (curve Pt))) = Mod (heap s qx) (prm_P (params (curve Pt)))
              \<and> Mod (heap s py) (prm_P (params (curve Pt))) = Mod (heap s qy) (prm_P (params (curve Pt))), s')
         \<and> nxt s' = nxt s
         \<and> (\<forall>a. heap s' a = (if a \<in> {px, py, qx, qy} then Mod (heap s a) (prm_P (params (curve Pt))) else heap s a))"
  using M c
  by (auto simp add: Equal_def Let_def heap_upd nxt_upd Mod_idem fun_upd_def)

text \<open>
  Claim C6. For two points with coordinates, on a curve with a positive modulus \<open>p\<close>,
  \<^verbatim>\<open>Equal\<close> returns true if and only if the x-coordinates are congruent modulo \<open>p\<close>
  and the y-coordinates are congruent modulo \<open>p\<close>, whatever the four pointers share.
  The witness compares a point with x-coordinate \<open>5 + p\<close> to its reduced form.
\<close>

theorem C6_Equal_iff_congruent:
  assumes "0 < prm_P (params (curve Pt))"
    and "cp_x Pt = Some px" "cp_y Pt = Some py" "cp_x Q = Some qx" "cp_y Q = Some qy"
  shows "\<exists>s'. Equal Pt Q s =
           Inr (heap s px mod prm_P (params (curve Pt)) = heap s qx mod prm_P (params (curve Pt))
              \<and> heap s py mod prm_P (params (curve Pt)) = heap s qy mod prm_P (params (curve Pt)), s')"
proof -
  have M: "prm_P (params (curve Pt)) \<noteq> 0" using assms(1) by simp
  from Equal_result [OF M assms(2-5), of s] show ?thesis
    using assms(1) by (auto simp add: Mod_pos)
qed

theorem C6_witness:
  "0 < prm_P (params (curve \<lparr>cp_x = Some 0, cp_y = Some 1, curve = P256\<rparr>))
   \<and> (\<exists>s'. Equal \<lparr>cp_x = Some 0, cp_y = Some 1, curve = P256\<rparr>
               \<lparr>cp_x = Some 2, cp_y = Some 3, curve = P256\<rparr>
               \<lparr>heap = (\<lambda>a. if a = 2 then 5 + p256_P else if a = 0 then 5 else 7), nxt = 4\<rparr>
             = Inr (True, s'))"
proof -
  let ?P = "\<lparr>cp_x = Some 0, cp_y = Some 1, curve = P256\<rparr>"
  let ?Q = "\<lparr>cp_x = Some 2, cp_y = Some 3, curve = P256\<rparr>"
  let ?s = "\<lparr>heap = (\<lambda>a. if a = 2 then 5 + p256_P else if a = 0 then 5 else 7), nxt = 4\<rparr>"
  have p: "0 < prm_P (params (curve ?P))"
    by (simp add: params_P256 prm_P_p256 p256_P_pos)
  have "\<exists>s'. Equal ?P ?Q ?s = Inr (True, s')"
    using C6_Equal_iff_congruent [OF p, of 0 1 ?Q 2 3 ?s]
    by (simp add: params_P256 prm_P_p256)
  then show ?thesis using p by blast
qed

section \<open>Decoding\<close>

lemma foldl_OR_zero: "foldl (OR) (a :: byte) bs = 0 \<longleftrightarrow> a = 0 \<and> (\<forall>b \<in> set bs. b = 0)"
  by (induction bs arbitrary: a) (auto simp add: or_eq_0_iff)

lemma elliptic_Unmarshal_cases:
  "elliptic_Unmarshal c buf s = ((rx, ry), s') \<Longrightarrow>
     (rx = None \<and> ry = None \<and> s' = s) \<or>
     (\<exists>ax ay. rx = Some ax \<and> ry = Some ay \<and> ax = nxt s \<and> ay = Suc (nxt s)
        \<and> IsOnCurve (elliptic c) (heap s' ax) (heap s' ay)
        \<and> heap s' ax = SetBytes (take (nat (coordLen c)) (drop 1 buf))
        \<and> heap s' ay = SetBytes (drop (1 + nat (coordLen c)) buf))"
  by (auto simp add: elliptic_Unmarshal_def Let_def new_def coordLen_def split: if_splits prod.splits)

lemma elliptic_Unmarshal_None_iff:
  assumes "int (length buf) = 1 + 2 * coordLen c"
  shows "fst (fst (elliptic_Unmarshal c buf s)) = None \<longleftrightarrow>
     (buf ! 0 \<noteq> 4
      \<or> SetBytes (take (nat (coordLen c)) (drop 1 buf)) \<ge> prm_P (params c)
      \<or> SetBytes (drop (1 + nat (coordLen c)) buf) \<ge> prm_P (params c)
      \<or> \<not> IsOnCurve (elliptic c) (SetBytes (take (nat (coordLen c)) (drop 1 buf)))
                                  (SetBytes (drop (1 + nat (coordLen c)) buf)))"
  using assms
  by (auto simp add: elliptic_Unmarshal_def Let_def new_def coordLen_def split: if_splits prod.splits)

text \<open>
  Claim C10. When \<^verbatim>\<open>UnmarshalBinary\<close> returns an error on a buffer whose body is not
  all zero, the error is the invalid-point error and the receiver's coordinates have
  already been overwritten with the result of \<^verbatim>\<open>elliptic.Unmarshal\<close> on the buffer,
  which is nil: the coordinates from before the call are not kept.
\<close>

theorem C10_error_overwrites:
  assumes body: "\<not> (\<forall>b \<in> set (drop 1 buf). b = 0)"
    and err: "UnmarshalBinary Pt buf s = (Some e, Pt', s')"
  shows "e = ErrInvalidPoint
       \<and> (cp_x Pt', cp_y Pt') = fst (elliptic_Unmarshal (curve Pt) buf s)
       \<and> cp_x Pt' = None \<and> cp_y Pt' = None"
proof -
  have ne: "buf \<noteq> []" using body by auto
  have c: "foldl (OR) (0 :: byte) (drop 1 buf) \<noteq> 0" using body by (simp add: foldl_OR_zero)
  obtain rx ry s1 where u: "elliptic_Unmarshal (curve Pt) buf s = ((rx, ry), s1)"
    by (metis surj_pair)
  from elliptic_Unmarshal_cases [OF u] show ?thesis
  proof
    assume "rx = None \<and> ry = None \<and> s1 = s"
    then show ?thesis using err ne c u by (auto simp add: UnmarshalBinary_def Let_def)
  next
    assume "\<exists>ax ay. rx = Some ax \<and> ry = Some ay \<and> ax = nxt s \<and> ay = Suc (nxt s)
        \<and> IsOnCurve (elliptic (curve Pt)) (heap s1 ax) (heap s1 ay)
        \<and> heap s1 ax = SetBytes (take (nat (coordLen (curve Pt))) (drop 1 buf))
        \<and> heap s1 ay = SetBytes (drop (1 + nat (coordLen (curve Pt))) buf)"
    then show ?thesis using err ne c u
      by (auto simp add: UnmarshalBinary_def Let_def Valid_def)
  qed
qed

theorem C10_witness:
  "\<not> (\<forall>b \<in> set (drop 1 (5 # replicate 64 (1 :: byte))). b = 0)
   \<and> UnmarshalBinary \<lparr>cp_x = Some 0, cp_y = Some 1, curve = P256\<rparr> (5 # replicate 64 1)
         \<lparr>heap = (\<lambda>a. 0), nxt = 2\<rparr>
       = (Some ErrInvalidPoint, \<lparr>cp_x = None, cp_y = None, curve = P256\<rparr>,
          \<lparr>heap = (\<lambda>a. 0), nxt = 2\<rparr>)"
proof -
  let ?s = "\<lparr>heap = (\<lambda>a. 0), nxt = 2\<rparr>"
  let ?P = "\<lparr>cp_x = Some 0, cp_y = Some 1, curve = P256\<rparr>"
  have b: "\<not> (\<forall>b \<in> set (drop 1 (5 # replicate 64 (1 :: byte))). b = 0)" by simp
  obtain e Pt' s' where r: "UnmarshalBinary ?P (5 # replicate 64 1) ?s = (e, Pt', s')"
    by (metis prod_cases3)
  have u: "elliptic_Unmarshal P256 (5 # replicate 64 1) ?s = ((None, None), ?s)"
    by (simp add: elliptic_Unmarshal_def params_P256 p256_params_def signed_divide_int_def)
  have e: "e \<noteq> None" using r u
    by (auto simp add: UnmarshalBinary_def Let_def foldl_OR_zero)
  then obtain e' where e': "e = Some e'" by auto
  have pr: "Pt' = ?P\<lparr>cp_x := None, cp_y := None\<rparr> \<and> s' = ?s" using r u
    by (auto simp add: UnmarshalBinary_def Let_def foldl_OR_zero)
  from C10_error_overwrites [OF b r [unfolded e']] show ?thesis using b r e' pr by simp
qed

theorem C3_amended:
  assumes len: "int (length buf) = 1 + 2 * coordLen (curve Pt)"
    and range: "\<forall>x y. IsOnCurve (elliptic (curve Pt)) x y \<longrightarrow> x < prm_P (params (curve Pt)) \<and> y < prm_P (params (curve Pt))"
  shows "((\<forall>b \<in> set (drop 1 buf). b = 0) \<longrightarrow>
            UnmarshalBinary Pt buf s = (None, fst (Null Pt s), snd (Null Pt s)))
       \<and> (\<not> (\<forall>b \<in> set (drop 1 buf). b = 0) \<longrightarrow>
            fst (UnmarshalBinary Pt buf s) =
              (let xv = SetBytes (take (nat (coordLen (curve Pt))) (drop 1 buf));
                   yv = SetBytes (drop (1 + nat (coordLen (curve Pt))) buf)
               in if buf ! 0 \<noteq> 4 \<or> \<not> (IsOnCurve (elliptic (curve Pt)) xv yv \<or> (xv = 0 \<and> yv = 0))
                  then Some ErrInvalidPoint else None))"
proof (intro conjI impI)
  assume z: "\<forall>b \<in> set (drop 1 buf). b = 0"
  have "1 + 2 * coordLen (curve Pt) \<noteq> 0" by presburger
  then have ne: "buf \<noteq> []" using len by auto
  have c: "foldl (OR) (0 :: byte) (drop 1 buf) = 0" using z by (simp add: foldl_OR_zero)
  show "UnmarshalBinary Pt buf s = (None, fst (Null Pt s), snd (Null Pt s))"
    using ne c by (simp add: UnmarshalBinary_def Null_def Let_def new_def)
next
  assume nz: "\<not> (\<forall>b \<in> set (drop 1 buf). b = 0)"
  have ne: "buf \<noteq> []" using nz by auto
  have c: "foldl (OR) (0 :: byte) (drop 1 buf) \<noteq> 0" using nz by (simp add: foldl_OR_zero)
  let ?xv = "SetBytes (take (nat (coordLen (curve Pt))) (drop 1 buf))"
  let ?yv = "SetBytes (drop (1 + nat (coordLen (curve Pt))) buf)"
  have nz2: "\<not> (?xv = 0 \<and> ?yv = 0)"
  proof
    assume z: "?xv = 0 \<and> ?yv = 0"
    let ?n = "nat (coordLen (curve Pt))"
    have "set (drop 1 buf) = set (take ?n (drop 1 buf)) \<union> set (drop ?n (drop 1 buf))"
      by (metis append_take_drop_id set_append)
    moreover have "drop (1 + ?n) buf = drop ?n (drop 1 buf)"
      by (simp add: add.commute)
    ultimately have "\<forall>b \<in> set (drop 1 buf). b = 0"
      using z by (auto simp add: SetBytes_eq_0_iff)
    then show False using nz by simp
  qed
  obtain rx ry s1 where u: "elliptic_Unmarshal (curve Pt) buf s = ((rx, ry), s1)"
    by (metis surj_pair)
  have iff: "rx = None \<longleftrightarrow> (buf ! 0 \<noteq> 4 \<or> ?xv \<ge> prm_P (params (curve Pt)) \<or> ?yv \<ge> prm_P (params (curve Pt))
      \<or> \<not> IsOnCurve (elliptic (curve Pt)) ?xv ?yv)"
    using elliptic_Unmarshal_None_iff [OF len, of s] u by simp
  from elliptic_Unmarshal_cases [OF u]
  show "fst (UnmarshalBinary Pt buf s) =
              (let xv = ?xv; yv = ?yv
               in if buf ! 0 \<noteq> 4 \<or> \<not> (IsOnCurve (elliptic (curve Pt)) xv yv \<or> (xv = 0 \<and> yv = 0))
                  then Some ErrInvalidPoint else None)"
  proof
    assume n: "rx = None \<and> ry = None \<and> s1 = s"
    then have "fst (UnmarshalBinary Pt buf s) = Some ErrInvalidPoint"
      using ne c u by (simp add: UnmarshalBinary_def Let_def)
    moreover have "buf ! 0 \<noteq> 4 \<or> \<not> IsOnCurve (elliptic (curve Pt)) ?xv ?yv"
      using iff n range by (auto simp add: not_less [symmetric])
    ultimately show ?thesis using nz2 by (auto simp add: Let_def)
  next
    assume "\<exists>ax ay. rx = Some ax \<and> ry = Some ay \<and> ax = nxt s \<and> ay = Suc (nxt s)
        \<and> IsOnCurve (elliptic (curve Pt)) (heap s1 ax) (heap s1 ay)
        \<and> heap s1 ax = ?xv \<and> heap s1 ay = ?yv"
    then obtain ax ay where a: "rx = Some ax" "ry = Some ay"
        "IsOnCurve (elliptic (curve Pt)) (heap s1 ax) (heap s1 ay)" "heap s1 ax = ?xv" "heap s1 ay = ?yv"
      by blast
    have "fst (UnmarshalBinary Pt buf s) = None"
      using ne c u a by (simp add: UnmarshalBinary_def Let_def Valid_def)
    moreover have "buf ! 0 = 4" using iff a(1) by auto
    moreover have "IsOnCurve (elliptic (curve Pt)) ?xv ?yv" using a by simp
    ultimately show ?thesis by (simp add: Let_def)
  qed
qed

section \<open>The vector commitment: what the caller receives\<close>

lemma new_frame: "new v s = (a, s') \<Longrightarrow> a = nxt s \<and> nxt s' = Suc (nxt s) \<and> heap s' a = v \<and> (\<forall>b. b \<noteq> nxt s \<longrightarrow> heap s' b = heap s b)"
  by (auto simp add: new_def)

lemma AddPlain_frame:
  "AddPlain Pt A B s = Inr (Pt', s') \<Longrightarrow> nxt s \<le> nxt s' \<and> (\<forall>a < nxt s. heap s' a = heap s a)"
  by (auto simp add: AddPlain_def new_def Let_def split: option.splits prod.splits)

lemma MulPlain_frame:
  "MulPlain Pt sc B s = Inr (Pt', s') \<Longrightarrow> nxt s \<le> nxt s' \<and> (\<forall>a < nxt s. heap s' a = heap s a)"
  by (auto simp add: MulPlain_def new_def Let_def split: option.splits prod.splits)

lemma Commitment_Add_frame:
  assumes "Commitment_Add c i x s = Inr s'"
  shows "nxt s \<le> nxt s' \<and> (\<forall>a < nxt s. heap s' a = heap s a)"
proof -
  from assms obtain toAdd s1 c_c where
    m: "MulPlain (Point (suite c)) (Scalar_SetBytes (Init64 1 1) x) (Some (generators c ! i)) s = Inr (toAdd, s1)"
    and a: "AddPlain (cm_c c) toAdd (cm_c c) s1 = Inr (c_c, s')"
    by (auto simp add: Commitment_Add_def Let_def split: if_splits sum.splits)
  from MulPlain_frame [OF m] AddPlain_frame [OF a] show ?thesis by auto
qed

lemma Commit_adds_frame:
  "Commit_adds c xs is s = Inr s' \<Longrightarrow> nxt s \<le> nxt s' \<and> (\<forall>a < nxt s. heap s' a = heap s a)"
proof (induction "is" arbitrary: s)
  case Nil
  then show ?case by simp
next
  case (Cons i "is")
  from Cons.prems obtain s1 where
    a: "Commitment_Add c i (xs ! i) s = Inr s1" and r: "Commit_adds c xs is s1 = Inr s'"
    by (auto split: sum.splits)
  from Commitment_Add_frame [OF a] Cons.IH [OF r] show ?case by auto
qed

lemma Commit_point_is_Null:
  assumes "Commit E pp xs s = Inr (c, s')"
  shows "cm_c c = \<lparr>cp_x = Some (nxt s), cp_y = Some (Suc (nxt s)), curve = P256_Init E\<rparr>
       \<and> heap s' (nxt s) = 0 \<and> heap s' (Suc (nxt s)) = 0"
proof -
  let ?s1 = "snd (Null (Point (P256_Init E)) s)"
  let ?c = "\<lparr>generators = Generators pp, cm_c = fst (Null (Point (P256_Init E)) s), suite = P256_Init E\<rparr>"
  from assms have r: "Commit_adds ?c xs [0..<length xs] ?s1 = Inr s'" and c: "c = ?c"
    by (auto simp add: Commit_def Let_def split: if_splits sum.splits prod.splits)
  have n: "nxt ?s1 = Suc (Suc (nxt s))" "heap ?s1 (nxt s) = 0" "heap ?s1 (Suc (nxt s)) = 0"
    by (simp_all add: Null_def new_def)
  from Commit_adds_frame [OF r] n c show ?thesis
    by (simp add: Null_def new_def Point_def)
qed


text \<open>
  Claim C8, at the input of one generator \<open>G\<close> (the base point) and the one value 1:
  \<^verbatim>\<open>Commit\<close> returns a commitment whose point is \<open>(0, 0)\<close>, the integers \<^verbatim>\<open>Null()\<close>
  allocated, while the sum the claim describes, \<open>1 \<cdot> G\<close> added to the identity, is \<open>G\<close>.
\<close>

theorem C8_Commit_returns_Null:
  "(\<exists>s'. Commit (elliptic_std p256_params)
            \<lparr>Generators = [\<lparr>cp_x = Some 0, cp_y = Some 1, curve = P256\<rparr>]\<rparr>
            [replicate 31 0 @ [1]]
            \<lparr>heap = (\<lambda>a. if a = 0 then p256_Gx else p256_Gy), nxt = 2\<rparr>
          = Inr (\<lparr>generators = [\<lparr>cp_x = Some 0, cp_y = Some 1, curve = P256\<rparr>],
                  cm_c = \<lparr>cp_x = Some 2, cp_y = Some 3, curve = P256\<rparr>, suite = P256\<rparr>, s')
          \<and> heap s' 2 = 0 \<and> heap s' 3 = 0)
   \<and> std_ScalarMult p256_params p256_Gx p256_Gy (replicate 31 0 @ [1]) = (p256_Gx, p256_Gy)
   \<and> std_Add p256_params p256_Gx p256_Gy 0 0 = (p256_Gx, p256_Gy)
   \<and> (p256_Gx, p256_Gy) \<noteq> (0, 0)"
proof -
  let ?G = "\<lparr>cp_x = Some 0, cp_y = Some 1, curve = P256\<rparr>"
  let ?s = "\<lparr>heap = (\<lambda>a. if a = 0 then p256_Gx else p256_Gy), nxt = 2\<rparr>"
  let ?E = "elliptic_std p256_params"
  have G0: "p256_Gx \<noteq> 0" by (simp add: p256_Gx_def)
  have add: "std_Add p256_params p256_Gx p256_Gy 0 0 = (p256_Gx, p256_Gy)"
    using G0 by (simp add: std_Add_def)
  have sm: "std_ScalarMult p256_params p256_Gx p256_Gy (replicate 31 0 @ [1]) = (p256_Gx, p256_Gy)"
  proof -
    have "SetBytes (replicate 31 0) = 0" by (simp add: SetBytes_eq_0_iff)
    then have "SetBytes (replicate 31 0 @ [1]) = 1" by (simp add: SetBytes_snoc)
    then show ?thesis by (simp add: std_ScalarMult_def add)
  qed
  have "\<exists>r. Commit ?E \<lparr>Generators = [?G]\<rparr> [replicate 31 0 @ [1]] ?s = Inr r"
    by (simp add: Commit_def Commitment_Add_def MulPlain_def AddPlain_def Null_def Point_def new_def
         Let_def Init64_def Scalar_SetBytes_def Mod_def P256_Init_def elliptic_std_def
         std_ScalarMult_def Bytes_0 SetBytes_Nil std_Add_def P256_def split: prod.splits)
  then obtain c s' where r: "Commit ?E \<lparr>Generators = [?G]\<rparr> [replicate 31 0 @ [1]] ?s = Inr (c, s')"
    by auto
  have g: "generators c = [?G] \<and> suite c = P256" using r
    by (auto simp add: Commit_def Let_def P256_def split: if_splits sum.splits prod.splits)
  from Commit_point_is_Null [OF r] g r show ?thesis using add sm G0
    by (auto simp add: P256_def numeral_2_eq_2 numeral_3_eq_3)
qed

section \<open>The identity and inverse laws\<close>

lemma Null_eq:
  "Null Z s = (Z\<lparr>cp_x := Some (nxt s), cp_y := Some (Suc (nxt s))\<rparr>,
               s\<lparr>heap := (heap s)(nxt s := 0, Suc (nxt s) := 0), nxt := Suc (Suc (nxt s))\<rparr>)"
  by (simp add: Null_def new_def)

lemma Add_eq:
  assumes "cp_x A = Some ax" "cp_y A = Some ay" "cp_x B = Some bx" "cp_y B = Some by"
    and "ec_Add (elliptic (curve T)) (heap s ax) (heap s ay) (heap s bx) (heap s by) = (x3, y3)"
  shows "Add T A B s = Inr (T\<lparr>cp_x := Some (nxt s), cp_y := Some (Suc (nxt s))\<rparr>,
               s\<lparr>heap := (heap s)(nxt s := x3, Suc (nxt s) := y3), nxt := Suc (Suc (nxt s))\<rparr>)"
  using assms by (simp add: Add_def new_def)

lemma Mul_eq:
  assumes "cp_x B = Some bx" "cp_y B = Some by"
    and "ec_ScalarMult (elliptic (curve T)) (heap s bx) (heap s by) (Bytes (sc_V sc)) = (x3, y3)"
  shows "Mul T sc (Some B) s = Inr (T\<lparr>cp_x := Some (nxt s), cp_y := Some (Suc (nxt s))\<rparr>,
               s\<lparr>heap := (heap s)(nxt s := x3, Suc (nxt s) := y3), nxt := Suc (Suc (nxt s))\<rparr>)"
  using assms by (simp add: Mul_def new_def)

lemma SetBytes_Bytes: "SetBytes (Bytes v) = \<bar>v\<bar>"
  by (simp add: Bytes_def SetBytes_Bytes_nat)

lemma Neg_scalar:
  "0 < prm_N (params c) \<Longrightarrow>
   sc_V (Scalar_Neg (Scalar_One (Curve_Scalar c)) (Scalar_One (Curve_Scalar c))) = prm_N (params c) - 1"
  by (simp add: Scalar_Neg_def Scalar_One_def Curve_Scalar_def Init64_def Mod_def zmod_minus1)

lemma provider_contractD:
  assumes "provider_contract c" "IsOnCurve (elliptic c) xv yv \<or> (xv = 0 \<and> yv = 0)"
  shows "ec_Add (elliptic c) xv yv 0 0 = (xv, yv)"
    and "ec_ScalarMult (elliptic c) xv yv k = iter_Add (elliptic c) (nat (SetBytes k)) xv yv"
    and "iter_Add (elliptic c) (nat (prm_N (params c))) xv yv = (0, 0)"
  using assms unfolding provider_contract_def by blast+

text \<open>
  Claim C7. Over a provider that meets its contract, for every valid point \<open>A\<close> whose
  integers are allocated: \<^verbatim>\<open>Add(A, Null())\<close> equals \<open>A\<close> under \<^verbatim>\<open>Equal\<close>, and
  \<^verbatim>\<open>Add(A, Neg(A))\<close> equals \<^verbatim>\<open>Null()\<close> under \<^verbatim>\<open>Equal\<close>, where \<^verbatim>\<open>Neg\<close> multiplies by
  the scalar \<open>N - 1\<close>, the additive inverse of the scalar one.
\<close>

theorem C7_identity_and_inverse:
  assumes contract: "provider_contract c"
    and curves: "curve T = c" "curve Q = c" "curve A = c"
    and coords: "cp_x A = Some ax" "cp_y A = Some ay" "ax < nxt s" "ay < nxt s"
    and valid: "Valid A s = Inr True"
  shows "(\<exists>Z' s1 T' s2 s3. Null Z s = (Z', s1) \<and> Add T A Z' s1 = Inr (T', s2)
            \<and> Equal T' A s2 = Inr (True, s3))
       \<and> (\<exists>Q' s1 T' s2 Z' s3 s4. Neg Q A s = Inr (Q', s1) \<and> Add T A Q' s1 = Inr (T', s2)
            \<and> Null Z s2 = (Z', s3) \<and> Equal T' Z' s3 = Inr (True, s4))"
proof -
  let ?E = "elliptic c"
  let ?x = "heap s ax" and ?y = "heap s ay"
  let ?N = "prm_N (params c)"
  have v: "IsOnCurve ?E ?x ?y \<or> (?x = 0 \<and> ?y = 0)"
    using valid coords curves by (simp add: Valid_def)
  have P: "0 < prm_P (params c)" and N: "0 < ?N"
    using contract by (simp_all add: provider_contract_def)
  have id: "ec_Add ?E ?x ?y 0 0 = (?x, ?y)"
    and sm: "\<And>k. ec_ScalarMult ?E ?x ?y k = iter_Add ?E (nat (SetBytes k)) ?x ?y"
    and ord: "iter_Add ?E (nat ?N) ?x ?y = (0, 0)"
    using provider_contractD [OF contract v] by simp_all
  have M: "prm_P (params (curve (T\<lparr>cp_x := a, cp_y := b\<rparr>))) \<noteq> 0" for a b
    using P curves by simp
  \<comment> \<open>the identity law\<close>
  obtain Z' s1 where n1: "Null Z s = (Z', s1)" by (metis surj_pair)
  have Z': "cp_x Z' = Some (nxt s)" "cp_y Z' = Some (Suc (nxt s))"
    and s1: "heap s1 (nxt s) = 0" "heap s1 (Suc (nxt s)) = 0" "heap s1 ax = ?x" "heap s1 ay = ?y"
         "nxt s1 = Suc (Suc (nxt s))"
    using n1 coords by (auto simp add: Null_eq)
  have a1: "ec_Add (elliptic (curve T)) (heap s1 ax) (heap s1 ay) (heap s1 (nxt s)) (heap s1 (Suc (nxt s))) = (?x, ?y)"
    using id s1 curves by simp
  let ?T1 = "T\<lparr>cp_x := Some (nxt s1), cp_y := Some (Suc (nxt s1))\<rparr>"
  let ?s2 = "s1\<lparr>heap := (heap s1)(nxt s1 := ?x, Suc (nxt s1) := ?y), nxt := Suc (Suc (nxt s1))\<rparr>"
  have add1: "Add T A Z' s1 = Inr (?T1, ?s2)"
    by (rule Add_eq [OF coords(1,2) Z' a1])
  obtain s3 where eq1: "Equal ?T1 A ?s2 =
      Inr (Mod (heap ?s2 (nxt s1)) (prm_P (params (curve ?T1))) = Mod (heap ?s2 ax) (prm_P (params (curve ?T1)))
         \<and> Mod (heap ?s2 (Suc (nxt s1))) (prm_P (params (curve ?T1))) = Mod (heap ?s2 ay) (prm_P (params (curve ?T1))), s3)"
    using Equal_result [where Pt = ?T1 and px = "nxt s1" and py = "Suc (nxt s1)" and Q = A and qx = ax and qy = ay and s = ?s2, OF M] coords by auto
  have "Equal ?T1 A ?s2 = Inr (True, s3)"
    using eq1 s1 coords by simp
  then have part1: "\<exists>Z' s1 T' s2 s3. Null Z s = (Z', s1) \<and> Add T A Z' s1 = Inr (T', s2)
            \<and> Equal T' A s2 = Inr (True, s3)"
    using n1 add1 by blast
  \<comment> \<open>the inverse law\<close>
  let ?sc = "Scalar_Neg (Scalar_One (Curve_Scalar c)) (Scalar_One (Curve_Scalar c))"
  have k: "nat (SetBytes (Bytes (sc_V ?sc))) = nat (?N - 1)"
    using N by (simp add: Neg_scalar SetBytes_Bytes)
  obtain nx ny where it: "iter_Add ?E (nat (?N - 1)) ?x ?y = (nx, ny)" by (metis surj_pair)
  have "nat ?N = Suc (nat (?N - 1))" using N by simp
  then have "iter_Add ?E (nat ?N) ?x ?y = ec_Add ?E ?x ?y nx ny"
    using it by simp
  then have inv: "ec_Add ?E ?x ?y nx ny = (0, 0)" using ord by simp
  have m: "ec_ScalarMult (elliptic (curve Q)) (heap s ax) (heap s ay) (Bytes (sc_V ?sc)) = (nx, ny)"
    using sm k it curves by simp
  let ?Q1 = "Q\<lparr>cp_x := Some (nxt s), cp_y := Some (Suc (nxt s))\<rparr>"
  let ?t1 = "s\<lparr>heap := (heap s)(nxt s := nx, Suc (nxt s) := ny), nxt := Suc (Suc (nxt s))\<rparr>"
  have neg: "Neg Q A s = Inr (?Q1, ?t1)"
    using Mul_eq [OF coords(1,2) m] curves by (simp add: Neg_def Let_def)
  have a2: "ec_Add (elliptic (curve T)) (heap ?t1 ax) (heap ?t1 ay) (heap ?t1 (nxt s)) (heap ?t1 (Suc (nxt s))) = (0, 0)"
    using inv coords curves by simp
  let ?T2 = "T\<lparr>cp_x := Some (nxt ?t1), cp_y := Some (Suc (nxt ?t1))\<rparr>"
  let ?t2 = "?t1\<lparr>heap := (heap ?t1)(nxt ?t1 := 0, Suc (nxt ?t1) := 0), nxt := Suc (Suc (nxt ?t1))\<rparr>"
  have add2: "Add T A ?Q1 ?t1 = Inr (?T2, ?t2)"
    by (rule Add_eq [OF coords(1,2) _ _ a2]) simp_all
  obtain Z2 t3 where n2: "Null Z ?t2 = (Z2, t3)" by (metis surj_pair)
  have Z2: "cp_x Z2 = Some (nxt ?t2)" "cp_y Z2 = Some (Suc (nxt ?t2))"
    and t3: "heap t3 (nxt ?t2) = 0" "heap t3 (Suc (nxt ?t2)) = 0"
            "heap t3 (nxt ?t1) = 0" "heap t3 (Suc (nxt ?t1)) = 0"
    using n2 by (auto simp add: Null_eq)
  obtain t4 where eq2: "Equal ?T2 Z2 t3 =
      Inr (Mod (heap t3 (nxt ?t1)) (prm_P (params (curve ?T2))) = Mod (heap t3 (nxt ?t2)) (prm_P (params (curve ?T2)))
         \<and> Mod (heap t3 (Suc (nxt ?t1))) (prm_P (params (curve ?T2))) = Mod (heap t3 (Suc (nxt ?t2))) (prm_P (params (curve ?T2))), t4)"
    using Equal_result [where Pt = ?T2 and px = "nxt ?t1" and py = "Suc (nxt ?t1)" and Q = Z2 and qx = "nxt ?t2" and qy = "Suc (nxt ?t2)" and s = t3, OF M] Z2 by auto
  have "Equal ?T2 Z2 t3 = Inr (True, t4)"
    using eq2 t3 by simp
  then have part2: "\<exists>Q' s1 T' s2 Z' s3 s4. Neg Q A s = Inr (Q', s1) \<and> Add T A Q' s1 = Inr (T', s2)
            \<and> Null Z s2 = (Z', s3) \<and> Equal T' Z' s3 = Inr (True, s4)"
    using neg add2 n2 by blast
  from part1 part2 show ?thesis by blast
qed

lemma std_Add_zero: "std_Add prm xv yv 0 0 = (xv, yv)"
  by (auto simp add: std_Add_def Let_def)

lemma std_ScalarMult_iter:
  "((\<lambda>(ax, ay). std_Add prm xv yv ax ay) ^^ n) (0, 0) = iter_Add (elliptic_std prm) n xv yv"
  by (induction n) (simp_all add: elliptic_std_def split: prod.splits)

lemma toy_points:
  assumes "std_IsOnCurve toy_params xv yv"
  shows "(xv, yv) \<in> {(0, 1), (0, 6), (4, 2), (4, 5)}"
proof -
  from assms have x: "xv \<in> {0, 1, 2, 3, 4, 5, 6}" and y: "yv \<in> {0, 1, 2, 3, 4, 5, 6}"
    by (auto simp add: std_IsOnCurve_def toy_params_def)
  from assms have e: "(yv * yv) mod 7 = (xv * xv * xv - 3 * xv + 1) mod 7"
    by (simp add: std_IsOnCurve_def toy_params_def)
  from x y e show ?thesis by (elim insertE emptyE; simp)
qed

lemma toy_order:
  assumes "(xv, yv) \<in> {(0, 0), (0, 1), (0, 6), (4, 2), (4, 5)}"
  shows "iter_Add (elliptic_std toy_params) (nat 5) xv yv = (0, 0)"
proof -
  have n: "nat 5 = Suc (Suc (Suc (Suc (Suc 0))))" by simp
  have i: "inv_mod 7 a = a * a * a * a * a mod 7" for a
    by (simp add: inv_mod_def eval_nat_numeral mult.assoc)
  from assms show ?thesis
    unfolding n
    by (elim insertE emptyE; simp add: elliptic_std_def std_Add_def toy_params_def i Let_def)
qed

lemma toy_contract: "provider_contract toy_curve"
proof -
  have "iter_Add (elliptic_std toy_params) (nat 5) xv yv = (0, 0)"
    if "std_IsOnCurve toy_params xv yv \<or> (xv = 0 \<and> yv = 0)" for xv yv
    using that toy_points [of xv yv] toy_order [of xv yv] by auto
  then show ?thesis
    by (simp add: provider_contract_def toy_curve_def toy_params_def elliptic_std_def
          std_Add_zero std_ScalarMult_def std_ScalarMult_iter)
qed

theorem C7_witness:
  "provider_contract toy_curve
   \<and> Valid \<lparr>cp_x = Some 0, cp_y = Some 1, curve = toy_curve\<rparr> \<lparr>heap = (\<lambda>a. if a = 0 then 4 else 2), nxt = 2\<rparr> = Inr True
   \<and> (\<exists>Z' s1 T' s2 s3.
         Null (Point toy_curve) \<lparr>heap = (\<lambda>a. if a = 0 then 4 else 2), nxt = 2\<rparr> = (Z', s1)
         \<and> Add (Point toy_curve) \<lparr>cp_x = Some 0, cp_y = Some 1, curve = toy_curve\<rparr> Z' s1 = Inr (T', s2)
         \<and> Equal T' \<lparr>cp_x = Some 0, cp_y = Some 1, curve = toy_curve\<rparr> s2 = Inr (True, s3))
   \<and> (\<exists>Q' s1 T' s2 Z' s3 s4.
         Neg (Point toy_curve) \<lparr>cp_x = Some 0, cp_y = Some 1, curve = toy_curve\<rparr>
            \<lparr>heap = (\<lambda>a. if a = 0 then 4 else 2), nxt = 2\<rparr> = Inr (Q', s1)
         \<and> Add (Point toy_curve) \<lparr>cp_x = Some 0, cp_y = Some 1, curve = toy_curve\<rparr> Q' s1 = Inr (T', s2)
         \<and> Null (Point toy_curve) s2 = (Z', s3) \<and> Equal T' Z' s3 = Inr (True, s4))"
proof -
  let ?A = "\<lparr>cp_x = Some 0, cp_y = Some 1, curve = toy_curve\<rparr>"
  let ?s = "\<lparr>heap = (\<lambda>a. if a = 0 then 4 else 2), nxt = 2\<rparr>"
  have v: "Valid ?A ?s = Inr True"
    by (simp add: Valid_def toy_curve_def elliptic_std_def std_IsOnCurve_def toy_params_def)
  have c: "curve (Point toy_curve) = toy_curve" "curve ?A = toy_curve" by (simp_all add: Point_def)
  have a: "cp_x ?A = Some 0" "cp_y ?A = Some 1" "0 < nxt ?s" "1 < nxt ?s" by simp_all
  from C7_identity_and_inverse [OF toy_contract c(1) c(1) c(2) a v, of "Point toy_curve"]
  show ?thesis using toy_contract v by blast
qed

section \<open>Fermat's little theorem and Pocklington's criterion\<close>

lemma is_prime_gt1: "is_prime p \<Longrightarrow> 1 < p"
  by (simp add: is_prime_def)

lemma is_prime_coprime:
  assumes "is_prime p" "\<not> p dvd a"
  shows "coprime p a"
proof -
  have "gcd p a dvd p" by simp
  then have "gcd p a = 1 \<or> gcd p a = p" using assms(1) by (simp add: is_prime_def)
  moreover have "gcd p a \<noteq> p" using assms(2) by (metis gcd_dvd2)
  ultimately show ?thesis by (simp add: coprime_iff_gcd_eq_1)
qed

lemma is_prime_dvd_mult:
  assumes "is_prime p" "p dvd a * b"
  shows "p dvd a \<or> p dvd b"
proof (cases "p dvd a")
  case True
  then show ?thesis by simp
next
  case False
  then have "coprime p a" using assms(1) by (rule is_prime_coprime [rotated])
  then show ?thesis using assms(2) by (simp add: coprime_dvd_mult_right_iff)
qed

lemma is_prime_dvd_mult_int:
  assumes "is_prime p" "int p dvd a * b"
  shows "int p dvd a \<or> int p dvd b"
proof -
  have "int p dvd int (nat \<bar>a\<bar> * nat \<bar>b\<bar>)"
    using assms(2) by (simp add: nat_abs_mult_distrib [symmetric] del: of_nat_mult)
  then have "p dvd nat \<bar>a\<bar> * nat \<bar>b\<bar>" by (simp only: int_dvd_int_iff)
  then have "p dvd nat \<bar>a\<bar> \<or> p dvd nat \<bar>b\<bar>" using assms(1) by (rule is_prime_dvd_mult [rotated])
  then have "int p dvd int (nat \<bar>a\<bar>) \<or> int p dvd int (nat \<bar>b\<bar>)" by (simp only: int_dvd_int_iff)
  then show ?thesis by simp
qed

lemma is_prime_dvd_choose:
  assumes "is_prime p" "0 < k" "k < p"
  shows "p dvd (p choose k)"
proof -
  have "k * (p choose k) = p * (p - 1 choose (k - 1))"
    using assms(2) by (rule times_binomial_minus1_eq)
  then have "p dvd k * (p choose k)" by simp
  moreover have "\<not> p dvd k" using assms(2,3) by (auto dest: dvd_imp_le)
  ultimately show ?thesis using is_prime_dvd_mult [OF assms(1)] by blast
qed

lemma fermat_add1:
  assumes "is_prime p"
  shows "(a + 1) ^ p mod p = (a ^ p + 1) mod (p :: nat)"
proof -
  have p1: "1 < p" using assms by (rule is_prime_gt1)
  let ?f = "\<lambda>k. (p choose k) * a ^ k"
  have "(a + 1) ^ p = (\<Sum>k\<le>p. of_nat (p choose k) * a ^ k * 1 ^ (p - k))"
    by (rule binomial)
  then have "(a + 1) ^ p = (\<Sum>k\<le>p. ?f k)" by simp
  also have "{..p} = insert 0 (insert p {1..<p})" using p1 by auto
  also have "(\<Sum>k\<in>insert 0 (insert p {1..<p}). ?f k) = ?f 0 + (?f p + (\<Sum>k\<in>{1..<p}. ?f k))"
    using p1 by simp
  finally have e: "(a + 1) ^ p = (a ^ p + 1) + (\<Sum>k\<in>{1..<p}. ?f k)" by simp
  have "p dvd (\<Sum>k\<in>{1..<p}. ?f k)"
    by (rule dvd_sum) (simp add: is_prime_dvd_choose [OF assms])
  then obtain c where c: "(\<Sum>k\<in>{1..<p}. ?f k) = p * c" by (auto elim: dvdE)
  show ?thesis unfolding e c by (simp only: mod_mult_self2)
qed

lemma fermat_nat:
  assumes "is_prime p"
  shows "a ^ p mod p = a mod (p :: nat)"
proof (induction a)
  case 0
  have "0 < p" using is_prime_gt1 [OF assms] by simp
  then show ?case by (simp add: power_0_left)
next
  case (Suc a)
  have "Suc a ^ p mod p = (a ^ p + 1) mod p"
    using fermat_add1 [OF assms, of a] by simp
  also have "\<dots> = (a ^ p mod p + 1) mod p" by (simp only: mod_add_left_eq)
  also have "\<dots> = (a mod p + 1) mod p" by (simp only: Suc.IH)
  also have "\<dots> = (a + 1) mod p" by (simp only: mod_add_left_eq)
  finally show ?case by simp
qed

lemma fermat_int:
  assumes "is_prime p"
  shows "(a :: int) ^ p mod int p = a mod int p"
proof -
  have p0: "0 < int p" using is_prime_gt1 [OF assms] by simp
  define b where "b = nat (a mod int p)"
  have b: "int b = a mod int p" using p0 by (simp add: b_def)
  have "a ^ p mod int p = (a mod int p) ^ p mod int p" by (simp add: power_mod)
  also have "\<dots> = int (b ^ p mod p)" by (simp add: b [symmetric] zmod_int)
  also have "\<dots> = int (b mod p)" by (simp only: fermat_nat [OF assms])
  also have "\<dots> = a mod int p" by (simp add: zmod_int b)
  finally show ?thesis .
qed

lemma fermat_little:
  assumes "is_prime p" "\<not> int p dvd a"
  shows "(a :: int) ^ (p - 1) mod int p = 1"
proof -
  have p1: "1 < p" using assms(1) by (rule is_prime_gt1)
  have "a * a ^ (p - 1) = a ^ p" using p1 by (simp add: power_eq_if)
  then have "(a * a ^ (p - 1)) mod int p = a mod int p" by (simp only: fermat_int [OF assms(1)])
  then have "int p dvd a * a ^ (p - 1) - a" by (simp add: mod_eq_dvd_iff)
  then have "int p dvd a * (a ^ (p - 1) - 1)" by (simp add: algebra_simps)
  then have "int p dvd a ^ (p - 1) - 1" using is_prime_dvd_mult_int [OF assms(1)] assms(2) by blast
  then have "a ^ (p - 1) mod int p = 1 mod int p" by (simp add: mod_eq_dvd_iff)
  then show ?thesis using p1 by simp
qed


lemma prime_factor_small:
  assumes "1 < n" "\<not> is_prime n"
  shows "\<exists>r. is_prime r \<and> r dvd n \<and> r * r \<le> n"
proof -
  define r where "r = (LEAST d. 1 < d \<and> d dvd n)"
  have ex: "1 < n \<and> n dvd n" using assms(1) by simp
  have r: "1 < r \<and> r dvd n" unfolding r_def by (rule LeastI [of _ n]) (rule ex)
  have least: "r \<le> d" if "1 < d" "d dvd n" for d
    unfolding r_def using that by (intro Least_le conjI)
  have n0: "n \<noteq> 0" using assms(1) by simp
  have pr: "is_prime r"
    unfolding is_prime_def
  proof (intro conjI allI impI)
    show "1 < r" using r by simp
  next
    fix d
    assume d: "d dvd r"
    show "d = 1 \<or> d = r"
    proof (cases "d = 1")
      case True
      then show ?thesis by simp
    next
      case False
      have "d \<noteq> 0" using d r by (cases "d = 0") auto
      then have "1 < d" using False by simp
      moreover have "d dvd n" using d r by (meson dvd_trans)
      ultimately have "r \<le> d" by (rule least)
      moreover have "d \<le> r" using d r by (auto intro: dvd_imp_le)
      ultimately show ?thesis by simp
    qed
  qed
  from assms obtain d where d: "d dvd n" "d \<noteq> 1" "d \<noteq> n" by (auto simp add: is_prime_def)
  then obtain e where e: "n = d * e" by (auto elim: dvdE)
  have "d \<noteq> 0" "e \<noteq> 0" using e n0 by auto
  moreover have "e \<noteq> 1" using e d by auto
  ultimately have "1 < d" "1 < e" using d by simp_all
  moreover have "e dvd n" using e by simp
  ultimately have "r \<le> d" "r \<le> e" using d(1) least by blast+
  then have "r * r \<le> d * e" by (intro mult_le_mono)
  then show ?thesis using pr r e by auto
qed

lemma order_dvd:
  fixes b r :: int
  assumes q: "is_prime q" and r1: "1 < r"
    and bq: "b ^ q mod r = 1" and bm: "b ^ m mod r = 1" and b1: "b mod r \<noteq> 1"
  shows "q dvd m"
proof (rule ccontr)
  assume "\<not> q dvd m"
  with q have "coprime q m" by (rule is_prime_coprime)
  then have g: "gcd q m = 1" by (simp add: coprime_iff_gcd_eq_1)
  have "q \<noteq> 0" using is_prime_gt1 [OF q] by simp
  from bezout_nat [OF this, of m] obtain x y where "q * x = m * y + gcd q m" by blast
  then have xy: "q * x = m * y + 1" using g by simp
  have "b ^ (q * x) mod r = (b ^ q mod r) ^ x mod r" by (simp add: power_mult power_mod)
  also have "\<dots> = 1" using r1 by (simp add: bq)
  finally have lhs: "b ^ (q * x) mod r = 1" .
  have "b ^ (m * y + 1) = (b ^ m) ^ y * b" by (simp add: power_add power_mult)
  then have "b ^ (m * y + 1) mod r = ((b ^ m mod r) ^ y * b) mod r"
    by (metis mod_mult_left_eq power_mod)
  also have "\<dots> = b mod r" by (simp add: bm)
  finally have "b ^ (m * y + 1) mod r = b mod r" .
  then have "b mod r = 1" using lhs xy by simp
  then show False using b1 by simp
qed

lemma pock_step:
  fixes N a w u v :: int
  assumes N: "1 < N" and q: "is_prime q" and r: "is_prime r" and rN: "int r dvd N"
    and full: "a ^ (e * q) mod N = 1"
    and part: "a ^ e mod N = w mod N"
    and bez: "u * (w - 1) = v * N + 1"
  shows "q dvd r - 1"
proof -
  have r1: "1 < int r" using is_prime_gt1 [OF r] by simp
  have q0: "0 < q" using is_prime_gt1 [OF q] by simp
  have "(a ^ e) ^ q mod N mod int r = 1 mod int r"
    using full by (simp add: power_mult)
  then have bq: "(a ^ e) ^ q mod int r = 1" using rN r1 by (simp add: mod_mod_cancel)
  have b1: "a ^ e mod int r \<noteq> 1"
  proof
    assume "a ^ e mod int r = 1"
    moreover have "a ^ e mod N mod int r = w mod N mod int r" by (simp only: part)
    ultimately have "w mod int r = 1 mod int r" using rN r1 by (simp add: mod_mod_cancel)
    then have "int r dvd w - 1" by (simp add: mod_eq_dvd_iff)
    then have "int r dvd u * (w - 1) - v * N" using rN by simp
    then have "int r dvd 1" using bez by simp
    then show False using r1 by simp
  qed
  have nd: "\<not> int r dvd a ^ e"
  proof
    assume "int r dvd a ^ e"
    moreover have "a ^ e dvd (a ^ e) ^ q" using q0 by (simp add: dvd_power)
    ultimately have "int r dvd (a ^ e) ^ q" by (rule dvd_trans)
    then have "(a ^ e) ^ q mod int r = 0" by simp
    then show False using bq by simp
  qed
  have bm: "(a ^ e) ^ (r - 1) mod int r = 1" using r nd by (rule fermat_little)
  show ?thesis by (rule order_dvd [OF q r1 bq bm b1])
qed

lemma pocklington:
  fixes N a w u v :: int
  assumes N: "1 < N" and q: "is_prime q"
    and full': "a ^ m mod N = 1 mod N"
    and part: "a ^ e mod N = w mod N"
    and m: "m = e * q"
    and bez: "u * (w - 1) = v * N + 1"
    and big: "N < (int q + 1) * (int q + 1)"
  shows "is_prime (nat N)"
proof (rule ccontr)
  have full: "a ^ (e * q) mod N = 1" using full' N by (simp add: m)
  assume "\<not> is_prime (nat N)"
  moreover have "1 < nat N" using N by simp
  ultimately obtain r where r: "is_prime r" "r dvd nat N" "r * r \<le> nat N"
    using prime_factor_small by blast
  have "int r dvd int (nat N)" using r(2) by (simp only: int_dvd_int_iff)
  then have rN: "int r dvd N" using N by simp
  have "q dvd r - 1" by (rule pock_step [OF N q r(1) rN full part bez])
  moreover have "0 < r - 1" using is_prime_gt1 [OF r(1)] by simp
  ultimately have "q \<le> r - 1" by (rule dvd_imp_le)
  then have qr: "q + 1 \<le> r" using is_prime_gt1 [OF r(1)] by linarith
  have "(q + 1) * (q + 1) \<le> r * r" by (rule mult_le_mono [OF qr qr])
  then have "(q + 1) * (q + 1) \<le> nat N" using r(3) by simp
  then have "int ((q + 1) * (q + 1)) \<le> N" using N by linarith
  moreover have "int ((q + 1) * (q + 1)) = (int q + 1) * (int q + 1)" by (simp add: algebra_simps)
  ultimately show False using big by linarith
qed

lemma pocklington2:
  fixes N a1 w1 u1 v1 a2 w2 u2 v2 :: int
  assumes N: "1 < N" and q1: "is_prime q1" and q2: "is_prime q2" and ne: "q1 \<noteq> q2"
    and full1': "a1 ^ m1 mod N = 1 mod N"
    and part1: "a1 ^ e1 mod N = w1 mod N"
    and full2': "a2 ^ m2 mod N = 1 mod N"
    and part2: "a2 ^ e2 mod N = w2 mod N"
    and m1: "m1 = e1 * q1"
    and bez1: "u1 * (w1 - 1) = v1 * N + 1"
    and m2: "m2 = e2 * q2"
    and bez2: "u2 * (w2 - 1) = v2 * N + 1"
    and big: "N < (int (q1 * q2) + 1) * (int (q1 * q2) + 1)"
  shows "is_prime (nat N)"
proof (rule ccontr)
  have full1: "a1 ^ (e1 * q1) mod N = 1" using full1' N by (simp add: m1)
  have full2: "a2 ^ (e2 * q2) mod N = 1" using full2' N by (simp add: m2)
  assume "\<not> is_prime (nat N)"
  moreover have "1 < nat N" using N by simp
  ultimately obtain r where r: "is_prime r" "r dvd nat N" "r * r \<le> nat N"
    using prime_factor_small by blast
  have "int r dvd int (nat N)" using r(2) by (simp only: int_dvd_int_iff)
  then have rN: "int r dvd N" using N by simp
  have d1: "q1 dvd r - 1" by (rule pock_step [OF N q1 r(1) rN full1 part1 bez1])
  have d2: "q2 dvd r - 1" by (rule pock_step [OF N q2 r(1) rN full2 part2 bez2])
  have "\<not> q1 dvd q2" using q2 ne is_prime_gt1 [OF q1] by (auto simp add: is_prime_def)
  with q1 have "coprime q1 q2" by (rule is_prime_coprime)
  with d1 d2 have "q1 * q2 dvd r - 1" by (rule divides_mult)
  moreover have "0 < r - 1" using is_prime_gt1 [OF r(1)] by simp
  ultimately have "q1 * q2 \<le> r - 1" by (rule dvd_imp_le)
  then have qr: "q1 * q2 + 1 \<le> r" using is_prime_gt1 [OF r(1)] by linarith
  have "(q1 * q2 + 1) * (q1 * q2 + 1) \<le> r * r" by (rule mult_le_mono [OF qr qr])
  then have "(q1 * q2 + 1) * (q1 * q2 + 1) \<le> nat N" using r(3) by simp
  then have "int ((q1 * q2 + 1) * (q1 * q2 + 1)) \<le> N" using N by linarith
  moreover have "int ((q1 * q2 + 1) * (q1 * q2 + 1)) = (int (q1 * q2) + 1) * (int (q1 * q2) + 1)" by (simp add: algebra_simps)
  ultimately show False using big by linarith
qed


lemma no_divisor_D: "no_divisor n k \<Longrightarrow> 2 \<le> d \<Longrightarrow> d \<le> k \<Longrightarrow> \<not> d dvd n"
proof (induction k)
  case 0
  then show ?case by simp
next
  case (Suc k)
  show ?case
  proof (cases "d = Suc k")
    case True
    then show ?thesis using Suc.prems by auto
  next
    case False
    then show ?thesis using Suc by auto
  qed
qed

lemma trial_division:
  assumes "1 < n" "no_divisor n k" "n < (k + 1) * (k + 1)"
  shows "is_prime n"
proof (rule ccontr)
  assume "\<not> is_prime n"
  with assms(1) obtain r where r: "is_prime r" "r dvd n" "r * r \<le> n"
    using prime_factor_small by blast
  have "r \<le> k"
  proof (rule ccontr)
    assume "\<not> r \<le> k"
    then have kr: "k + 1 \<le> r" by linarith
    have "(k + 1) * (k + 1) \<le> r * r" by (rule mult_le_mono [OF kr kr])
    then show False using r(3) assms(3) by simp
  qed
  moreover have "2 \<le> r" using is_prime_gt1 [OF r(1)] by simp
  ultimately have "\<not> r dvd n" using no_divisor_D [OF assms(2)] by simp
  then show False using r(2) by simp
qed

lemma no_divisor_numeral:
  "no_divisor n (numeral k) = ((pred_numeral k = 0 \<or> \<not> numeral k dvd n) \<and> no_divisor n (pred_numeral k))"
  by (simp add: numeral_eq_Suc)

section \<open>The primality certificate of the P-256 modulus\<close>

text \<open>
  Modular powers by repeated squaring, each step with its quotient, and the chain of
  Pocklington certificates down to primes found by trial division.
\<close>

lemma pw_one: "(a :: int) ^ numeral num.One mod N = a mod N"
  by simp

lemma pw_dbl:
  assumes "(a :: int) ^ numeral n mod N = x mod N" "x * x = k * N + y"
  shows "a ^ numeral (num.Bit0 n) mod N = y mod N"
proof -
  have "a ^ numeral (num.Bit0 n) = a ^ numeral n * a ^ numeral n"
    by (simp add: numeral_Bit0 power_add)
  then have "a ^ numeral (num.Bit0 n) mod N = (a ^ numeral n mod N) * (a ^ numeral n mod N) mod N"
    by (simp only: mod_mult_eq)
  also have "\<dots> = x * x mod N" by (simp only: assms(1) mod_mult_eq)
  also have "\<dots> = y mod N" by (simp add: assms(2))
  finally show ?thesis .
qed

lemma pw_dbl1:
  assumes "(a :: int) ^ numeral n mod N = x mod N" "x * x * a = k * N + y"
  shows "a ^ numeral (num.Bit1 n) mod N = y mod N"
proof -
  have "a ^ numeral (num.Bit1 n) = a ^ numeral n * a ^ numeral n * a"
    by (simp only: numeral_Bit1 power_add power_one_right)
  then have "a ^ numeral (num.Bit1 n) mod N = (a ^ numeral n mod N) * (a ^ numeral n mod N) * a mod N"
    by (metis mod_mult_eq mod_mult_left_eq)
  also have "\<dots> = x * x * a mod N" unfolding assms(1) by (metis mod_mult_eq mod_mult_left_eq)
  also have "\<dots> = y mod N" by (simp add: assms(2))
  finally show ?thesis .
qed

lemma p256_P_sparse:
  "k * p256_P = k * 0x10000000000000000000000000000000000000000000000000000000000000000
     - k * 0x100000000000000000000000000000000000000000000000000000000
     + k * 0x1000000000000000000000000000000000000000000000000
     + k * 0x1000000000000000000000000 - k"
  by (simp add: p256_P_def algebra_simps)

lemma pw_dblP:
  assumes "(a :: int) ^ numeral n mod p256_P = x mod p256_P"
    "x * x + k * 0x100000000000000000000000000000000000000000000000000000000 + k
       = k * 0x10000000000000000000000000000000000000000000000000000000000000000
       + k * 0x1000000000000000000000000000000000000000000000000
       + k * 0x1000000000000000000000000 + y"
  shows "a ^ numeral (num.Bit0 n) mod p256_P = y mod p256_P"
proof (rule pw_dbl [OF assms(1), where k = k])
  show "x * x = k * p256_P + y" using assms(2) unfolding p256_P_sparse by linarith
qed

lemma pw_dbl1P:
  assumes "(a :: int) ^ numeral n mod p256_P = x mod p256_P"
    "x * x * a + k * 0x100000000000000000000000000000000000000000000000000000000 + k
       = k * 0x10000000000000000000000000000000000000000000000000000000000000000
       + k * 0x1000000000000000000000000000000000000000000000000
       + k * 0x1000000000000000000000000 + y"
  shows "a ^ numeral (num.Bit1 n) mod p256_P = y mod p256_P"
proof (rule pw_dbl1 [OF assms(1), where k = k])
  show "x * x * a = k * p256_P + y" using assms(2) unfolding p256_P_sparse by linarith
qed

lemma prime_313: "is_prime 0x139"
  by (rule trial_division [where k = "0x11"]) (simp_all add: no_divisor_numeral)

lemma prime_5: "is_prime 5"
  by (rule trial_division [where k = "2"]) (simp_all add: no_divisor_numeral)

lemma pw_704251_q1_part_1: "(2::int) ^ 0x119 mod 0xabefb = 0x373f3 mod 0xabefb"
  by (rule pw_dbl1 [where x = "0x6f4f3" and k = "0x901ed"],
      rule pw_dbl [where x = "0x74ab" and k = "0x4f2"],
      rule pw_dbl [where x = "0x8de9" and k = "0x752"],
      rule pw_dbl1 [where x = "0x20000" and k = "0xbe95"],
      rule pw_dbl1 [where x = "0x100" and k = "0"],
      rule pw_dbl [where x = "0x10" and k = "0"],
      rule pw_dbl [where x = "4" and k = "0"],
      rule pw_dbl [where x = "2" and k = "0"],
      rule pw_one)
     (simp_all only: arith_simps rel_simps)

lemma pw_704251_q1_part_2: "(2::int) ^ 0x8ca mod 0xabefb = 0x244d1 mod 0xabefb"
  by (rule pw_dbl [where x = "0xa2a27" and k = "0x99d60"],
      rule pw_dbl1 [where x = "0x1ccd1" and k = "0x9a61"],
      rule pw_dbl [where x = "0x373f3" and k = "0x11c08"],
      rule pw_704251_q1_part_1)
     (simp_all only: arith_simps rel_simps)

lemma pw_704251_q1_full_1: "(2::int) ^ 0x157 mod 0xabefb = 0x3c62c mod 0xabefb"
  by (rule pw_dbl1 [where x = "0x95a44" and k = "0x10479c"],
      rule pw_dbl1 [where x = "0x74821" and k = "0x9de5a"],
      rule pw_dbl1 [where x = "0x67a9e" and k = "0x7d005"],
      rule pw_dbl [where x = "0xa820a" and k = "0xa4672"],
      rule pw_dbl1 [where x = "0x400" and k = "2"],
      rule pw_dbl [where x = "0x20" and k = "0"],
      rule pw_dbl1 [where x = "4" and k = "0"],
      rule pw_dbl [where x = "2" and k = "0"],
      rule pw_one)
     (simp_all only: arith_simps rel_simps)

lemma pw_704251_q1_full_2: "(2::int) ^ 0x157df mod 0xabefb = 0x7211c mod 0xabefb"
  by (rule pw_dbl1 [where x = "0x841f8" and k = "0xcb0ec"],
      rule pw_dbl1 [where x = "0x69f4a" and k = "0x82970"],
      rule pw_dbl1 [where x = "0x716e" and k = "0x95a"],
      rule pw_dbl1 [where x = "0x82508" and k = "0xc5896"],
      rule pw_dbl1 [where x = "0x75b2d" and k = "0xa123e"],
      rule pw_dbl [where x = "0x59566" and k = "0x2e6b5"],
      rule pw_dbl1 [where x = "0x61868" and k = "0x6ea2e"],
      rule pw_dbl1 [where x = "0x3c62c" and k = "0x2a6a8"],
      rule pw_704251_q1_full_1)
     (simp_all only: arith_simps rel_simps)

lemma pw_704251_q1_full_3: "(2::int) ^ 0xabefa mod 0xabefb = 1 mod 0xabefb"
  by (rule pw_dbl [where x = "0xabefa" and k = "0xabef9"],
      rule pw_dbl1 [where x = "0x5fa4d" and k = "0x6a688"],
      rule pw_dbl [where x = "0x7211c" and k = "0x4bad9"],
      rule pw_704251_q1_full_2)
     (simp_all only: arith_simps rel_simps)

lemma pw_704251_q2_part_1: "(2::int) ^ 0x113 mod 0xabefb = 0x3ea72 mod 0xabefb"
  by (rule pw_dbl1 [where x = "0xa45ba" and k = "0x13a3a2"],
      rule pw_dbl1 [where x = "0x82c67" and k = "0xc6ef8"],
      rule pw_dbl [where x = "0x5a672" and k = "0x2f887"],
      rule pw_dbl [where x = "0x20000" and k = "0x5f4a"],
      rule pw_dbl1 [where x = "0x100" and k = "0"],
      rule pw_dbl [where x = "0x10" and k = "0"],
      rule pw_dbl [where x = "4" and k = "0"],
      rule pw_dbl [where x = "2" and k = "0"],
      rule pw_one)
     (simp_all only: arith_simps rel_simps)

lemma pw_704251_q2_part_2: "(2::int) ^ 0x11319 mod 0xabefb = 0x25c86 mod 0xabefb"
  by (rule pw_dbl1 [where x = "0x93e2" and k = "0xfe6"],
      rule pw_dbl [where x = "0x9ae58" and k = "0x8b8ba"],
      rule pw_dbl [where x = "0xa2705" and k = "0x99773"],
      rule pw_dbl1 [where x = "0x2e09b" and k = "0x18a77"],
      rule pw_dbl1 [where x = "0x1d68a" and k = "0xa0f7"],
      rule pw_dbl [where x = "0x8ca6a" and k = "0x730ee"],
      rule pw_dbl [where x = "0x44631" and k = "0x1b335"],
      rule pw_dbl [where x = "0x3ea72" and k = "0x16d49"],
      rule pw_704251_q2_part_1)
     (simp_all only: arith_simps rel_simps)

lemma pw_704251_q2_part_3: "(2::int) ^ 0x22632 mod 0xabefb = 0x8c557 mod 0xabefb"
  by (rule pw_dbl [where x = "0x25c86" and k = "0x84d7"],
      rule pw_704251_q2_part_2)
     (simp_all only: arith_simps rel_simps)

lemma pw_704251_q2_full_1: "(2::int) ^ 0x157 mod 0xabefb = 0x3c62c mod 0xabefb"
  by (rule pw_dbl1 [where x = "0x95a44" and k = "0x10479c"],
      rule pw_dbl1 [where x = "0x74821" and k = "0x9de5a"],
      rule pw_dbl1 [where x = "0x67a9e" and k = "0x7d005"],
      rule pw_dbl [where x = "0xa820a" and k = "0xa4672"],
      rule pw_dbl1 [where x = "0x400" and k = "2"],
      rule pw_dbl [where x = "0x20" and k = "0"],
      rule pw_dbl1 [where x = "4" and k = "0"],
      rule pw_dbl [where x = "2" and k = "0"],
      rule pw_one)
     (simp_all only: arith_simps rel_simps)

lemma pw_704251_q2_full_2: "(2::int) ^ 0x157df mod 0xabefb = 0x7211c mod 0xabefb"
  by (rule pw_dbl1 [where x = "0x841f8" and k = "0xcb0ec"],
      rule pw_dbl1 [where x = "0x69f4a" and k = "0x82970"],
      rule pw_dbl1 [where x = "0x716e" and k = "0x95a"],
      rule pw_dbl1 [where x = "0x82508" and k = "0xc5896"],
      rule pw_dbl1 [where x = "0x75b2d" and k = "0xa123e"],
      rule pw_dbl [where x = "0x59566" and k = "0x2e6b5"],
      rule pw_dbl1 [where x = "0x61868" and k = "0x6ea2e"],
      rule pw_dbl1 [where x = "0x3c62c" and k = "0x2a6a8"],
      rule pw_704251_q2_full_1)
     (simp_all only: arith_simps rel_simps)

lemma pw_704251_q2_full_3: "(2::int) ^ 0xabefa mod 0xabefb = 1 mod 0xabefb"
  by (rule pw_dbl [where x = "0xabefa" and k = "0xabef9"],
      rule pw_dbl1 [where x = "0x5fa4d" and k = "0x6a688"],
      rule pw_dbl [where x = "0x7211c" and k = "0x4bad9"],
      rule pw_704251_q2_full_2)
     (simp_all only: arith_simps rel_simps)

lemma prime_704251: "is_prime 0xabefb"
proof -
  have "is_prime (nat 0xabefb)"
  proof (rule pocklington2 [where ?a1.0 = "2" and ?m1.0 = "0xabefa" and ?e1.0 = "0x8ca" and ?q1.0 = "0x139"
      and ?w1.0 = "0x244d1" and ?u1.0 = "0x7d07f" and ?v1.0 = "0x1a65d"
      and ?a2.0 = "2" and ?m2.0 = "0xabefa" and ?e2.0 = "0x22632" and ?q2.0 = "5"
      and ?w2.0 = "0x8c557" and ?u2.0 = "0x4ad94" and ?v2.0 = "0x3d175"])
    show "is_prime 0x139" by (rule prime_313)
    show "is_prime 5" by (rule prime_5)
    show "(2::int) ^ 0xabefa mod 0xabefb = 1 mod 0xabefb" by (rule pw_704251_q1_full_3)
    show "(2::int) ^ 0x8ca mod 0xabefb = 0x244d1 mod 0xabefb" by (rule pw_704251_q1_part_2)
    show "(2::int) ^ 0xabefa mod 0xabefb = 1 mod 0xabefb" by (rule pw_704251_q2_full_3)
    show "(2::int) ^ 0x22632 mod 0xabefb = 0x8c557 mod 0xabefb" by (rule pw_704251_q2_part_3)
  qed simp_all
  then show ?thesis by (simp only: nat_numeral)
qed

lemma prime_4349: "is_prime 0x10fd"
  by (rule trial_division [where k = "0x41"]) (simp_all add: no_divisor_numeral)

lemma pw_78283_q1_part_1: "(2::int) ^ 0x12 mod 0x131cb = 0x6a9f mod 0x131cb"
  by (rule pw_dbl [where x = "0x200" and k = "3"],
      rule pw_dbl1 [where x = "0x10" and k = "0"],
      rule pw_dbl [where x = "4" and k = "0"],
      rule pw_dbl [where x = "2" and k = "0"],
      rule pw_one)
     (simp_all only: arith_simps rel_simps)

lemma pw_78283_q1_full_1: "(2::int) ^ 0x131 mod 0x131cb = 0x33c3 mod 0x131cb"
  by (rule pw_dbl1 [where x = "0x7472" and k = "0x58af"],
      rule pw_dbl [where x = "0x195c" and k = "0x21a"],
      rule pw_dbl [where x = "0x10e13" and k = "0xee87"],
      rule pw_dbl [where x = "0xd53e" and k = "0x94b3"],
      rule pw_dbl1 [where x = "0x200" and k = "6"],
      rule pw_dbl1 [where x = "0x10" and k = "0"],
      rule pw_dbl [where x = "4" and k = "0"],
      rule pw_dbl [where x = "2" and k = "0"],
      rule pw_one)
     (simp_all only: arith_simps rel_simps)

lemma pw_78283_q1_full_2: "(2::int) ^ 0x131ca mod 0x131cb = 1 mod 0x131cb"
  by (rule pw_dbl [where x = "0x131ca" and k = "0x131c9"],
      rule pw_dbl1 [where x = "0x1231c" and k = "0x22a42"],
      rule pw_dbl [where x = "0x4a83" and k = "0x1227"],
      rule pw_dbl1 [where x = "0x1ed4" and k = "0x637"],
      rule pw_dbl [where x = "0x515f" and k = "0x15a7"],
      rule pw_dbl [where x = "0x9909" and k = "0x4c96"],
      rule pw_dbl1 [where x = "0x1d0" and k = "5"],
      rule pw_dbl1 [where x = "0x33c3" and k = "0x1186"],
      rule pw_78283_q1_full_1)
     (simp_all only: arith_simps rel_simps)

lemma prime_78283: "is_prime 0x131cb"
proof -
  have "is_prime (nat 0x131cb)"
  proof (rule pocklington [where a = "2" and m = "0x131ca" and e = "0x12" and q = "0x10fd"
      and w = "0x6a9f"
      and u = "0xb0fc"
      and v = "0x3db5"])
    show "is_prime 0x10fd" by (rule prime_4349)
    show "(2::int) ^ 0x131ca mod 0x131cb = 1 mod 0x131cb"
      by (rule pw_78283_q1_full_2)
    show "(2::int) ^ 0x12 mod 0x131cb = 0x6a9f mod 0x131cb"
      by (rule pw_78283_q1_part_1)
  qed simp_all
  then show ?thesis by (simp only: nat_numeral)
qed

lemma pw_b56_q1_part_1: "(2::int) ^ 0x1e7 mod 0xa3b2bf8c32ceaf = 0x8fbd0b71e29705 mod 0xa3b2bf8c32ceaf"
  by (rule pw_dbl1 [where x = "0x1d9bcf495ccdba" and k = "0xab5f839175dad"],
      rule pw_dbl1 [where x = "0x1ded29876914ae" and k = "0xaf124b8f11192"],
      rule pw_dbl1 [where x = "0x38b4b4f09d0e9" and k = "0x274951c4e0cc"],
      rule pw_dbl [where x = "0x40000000" and k = "0x19"],
      rule pw_dbl [where x = "0x8000" and k = "0"],
      rule pw_dbl1 [where x = "0x80" and k = "0"],
      rule pw_dbl1 [where x = "8" and k = "0"],
      rule pw_dbl1 [where x = "2" and k = "0"],
      rule pw_one)
     (simp_all only: arith_simps rel_simps)

lemma pw_b56_q1_part_2: "(2::int) ^ 0x1e777 mod 0xa3b2bf8c32ceaf = 0x1747d27b43aaf8 mod 0xa3b2bf8c32ceaf"
  by (rule pw_dbl1 [where x = "0x2311d3e3e96b8" and k = "0xf06b3c2dcf8"],
      rule pw_dbl1 [where x = "0x90ec786008c4a6" and k = "0x1009ad8cb8c0c70"],
      rule pw_dbl1 [where x = "0x22951648776556" and k = "0xe9c8ce1947d7e"],
      rule pw_dbl [where x = "0x78172e3a649580" and k = "0x58197bc2634a76"],
      rule pw_dbl1 [where x = "0x5b66d9bd90411c" and k = "0x6611bd4ee95160"],
      rule pw_dbl1 [where x = "0x9e451b7fc439a7" and k = "0x1320b185544d91a"],
      rule pw_dbl1 [where x = "0x72322ffc07358c" and k = "0x9f53980cc78e57"],
      rule pw_dbl [where x = "0x8fbd0b71e29705" and k = "0x7e365e76fe2383"],
      rule pw_b56_q1_part_1)
     (simp_all only: arith_simps rel_simps)

lemma pw_b56_q1_part_3: "(2::int) ^ 0x1e777e6 mod 0xa3b2bf8c32ceaf = 0x5860ecff7a0a77 mod 0xa3b2bf8c32ceaf"
  by (rule pw_dbl [where x = "0x444d58303ab4f3" and k = "0x1c7fa841e1cb6e"],
      rule pw_dbl1 [where x = "0x9cc19180e840b" and k = "0x12c37829b7bb1"],
      rule pw_dbl1 [where x = "0x72f56e1a3312f3" and k = "0xa1763812b3bce9"],
      rule pw_dbl [where x = "0x9cc8e2759a8f3" and k = "0x9629c4af952a"],
      rule pw_dbl [where x = "0x14230e68f556f3" and k = "0x27a22fc21372a"],
      rule pw_dbl1 [where x = "0x907fb0f9489912" and k = "0xff1a33039d52fb"],
      rule pw_dbl1 [where x = "0x4dd576ba0c2a85" and k = "0x4a03facb6ba0e0"],
      rule pw_dbl1 [where x = "0x1747d27b43aaf8" and k = "0x69f2ae6c80075"],
      rule pw_b56_q1_part_2)
     (simp_all only: arith_simps rel_simps)

lemma pw_b56_q1_part_4: "(2::int) ^ 0x1e777e695 mod 0xa3b2bf8c32ceaf = 0x3edc5b9676efa4 mod 0xa3b2bf8c32ceaf"
  by (rule pw_dbl1 [where x = "0x96560f11789226" and k = "0x114212cc2e9f79c"],
      rule pw_dbl [where x = "0x6edd3b0344efef" and k = "0x4b151c5518b775"],
      rule pw_dbl1 [where x = "0xe8c8c612856ce" and k = "0x2960dc44e7c37"],
      rule pw_dbl [where x = "0x2d2ddcd1e08232" and k = "0xc7811545721ea"],
      rule pw_dbl1 [where x = "0x12cb568d6a5d58" and k = "0x450c8f8668e12"],
      rule pw_dbl [where x = "0x3b704004d08ef4" and k = "0x1594fcd6690648"],
      rule pw_dbl [where x = "0x456a91d495e497" and k = "0x1d6f9d97e50ef3"],
      rule pw_dbl1 [where x = "0x5860ecff7a0a77" and k = "0x5f6dd33de59965"],
      rule pw_b56_q1_part_3)
     (simp_all only: arith_simps rel_simps)

lemma pw_b56_q1_part_5: "(2::int) ^ 0xf3bbf34aa mod 0xa3b2bf8c32ceaf = 0x3505c3c9f91b61 mod 0xa3b2bf8c32ceaf"
  by (rule pw_dbl [where x = "0x69b606158b94e" and k = "0x4443c7c9be8d"],
      rule pw_dbl1 [where x = "0x814357053addc9" and k = "0xcc24a4490a03ec"],
      rule pw_dbl [where x = "0x3edc5b9676efa4" and k = "0x1823877ff93ae9"],
      rule pw_b56_q1_part_4)
     (simp_all only: arith_simps rel_simps)

lemma pw_b56_q1_full_1: "(2::int) ^ 0x147 mod 0xa3b2bf8c32ceaf = 0x493662593610e6 mod 0xa3b2bf8c32ceaf"
  by (rule pw_dbl1 [where x = "0x4646e5f680d5b9" and k = "0x3c57450be8b844"],
      rule pw_dbl1 [where x = "0xa2e734262988cb" and k = "0x144394bae4b0d97"],
      rule pw_dbl1 [where x = "0x10000000000" and k = "0x320b15b"],
      rule pw_dbl [where x = "0x100000" and k = "0"],
      rule pw_dbl [where x = "0x400" and k = "0"],
      rule pw_dbl [where x = "0x20" and k = "0"],
      rule pw_dbl1 [where x = "4" and k = "0"],
      rule pw_dbl [where x = "2" and k = "0"],
      rule pw_one)
     (simp_all only: arith_simps rel_simps)

lemma pw_b56_q1_full_2: "(2::int) ^ 0x14765 mod 0xa3b2bf8c32ceaf = 0x58cc19cad1c716 mod 0xa3b2bf8c32ceaf"
  by (rule pw_dbl1 [where x = "0x24f166fc767e1b" and k = "0x10aca46a9c8a24"],
      rule pw_dbl [where x = "0x8cce63b154f221" and k = "0x791d8f5279f1ba"],
      rule pw_dbl1 [where x = "0x953f1d43923333" and k = "0x110242fd87cf11f"],
      rule pw_dbl [where x = "0x9ddae0bc24ea59" and k = "0x98386725e4bba2"],
      rule pw_dbl [where x = "0x3bb980b6b2d3bf" and k = "0x15ca4fbe4f2e58"],
      rule pw_dbl1 [where x = "0x9d6a7022ab894e" and k = "0x12ebfb440636307"],
      rule pw_dbl1 [where x = "0x767487a69ce435" and k = "0xab6ed3cef5b69c"],
      rule pw_dbl [where x = "0x493662593610e6" and k = "0x20be59318cd041"],
      rule pw_b56_q1_full_1)
     (simp_all only: arith_simps rel_simps)

lemma pw_b56_q1_full_3: "(2::int) ^ 0x147657f mod 0xa3b2bf8c32ceaf = 0x80799d6d545071 mod 0xa3b2bf8c32ceaf"
  by (rule pw_dbl1 [where x = "0x235a77877c6408" and k = "0xf4533758c0ca1"],
      rule pw_dbl1 [where x = "0x9fe9b3261e2016" and k = "0x1386e1e7fe14c40"],
      rule pw_dbl1 [where x = "0x55575d3bd2ceb4" and k = "0x58fb7f3985a616"],
      rule pw_dbl1 [where x = "0xba543bfa41a2f" and k = "0x1a82d4e4de1d2"],
      rule pw_dbl1 [where x = "0x8d15e8e0a81bce" and k = "0xf331703ea9da77"],
      rule pw_dbl1 [where x = "0x825c65f7d648ac" and k = "0xcfa027709a4e4e"],
      rule pw_dbl1 [where x = "0x70d000fb005233" and k = "0x9b7d43fc28b03a"],
      rule pw_dbl [where x = "0x58cc19cad1c716" and k = "0x302ae959610b9f"],
      rule pw_b56_q1_full_2)
     (simp_all only: arith_simps rel_simps)

lemma pw_b56_q1_full_4: "(2::int) ^ 0x147657f18 mod 0xa3b2bf8c32ceaf = 0x7ae8c9a372af01 mod 0xa3b2bf8c32ceaf"
  by (rule pw_dbl [where x = "0xf179be073b625" and k = "0x16434f8a88928"],
      rule pw_dbl [where x = "0xaac3be12239b6" and k = "0xb222d3672471"],
      rule pw_dbl [where x = "0x58311a8325cd3d" and k = "0x2f835476b7f31d"],
      rule pw_dbl1 [where x = "0x68b1e708e33d75" and k = "0x85eae0dd984edb"],
      rule pw_dbl1 [where x = "0x63233147a048b3" and k = "0x7813d794331033"],
      rule pw_dbl [where x = "0x272f8b769cbf50" and k = "0x961543a9f8fc3"],
      rule pw_dbl [where x = "0x72f0623c12d2c0" and k = "0x50b405bcffe650"],
      rule pw_dbl [where x = "0x80799d6d545071" and k = "0x64d4b5f524032f"],
      rule pw_b56_q1_full_3)
     (simp_all only: arith_simps rel_simps)

lemma pw_b56_q1_full_5: "(2::int) ^ 0x147657f1865 mod 0xa3b2bf8c32ceaf = 0x942297f4de4d6e mod 0xa3b2bf8c32ceaf"
  by (rule pw_dbl1 [where x = "0x63d468771b8d3d" and k = "0x79c2a2c39c0f9c"],
      rule pw_dbl [where x = "0x2536c991fd6a1b" and k = "0x875c0d79c8f24"],
      rule pw_dbl1 [where x = "0x17c17e09c4f0e0" and k = "0x6e51686a0a1ab"],
      rule pw_dbl [where x = "0x155a9dc734208f" and k = "0x2c91ac599d94f"],
      rule pw_dbl [where x = "0x969b97e3a84a81" and k = "0x8a906b881bbf2e"],
      rule pw_dbl1 [where x = "0x8083a64cb89c7a" and k = "0xc9c8eda4f27c69"],
      rule pw_dbl1 [where x = "0x90dbff816f2d07" and k = "0x10060872907e898"],
      rule pw_dbl [where x = "0x7ae8c9a372af01" and k = "0x5c48aa14346d26"],
      rule pw_b56_q1_full_4)
     (simp_all only: arith_simps rel_simps)

lemma pw_b56_q1_full_6: "(2::int) ^ 0x147657f18659d mod 0xa3b2bf8c32ceaf = 0xf1bfd534c0966 mod 0xa3b2bf8c32ceaf"
  by (rule pw_dbl1 [where x = "0x9cc13771625e6" and k = "0x12c3629a4babe"],
      rule pw_dbl [where x = "0x9cf035a8f01d1d" and k = "0x96752230aa378d"],
      rule pw_dbl1 [where x = "0x3c3259ddb13341" and k = "0x2c45af14ea8fab"],
      rule pw_dbl1 [where x = "0x83f0453f7e96b4" and k = "0xd4ae6e77ef23d1"],
      rule pw_dbl1 [where x = "0x595f9f275e4638" and k = "0x6196f3170b2df4"],
      rule pw_dbl [where x = "0x8f8f98f79b6a6a" and k = "0x7de69b5178f814"],
      rule pw_dbl [where x = "0x9e52ba2aba7f08" and k = "0x991fe365ba7d0a"],
      rule pw_dbl1 [where x = "0x942297f4de4d6e" and k = "0x10c1a70b4412080"],
      rule pw_b56_q1_full_5)
     (simp_all only: arith_simps rel_simps)

lemma pw_b56_q1_full_7: "(2::int) ^ 0xa3b2bf8c32ceae mod 0xa3b2bf8c32ceaf = 1 mod 0xa3b2bf8c32ceaf"
  by (rule pw_dbl [where x = "1" and k = "0"],
      rule pw_dbl1 [where x = "0x83f2e92a1ca69" and k = "0xd4b6f1abf42f"],
      rule pw_dbl1 [where x = "0x971dac5a2f0dee" and k = "0x117005be695f991"],
      rule pw_dbl1 [where x = "0x7f196c3be3b9b4" and k = "0xc55db30afb906e"],
      rule pw_dbl [where x = "0x37af351aff1004" and k = "0x12f11f42571664"],
      rule pw_dbl1 [where x = "0x75153a03dfa87f" and k = "0xa77be0ca3f0162"],
      rule pw_dbl [where x = "0xf1bfd534c0966" and k = "0x16503df92876b"],
      rule pw_b56_q1_full_6)
     (simp_all only: arith_simps rel_simps)

lemma pw_b56_q2_part_1: "(2::int) ^ 0x112 mod 0xa3b2bf8c32ceaf = 0x8c43b7cd538148 mod 0xa3b2bf8c32ceaf"
  by (rule pw_dbl [where x = "0x98ab943b0dda8c" and k = "0x8e6299cc2f8b38"],
      rule pw_dbl1 [where x = "0x58cd914cd2df95" and k = "0x6059017e6658fa"],
      rule pw_dbl [where x = "0x400000000" and k = "0x1905"],
      rule pw_dbl [where x = "0x20000" and k = "0"],
      rule pw_dbl1 [where x = "0x100" and k = "0"],
      rule pw_dbl [where x = "0x10" and k = "0"],
      rule pw_dbl [where x = "4" and k = "0"],
      rule pw_dbl [where x = "2" and k = "0"],
      rule pw_one)
     (simp_all only: arith_simps rel_simps)

lemma pw_b56_q2_part_2: "(2::int) ^ 0x11215 mod 0xa3b2bf8c32ceaf = 0x1cf5a4a21f2912 mod 0xa3b2bf8c32ceaf"
  by (rule pw_dbl1 [where x = "0x1f5b3d969594c0" and k = "0xc033cabe42372"],
      rule pw_dbl [where x = "0x2f38304d3ebbd2" and k = "0xd9ee45ab155bc"],
      rule pw_dbl1 [where x = "0x12b330c4578586" and k = "0x445b9282f8c6a"],
      rule pw_dbl [where x = "0x7c4adc5343a963" and k = "0x5e5f5a2df09e2d"],
      rule pw_dbl1 [where x = "0x4d7b014c6eeb28" and k = "0x495853fb46ddf3"],
      rule pw_dbl [where x = "0x180ce75d325ad5" and k = "0x388912abf633f"],
      rule pw_dbl [where x = "0x99c8ee7a7af0e4" and k = "0x9078cd3a06ba35"],
      rule pw_dbl [where x = "0x8c43b7cd538148" and k = "0x782f75d2af3964"],
      rule pw_b56_q2_part_1)
     (simp_all only: arith_simps rel_simps)

lemma pw_b56_q2_part_3: "(2::int) ^ 0x11215f3 mod 0xa3b2bf8c32ceaf = 0x67adabca41fbca mod 0xa3b2bf8c32ceaf"
  by (rule pw_dbl1 [where x = "0x3ba1cc67eb02c7" and k = "0x2b720e5d4ccde8"],
      rule pw_dbl1 [where x = "0x80773f5bc927c3" and k = "0xc9a1fd580d5525"],
      rule pw_dbl [where x = "0x62b29fa2345bda" and k = "0x3b81e0a007106f"],
      rule pw_dbl [where x = "0x7d7957e4dc8eb2" and k = "0x602cdf5089b136"],
      rule pw_dbl1 [where x = "0x8257e0240f3d5e" and k = "0xcf91bf8d235c8a"],
      rule pw_dbl1 [where x = "0x79ab62ca4168ea" and k = "0xb4dce12163a2b6"],
      rule pw_dbl1 [where x = "0x289f712618e51" and k = "0x1429621af928"],
      rule pw_dbl1 [where x = "0x1cf5a4a21f2912" and k = "0xa3f1126534cf9"],
      rule pw_b56_q2_part_2)
     (simp_all only: arith_simps rel_simps)

lemma pw_b56_q2_part_4: "(2::int) ^ 0x11215f3fc mod 0xa3b2bf8c32ceaf = 0x54478be1db807f mod 0xa3b2bf8c32ceaf"
  by (rule pw_dbl [where x = "0x5122b6cd6da02d" and k = "0x2836d2bbdb59b6"],
      rule pw_dbl [where x = "0x855ad8c11f06df" and k = "0x6ca2d0d4fcf02c"],
      rule pw_dbl1 [where x = "0x2f4f27bc13c206" and k = "0x1b584ef2964f67"],
      rule pw_dbl1 [where x = "0x6d183b4fc3c6c6" and k = "0x9168d894cea45e"],
      rule pw_dbl1 [where x = "0x3dda4045be1725" and k = "0x2ebdc830e7c9d4"],
      rule pw_dbl1 [where x = "0x8d93b9e04fab4f" and k = "0xf4e3f0ba4a3b73"],
      rule pw_dbl1 [where x = "0x57305d7530fc84" and k = "0x5ce089bd422c7f"],
      rule pw_dbl1 [where x = "0x67adabca41fbca" and k = "0x8354601622dafc"],
      rule pw_b56_q2_part_3)
     (simp_all only: arith_simps rel_simps)

lemma pw_b56_q2_part_5: "(2::int) ^ 0x890af9fe4a mod 0xa3b2bf8c32ceaf = 0x5e0ec2c5d65225 mod 0xa3b2bf8c32ceaf"
  by (rule pw_dbl [where x = "0x2a46f7e6194cc0" and k = "0xaeb2c7d11ae95"],
      rule pw_dbl1 [where x = "0x2bf81b693d1d14" and k = "0x179ec19b6737a0"],
      rule pw_dbl [where x = "0x5ff7772f152f64" and k = "0x3842765d5ebcc4"],
      rule pw_dbl1 [where x = "0x65714a856dca8b" and k = "0x7db9f11ad5acd2"],
      rule pw_dbl [where x = "0x53341e8f99ff03" and k = "0x2a4a4d262d17e2"],
      rule pw_dbl [where x = "0x46b97f7a06bb36" and k = "0x1e8e58675f75ef"],
      rule pw_dbl1 [where x = "0x54478be1db807f" and k = "0x56c831679e7cf4"],
      rule pw_b56_q2_part_4)
     (simp_all only: arith_simps rel_simps)

lemma pw_b56_q2_full_1: "(2::int) ^ 0x147 mod 0xa3b2bf8c32ceaf = 0x493662593610e6 mod 0xa3b2bf8c32ceaf"
  by (rule pw_dbl1 [where x = "0x4646e5f680d5b9" and k = "0x3c57450be8b844"],
      rule pw_dbl1 [where x = "0xa2e734262988cb" and k = "0x144394bae4b0d97"],
      rule pw_dbl1 [where x = "0x10000000000" and k = "0x320b15b"],
      rule pw_dbl [where x = "0x100000" and k = "0"],
      rule pw_dbl [where x = "0x400" and k = "0"],
      rule pw_dbl [where x = "0x20" and k = "0"],
      rule pw_dbl1 [where x = "4" and k = "0"],
      rule pw_dbl [where x = "2" and k = "0"],
      rule pw_one)
     (simp_all only: arith_simps rel_simps)

lemma pw_b56_q2_full_2: "(2::int) ^ 0x14765 mod 0xa3b2bf8c32ceaf = 0x58cc19cad1c716 mod 0xa3b2bf8c32ceaf"
  by (rule pw_dbl1 [where x = "0x24f166fc767e1b" and k = "0x10aca46a9c8a24"],
      rule pw_dbl [where x = "0x8cce63b154f221" and k = "0x791d8f5279f1ba"],
      rule pw_dbl1 [where x = "0x953f1d43923333" and k = "0x110242fd87cf11f"],
      rule pw_dbl [where x = "0x9ddae0bc24ea59" and k = "0x98386725e4bba2"],
      rule pw_dbl [where x = "0x3bb980b6b2d3bf" and k = "0x15ca4fbe4f2e58"],
      rule pw_dbl1 [where x = "0x9d6a7022ab894e" and k = "0x12ebfb440636307"],
      rule pw_dbl1 [where x = "0x767487a69ce435" and k = "0xab6ed3cef5b69c"],
      rule pw_dbl [where x = "0x493662593610e6" and k = "0x20be59318cd041"],
      rule pw_b56_q2_full_1)
     (simp_all only: arith_simps rel_simps)

lemma pw_b56_q2_full_3: "(2::int) ^ 0x147657f mod 0xa3b2bf8c32ceaf = 0x80799d6d545071 mod 0xa3b2bf8c32ceaf"
  by (rule pw_dbl1 [where x = "0x235a77877c6408" and k = "0xf4533758c0ca1"],
      rule pw_dbl1 [where x = "0x9fe9b3261e2016" and k = "0x1386e1e7fe14c40"],
      rule pw_dbl1 [where x = "0x55575d3bd2ceb4" and k = "0x58fb7f3985a616"],
      rule pw_dbl1 [where x = "0xba543bfa41a2f" and k = "0x1a82d4e4de1d2"],
      rule pw_dbl1 [where x = "0x8d15e8e0a81bce" and k = "0xf331703ea9da77"],
      rule pw_dbl1 [where x = "0x825c65f7d648ac" and k = "0xcfa027709a4e4e"],
      rule pw_dbl1 [where x = "0x70d000fb005233" and k = "0x9b7d43fc28b03a"],
      rule pw_dbl [where x = "0x58cc19cad1c716" and k = "0x302ae959610b9f"],
      rule pw_b56_q2_full_2)
     (simp_all only: arith_simps rel_simps)

lemma pw_b56_q2_full_4: "(2::int) ^ 0x147657f18 mod 0xa3b2bf8c32ceaf = 0x7ae8c9a372af01 mod 0xa3b2bf8c32ceaf"
  by (rule pw_dbl [where x = "0xf179be073b625" and k = "0x16434f8a88928"],
      rule pw_dbl [where x = "0xaac3be12239b6" and k = "0xb222d3672471"],
      rule pw_dbl [where x = "0x58311a8325cd3d" and k = "0x2f835476b7f31d"],
      rule pw_dbl1 [where x = "0x68b1e708e33d75" and k = "0x85eae0dd984edb"],
      rule pw_dbl1 [where x = "0x63233147a048b3" and k = "0x7813d794331033"],
      rule pw_dbl [where x = "0x272f8b769cbf50" and k = "0x961543a9f8fc3"],
      rule pw_dbl [where x = "0x72f0623c12d2c0" and k = "0x50b405bcffe650"],
      rule pw_dbl [where x = "0x80799d6d545071" and k = "0x64d4b5f524032f"],
      rule pw_b56_q2_full_3)
     (simp_all only: arith_simps rel_simps)

lemma pw_b56_q2_full_5: "(2::int) ^ 0x147657f1865 mod 0xa3b2bf8c32ceaf = 0x942297f4de4d6e mod 0xa3b2bf8c32ceaf"
  by (rule pw_dbl1 [where x = "0x63d468771b8d3d" and k = "0x79c2a2c39c0f9c"],
      rule pw_dbl [where x = "0x2536c991fd6a1b" and k = "0x875c0d79c8f24"],
      rule pw_dbl1 [where x = "0x17c17e09c4f0e0" and k = "0x6e51686a0a1ab"],
      rule pw_dbl [where x = "0x155a9dc734208f" and k = "0x2c91ac599d94f"],
      rule pw_dbl [where x = "0x969b97e3a84a81" and k = "0x8a906b881bbf2e"],
      rule pw_dbl1 [where x = "0x8083a64cb89c7a" and k = "0xc9c8eda4f27c69"],
      rule pw_dbl1 [where x = "0x90dbff816f2d07" and k = "0x10060872907e898"],
      rule pw_dbl [where x = "0x7ae8c9a372af01" and k = "0x5c48aa14346d26"],
      rule pw_b56_q2_full_4)
     (simp_all only: arith_simps rel_simps)

lemma pw_b56_q2_full_6: "(2::int) ^ 0x147657f18659d mod 0xa3b2bf8c32ceaf = 0xf1bfd534c0966 mod 0xa3b2bf8c32ceaf"
  by (rule pw_dbl1 [where x = "0x9cc13771625e6" and k = "0x12c3629a4babe"],
      rule pw_dbl [where x = "0x9cf035a8f01d1d" and k = "0x96752230aa378d"],
      rule pw_dbl1 [where x = "0x3c3259ddb13341" and k = "0x2c45af14ea8fab"],
      rule pw_dbl1 [where x = "0x83f0453f7e96b4" and k = "0xd4ae6e77ef23d1"],
      rule pw_dbl1 [where x = "0x595f9f275e4638" and k = "0x6196f3170b2df4"],
      rule pw_dbl [where x = "0x8f8f98f79b6a6a" and k = "0x7de69b5178f814"],
      rule pw_dbl [where x = "0x9e52ba2aba7f08" and k = "0x991fe365ba7d0a"],
      rule pw_dbl1 [where x = "0x942297f4de4d6e" and k = "0x10c1a70b4412080"],
      rule pw_b56_q2_full_5)
     (simp_all only: arith_simps rel_simps)

lemma pw_b56_q2_full_7: "(2::int) ^ 0xa3b2bf8c32ceae mod 0xa3b2bf8c32ceaf = 1 mod 0xa3b2bf8c32ceaf"
  by (rule pw_dbl [where x = "1" and k = "0"],
      rule pw_dbl1 [where x = "0x83f2e92a1ca69" and k = "0xd4b6f1abf42f"],
      rule pw_dbl1 [where x = "0x971dac5a2f0dee" and k = "0x117005be695f991"],
      rule pw_dbl1 [where x = "0x7f196c3be3b9b4" and k = "0xc55db30afb906e"],
      rule pw_dbl [where x = "0x37af351aff1004" and k = "0x12f11f42571664"],
      rule pw_dbl1 [where x = "0x75153a03dfa87f" and k = "0xa77be0ca3f0162"],
      rule pw_dbl [where x = "0xf1bfd534c0966" and k = "0x16503df92876b"],
      rule pw_b56_q2_full_6)
     (simp_all only: arith_simps rel_simps)

lemma prime_b56: "is_prime 0xa3b2bf8c32ceaf"
proof -
  have "is_prime (nat 0xa3b2bf8c32ceaf)"
  proof (rule pocklington2 [where ?a1.0 = "2" and ?m1.0 = "0xa3b2bf8c32ceae" and ?e1.0 = "0xf3bbf34aa" and ?q1.0 = "0xabefb"
      and ?w1.0 = "0x3505c3c9f91b61" and ?u1.0 = "0x3382d1c86f8bb8" and ?v1.0 = "0x10af4396bffab1"
      and ?a2.0 = "2" and ?m2.0 = "0xa3b2bf8c32ceae" and ?e2.0 = "0x890af9fe4a" and ?q2.0 = "0x131cb"
      and ?w2.0 = "0x5e0ec2c5d65225" and ?u2.0 = "0x93a72f8843276b" and ?v2.0 = "0x54d6a3accd9a65"])
    show "is_prime 0xabefb" by (rule prime_704251)
    show "is_prime 0x131cb" by (rule prime_78283)
    show "(2::int) ^ 0xa3b2bf8c32ceae mod 0xa3b2bf8c32ceaf = 1 mod 0xa3b2bf8c32ceaf" by (rule pw_b56_q1_full_7)
    show "(2::int) ^ 0xf3bbf34aa mod 0xa3b2bf8c32ceaf = 0x3505c3c9f91b61 mod 0xa3b2bf8c32ceaf" by (rule pw_b56_q1_part_5)
    show "(2::int) ^ 0xa3b2bf8c32ceae mod 0xa3b2bf8c32ceaf = 1 mod 0xa3b2bf8c32ceaf" by (rule pw_b56_q2_full_7)
    show "(2::int) ^ 0x890af9fe4a mod 0xa3b2bf8c32ceaf = 0x5e0ec2c5d65225 mod 0xa3b2bf8c32ceaf" by (rule pw_b56_q2_part_5)
  qed simp_all
  then show ?thesis by (simp only: nat_numeral)
qed

lemma prime_3677: "is_prime 0xe5d"
  by (rule trial_division [where k = "0x3c"]) (simp_all add: no_divisor_numeral)

lemma prime_197: "is_prime 0xc5"
  by (rule trial_division [where k = "0xe"]) (simp_all add: no_divisor_numeral)

lemma pw_b36_q1_part_1: "(2::int) ^ 0x113 mod 0xf76c8ffcb = 0x4f71c0418 mod 0xf76c8ffcb"
  by (rule pw_dbl1 [where x = "0x8fea0eb8b" and k = "0xa76a6354e"],
      rule pw_dbl1 [where x = "0xbcea34354" and k = "0x1207ba861f"],
      rule pw_dbl [where x = "0x400000000" and k = "0x108df8884"],
      rule pw_dbl [where x = "0x20000" and k = "0"],
      rule pw_dbl1 [where x = "0x100" and k = "0"],
      rule pw_dbl [where x = "0x10" and k = "0"],
      rule pw_dbl [where x = "4" and k = "0"],
      rule pw_dbl [where x = "2" and k = "0"],
      rule pw_one)
     (simp_all only: arith_simps rel_simps)

lemma pw_b36_q1_part_2: "(2::int) ^ 0x1139e mod 0xf76c8ffcb = 0x12389e838 mod 0xf76c8ffcb"
  by (rule pw_dbl [where x = "0x4f20c3623" and k = "0x194e41d93"],
      rule pw_dbl1 [where x = "0x4ea8c58e" and k = "0x320378f"],
      rule pw_dbl1 [where x = "0x724703ddb" and k = "0x698ff1aec"],
      rule pw_dbl1 [where x = "0x3bae51dc8" and k = "0x1cca8a14f"],
      rule pw_dbl1 [where x = "0x3aaab8bc8" and k = "0x1bd232928"],
      rule pw_dbl [where x = "0x1056d430c" and k = "0x11438d58"],
      rule pw_dbl [where x = "0x5b3c5c7d6" and k = "0x21a47c088"],
      rule pw_dbl1 [where x = "0x4f71c0418" and k = "0x330452cbe"],
      rule pw_b36_q1_part_1)
     (simp_all only: arith_simps rel_simps)

lemma pw_b36_q1_part_3: "(2::int) ^ 0x1139e52 mod 0xf76c8ffcb = 0xf6b013cde mod 0xf76c8ffcb"
  by (rule pw_dbl [where x = "0x3ab49e7bb" and k = "0xdedcb3d1"],
      rule pw_dbl1 [where x = "0x898772986" and k = "0x98e3aba07"],
      rule pw_dbl [where x = "0x360c2a197" and k = "0xbce62141"],
      rule pw_dbl [where x = "0xcbdb3bed3" and k = "0xa7f5d72b6"],
      rule pw_dbl1 [where x = "0xd6c85ff29" and k = "0x174e52670d"],
      rule pw_dbl [where x = "0x1321a97b0" and k = "0x17ab34a5"],
      rule pw_dbl1 [where x = "0xc2042773f" and k = "0x13046053b6"],
      rule pw_dbl [where x = "0x12389e838" and k = "0x15784ce3"],
      rule pw_b36_q1_part_2)
     (simp_all only: arith_simps rel_simps)

lemma pw_b36_q1_full_1: "(2::int) ^ 0x1ee mod 0xf76c8ffcb = 0x260ea4af1 mod 0xf76c8ffcb"
  by (rule pw_dbl [where x = "0xd4c6b800" and k = "0xb6faf4d"],
      rule pw_dbl1 [where x = "0xcbecdca34" and k = "0x15025c9360"],
      rule pw_dbl1 [where x = "0x93538e85" and k = "0xaf72c3a"],
      rule pw_dbl1 [where x = "0x40000000" and k = "0x211bf11"],
      rule pw_dbl [where x = "0x8000" and k = "0"],
      rule pw_dbl1 [where x = "0x80" and k = "0"],
      rule pw_dbl1 [where x = "8" and k = "0"],
      rule pw_dbl1 [where x = "2" and k = "0"],
      rule pw_one)
     (simp_all only: arith_simps rel_simps)

lemma pw_b36_q1_full_2: "(2::int) ^ 0x1eed9 mod 0xf76c8ffcb = 0xda3801016 mod 0xf76c8ffcb"
  by (rule pw_dbl1 [where x = "0x7ab3dec79" and k = "0x79b391564"],
      rule pw_dbl [where x = "0x73fad73e3" and k = "0x365d8f270"],
      rule pw_dbl [where x = "0xbd5cef11b" and k = "0x90ed3c422"],
      rule pw_dbl1 [where x = "0x1cec30a47" and k = "0x6c3063f5"],
      rule pw_dbl1 [where x = "0x705bc8880" and k = "0x660c0680b"],
      rule pw_dbl [where x = "0x6117fceb4" and k = "0x2619f1030"],
      rule pw_dbl1 [where x = "0x249d7ddfa" and k = "0xad648a3c"],
      rule pw_dbl1 [where x = "0x260ea4af1" and k = "0xbb51a658"],
      rule pw_b36_q1_full_1)
     (simp_all only: arith_simps rel_simps)

lemma pw_b36_q1_full_3: "(2::int) ^ 0x1eed91f mod 0xf76c8ffcb = 0x14572488b mod 0xf76c8ffcb"
  by (rule pw_dbl1 [where x = "0x2c75261db" and k = "0xff9f8b95"],
      rule pw_dbl1 [where x = "0x9fc4d25e7" and k = "0xce55ac235"],
      rule pw_dbl1 [where x = "0x767df441d" and k = "0x717e036a1"],
      rule pw_dbl1 [where x = "0xd682f3f2c" and k = "0x173f43faa9"],
      rule pw_dbl1 [where x = "0x544a695e5" and k = "0x396e5bed2"],
      rule pw_dbl [where x = "0x4fb29c256" and k = "0x19abe0f1d"],
      rule pw_dbl [where x = "0x274df4151" and k = "0x63e63c81"],
      rule pw_dbl [where x = "0xda3801016" and k = "0xc075f5959"],
      rule pw_b36_q1_full_2)
     (simp_all only: arith_simps rel_simps)

lemma pw_b36_q1_full_4: "(2::int) ^ 0x1eed91ff9 mod 0xf76c8ffcb = 0x28616a0c5 mod 0xf76c8ffcb"
  by (rule pw_dbl1 [where x = "0x146f5351" and k = "0x3601d7"],
      rule pw_dbl [where x = "0x242adce2e" and k = "0x5496c279"],
      rule pw_dbl [where x = "0x41cd14bde" and k = "0x117fdbc42"],
      rule pw_dbl1 [where x = "0x76142d1f5" and k = "0x70b3bccbc"],
      rule pw_dbl1 [where x = "0xb6c5602a9" and k = "0x10e062efe7"],
      rule pw_dbl1 [where x = "0x98410044" and k = "0xbb61785"],
      rule pw_dbl1 [where x = "0x295467347" and k = "0xdceb319a"],
      rule pw_dbl1 [where x = "0x14572488b" and k = "0x35824fa1"],
      rule pw_b36_q1_full_3)
     (simp_all only: arith_simps rel_simps)

lemma pw_b36_q1_full_5: "(2::int) ^ 0xf76c8ffca mod 0xf76c8ffcb = 1 mod 0xf76c8ffcb"
  by (rule pw_dbl [where x = "0xf76c8ffca" and k = "0xf76c8ffc9"],
      rule pw_dbl1 [where x = "0x3284c435c" and k = "0x14a12e042"],
      rule pw_dbl [where x = "0x28616a0c5" and k = "0x6971ab17"],
      rule pw_b36_q1_full_4)
     (simp_all only: arith_simps rel_simps)

lemma pw_b36_q2_part_1: "(2::int) ^ 0x141 mod 0xf76c8ffcb = 0x341e15e20 mod 0xf76c8ffcb"
  by (rule pw_dbl1 [where x = "0x64a45ea54" and k = "0x51dfccb00"],
      rule pw_dbl [where x = "0x64308c763" and k = "0x2891e393f"],
      rule pw_dbl [where x = "0x893700350" and k = "0x4c1881737"],
      rule pw_dbl [where x = "0x100000" and k = "0x10"],
      rule pw_dbl [where x = "0x400" and k = "0"],
      rule pw_dbl [where x = "0x20" and k = "0"],
      rule pw_dbl1 [where x = "4" and k = "0"],
      rule pw_dbl [where x = "2" and k = "0"],
      rule pw_one)
     (simp_all only: arith_simps rel_simps)

lemma pw_b36_q2_part_2: "(2::int) ^ 0x14186 mod 0xf76c8ffcb = 0x638cdc176 mod 0xf76c8ffcb"
  by (rule pw_dbl [where x = "0xc3dd9dcdb" and k = "0x9b0d13349"],
      rule pw_dbl1 [where x = "0x78706102f" and k = "0x7540a5255"],
      rule pw_dbl1 [where x = "0xd9814dfef" and k = "0x17e686fdd9"],
      rule pw_dbl [where x = "0xd90f8c601" and k = "0xbe6c6bdf6"],
      rule pw_dbl [where x = "0xf6d15c476" and k = "0xf63689ec9"],
      rule pw_dbl [where x = "0x49b4baa36" and k = "0x15f4de30a"],
      rule pw_dbl [where x = "0xbc799bbbb" and k = "0x8f9216ec9"],
      rule pw_dbl1 [where x = "0x341e15e20" and k = "0x15f4c422f"],
      rule pw_b36_q2_part_1)
     (simp_all only: arith_simps rel_simps)

lemma pw_b36_q2_part_3: "(2::int) ^ 0x1418694 mod 0xf76c8ffcb = 0x41c42a278 mod 0xf76c8ffcb"
  by (rule pw_dbl [where x = "0x6623dcbc5" and k = "0x2a2a33343"],
      rule pw_dbl [where x = "0xc733ae750" and k = "0xa060c7a51"],
      rule pw_dbl1 [where x = "0xbf571d111" and k = "0x127f027a96"],
      rule pw_dbl [where x = "0x3d2307351" and k = "0xf1b439b0"],
      rule pw_dbl1 [where x = "0x8a0edee97" and k = "0x9a1158853"],
      rule pw_dbl [where x = "0x10e6b191e" and k = "0x1278cb27"],
      rule pw_dbl [where x = "0x23226778a" and k = "0x4fd36312"],
      rule pw_dbl1 [where x = "0x638cdc176" and k = "0x501b7e3fa"],
      rule pw_b36_q2_part_2)
     (simp_all only: arith_simps rel_simps)

lemma pw_b36_q2_part_4: "(2::int) ^ 0x14186942 mod 0xf76c8ffcb = 0x812e0a1b9 mod 0xf76c8ffcb"
  by (rule pw_dbl [where x = "0x8fe71db43" and k = "0x53b1c5b70"],
      rule pw_dbl1 [where x = "0xc3eb865de" and k = "0x13646326af"],
      rule pw_dbl [where x = "0xb7f087b5b" and k = "0x88be79011"],
      rule pw_dbl [where x = "0x41c42a278" and k = "0x117b1e00f"],
      rule pw_b36_q2_part_3)
     (simp_all only: arith_simps rel_simps)

lemma pw_b36_q2_full_1: "(2::int) ^ 0x1ee mod 0xf76c8ffcb = 0x260ea4af1 mod 0xf76c8ffcb"
  by (rule pw_dbl [where x = "0xd4c6b800" and k = "0xb6faf4d"],
      rule pw_dbl1 [where x = "0xcbecdca34" and k = "0x15025c9360"],
      rule pw_dbl1 [where x = "0x93538e85" and k = "0xaf72c3a"],
      rule pw_dbl1 [where x = "0x40000000" and k = "0x211bf11"],
      rule pw_dbl [where x = "0x8000" and k = "0"],
      rule pw_dbl1 [where x = "0x80" and k = "0"],
      rule pw_dbl1 [where x = "8" and k = "0"],
      rule pw_dbl1 [where x = "2" and k = "0"],
      rule pw_one)
     (simp_all only: arith_simps rel_simps)

lemma pw_b36_q2_full_2: "(2::int) ^ 0x1eed9 mod 0xf76c8ffcb = 0xda3801016 mod 0xf76c8ffcb"
  by (rule pw_dbl1 [where x = "0x7ab3dec79" and k = "0x79b391564"],
      rule pw_dbl [where x = "0x73fad73e3" and k = "0x365d8f270"],
      rule pw_dbl [where x = "0xbd5cef11b" and k = "0x90ed3c422"],
      rule pw_dbl1 [where x = "0x1cec30a47" and k = "0x6c3063f5"],
      rule pw_dbl1 [where x = "0x705bc8880" and k = "0x660c0680b"],
      rule pw_dbl [where x = "0x6117fceb4" and k = "0x2619f1030"],
      rule pw_dbl1 [where x = "0x249d7ddfa" and k = "0xad648a3c"],
      rule pw_dbl1 [where x = "0x260ea4af1" and k = "0xbb51a658"],
      rule pw_b36_q2_full_1)
     (simp_all only: arith_simps rel_simps)

lemma pw_b36_q2_full_3: "(2::int) ^ 0x1eed91f mod 0xf76c8ffcb = 0x14572488b mod 0xf76c8ffcb"
  by (rule pw_dbl1 [where x = "0x2c75261db" and k = "0xff9f8b95"],
      rule pw_dbl1 [where x = "0x9fc4d25e7" and k = "0xce55ac235"],
      rule pw_dbl1 [where x = "0x767df441d" and k = "0x717e036a1"],
      rule pw_dbl1 [where x = "0xd682f3f2c" and k = "0x173f43faa9"],
      rule pw_dbl1 [where x = "0x544a695e5" and k = "0x396e5bed2"],
      rule pw_dbl [where x = "0x4fb29c256" and k = "0x19abe0f1d"],
      rule pw_dbl [where x = "0x274df4151" and k = "0x63e63c81"],
      rule pw_dbl [where x = "0xda3801016" and k = "0xc075f5959"],
      rule pw_b36_q2_full_2)
     (simp_all only: arith_simps rel_simps)

lemma pw_b36_q2_full_4: "(2::int) ^ 0x1eed91ff9 mod 0xf76c8ffcb = 0x28616a0c5 mod 0xf76c8ffcb"
  by (rule pw_dbl1 [where x = "0x146f5351" and k = "0x3601d7"],
      rule pw_dbl [where x = "0x242adce2e" and k = "0x5496c279"],
      rule pw_dbl [where x = "0x41cd14bde" and k = "0x117fdbc42"],
      rule pw_dbl1 [where x = "0x76142d1f5" and k = "0x70b3bccbc"],
      rule pw_dbl1 [where x = "0xb6c5602a9" and k = "0x10e062efe7"],
      rule pw_dbl1 [where x = "0x98410044" and k = "0xbb61785"],
      rule pw_dbl1 [where x = "0x295467347" and k = "0xdceb319a"],
      rule pw_dbl1 [where x = "0x14572488b" and k = "0x35824fa1"],
      rule pw_b36_q2_full_3)
     (simp_all only: arith_simps rel_simps)

lemma pw_b36_q2_full_5: "(2::int) ^ 0xf76c8ffca mod 0xf76c8ffcb = 1 mod 0xf76c8ffcb"
  by (rule pw_dbl [where x = "0xf76c8ffca" and k = "0xf76c8ffc9"],
      rule pw_dbl1 [where x = "0x3284c435c" and k = "0x14a12e042"],
      rule pw_dbl [where x = "0x28616a0c5" and k = "0x6971ab17"],
      rule pw_b36_q2_full_4)
     (simp_all only: arith_simps rel_simps)

lemma prime_b36: "is_prime 0xf76c8ffcb"
proof -
  have "is_prime (nat 0xf76c8ffcb)"
  proof (rule pocklington2 [where ?a1.0 = "2" and ?m1.0 = "0xf76c8ffca" and ?e1.0 = "0x1139e52" and ?q1.0 = "0xe5d"
      and ?w1.0 = "0xf6b013cde" and ?u1.0 = "0xb8335656d" and ?v1.0 = "0xb7a703e48"
      and ?a2.0 = "2" and ?m2.0 = "0xf76c8ffca" and ?e2.0 = "0x14186942" and ?q2.0 = "0xc5"
      and ?w2.0 = "0x812e0a1b9" and ?u2.0 = "0xbecb15555" and ?v2.0 = "0x639cebd65"])
    show "is_prime 0xe5d" by (rule prime_3677)
    show "is_prime 0xc5" by (rule prime_197)
    show "(2::int) ^ 0xf76c8ffca mod 0xf76c8ffcb = 1 mod 0xf76c8ffcb" by (rule pw_b36_q1_full_5)
    show "(2::int) ^ 0x1139e52 mod 0xf76c8ffcb = 0xf6b013cde mod 0xf76c8ffcb" by (rule pw_b36_q1_part_3)
    show "(2::int) ^ 0xf76c8ffca mod 0xf76c8ffcb = 1 mod 0xf76c8ffcb" by (rule pw_b36_q2_full_5)
    show "(2::int) ^ 0x14186942 mod 0xf76c8ffcb = 0x812e0a1b9 mod 0xf76c8ffcb" by (rule pw_b36_q2_part_4)
  qed simp_all
  then show ?thesis by (simp only: nat_numeral)
qed

lemma pw_b44_q1_part_1: "(2::int) ^ 0xaa mod 0xa44e179dccf = 0xa027eda446c mod 0xa44e179dccf"
  by (rule pw_dbl [where x = "0x2bd9eb6f6ce" and k = "0xbb413be728"],
      rule pw_dbl1 [where x = "0x40000000000" and k = "0x31dbc55e42e"],
      rule pw_dbl [where x = "0x200000" and k = "0"],
      rule pw_dbl1 [where x = "0x400" and k = "0"],
      rule pw_dbl [where x = "0x20" and k = "0"],
      rule pw_dbl1 [where x = "4" and k = "0"],
      rule pw_dbl [where x = "2" and k = "0"],
      rule pw_one)
     (simp_all only: arith_simps rel_simps)

lemma pw_b44_q1_full_1: "(2::int) ^ 0x148 mod 0xa44e179dccf = 0x9a93d77da83 mod 0xa44e179dccf"
  by (rule pw_dbl [where x = "0x73764ff30e0" and k = "0x5123868dff3"],
      rule pw_dbl [where x = "0x80b5cf24475" and k = "0x64d399bca17"],
      rule pw_dbl [where x = "0x20000000000" and k = "0x63b78abc85"],
      rule pw_dbl1 [where x = "0x100000" and k = "0"],
      rule pw_dbl [where x = "0x400" and k = "0"],
      rule pw_dbl [where x = "0x20" and k = "0"],
      rule pw_dbl1 [where x = "4" and k = "0"],
      rule pw_dbl [where x = "2" and k = "0"],
      rule pw_one)
     (simp_all only: arith_simps rel_simps)

lemma pw_b44_q1_full_2: "(2::int) ^ 0x1489c mod 0xa44e179dccf = 0x8bf504e95d mod 0xa44e179dccf"
  by (rule pw_dbl [where x = "0x670a1830d64" and k = "0x409e4d889dd"],
      rule pw_dbl [where x = "0x1201b4f2b77" and k = "0x1f930efa83"],
      rule pw_dbl1 [where x = "0x6ff6425dc31" and k = "0x98967e5d4c5"],
      rule pw_dbl1 [where x = "0x4840a754d02" and k = "0x3f8bac77279"],
      rule pw_dbl1 [where x = "0x36070ae71b3" and k = "0x2387f8025b0"],
      rule pw_dbl [where x = "0x271b8c41981" and k = "0x94eee80952"],
      rule pw_dbl [where x = "0x29975e7471c" and k = "0xa87378cf41"],
      rule pw_dbl1 [where x = "0x9a93d77da83" and k = "0x122da0c8332a"],
      rule pw_b44_q1_full_1)
     (simp_all only: arith_simps rel_simps)

lemma pw_b44_q1_full_3: "(2::int) ^ 0x1489c2f mod 0xa44e179dccf = 0x45ed32125d mod 0xa44e179dccf"
  by (rule pw_dbl1 [where x = "0x287e09b22b4" and k = "0x13f556bf7cd"],
      rule pw_dbl1 [where x = "0x39b96a2b46d" and k = "0x288f50c0782"],
      rule pw_dbl1 [where x = "0x60b06b477ea" and k = "0x71cc46c3fb5"],
      rule pw_dbl1 [where x = "0xa1b63bafd35" and k = "0x13e51b408f78"],
      rule pw_dbl [where x = "0x6986d3e1e29" and k = "0x43c68fb73e4"],
      rule pw_dbl1 [where x = "0x59a88c5b7ca" and k = "0x61d99bc7b31"],
      rule pw_dbl [where x = "0x815f4ac8dc3" and k = "0x65ddd0f2f11"],
      rule pw_dbl [where x = "0x8bf504e95d" and k = "0x77379bf1a"],
      rule pw_b44_q1_full_2)
     (simp_all only: arith_simps rel_simps)

lemma pw_b44_q1_full_4: "(2::int) ^ 0x1489c2f3b mod 0xa44e179dccf = 0x3bd7267bf15 mod 0xa44e179dccf"
  by (rule pw_dbl1 [where x = "0x921ae834efb" and k = "0x103d7a1e2253"],
      rule pw_dbl1 [where x = "0x1b3212ad24a" and k = "0x900b5baca3"],
      rule pw_dbl [where x = "0x5f7e0f588a4" and k = "0x377fcd1ea5a"],
      rule pw_dbl1 [where x = "0x5c4d6d76e67" and k = "0x67b4d6ac562"],
      rule pw_dbl1 [where x = "0x4c5c128727b" and k = "0x46f9ab1a445"],
      rule pw_dbl1 [where x = "0xa15b7e8ce10" and k = "0x13cecde32b6b"],
      rule pw_dbl [where x = "0x8f96a2647d3" and k = "0x7d7bded08d7"],
      rule pw_dbl [where x = "0x45ed32125d" and k = "0x1dc290c2a"],
      rule pw_b44_q1_full_3)
     (simp_all only: arith_simps rel_simps)

lemma pw_b44_q1_full_5: "(2::int) ^ 0x1489c2f3b99 mod 0xa44e179dccf = 0x5cdcb315fa3 mod 0xa44e179dccf"
  by (rule pw_dbl1 [where x = "0x14e6d60efbd" and k = "0x55163bd761"],
      rule pw_dbl [where x = "0x65d44407292" and k = "0x3f1bfbd63c9"],
      rule pw_dbl [where x = "0x796a2b6716b" and k = "0x59b8746bd29"],
      rule pw_dbl1 [where x = "0x1ba1af9e1ac" and k = "0x94b32d1e3b"],
      rule pw_dbl1 [where x = "0x5e8bfad827b" and k = "0x6ccf9c6e89a"],
      rule pw_dbl [where x = "0x2599cd79777" and k = "0x89ad724d4a"],
      rule pw_dbl [where x = "0x69e832c230e" and k = "0x4443dc86323"],
      rule pw_dbl1 [where x = "0x3bd7267bf15" and k = "0x2b969182e5c"],
      rule pw_b44_q1_full_4)
     (simp_all only: arith_simps rel_simps)

lemma pw_b44_q1_full_6: "(2::int) ^ 0xa44e179dcce mod 0xa44e179dccf = 1 mod 0xa44e179dccf"
  by (rule pw_dbl [where x = "1" and k = "0"],
      rule pw_dbl1 [where x = "0x642e0055644" and k = "0x7a29a40d7b1"],
      rule pw_dbl1 [where x = "0x5cdcb315fa3" and k = "0x68f7c2cdd52"],
      rule pw_b44_q1_full_5)
     (simp_all only: arith_simps rel_simps)

lemma prime_b44: "is_prime 0xa44e179dccf"
proof -
  have "is_prime (nat 0xa44e179dccf)"
  proof (rule pocklington [where a = "2" and m = "0xa44e179dcce" and e = "0xaa" and q = "0xf76c8ffcb"
      and w = "0xa027eda446c"
      and u = "0x3dcf4686688"
      and v = "0x3c3fb39d379"])
    show "is_prime 0xf76c8ffcb" by (rule prime_b36)
    show "(2::int) ^ 0xa44e179dcce mod 0xa44e179dccf = 1 mod 0xa44e179dccf"
      by (rule pw_b44_q1_full_6)
    show "(2::int) ^ 0xaa mod 0xa44e179dccf = 0xa027eda446c mod 0xa44e179dccf"
      by (rule pw_b44_q1_part_1)
  qed simp_all
  then show ?thesis by (simp only: nat_numeral)
qed

lemma pw_b150_q1_part_1: "(2::int) ^ 0x1b2 mod 0x22b559b5c816ae00f2378e18df38c5410ed597 = 0x11f899196cff87367950c69eb05a47513b8580 mod 0x22b559b5c816ae00f2378e18df38c5410ed597"
  by (rule pw_dbl [where x = "0x449966e00515c4c12fa61b177909b0b3bcd4b" and k = "0x879522c6fd230f1d504a63b0387ef075be6f"],
      rule pw_dbl1 [where x = "0x1000000000000000000000000000" and k = "0xec0607bb0a0607b93"],
      rule pw_dbl [where x = "0x40000000000000" and k = "0"],
      rule pw_dbl [where x = "0x8000000" and k = "0"],
      rule pw_dbl1 [where x = "0x2000" and k = "0"],
      rule pw_dbl1 [where x = "0x40" and k = "0"],
      rule pw_dbl [where x = "8" and k = "0"],
      rule pw_dbl1 [where x = "2" and k = "0"],
      rule pw_one)
     (simp_all only: arith_simps rel_simps)

lemma pw_b150_q1_part_2: "(2::int) ^ 0x1b23b mod 0x22b559b5c816ae00f2378e18df38c5410ed597 = 0x4a39470680b67ba991ef4eb6ddbb8bb587576 mod 0x22b559b5c816ae00f2378e18df38c5410ed597"
  by (rule pw_dbl1 [where x = "0xb3e77f46f467709bb66566c4683d2bfc92ab4" and k = "0x748ff8ac458eba797d27a06b9ed2e77ff8ee6"],
      rule pw_dbl1 [where x = "0x1989a29fe2dacd2f62e49ca5a85a63d1f85043" and k = "0x25947b4332f63171000c2ce98f13417d5de252"],
      rule pw_dbl [where x = "0x17900e55c7f01c540b2e003ba6e15261e47e8" and k = "0xfff0575f1f0e191761500f374571c06af8b"],
      rule pw_dbl1 [where x = "0x11f72d1aaa64475da7dc7bf820df04a253acc7" and k = "0x129930afadcd92e29397b843772a0fa8710196"],
      rule pw_dbl1 [where x = "0x1d31b7dcb96074f085cfd5761ad80719c18232" and k = "0x311cb593713a94f3cfd24cee6ba18cb37d1167"],
      rule pw_dbl1 [where x = "0x50e4c58c87ffa495618cdd5bae6a5124129f8" and k = "0x1791266e7478cbdace3d1dac7d53c3d78a9e2"],
      rule pw_dbl [where x = "0x15b410aa8f9063a06711b30389fc8c1011cf5a" and k = "0xd923e00ce00e15fec8d4cf5bf18496af8b934"],
      rule pw_dbl [where x = "0x11f899196cff87367950c69eb05a47513b8580" and k = "0x94e11380938b80a8b7c158255192a84f7454a"],
      rule pw_b150_q1_part_1)
     (simp_all only: arith_simps rel_simps)

lemma pw_b150_q1_part_3: "(2::int) ^ 0x1b23b10 mod 0x22b559b5c816ae00f2378e18df38c5410ed597 = 0x1647be9e6ae2cc92dc3ea4ffb4764afbdf21bb mod 0x22b559b5c816ae00f2378e18df38c5410ed597"
  by (rule pw_dbl [where x = "0xe2e4e2cc3f96c1106fa99eb801db2aebef7eb" and k = "0x5cb3db9bf1989778aced24be8a3e84f895bb2"],
      rule pw_dbl [where x = "0x6c1f840e584e1fea0c4f2414c6109fd1d858" and k = "0x150d2d45fd443c5d5a69c31b0ef378358f3"],
      rule pw_dbl [where x = "0x15d90cdeedebadeff3b0e26993b0e82ae9e9f2" and k = "0xdc0a678246ed73dd38d9ce9ded0e69a237874"],
      rule pw_dbl [where x = "0x118dd03b0ba33b2abad2e0e6543467ece5f99b" and k = "0x8e0c525fdc47734f1a4c82a09eb130067a831"],
      rule pw_dbl1 [where x = "0x4f78a882dfc3932083aa26e37ace39a07f4d3" and k = "0x16bedbd29d70cfb8148446dd78b008016bc61"],
      rule pw_dbl [where x = "0x16d823360348b5f969b4ea33fd37bd3041a57" and k = "0xf091cc7bd3ae2eef2f135ecd8107e14f4f2"],
      rule pw_dbl [where x = "0x1ffecd73aa925947c54ed4656e7a822e376a66" and k = "0x1d7e8bc0c61e0ea5b908769c1d873636aba7bb"],
      rule pw_dbl [where x = "0x4a39470680b67ba991ef4eb6ddbb8bb587576" and k = "0x9eba230231e30c76b350fec049fd5132a3b2"],
      rule pw_b150_q1_part_2)
     (simp_all only: arith_simps rel_simps)

lemma pw_b150_q1_part_4: "(2::int) ^ 0x1b23b10d0 mod 0x22b559b5c816ae00f2378e18df38c5410ed597 = 0x1038ce350e92f062a0b65f732ce857c22d69a4 mod 0x22b559b5c816ae00f2378e18df38c5410ed597"
  by (rule pw_dbl [where x = "0xac4dc884a73bdf4e4accd0b4f9f96c5003d3b" and k = "0x3575f6118cd8564b01ba976e1cdb0269fce53"],
      rule pw_dbl [where x = "0x37ddaea4ee9d5f2a066d3433fff535ba27755" and k = "0x59ebb38ff33d43237be75b9ebf366d57eeb2"],
      rule pw_dbl [where x = "0x2a359bd2701da512072560dffd9c61bb2f2f1" and k = "0x3354dd1b89d6307665ea07fa9b5a4a731654"],
      rule pw_dbl [where x = "0x1094e1b50f30a7fd021106939b9af903421d0" and k = "0x7ebf2734713c94c36577d658bd52edbc249"],
      rule pw_dbl1 [where x = "0x1792b93649395af2dfea7a15c59bca36c610d4" and k = "0x200549b0274f8766d65432bdd87f9c58d77730"],
      rule pw_dbl [where x = "0x9908e3b61661502f10b2481ddabafe0704bae" and k = "0x2a2c0fcee137a2bf0b18350f6eb3f05f40010"],
      rule pw_dbl1 [where x = "0x123ecd6f024dbb63e508d2a09e4338c9b5b52e" and k = "0x132ea4d3ef47980422529282a0a712d85b8936"],
      rule pw_dbl1 [where x = "0x1647be9e6ae2cc92dc3ea4ffb4764afbdf21bb" and k = "0x1c9ac5e949f729b264629ff54e3734b139609c"],
      rule pw_b150_q1_part_3)
     (simp_all only: arith_simps rel_simps)

lemma pw_b150_q1_part_5: "(2::int) ^ 0x1b23b10d064 mod 0x22b559b5c816ae00f2378e18df38c5410ed597 = 0x3fe29d423fb102339252f0281fcd6aaa0feb6 mod 0x22b559b5c816ae00f2378e18df38c5410ed597"
  by (rule pw_dbl [where x = "0x1a314fa938384910cf931333162a4dd747e4ec" and k = "0x13c4262b4b1bd60d676c59f08c3f315055db36"],
      rule pw_dbl [where x = "0x188ef58c04f078c730ba176dc7ec7351dce81d" and k = "0x11606df82f8a2b51405f70c3e411a698b5622b"],
      rule pw_dbl1 [where x = "0x8e1e522788ec564db9ab52178626ab6352bc3" and k = "0x48bd91786bfb131c5a2bc49482a711d0cc353"],
      rule pw_dbl [where x = "0x15c23d9411f35e5624d80b51cf8cc9c116fb2f" and k = "0xda3fe27cbd34ce566481c7aeb87836e51d7d2"],
      rule pw_dbl [where x = "0x1f7a6e41e4bd5c1ae467050368b1a4474d24db" and k = "0x1c8c77fab56263a0ad5f456902065678697266"],
      rule pw_dbl1 [where x = "0x6339314d1e340f9bc7fac86ccbfc0366f9918" and k = "0x2375071f7a1253d0f3552d467174e016ad423"],
      rule pw_dbl1 [where x = "0x1a6f9d86ff219aee6ff121756d2263c1db661e" and k = "0x28453e2725211b178d63390bdea3716cd5cf90"],
      rule pw_dbl [where x = "0x1038ce350e92f062a0b65f732ce857c22d69a4" and k = "0x794eca5ce63ebd6786c6e40d8374b08b17ede"],
      rule pw_b150_q1_part_4)
     (simp_all only: arith_simps rel_simps)

lemma pw_b150_q1_part_6: "(2::int) ^ 0x1b23b10d0642d mod 0x22b559b5c816ae00f2378e18df38c5410ed597 = 0x13f4338d6cac7d6f74c9163dfc541cd0dba68e mod 0x22b559b5c816ae00f2378e18df38c5410ed597"
  by (rule pw_dbl1 [where x = "0x133afe4216f3f7d15ba8c201d738c5a91596dd" and k = "0x154f3d9509c835d600f8ef2d81f2d3fdca719c"],
      rule pw_dbl [where x = "0x16dd162ae14ed720a795c0a173b3ea7aed97cb" and k = "0xf0fa1401a2a4c391c28b1659b26df72567844"],
      rule pw_dbl1 [where x = "0xa9fa7e10bd797d8aa807f0fb867d9fe73d90e" and k = "0x680e1a6a3155e24299aed58f147b5b1b9f5cb"],
      rule pw_dbl1 [where x = "0x12361780c88faacf2b2a9083dd13fb98b582a5" and k = "0x131c585444a7d58d025b634c5f57dd55eb95fc"],
      rule pw_dbl [where x = "0xdb1682577a1c1054a89b788850283fcfa1613" and k = "0x566efc9f9ae2fce4d04f00d0a3c9fb06c13dc"],
      rule pw_dbl1 [where x = "0x13bec814f6a530a6c403df133e6ccbcecdc550" and k = "0x16773922ef684596fb8269a24c3ba3f1cd731b"],
      rule pw_dbl [where x = "0x17419bf4b5abd3f4788b2c954b0287e536457f" and k = "0xf9533d9ea88e8cd3d5fd1079b71dc62a45df7"],
      rule pw_dbl [where x = "0x3fe29d423fb102339252f0281fcd6aaa0feb6" and k = "0x7596bdde19907588c27fc987c62291f5d9e3"],
      rule pw_b150_q1_part_5)
     (simp_all only: arith_simps rel_simps)

lemma pw_b150_q1_part_7: "(2::int) ^ 0x1b23b10d0642d88 mod 0x22b559b5c816ae00f2378e18df38c5410ed597 = 0x3975660ead46528987cfb4ce374728ff2130e mod 0x22b559b5c816ae00f2378e18df38c5410ed597"
  by (rule pw_dbl [where x = "0xacda8b50001cdf6a044c8949b04dc3232310a" and k = "0x35cd72cf2813d359e9eb27fab15c8b5b1701a"],
      rule pw_dbl [where x = "0x1f0d3c0ae24feac56fbfca14bb6d72b6d6b62f" and k = "0x1bc7be3d1bfb795786d37e8a016f60790b9a01"],
      rule pw_dbl [where x = "0x186501315eb0cd9d87903d439676b10025bfb7" and k = "0x112541b1dd349171544f364568e0c7d8431eae"],
      rule pw_dbl1 [where x = "0x12f6b4f400d6519adf0bac416bf6ce64fe0b61" and k = "0x14b8f3b389dabec251f2b6f4e55fcb950b6fed"],
      rule pw_dbl [where x = "0x1abac1e6e70b5e890358d737ddd2f35a16d25a" and k = "0x1495b8e82cbd4797af096c820c16e309951c35"],
      rule pw_dbl [where x = "0x131d50f40b95124107fd498186223e6b71fdbc" and k = "0xa86d57b5028e86cbd325b9fc8a5d2c845e0ba"],
      rule pw_dbl [where x = "0x1a2ed3f18302e425d5f9c5ac0d368b7b37a930" and k = "0x13c066dc609671bfffd07b01fb0c8173e2bf5c"],
      rule pw_dbl1 [where x = "0x13f4338d6cac7d6f74c9163dfc541cd0dba68e" and k = "0x16f16ce4d9b9f365f9a7ee965c3f2452075968"],
      rule pw_b150_q1_part_6)
     (simp_all only: arith_simps rel_simps)

lemma pw_b150_q1_part_8: "(2::int) ^ 0x1b23b10d0642d88a8 mod 0x22b559b5c816ae00f2378e18df38c5410ed597 = 0xd5fdecbd882bbf46a3b0df59ebfaa0af1b0e6 mod 0x22b559b5c816ae00f2378e18df38c5410ed597"
  by (rule pw_dbl [where x = "0x1be10efb9ac82098688e3d985411186b3cb3a" and k = "0x1664c33821dec032bdbb6e9f3d1c4462fd72"],
      rule pw_dbl [where x = "0xce50a8f7d8224a68a55e7d8534661ce7ebbe1" and k = "0x4ca62ee36a81163cdbd314d1dd7df9b0cba91"],
      rule pw_dbl [where x = "0x54a19b7761daac3cf3d52bb80deff145ee990" and k = "0xce5c5d8b206d1f6b00c618dc14c1714bddb9"],
      rule pw_dbl1 [where x = "0x101532db27c2d84f6672e0558f494a2b2ab9b1" and k = "0xee791247bb090e5432094f53ce5bbdb6e849e"],
      rule pw_dbl [where x = "0xad5a99945673d3f6615486b3d99e97e5c2668" and k = "0x361d47fd87e72758b4ee788ea199f8087ebc9"],
      rule pw_dbl1 [where x = "0xff6d5044cd897415fe2a1f792e592199b7866" and k = "0xeaf7da4eaef3dde68b47f6cb6c62f563c0820"],
      rule pw_dbl [where x = "0xcccf96520e802a8eff2b8be4b5d48a086264c" and k = "0x4b891b006faef5682a7b2a2acc823eeb50c66"],
      rule pw_dbl1 [where x = "0x3975660ead46528987cfb4ce374728ff2130e" and k = "0xbe3dd43e9e8cd693a4237bea283b8b891624"],
      rule pw_b150_q1_part_7)
     (simp_all only: arith_simps rel_simps)

lemma pw_b150_q1_part_9: "(2::int) ^ 0x1b23b10d0642d88a856 mod 0x22b559b5c816ae00f2378e18df38c5410ed597 = 0x1b76aa25795144c90c91764082afbf5477a6af mod 0x22b559b5c816ae00f2378e18df38c5410ed597"
  by (rule pw_dbl [where x = "0x1468d42c879fe78a43407fe9652b969a2e3845" and k = "0xc005792a91f45cd7f101cea39de5f496844a6"],
      rule pw_dbl1 [where x = "0xd5c63739d42c38ff9b0b0d2cbb7b1c1d1c62c" and k = "0xa49560fce7aff7fa174ffe10b13481016795d"],
      rule pw_dbl1 [where x = "0x1cade630abb4c078f895812ff51cf25fe67d48" and k = "0x2f651d1c43d79bfe2c7f7020cb989f16a162cc"],
      rule pw_dbl [where x = "0x895cc0d048a053ade28d047be8c44a6074aa7" and k = "0x21fa062761b56014aea2ec612a535f5ade0bf"],
      rule pw_dbl1 [where x = "0x1e48423694d9af34ee7249c5c1f40c057eb085" and k = "0x34d753599366fef623f6d601ac39b1e92eac2d"],
      rule pw_dbl [where x = "0x3dd026f33cfe050e44ab164efbcfe39d22a10" and k = "0x6e15a51ca0236f3089191fb3e4facf9c20bd"],
      rule pw_dbl1 [where x = "0x11fb47367df404845acd72568b68f039ec8f94" and k = "0x12a1afdb66bd1409db6ccd85d041e565ae1970"],
      rule pw_dbl [where x = "0xd5fdecbd882bbf46a3b0df59ebfaa0af1b0e6" and k = "0x527599ef6d167d12f6895538e51102aacfb70"],
      rule pw_b150_q1_part_8)
     (simp_all only: arith_simps rel_simps)

lemma pw_b150_q1_part_10: "(2::int) ^ 0x1b23b10d0642d88a85680 mod 0x22b559b5c816ae00f2378e18df38c5410ed597 = 0x1ce643660909f9febc64c211b2c7875a9f516c mod 0x22b559b5c816ae00f2378e18df38c5410ed597"
  by (rule pw_dbl [where x = "0xbd0dc144288795e7dd746e813fab9d25825ff" and k = "0x405c27e06c8fb9be6c5234f63df4ff91886b3"],
      rule pw_dbl [where x = "0x134abe5983610c4a832efdbf7f48ac3031c9b4" and k = "0xab919f535bdb1aa56ce90782eb5ba7a09b017"],
      rule pw_dbl [where x = "0xf1e6d03cdde6a112d9d60711a140139fea7bd" and k = "0x695f175da6748990e252ce08b0a7bad596373"],
      rule pw_dbl [where x = "0xd7cf66eabb5ec559b2b93844fab990406ebb3" and k = "0x53dddbb740e61607de3efc2eb510d9182a974"],
      rule pw_dbl [where x = "0xcb9597886ae5a34193836f146d433c7f18bac" and k = "0x4aa2312a40369aca1dac62e815b1b6f84fcab"],
      rule pw_dbl [where x = "0xeb8b90382c531443c223aaf3f615103db0fa5" and k = "0x63e8119c2f23d829ef557e4dc45b34307f85b"],
      rule pw_dbl [where x = "0x30c10ab90c020ddb67ece86b75d0e1a3f9337" and k = "0x447bd322acfb918a5823646646996865c8b4"],
      rule pw_dbl1 [where x = "0x1b76aa25795144c90c91764082afbf5477a6af" and k = "0x2b763bf8b6147f20e380e08acdfd40814a1bad"],
      rule pw_b150_q1_part_9)
     (simp_all only: arith_simps rel_simps)

lemma pw_b150_q1_part_11: "(2::int) ^ 0x1b23b10d0642d88a85680ca mod 0x22b559b5c816ae00f2378e18df38c5410ed597 = 0x3d1730009a3d0c450480be673f3362d210cb5 mod 0x22b559b5c816ae00f2378e18df38c5410ed597"
  by (rule pw_dbl [where x = "0x1408a5dc4683bba3d92838d67f77b149d07820" and k = "0xb9044ea40e8910f9969c54774b62a1ed0ea6d"],
      rule pw_dbl1 [where x = "0xbde4f3d0b15a813ce5e1bd6bafb0da5046df6" and k = "0x81de00ee0894b75fed427b62d004d174b9198"],
      rule pw_dbl [where x = "0x1109aff3d7b5da14a7275958befa1d82d48d9f" and k = "0x85d168025463826793096c239f9251f6a52ed"],
      rule pw_dbl1 [where x = "0xb788f00de43e7c6d9a8f29de1783c33796263" and k = "0x795084a2596e33750f0f1cbaf0bda645f8d05"],
      rule pw_dbl [where x = "0x8ff3346352856dd8878b6d7cb606fcde84f54" and k = "0x255051c3aa544dbc75077fd12244dc4f10fdb"],
      rule pw_dbl [where x = "0x20babc7b85fc99c8263acf2cfd1c7cdf63e12" and k = "0x1edd01f2559661d105fa176f1155c3a88390"],
      rule pw_dbl1 [where x = "0xfead770eb482d073381eb461f60325bf201f3" and k = "0xe997680a2560447566ae6627dfb99a0a966c0"],
      rule pw_dbl1 [where x = "0x1ce643660909f9febc64c211b2c7875a9f516c" and k = "0x30201f2a4bcd7d72ddb20cdf8a7713916e57db"],
      rule pw_b150_q1_part_10)
     (simp_all only: arith_simps rel_simps)

lemma pw_b150_q1_part_12: "(2::int) ^ 0x3647621a0c85b1150ad0194a mod 0x22b559b5c816ae00f2378e18df38c5410ed597 = 0xac1f69987a98cd70795a5538e728fc5b374b2 mod 0x22b559b5c816ae00f2378e18df38c5410ed597"
  by (rule pw_dbl [where x = "0xb797a55507b302b061e2d808c95c1c093e5af" and k = "0x3cb1fb8360314768e791abb76ec2823543269"],
      rule pw_dbl1 [where x = "0x20e37e94293df92244db4b7d3f0cbe3f925f88" and k = "0x3e54205412469a673c665c530b246cf9053fd7"],
      rule pw_dbl [where x = "0xf4262d7fb7f8b8dfb2ceadcd4ae1818304c49" and k = "0x6b56ac48aa2298db7a2c5fc5a08a844b2501f"],
      rule pw_dbl1 [where x = "0x137b604a88908b18d315f02e1168b1c7f5bb6e" and k = "0x15dedc66a0f0e421afd6bd4b21492742392599"],
      rule pw_dbl [where x = "0x3d1730009a3d0c450480be673f3362d210cb5" and k = "0x6b86adbbc532d2f50420e885a71a7f37772d"],
      rule pw_b150_q1_part_11)
     (simp_all only: arith_simps rel_simps)

lemma pw_b150_q1_full_1: "(2::int) ^ 0x115 mod 0x22b559b5c816ae00f2378e18df38c5410ed597 = 0x1d4832654d3a4d87e39c5932322df9f86e4c9a mod 0x22b559b5c816ae00f2378e18df38c5410ed597"
  by (rule pw_dbl1 [where x = "0x40000000000000000000000000000000000" and k = "0xec0607bb0a0607b931f9f84409f3f08a"],
      rule pw_dbl [where x = "0x200000000000000000" and k = "0"],
      rule pw_dbl1 [where x = "0x400000000" and k = "0"],
      rule pw_dbl [where x = "0x20000" and k = "0"],
      rule pw_dbl1 [where x = "0x100" and k = "0"],
      rule pw_dbl [where x = "0x10" and k = "0"],
      rule pw_dbl [where x = "4" and k = "0"],
      rule pw_dbl [where x = "2" and k = "0"],
      rule pw_one)
     (simp_all only: arith_simps rel_simps)

lemma pw_b150_q1_full_2: "(2::int) ^ 0x115aa mod 0x22b559b5c816ae00f2378e18df38c5410ed597 = 0x20f0a6a87ef0eadde9d4f7ce6788d06725def4 mod 0x22b559b5c816ae00f2378e18df38c5410ed597"
  by (rule pw_dbl [where x = "0x102f4f52da16851a82fd549de421c9a81d71a8" and k = "0x78c0ef80d33e0798e0f6e1ea72d60dacb3c94"],
      rule pw_dbl1 [where x = "0x62c01be015d4271ba0e8a101c879754231dbb" and k = "0x231eb247a3654975bd4da2cbd2020ab84b606"],
      rule pw_dbl [where x = "0x1b9d2fb44ac25d5cfdf75593af25fef852f246" and k = "0x15f83ef2348c5cc1cc384a7e1de7ad950754ff"],
      rule pw_dbl1 [where x = "0x1ccd5462707e6161e908ed1f05f694058e960e" and k = "0x2fcd3813e2fc4ed5425559ee5175690d7b770e"],
      rule pw_dbl [where x = "0x7bdbd2e703508450c4e003dc44c5863245824" and k = "0x1b9fefa691e98acaaee3d404bbbdeabc51d4e"],
      rule pw_dbl1 [where x = "0x154cc28890123b63063d04adad0906fdeeda04" and k = "0x1a247f3a7a8dc43b36a3165d0833b0ab8e0f64"],
      rule pw_dbl [where x = "0x46e234018036d7b27bda9fb6bc1fc02e01247" and k = "0x90c347a82f6191c16dc23307629353e41f5b"],
      rule pw_dbl1 [where x = "0x1d4832654d3a4d87e39c5932322df9f86e4c9a" and k = "0x316873e46d714005f0fb27ef0ff12d4c748b27"],
      rule pw_b150_q1_full_1)
     (simp_all only: arith_simps rel_simps)

lemma pw_b150_q1_full_3: "(2::int) ^ 0x115aacd mod 0x22b559b5c816ae00f2378e18df38c5410ed597 = 0xa570d606f65129a1594af006d3bc48994711d mod 0x22b559b5c816ae00f2378e18df38c5410ed597"
  by (rule pw_dbl1 [where x = "0x1d9784f7e35caac9ad17428cc1e5853d436d7b" and k = "0x32758dab1864a0c17b5110de92e307763f2c33"],
      rule pw_dbl [where x = "0xfe063cd4d30a1d5e71c8f63952af80c2f6b3d" and k = "0x743284a56a2077c64328edccf225112dde722"],
      rule pw_dbl1 [where x = "0x54971747c70bb948a2d484e612c3eca2c4e95" and k = "0x19c522f7a315c732f9457d2597de6c3630013"],
      rule pw_dbl1 [where x = "0x260d032966417d8a9b4379c02b15d8c114393" and k = "0x536e26486de3d628163ca55b7de7bfdd0d4b"],
      rule pw_dbl [where x = "0x12ba35b99aa3f0cb5dd3fb7825f728c608d976" and k = "0xa1ac7b89d9a61f2ed3f8c475afd3293a7ebd7"],
      rule pw_dbl [where x = "0xa85d5c604393fb6b756e9c309e699db8d5ef9" and k = "0x330b58d0649c6d81177d0b69c6ab8768fe67d"],
      rule pw_dbl1 [where x = "0x19cf2fa496a1be06a818bbe028b2e9266ebd13" and k = "0x26624415d54e087f2f7f3d4be62a06ff0b240f"],
      rule pw_dbl1 [where x = "0x20f0a6a87ef0eadde9d4f7ce6788d06725def4" and k = "0x3e8608456ed8b1cfb749588c3c334b9c8d5ffb"],
      rule pw_b150_q1_full_2)
     (simp_all only: arith_simps rel_simps)

lemma pw_b150_q1_full_4: "(2::int) ^ 0x115aacdae mod 0x22b559b5c816ae00f2378e18df38c5410ed597 = 0x4bad2119c5fa835c0053355c7891e4a836a75 mod 0x22b559b5c816ae00f2378e18df38c5410ed597"
  by (rule pw_dbl [where x = "0x1b94c4a8b1927863e39521a8ccf63fd1cbb4c8" and k = "0x15eadbe1067311082a89dcb325e2e0bd5393ed"],
      rule pw_dbl1 [where x = "0x20ff5b0bb427cbc5908e26576f13dcbbfde4b1" and k = "0x3ebde71d44af57686f2f89a6017d37ce02d316"],
      rule pw_dbl1 [where x = "0x621f34893cabea456f8e753d7f1ad8a112939" and k = "0x22ac9cb07b93a19fa5b827eb85b540d84fcf7"],
      rule pw_dbl1 [where x = "0xd0f388acd97515632a4dfb6488f27069dda57" and k = "0x9d3dad44885e636e71c5a2f30fcfbc742ac7f"],
      rule pw_dbl [where x = "0x1ec6abe02f57677c1bf6af5c12654bdf4d5735" and k = "0x1b4a0ba967a7cf67a6f3ebb25893b5aa8186ae"],
      rule pw_dbl1 [where x = "0x14bf74684530ed396f3255f4019e199cdc211e" and k = "0x18ce2079b63300b519206377d07dcaddee1f25"],
      rule pw_dbl [where x = "0x203da8227d0d8b62e91518bc2d75f6678ef903" and k = "0x1df2df65dcb8199ff4b8de6eb24e9be3530dcd"],
      rule pw_dbl1 [where x = "0xa570d606f65129a1594af006d3bc48994711d" and k = "0x6292d56ac97ca0849e09979e3f6a9bc71a2c9"],
      rule pw_b150_q1_full_3)
     (simp_all only: arith_simps rel_simps)

lemma pw_b150_q1_full_5: "(2::int) ^ 0x115aacdae40 mod 0x22b559b5c816ae00f2378e18df38c5410ed597 = 0x125b531fd48f3556a44d2645d25c506f10e892 mod 0x22b559b5c816ae00f2378e18df38c5410ed597"
  by (rule pw_dbl [where x = "0x10c4b915150b5b28b2d0822b85a28adac83fdd" and k = "0x819ea8007b04517c77dc364091f41aca88261"],
      rule pw_dbl [where x = "0xd3baea40637f44fa6932aa43b93ecc5348786" and k = "0x50b9bacb4a9f12e886092936f55052f6916d1"],
      rule pw_dbl [where x = "0x12e68c18fa18a6103812e23c3cd5935d3ba02b" and k = "0xa4ad8d99a759ea330553919298f66192b8245"],
      rule pw_dbl [where x = "0x94d073c9d319389a646c9f4f5499ea3f78a75" and k = "0x27e0cbc621d065c913e9ed1b2a03a13d666e2"],
      rule pw_dbl [where x = "0x12f44e479be00e9480b487d84ffbab69df9819" and k = "0xa59da56079b05c8479b5302f0f6ffe8de2f64"],
      rule pw_dbl [where x = "0xe9a999945e0aecfd53ae023b2237b6b982cf7" and k = "0x6250da5dbd2bc6c164bcdacef27abc6262a88"],
      rule pw_dbl1 [where x = "0x8c82dcf1e364f5e390136726ba4157c2917f0" and k = "0x471ac1c332f237851a0d5a67ab63d498a3e5f"],
      rule pw_dbl [where x = "0x4bad2119c5fa835c0053355c7891e4a836a75" and k = "0xa5001afccb0618fc0adbb1ebe9ace88e05df"],
      rule pw_b150_q1_full_4)
     (simp_all only: arith_simps rel_simps)

lemma pw_b150_q1_full_6: "(2::int) ^ 0x115aacdae40b5 mod 0x22b559b5c816ae00f2378e18df38c5410ed597 = 0x157725938c8bcfe3e890de91e0b407b7b1256f mod 0x22b559b5c816ae00f2378e18df38c5410ed597"
  by (rule pw_dbl1 [where x = "0x1b84da4ca5be69b9116023865d59cb4d9fc195" and k = "0x2ba32f8cc2116e43e89b398e0fc562e9b67275"],
      rule pw_dbl [where x = "0x386ea3416907628187c291eba0e48ca544723" and k = "0x5bc0b381f13153da62e98fc14023a9632aec"],
      rule pw_dbl1 [where x = "0x1023300942a1c59947ac81168c55b7043c9d0c" and k = "0xf018a0df8e841822aac776a3e972da15c778b"],
      rule pw_dbl [where x = "0x1c4a1bcb8604073432668b6b0e91d635b25c67" and k = "0x170ec3deef8ee27f80adb411789fa6bc083d63"],
      rule pw_dbl1 [where x = "0xae33a93e9d3da6ddc9359ccf7a3844b0e19c7" and k = "0x6d4a41f623520b7e53046f9677ea91b05d03d"],
      rule pw_dbl1 [where x = "0x11a79a33e2f5480926de04f6121fa411436329" and k = "0x11f5dc8ceb6b5c84b91090674a96817e5e64dd"],
      rule pw_dbl [where x = "0x104e36d902a363006d0376d86d7607def3718a" and k = "0x7a8fce66236a5e5396305eeb37957dc6123fd"],
      rule pw_dbl1 [where x = "0x125b531fd48f3556a44d2645d25c506f10e892" and k = "0x136accf4e8d2c818c5411f0aa9dfa81eb3deb2"],
      rule pw_b150_q1_full_5)
     (simp_all only: arith_simps rel_simps)

lemma pw_b150_q1_full_7: "(2::int) ^ 0x115aacdae40b570 mod 0x22b559b5c816ae00f2378e18df38c5410ed597 = 0x21b90128cc1255450735b32f05e5ce4054499f mod 0x22b559b5c816ae00f2378e18df38c5410ed597"
  by (rule pw_dbl [where x = "0x49d7eec6050e8e4876e07a551e805e78e69c6" and k = "0x9d1adc5ba5bb10e6ed34a6e0bb08dfc57343"],
      rule pw_dbl [where x = "0x162fbe1df61ab3ce624d73e8257a2ab5bd9338" and k = "0xe2ea2e9b8d0252e49a498643055ef4e261496"],
      rule pw_dbl [where x = "0x1869c59a17fc7069dd4d4988b4514acd3a3c67" and k = "0x112bf5dc6ded04e64417c185f70299287f84af"],
      rule pw_dbl [where x = "0x1c257372e103fe23a51a4357b9fc9e4f781b80" and k = "0x16d328f1f8c6955cc81dc6a8ce67af5131f64f"],
      rule pw_dbl1 [where x = "0x2644bd83b98b639d2a3ca84d7e87f03737961" and k = "0x54633a108589377d2a8bec3853d58bf7324e"],
      rule pw_dbl1 [where x = "0x220eb7c675d17bed137de5a25bcfb8d52969fe" and k = "0x42d66ba9b1c00cfc830986a7c0857dd96e6971"],
      rule pw_dbl1 [where x = "0x163e279c28e11697f9ecc9ac1561cd7eaddc9" and k = "0x1c822b777d9390ef1da80812ef9c50d623fc"],
      rule pw_dbl [where x = "0x157725938c8bcfe3e890de91e0b407b7b1256f" and k = "0xd467982717ed5bc75796da66a326edd09d568"],
      rule pw_b150_q1_full_6)
     (simp_all only: arith_simps rel_simps)

lemma pw_b150_q1_full_8: "(2::int) ^ 0x115aacdae40b57007 mod 0x22b559b5c816ae00f2378e18df38c5410ed597 = 0x8761e52e0052f9e9b31670e7742a0a38120c2 mod 0x22b559b5c816ae00f2378e18df38c5410ed597"
  by (rule pw_dbl1 [where x = "0x10a57fd71d261f71e25e2c16327e6cdbebaeb4" and k = "0xff7b647c27d9c8fe381fe2c59dc540913fe52"],
      rule pw_dbl1 [where x = "0x1cc8d0c39737fda7bbdc9b04ed61c59b48a9a2" and k = "0x2fbe3d60c5e9e8cd41a3479b9965dc671f1ecc"],
      rule pw_dbl1 [where x = "0x5b9799ecbc1164f96baa5bd10a9616e228331" and k = "0x1e36803933002da264f24613f4565690fd7e0"],
      rule pw_dbl [where x = "0x13226a8c91ee198dc33ae3dae0faef8c9c4e96" and k = "0xa8c74426c887726a3370853cddebda1530d45"],
      rule pw_dbl [where x = "0x1326ff73420a04ae015b3a1aa51af2ee036022" and k = "0xa918215a782b3944e1f25db5d3a0a3021a342"],
      rule pw_dbl [where x = "0x2258291a9827921fec22c37564b3879112d8f" and k = "0x21fbf2b4e45950ba5256d62e798924c6b619"],
      rule pw_dbl [where x = "0x1e0470df974e12720da202f73582f8ce60dc4d" and k = "0x19f5d77793fc68814d002bcc02af133cbf6276"],
      rule pw_dbl [where x = "0x21b90128cc1255450735b32f05e5ce4054499f" and k = "0x20c3d34748c793a063f87ef71ff1f5427645ac"],
      rule pw_b150_q1_full_7)
     (simp_all only: arith_simps rel_simps)

lemma pw_b150_q1_full_9: "(2::int) ^ 0x115aacdae40b5700791 mod 0x22b559b5c816ae00f2378e18df38c5410ed597 = 0x14a8077af12bb8f2f971e52e45c141b395f181 mod 0x22b559b5c816ae00f2378e18df38c5410ed597"
  by (rule pw_dbl1 [where x = "0x513d8994f3651c377a205bceb456906428515" and k = "0x17c4fb554bebc26db0cbcd3e8d999d74a11b7"],
      rule pw_dbl [where x = "0xd9c4334f13c83cf6a4e14e3d885898da88375" and k = "0x5564db1e706abac5eb9368fb5702058a0793c"],
      rule pw_dbl [where x = "0x91a5c651685c89a958bf6f460fa19ad0783be" and k = "0x2632f0bc9a6dae5dc562664d353c118a9c6c9"],
      rule pw_dbl [where x = "0x8da656fb20348edc070864119c9d7d8b5820a" and k = "0x242179b4baae02bdfba4b27c335b323d9314a"],
      rule pw_dbl1 [where x = "0x412af33027fa278e3a65729bbd09669948f40" and k = "0xf4b71f66ef72513e52d7ade4495014074c7a"],
      rule pw_dbl [where x = "0x7fe2185efa2daebbb6ddcb3734072de848c2" and k = "0x1d72f9753faecece98d18924d936581dadc"],
      rule pw_dbl [where x = "0x62bc37ee2599aa0ad59c03435ccb7f77dd5bf" and k = "0x118df6f75749ab076c68b2c4423bed337c019"],
      rule pw_dbl1 [where x = "0x8761e52e0052f9e9b31670e7742a0a38120c2" and k = "0x42022cfadf47301b13e1d3a81eec1863f851f"],
      rule pw_b150_q1_full_8)
     (simp_all only: arith_simps rel_simps)

lemma pw_b150_q1_full_10: "(2::int) ^ 0x115aacdae40b5700791bc mod 0x22b559b5c816ae00f2378e18df38c5410ed597 = 0xdf6fc5eb649bdcb826a23e7b386d69e02de4f mod 0x22b559b5c816ae00f2378e18df38c5410ed597"
  by (rule pw_dbl [where x = "0x10d23dfb64a411ad3a39ea57559f205e435c54" and k = "0x826ffd9d3c2ae68e1d3ed562588a8f8a86ee7"],
      rule pw_dbl [where x = "0x852d52449fc2f93e45973eb8ba38c448ef7ec" and k = "0x1ff00f69c71fbad3bffb4c0985e04a5c28424"],
      rule pw_dbl1 [where x = "0x138f3a07a139f01ea04ba887853ace81935ca5" and k = "0x160b84b1555751e9fbb8781b8bb276e2c84e2a"],
      rule pw_dbl1 [where x = "0x1e821948e5ba3ea41ce7d5b9d04a2e03ab2ad" and k = "0x35a1ef68a686eb37e8fb740b610a69538bdb"],
      rule pw_dbl1 [where x = "0x1e02da76ec100ee170013d6b90ea85f55b9f9f" and k = "0x33e63128978eb6f17c9136785f6f6227787c73"],
      rule pw_dbl1 [where x = "0x1cb79367244349c2c9044e638b2fecfc44458d" and k = "0x2f851e1dc1fb2b404d59566cf121231615c245"],
      rule pw_dbl [where x = "0xecc451b865674a970cb1209df3aa7d4186f30" and k = "0x64f2115672efe2f70a1280a89520aefdf7485"],
      rule pw_dbl1 [where x = "0x14a8077af12bb8f2f971e52e45c141b395f181" and k = "0x18963cce1fb4e3c30c9dc4e784a36c772ecdfe"],
      rule pw_b150_q1_full_9)
     (simp_all only: arith_simps rel_simps)

lemma pw_b150_q1_full_11: "(2::int) ^ 0x115aacdae40b5700791bc70 mod 0x22b559b5c816ae00f2378e18df38c5410ed597 = 0xce90f4c2b2c253c977ba927e1a94b2e391477 mod 0x22b559b5c816ae00f2378e18df38c5410ed597"
  by (rule pw_dbl [where x = "0x16a2ee6a53bacd6d1b278ee4cd1f74dc560e74" and k = "0xec3648a74743999868d3f85dd95583c411dcf"],
      rule pw_dbl [where x = "0x1a700f26ddaa44ec612add574b70aa1cbdaf03" and k = "0x14234c2b277872c0b0b26fda59a3d8a71445b3"],
      rule pw_dbl [where x = "0xf6e048c12ad95b4596d42f11d7ffc89d5fb02" and k = "0x6dbfefd9c74d1ced8804348017806eaf94527"],
      rule pw_dbl [where x = "0x1440e0e955e82fc9c6f917328685c715f1687" and k = "0xbd189bcb4ac9425d7a4cfb245358aea6d29"],
      rule pw_dbl1 [where x = "0x176306c1846872b9009bb9ede050277e31892e" and k = "0x1f84388c90068d082baabb0f73dfc6a7295827"],
      rule pw_dbl1 [where x = "0x1c65c72f8284628279206d4afd6c9ec14fe42c" and k = "0x2e77e97560437165167ba347cbd9d7ec65fbde"],
      rule pw_dbl1 [where x = "0x19467d68ce3113f1308c9d32e285b0c8162d84" and k = "0x24cfe15933d365b9f22d4d70375066fbc6f22c"],
      rule pw_dbl [where x = "0xdf6fc5eb649bdcb826a23e7b386d69e02de4f" and k = "0x59e61a98133ac5cba68738c4ad7ae7fbe35ab"],
      rule pw_b150_q1_full_10)
     (simp_all only: arith_simps rel_simps)

lemma pw_b150_q1_full_12: "(2::int) ^ 0x115aacdae40b5700791bc70c6 mod 0x22b559b5c816ae00f2378e18df38c5410ed597 = 0x13daf940423224906ea29b8291d4e5a0418aa3 mod 0x22b559b5c816ae00f2378e18df38c5410ed597"
  by (rule pw_dbl [where x = "0xf657d87305df359c69cd73e0e998bcd44af3a" and k = "0x6d46c256bbe3854cfbc588ca09bd3cf136fa7"],
      rule pw_dbl1 [where x = "0xcca80d88730457695a44238a5945f5130c963" and k = "0x96d7e92fe13ae68748e4bbf06c55fb1c0dc68"],
      rule pw_dbl1 [where x = "0xb9dde0735b8dba0d92f03c3957daddeb96256" and k = "0x7c6aabcfc769df708e7c0828647e7de249163"],
      rule pw_dbl [where x = "0x643f3420338cf5ada783e09bc38daaafcece0" and k = "0x1218a022b402e8159d3c37f51db184c0ae4e6"],
      rule pw_dbl [where x = "0x18da894e9c2fa5d55d6a7dd8a2f60ad17f76d6" and k = "0x11cc061e02515766274131fa75c66ebbb90a9c"],
      rule pw_dbl [where x = "0x1707ebcf74ded33df8e62f3be9bd7888615541" and k = "0xf484501eab2d9b73cb249217d5cc03704cd0d"],
      rule pw_dbl1 [where x = "0x9492ffc3de9ce97d76391310e006f355941a" and k = "0x4f7fc628d51e729879523ec27ada2bc8711"],
      rule pw_dbl1 [where x = "0xce90f4c2b2c253c977ba927e1a94b2e391477" and k = "0x99abf8e7fb0c060b61f16adb30d1dd9fe6ab8"],
      rule pw_b150_q1_full_11)
     (simp_all only: arith_simps rel_simps)

lemma pw_b150_q1_full_13: "(2::int) ^ 0x115aacdae40b5700791bc70c6f9 mod 0x22b559b5c816ae00f2378e18df38c5410ed597 = 0x1a798801c15e30184a3fbbf94c0ea1ca3aeb30 mod 0x22b559b5c816ae00f2378e18df38c5410ed597"
  by (rule pw_dbl1 [where x = "0x182689354f4bfb23988def3a3a1c9773f7d82a" and k = "0x219bc4d91f03e3386fd89e7abc3dcce750f528"],
      rule pw_dbl [where x = "0x13624057c2517493a5cd6eca0a78fc07bc2f0e" and k = "0xad34bd73ad147f1178d6e89296f3c19bc0f76"],
      rule pw_dbl [where x = "0x1c36aa97a10543c88897a7041ae841a8d38cb7" and k = "0x16ef1d4ea64dc5c99242be2cbda93a6ae148b5"],
      rule pw_dbl1 [where x = "0x5a574bbe2c7cf451baf363888ab775f1fa02b" and k = "0x1d64a1593ad650fb8245fbab4aec6aface17d"],
      rule pw_dbl1 [where x = "0x45b9cd2a709fd9a237d9c9372fcaf09368691" and k = "0x11825042fc0c5f7c4d563a1da99b90d7e3d81"],
      rule pw_dbl1 [where x = "0xf13ed962e5f7b16c0298979c934011b7cfe3" and k = "0xd199ebc586da9e3551c3ac4ff460afbba27"],
      rule pw_dbl1 [where x = "0x1bcfa64ab019e4984921d1ce5d5deece24c251" and k = "0x2c91a8c0c4a7b975562703e32272b40359a179"],
      rule pw_dbl1 [where x = "0x13daf940423224906ea29b8291d4e5a0418aa3" and k = "0x16b78e04b98dd40c9f26dc68ffac997b16c6e7"],
      rule pw_b150_q1_full_12)
     (simp_all only: arith_simps rel_simps)

lemma pw_b150_q1_full_14: "(2::int) ^ 0x115aacdae40b5700791bc70c6f9c6 mod 0x22b559b5c816ae00f2378e18df38c5410ed597 = 0xe8296e32ead9c77a7591da0758ff87eaf0c5f mod 0x22b559b5c816ae00f2378e18df38c5410ed597"
  by (rule pw_dbl [where x = "0x841c18bbc7682e946d65ea707ef4dc7f55c3c" and k = "0x1f6d89fc1cdf8ea48d0867911950f9fbffbf7"],
      rule pw_dbl1 [where x = "0x1b19fb937f3824c8b587980a39e9896af79ba0" and k = "0x2a52d2f42e19bab5010f97f9d347ce0c0152dc"],
      rule pw_dbl1 [where x = "0x150d5590f3af3b6837f076eb14b6af4856ef04" and k = "0x1989b5d742ba22d37fe0e11d04546504c0df80"],
      rule pw_dbl [where x = "0x7390ded7f705006747faf5bed7baaae6ac770" and k = "0x180ca79ee535d4395dd14feaf20774ad70564"],
      rule pw_dbl [where x = "0xddc612f823d64fa8085d25b3b5e959a8812b3" and k = "0x5890d26a31a6f2d32882089e70651e6170d2f"],
      rule pw_dbl [where x = "0x1d89af03e3e7b0ddd63fd54101f055d252d0c7" and k = "0x192334b708d1d7140468f6f8e24ad3b5e263b2"],
      rule pw_dbl1 [where x = "0xb4b41b504444dcf532564d4215e50a0b24e52" and k = "0x7599b2e58a8c30415e0d03fc51c4b52ae3c67"],
      rule pw_dbl1 [where x = "0x1a798801c15e30184a3fbbf94c0ea1ca3aeb30" and k = "0x286379a6b7245c3e7d18c91ba2747826787b82"],
      rule pw_b150_q1_full_13)
     (simp_all only: arith_simps rel_simps)

lemma pw_b150_q1_full_15: "(2::int) ^ 0x115aacdae40b5700791bc70c6f9c62a mod 0x22b559b5c816ae00f2378e18df38c5410ed597 = 0x1ab7dd31acba0259103607f4277a9a927c6fd8 mod 0x22b559b5c816ae00f2378e18df38c5410ed597"
  by (rule pw_dbl [where x = "0x17fc99c86f35252656ba21230d206a00c78d73" and k = "0x1093b968cb65770016d060002bb1feb6a270d7"],
      rule pw_dbl1 [where x = "0x1be00bb7b6fab30aa456ee4395b6623fe0050f" and k = "0x2cc6457d7a15874bc520dee34c335e9ada9209"],
      rule pw_dbl [where x = "0x1933354ed88b18ba39e5f2b4d14636d19c6ee1" and k = "0x124be64012caa76ff13d0b37d3ba7dab0c331e"],
      rule pw_dbl1 [where x = "0x347b4abbc46e1d3cf4c1cad9d3b2d098718b6" and k = "0x9eb643b7d7c67267eff3f785c8907027de31"],
      rule pw_dbl [where x = "0x491dce28bb6b6d46ea7e4ac3129af11ff85c0" and k = "0x9a06c5e185677078ad9da53abbe5f3a2f046"],
      rule pw_dbl1 [where x = "0x1ccc1091b90bba35d4617b95ffecc4021a4157" and k = "0x2fc90552c94a86b4010fcca162a22cb17159ee"],
      rule pw_dbl [where x = "0x2169d4c4fa2f5b7be2c2d45e0ff15665a335b8" and k = "0x202aae5ac9c81c8f1410a4be4e769159de0b7f"],
      rule pw_dbl [where x = "0xe8296e32ead9c77a7591da0758ff87eaf0c5f" and k = "0x610e9ad7272a69b00f346c35b1dbe104151df"],
      rule pw_b150_q1_full_14)
     (simp_all only: arith_simps rel_simps)

lemma pw_b150_q1_full_16: "(2::int) ^ 0x115aacdae40b5700791bc70c6f9c62a08 mod 0x22b559b5c816ae00f2378e18df38c5410ed597 = 0x81fcc7de01ac2a24a0abded3d6ea4b5248034 mod 0x22b559b5c816ae00f2378e18df38c5410ed597"
  by (rule pw_dbl [where x = "0x11e33975fbc2f631a6836cfcd0f8fea9d11219" and k = "0x937fc3e443eb9f2474f7b857e4f349523854b"],
      rule pw_dbl [where x = "0x3034753be7839c8bf1403c985514fc8529049" and k = "0x42f3196416e51d0c994db14f73cb39affa08"],
      rule pw_dbl [where x = "0x2230dda7d5ac24426cc5af4a6f98891f7b7364" and k = "0x21ae5b4e0846367dba73f752de206f545f3651"],
      rule pw_dbl1 [where x = "0x1ce1cb0263dfe7d91d6a751a4c4f9da04f9a4e" and k = "0x30113ce0af6042842abb49cf14d3153abba17c"],
      rule pw_dbl [where x = "0xdca10a73ebe76c9e8515fd5592c26a6fd4fc9" and k = "0x57a76118823746eac1f53ba7e8b322b4c98f5"],
      rule pw_dbl [where x = "0x16a501721f635e78d63ace9320ffb3bf029869" and k = "0xec61954651cbf9a968e71c80b03db68ee87f8"],
      rule pw_dbl [where x = "0x219b11653190f6263f3b80a8610e3bcb708f21" and k = "0x2089c0e052ed2bd7e03e403649693479fd2fe8"],
      rule pw_dbl [where x = "0x1ab7dd31acba0259103607f4277a9a927c6fd8" and k = "0x14914448f1e608a8928fb0303d360637826bb9"],
      rule pw_b150_q1_full_15)
     (simp_all only: arith_simps rel_simps)

lemma pw_b150_q1_full_17: "(2::int) ^ 0x115aacdae40b5700791bc70c6f9c62a0876 mod 0x22b559b5c816ae00f2378e18df38c5410ed597 = 0x9861bd94488cb5a5f406222c18162009bf146 mod 0x22b559b5c816ae00f2378e18df38c5410ed597"
  by (rule pw_dbl [where x = "0xa76398c1cff1612a7f926b573de3ed517b149" and k = "0x327457160a24cd17471e47b60caf0020d062d"],
      rule pw_dbl1 [where x = "0x1f64f8de132d88f5c6bd6a27b457d9d37eb94f" and k = "0x38cb31e9ce8ca1c7276146b1b8cbb99f87996f"],
      rule pw_dbl1 [where x = "0x13ebe6cad89b9d622e216e779d27ed0d054f5a" and k = "0x16de5ac09a004f42bef138fdc196ce3e0b3aef"],
      rule pw_dbl [where x = "0xaaaecc34c31c8dc4d53350526d457ac05283d" and k = "0x3475a8343e284dd6e43190ba77801e0847629"],
      rule pw_dbl1 [where x = "0x11c11476b30562a988030ddc331d28ef13ca8e" and k = "0x1229d8592b2d55c830ad5c4a93b675ee996c6d"],
      rule pw_dbl1 [where x = "0x1727b1e73cdbeba39817755c6ab9aad0adb12f" and k = "0x1ee519dedcfc7818b7be8cd7d9ea70c231f16c"],
      rule pw_dbl1 [where x = "0x1aad74b525dc9ef27d5f57c6beba3934557321" and k = "0x2902826b8217acee264f48c0d1a5311ea4efa5"],
      rule pw_dbl [where x = "0x81fcc7de01ac2a24a0abded3d6ea4b5248034" and k = "0x1e6d1d36ed380b16d8eb3ed14a32b479377e9"],
      rule pw_b150_q1_full_16)
     (simp_all only: arith_simps rel_simps)

lemma pw_b150_q1_full_18: "(2::int) ^ 0x115aacdae40b5700791bc70c6f9c62a0876ac mod 0x22b559b5c816ae00f2378e18df38c5410ed597 = 0x21d7636c380b7a2831712db1b55503a09131c9 mod 0x22b559b5c816ae00f2378e18df38c5410ed597"
  by (rule pw_dbl [where x = "0xe44eda7329aeee16df786f878793406ac4ce3" and k = "0x5ddc8f16256c481dac71c2c892cd65ff38c80"],
      rule pw_dbl [where x = "0xf94f75ad461987ee6ce0c644df4a829578c9e" and k = "0x6fecbd242150a5bcffa0eaeed2fb99aac0e87"],
      rule pw_dbl1 [where x = "0x45213596bf505a170a10eac1cea6c937922ae" and k = "0x1136016407f62cb1bd8430e41f037f2dd30a6"],
      rule pw_dbl1 [where x = "0x17f7011e9041acb8529940de39fc8bee5d7ea1" and k = "0x2117fc35cd43f15750b047aabc5529fa4d614c"],
      rule pw_dbl [where x = "0xede58cd9fb194bb1017e938447ececa073c6d" and k = "0x65e948912cb31a9048040353ea66e1454bf78"],
      rule pw_dbl1 [where x = "0x1b0e71c7f7255cf3d8ce4c7a30d8bad202c555" and k = "0x2a2ed0eea383c76005a0928f8ef7e0b1bd42c3"],
      rule pw_dbl [where x = "0x1688ecf30b56b67118c8c22f604cc0a7e2b4c2" and k = "0xea18c2b2a22558de823131f116527c846eba9"],
      rule pw_dbl1 [where x = "0x9861bd94488cb5a5f406222c18162009bf146" and k = "0x53a04526ec3de4a95ec3ec6403ae158c74f6a"],
      rule pw_b150_q1_full_17)
     (simp_all only: arith_simps rel_simps)

lemma pw_b150_q1_full_19: "(2::int) ^ 0x22b559b5c816ae00f2378e18df38c5410ed596 mod 0x22b559b5c816ae00f2378e18df38c5410ed597 = 1 mod 0x22b559b5c816ae00f2378e18df38c5410ed597"
  by (rule pw_dbl [where x = "1" and k = "0"],
      rule pw_dbl1 [where x = "0x1abea63191bf017525f920f2ae93bf74c7d3b6" and k = "0x29376fbaf64a0c47a935744c19b91e2a14fa51"],
      rule pw_dbl1 [where x = "0xb5bce58d5928338c352173b2026858f127cd6" and k = "0x76f354dd7cc87d4b26a569efba470efb534be"],
      rule pw_dbl [where x = "0x213a28750770252509134571e6c6a5fd8b2267" and k = "0x1fcf25ea4ca552ac5394c027eb3691f1a1ad9d"],
      rule pw_dbl1 [where x = "0x21d7636c380b7a2831712db1b55503a09131c9" and k = "0x41fdf130657d0580393dcf3e964b4a8a0d31fd"],
      rule pw_b150_q1_full_18)
     (simp_all only: arith_simps rel_simps)

lemma pw_b150_q2_part_1: "(2::int) ^ 0x1b0 mod 0x22b559b5c816ae00f2378e18df38c5410ed597 = 0x47e26465b3fe1cd9e5431a7ac1691d44ee160 mod 0x22b559b5c816ae00f2378e18df38c5410ed597"
  by (rule pw_dbl [where x = "0x137f7811e43405268298f7e52b64b026255171" and k = "0xaf406ed23eda26a0d5f26f7dfa49e91ff0ba7"],
      rule pw_dbl [where x = "0x1000000000000000000000000000" and k = "0x760303dd850303dc9"],
      rule pw_dbl [where x = "0x40000000000000" and k = "0"],
      rule pw_dbl [where x = "0x8000000" and k = "0"],
      rule pw_dbl1 [where x = "0x2000" and k = "0"],
      rule pw_dbl1 [where x = "0x40" and k = "0"],
      rule pw_dbl [where x = "8" and k = "0"],
      rule pw_dbl1 [where x = "2" and k = "0"],
      rule pw_one)
     (simp_all only: arith_simps rel_simps)

lemma pw_b150_q2_part_2: "(2::int) ^ 0x1b0a0 mod 0x22b559b5c816ae00f2378e18df38c5410ed597 = 0x2140941bf2d864d3081d47832dc30193aba981 mod 0x22b559b5c816ae00f2378e18df38c5410ed597"
  by (rule pw_dbl [where x = "0x1b52859bd1ec24c704503728b2b144ed475bc3" and k = "0x1582113546dc507cf5a8566c4803d28c7d4c38"],
      rule pw_dbl [where x = "0x2218f154c4d93da9373141582888b9b81ae114" and k = "0x217f49c72d6c5c1ca63a20bff812ca72858c3b"],
      rule pw_dbl [where x = "0xc2bb069b33e909b48dbefd57cdc8e5a3dd3d2" and k = "0x44487dfcfe7e3d9427aaeb49b4495162e8850"],
      rule pw_dbl [where x = "0x206d40776bf0db8665e807b7c8ef6aa998557b" and k = "0x1e4b8cddae04e81d42b0499ba80216ad9d93d1"],
      rule pw_dbl [where x = "0xdda6b85223da2316fa8c68d036e333105a70d" and k = "0x5877c9462327746405ce4357aa0a4b89c7a02"],
      rule pw_dbl1 [where x = "0x1e72e7b07235d829f948ff8d1a3d472d35ff8c" and k = "0x356c911c5bc82e9a41753b14e3b40866621ee5"],
      rule pw_dbl [where x = "0xb63d882c3f7b7f4497019e6a90dc2d245ef51" and k = "0x3bcdf9e08b2749f9546c9459d8fb63abded33"],
      rule pw_dbl1 [where x = "0x47e26465b3fe1cd9e5431a7ac1691d44ee160" and k = "0x129c22701271701516f82b04aa325509ee8a9"],
      rule pw_b150_q2_part_1)
     (simp_all only: arith_simps rel_simps)

lemma pw_b150_q2_part_3: "(2::int) ^ 0x1b0a084 mod 0x22b559b5c816ae00f2378e18df38c5410ed597 = 0x96859f683f4a1628fcfcb75d25bc9ec43b272 mod 0x22b559b5c816ae00f2378e18df38c5410ed597"
  by (rule pw_dbl [where x = "0x64ef65d2eff20949d7ac3f7ffa70a3cef4795" and k = "0x125874a95ad12102dce6949ec6eafe5b6a6d1"],
      rule pw_dbl [where x = "0x740d0d6fc2425a410c5583494994868540d2a" and k = "0x184072ba3e71f71e8adf884e2916e4f85a709"],
      rule pw_dbl1 [where x = "0x8a3e35a306a35bed33644b4398a380f04882d" and k = "0x44d3d48ac833b8a32f2f534732b700b8dd798"],
      rule pw_dbl [where x = "0x1c456f5639c6137dd9eeffbab8dd7322bac7e9" and k = "0x1707262030bd3222ccbb3d989e6a01a52aa9bc"],
      rule pw_dbl [where x = "0x216db126d647a54105a4648da7531c3c71af0d" and k = "0x20321dcb457e78d8b38ef369d70a13c0254f40"],
      rule pw_dbl [where x = "0xb366347b2fd715a3bad3f286bd28781ed804a" and k = "0x39f455494fad9b1b9dd855795cb0c69ac8d41"],
      rule pw_dbl [where x = "0x1fbb9f702f5f24f36a1fa826e2bd3d89fe04ec" and k = "0x1d03326a61caf763e0b775ad175a8ec83095aa"],
      rule pw_dbl1 [where x = "0x2140941bf2d864d3081d47832dc30193aba981" and k = "0x3fb6e43c312960943a808165be31cffb07865a"],
      rule pw_b150_q2_part_2)
     (simp_all only: arith_simps rel_simps)

lemma pw_b150_q2_part_4: "(2::int) ^ 0x1b0a08477 mod 0x22b559b5c816ae00f2378e18df38c5410ed597 = 0x21e8ea82b94649ec3959d2cad164b5cc43a0b2 mod 0x22b559b5c816ae00f2378e18df38c5410ed597"
  by (rule pw_dbl1 [where x = "0x209ae9164dfc034da49a4055c2c4bc90db0f5a" and k = "0x3d4232d483c94710d04a85d255a9e3f6a74cda"],
      rule pw_dbl1 [where x = "0x8a78fdfeafe244c7398e993eaf381483dbcd3" and k = "0x450e695448db3c64a9dd6725ff61084738648"],
      rule pw_dbl1 [where x = "0x21eb4bd5f1c255995e66bb227f8666ab696564" and k = "0x424bac6e520d30d80eb397e7b8f0d0c37a04bb"],
      rule pw_dbl [where x = "0xe88cf9828647908cd1b7f1da848c925ffa33a" and k = "0x6161e7ac87504fc3a7c9b3473037a26d09240"],
      rule pw_dbl1 [where x = "0x68a763a05e6dbeb746e46724a39d927841986" and k = "0x2771c7c2d58e2080c974b70084ae1d6029522"],
      rule pw_dbl1 [where x = "0x139f5da5202349fc871ce970e05d25f833c774" and k = "0x162ff4fac0977437260e8da6c12e1258ed5476"],
      rule pw_dbl1 [where x = "0x1d783d6d8bdab2c7857156b838b5937313158e" and k = "0x320b1999ded9284523c4a8ed31c59b95234d0c"],
      rule pw_dbl [where x = "0x96859f683f4a1628fcfcb75d25bc9ec43b272" and k = "0x28cc7081c179c0b3010bdb0e6637e4abce73a"],
      rule pw_b150_q2_part_3)
     (simp_all only: arith_simps rel_simps)

lemma pw_b150_q2_part_5: "(2::int) ^ 0x1b0a08477e0 mod 0x22b559b5c816ae00f2378e18df38c5410ed597 = 0x148546ee9c7fca20e5408de151f9e9210f8a44 mod 0x22b559b5c816ae00f2378e18df38c5410ed597"
  by (rule pw_dbl [where x = "0x730f3f7480041f8c5899b732f32f7379aaf75" and k = "0x17d6d2da64ffc5fc0e5cb2517712db0d15113"],
      rule pw_dbl [where x = "0x170ccf406d67e1e341bbec71b5cc672fd06a90" and k = "0xf4ec27f36c27ee3132c7c84fd0cee54ac1a2d"],
      rule pw_dbl [where x = "0x13517a941b6f7e75f2cd9a6ef3ccf1fae6a0" and k = "0xac09805550b8082ce1f1bbb88a8aee010"],
      rule pw_dbl [where x = "0x105ef21bba6c67c9a761e162c833d1d9a63efa" and k = "0x7b8bd65f1683e15d85135c5b920307e859f1c"],
      rule pw_dbl [where x = "0x1743e27884a5c7b9781d7e0834733cace4e3c9" and k = "0xf9840a041303ee62fc7357a3d7acb516b62c1"],
      rule pw_dbl1 [where x = "0x3566015cd53f5cb45cb0a37be73946be62b7c" and k = "0xa44e477d21a954c90bcb6aca98fc8fc7bf41"],
      rule pw_dbl1 [where x = "0xf74f8fb9784569f31f91855bd94ec939beecd" and k = "0xdc45ec473e67b6db48fbc1dfcb0b14609c89a"],
      rule pw_dbl1 [where x = "0x21e8ea82b94649ec3959d2cad164b5cc43a0b2" and k = "0x42425ee1b30b278e2978dd9246d5e104a5f27d"],
      rule pw_b150_q2_part_4)
     (simp_all only: arith_simps rel_simps)

lemma pw_b150_q2_part_6: "(2::int) ^ 0x1b0a08477e002 mod 0x22b559b5c816ae00f2378e18df38c5410ed597 = 0x122d2eef0844d693e4128b9874e89a2e6d1ac1 mod 0x22b559b5c816ae00f2378e18df38c5410ed597"
  by (rule pw_dbl [where x = "0x760eb906ac6a8ec31ebb5e398175450bfceaa" and k = "0x1918fe1a72e6b6ef20407a2c933dfe1067555"],
      rule pw_dbl1 [where x = "0x1196c735f79f9fb0724e5f8500e7192556e28" and k = "0x11d3b1b8be63695bc0cc614846f767cda79a"],
      rule pw_dbl [where x = "0x12e3ff11a67b7bc82f0186334844d531f514e8" and k = "0xa4811d1d527f46bbce847aba6f099ce816fa8"],
      rule pw_dbl [where x = "0x20e39904ef06de398436c605d4fb422b2e4e44" and k = "0x1f2a4245e3fb6d44132598a5e21cf2f841b118"],
      rule pw_dbl [where x = "0x81a250d7f1d55e8fda3926a497c425b8b1b56" and k = "0x1e42d242cf7481b9de1b53825d01b7df53660"],
      rule pw_dbl [where x = "0x87c1696f9bdd31954411c2dc68a5a565ebfc" and k = "0x212fb91f99696b787f155b23c17d394dc56"],
      rule pw_dbl [where x = "0x5f2af9da4561af20924c044628d921dcd2ac7" and k = "0x104f17c077eef4000db1374ea44bbdbc5f393"],
      rule pw_dbl [where x = "0x148546ee9c7fca20e5408de151f9e9210f8a44" and k = "0xc21e3cfc771769781f13a403155e3b9c5b61f"],
      rule pw_b150_q2_part_5)
     (simp_all only: arith_simps rel_simps)

lemma pw_b150_q2_part_7: "(2::int) ^ 0x1b0a08477e0029c mod 0x22b559b5c816ae00f2378e18df38c5410ed597 = 0x9ba31629a87bfefc7ce0cc5aea5a7bf424240 mod 0x22b559b5c816ae00f2378e18df38c5410ed597"
  by (rule pw_dbl [where x = "0x1e30cdb94cce4f17759a02f94d981e4cc8cf95" and k = "0x1a42cbf97e155ffaadfa613ab4200342b3c26f"],
      rule pw_dbl [where x = "0x134f77843f4e0d14faf787fbbaa98171c2e369" and k = "0xabe5ac86da4492c8c899e2e1f9bd4121b41e4"],
      rule pw_dbl1 [where x = "0x5e3de235ea20da321d39f844080d062609c73" and k = "0x1ffc7434c0023de947387b5f6169a173cd27f"],
      rule pw_dbl1 [where x = "0x1165a59ba254ac20214ca733944ada0c2693cc" and k = "0x1170a54c215455a32d7f9996e224d7e84a945b"],
      rule pw_dbl1 [where x = "0xf1d1d68d28b38900092b34a9bd8a1dca55b01" and k = "0xd299a441025ff8e29f0763c9019901a35ac3a"],
      rule pw_dbl [where x = "0x57d8bbc36a2eed0e03411d16864c1115c7c62" and k = "0xde56c2a9ac5464e54397429af20c4f3757f5"],
      rule pw_dbl [where x = "0x1e34edae4627190305728e82004cded2f2fe5e" and k = "0x1a49f97c2259375dc852f5531340257b3a3b2e"],
      rule pw_dbl1 [where x = "0x122d2eef0844d693e4128b9874e89a2e6d1ac1" and k = "0x1309aa7f0612b461a16dd367924d93233594fc"],
      rule pw_b150_q2_part_6)
     (simp_all only: arith_simps rel_simps)

lemma pw_b150_q2_part_8: "(2::int) ^ 0x1b0a08477e0029cf2 mod 0x22b559b5c816ae00f2378e18df38c5410ed597 = 0xc21c91373d31d08558d25ca09e6fb3e188aae mod 0x22b559b5c816ae00f2378e18df38c5410ed597"
  by (rule pw_dbl [where x = "0x1dbb74691f571ca5f9c8e5a3666015ef8c9797" and k = "0x197832a8ac1424080348c16b5e2d7c022b4d15"],
      rule pw_dbl1 [where x = "0x189d44b42311bb5b88dbc8524df628e9051d1" and k = "0x22e9676ac50f7feb0a2c405d16ddd70bff0d"],
      rule pw_dbl [where x = "0x1b1fbbee4113f479631da57364632e9356a3a6" and k = "0x153265c2310b7c490e5dcc2b202f8780473925"],
      rule pw_dbl [where x = "0x145adca8df30c2c5aea189db49476a141307ca" and k = "0xbeff0316c53c788ca68c589f9dae3fbceb9f2"],
      rule pw_dbl1 [where x = "0x1d56fa43345937bcc20d2ca1f8e1bc899604c9" and k = "0x319a61a395261f83f88d3d7ed3b3f4c83cc5e8"],
      rule pw_dbl1 [where x = "0x7c12928edfe6a8c2f4e53256d1aa650cc1073" and k = "0x3770c1fdaf13d80b099c24dbfb00535180cdf"],
      rule pw_dbl1 [where x = "0x841fcf7d23a77a23c1fa2043e6203d714def2" and k = "0x3ede9cba85b61fdaa14740c5b345166bfc433"],
      rule pw_dbl1 [where x = "0x9ba31629a87bfefc7ce0cc5aea5a7bf424240" and k = "0x573cb571d9e6c2da19aeb155e8a78b5f49522"],
      rule pw_b150_q2_part_7)
     (simp_all only: arith_simps rel_simps)

lemma pw_b150_q2_part_9: "(2::int) ^ 0x1b0a08477e0029cf29a mod 0x22b559b5c816ae00f2378e18df38c5410ed597 = 0xb24f169f6b5ceacdcee4e3921ee028ccb0a22 mod 0x22b559b5c816ae00f2378e18df38c5410ed597"
  by (rule pw_dbl [where x = "0x109d3b45aae2575d98529b03562b4c89bff301" and k = "0x7f3eedb584d0f43e706658472340458ec44f9"],
      rule pw_dbl1 [where x = "0x10a03a0fd93e3807bca6ccef2251661a6bd94c" and k = "0xfed9a6a615a5e8cf073a26bd695175f72f0b9"],
      rule pw_dbl [where x = "0x229fe67442eb6c57f17154a4e10c9ca1fd9170" and k = "0x228a807467ac906254379b164e9ebf46da446c"],
      rule pw_dbl1 [where x = "0x27a4d6e5a63bda492918c5a2efb014ddcb177" and k = "0x5a8ffdaf679cd46eb70703f1a925dd9bca9e"],
      rule pw_dbl1 [where x = "0x12c577a6cb059f45e4e8893163fef6f4e0ef5b" and k = "0x144de2ac588f645f3f0af4b11d83c9852dbbfd"],
      rule pw_dbl [where x = "0x1684ac755e1f2ccf164dbc45a6b63dc9379f78" and k = "0xe9c0741b2539382d3ae17fbfb28b107182ce3"],
      rule pw_dbl [where x = "0xa8be973716caee5b1d1db6325d81efca57efc" and k = "0x33465e80f80bf7156c2ff6e933e3e685f5f28"],
      rule pw_dbl1 [where x = "0xc21c91373d31d08558d25ca09e6fb3e188aae" and k = "0x87b314a3e330740138e2354c363015a48b854"],
      rule pw_b150_q2_part_8)
     (simp_all only: arith_simps rel_simps)

lemma pw_b150_q2_part_10: "(2::int) ^ 0x1b0a08477e0029cf29ae2 mod 0x22b559b5c816ae00f2378e18df38c5410ed597 = 0x1703ba72049282220f108ad2e678ded2a63f1c mod 0x22b559b5c816ae00f2378e18df38c5410ed597"
  by (rule pw_dbl [where x = "0x99e1564a53a5432f824be05d3365404c47093" and k = "0x2aa3af66cf1bcc1f7216bbbc996f5863ed0bb"],
      rule pw_dbl1 [where x = "0xa274ee2707118587299dccc4032187293242a" and k = "0x5f0cbc87d92ea570232793670409679941513"],
      rule pw_dbl [where x = "0x72612e111ada1ad243ac1fe997b0ad90e1414" and k = "0x178ee81805420e0e00d7088a91d672d55368a"],
      rule pw_dbl [where x = "0x1ebc4971ad69279ebe28c7f22a974ad921d1f8" and k = "0x1b37a4498e9d92addb5e76190d75d9d24a12b4"],
      rule pw_dbl [where x = "0x130fc838f9094c0ef48d2cf4f335af300ff7de" and k = "0xa77f295b5370b0fda8b530fed65b76de94b54"],
      rule pw_dbl1 [where x = "0x1ac524518562fbae8ba8e1936982bcc8ae0e5f" and k = "0x294b753136aa56d610b5326607d69fbcf29afc"],
      rule pw_dbl1 [where x = "0x1d08fc4ad398d110e691e71de056a6ef377734" and k = "0x3094097dd758fea855514ce520c1ce1a485167"],
      rule pw_dbl1 [where x = "0xb24f169f6b5ceacdcee4e3921ee028ccb0a22" and k = "0x728117435fc80ed7a0d1d2ab1d5942e266f4c"],
      rule pw_b150_q2_part_9)
     (simp_all only: arith_simps rel_simps)

lemma pw_b150_q2_part_11: "(2::int) ^ 0x1b0a08477e0029cf29ae282 mod 0x22b559b5c816ae00f2378e18df38c5410ed597 = 0x1e197221d9566d47da8c4de14ecd0171e63dab mod 0x22b559b5c816ae00f2378e18df38c5410ed597"
  by (rule pw_dbl [where x = "0x1a00986ba536ccefc2721386e184a02c5e59c1" and k = "0x137ae3c10420c5d3fba48d969454cdbd925f9a"],
      rule pw_dbl1 [where x = "0x20ab3a9b5a93a87354b904fe6e62121b8725c7" and k = "0x3d7f93a558260655768f687f3545d1469b8387"],
      rule pw_dbl [where x = "0xaff0cdfc343d68c3313fe363c3bd5fba931c0" and k = "0x37bdcb8c3dbdbab5cf89a31eaa43cb80c58af"],
      rule pw_dbl [where x = "0xce355368154d072b63b822c3fc69dfa63efd4" and k = "0x4c91e0d5cc04247dfa62a86881eaabbbe32b0"],
      rule pw_dbl [where x = "0x17cb8bf02e8de3dfc20bdbf97a272a692431e5" and k = "0x1050317818356329fc40c6bf5050924e3273c3"],
      rule pw_dbl [where x = "0xcbbf0e5507ca3bb5b3a3907985d068b0c45ad" and k = "0x4ac09afbeb7ee27f3afc567a744255fe02b9c"],
      rule pw_dbl [where x = "0x5b07a7f017e92deb9017ef12c9b4f6d3cf64b" and k = "0xeebe9f7e0a372bf09f531727ad6653206f94"],
      rule pw_dbl1 [where x = "0x1703ba72049282220f108ad2e678ded2a63f1c" and k = "0x1e856a1478af09239f9c6db65df74b35a65b73"],
      rule pw_b150_q2_part_10)
     (simp_all only: arith_simps rel_simps)

lemma pw_b150_q2_part_12: "(2::int) ^ 0x1b0a08477e0029cf29ae28269 mod 0x22b559b5c816ae00f2378e18df38c5410ed597 = 0x122b827a9391ec2845e6e3d94a9e6ac8467780 mod 0x22b559b5c816ae00f2378e18df38c5410ed597"
  by (rule pw_dbl1 [where x = "0x1f6bbfc15f3af6f1ce5a953a2e3b9cbdc950af" and k = "0x38e3b984d8c7117017617a379fd72a2e22f28e"],
      rule pw_dbl [where x = "0xd4743e36e6e7d5c2a466402cae4981e4ad3de" and k = "0x51474a2f24ea93da70c41abfa2c94cb8f3773"],
      rule pw_dbl [where x = "0x1468226430232cc73768287e9631784559f7e1" and k = "0xbff86813791d7358dfc87ade0113e3efd8995"],
      rule pw_dbl1 [where x = "0xe7d63d434e336eee8c604bb2182486ced7ce0" and k = "0xc1923136028a3e220bfaf2a43ec62daab3ab9"],
      rule pw_dbl [where x = "0x1ff1151bbf87b3487c1c9b363fe92d31a3a3d8" and k = "0x1d654597f99539004c974a82a6d44b058beda0"],
      rule pw_dbl1 [where x = "0xd1cd59aba84a90eafc8684adf74577bde7d54" and k = "0x9e862b2325dd6b1cb0c28a48ea1b15fab2ff8"],
      rule pw_dbl1 [where x = "0x2189630280e6dd0c6cdf039fea9114cae7b40e" and k = "0x40cf196d71c29978250f29c31ef3f89d6d8bec"],
      rule pw_dbl [where x = "0x1e197221d9566d47da8c4de14ecd0171e63dab" and k = "0x1a1a39285b021fb5146aedbb7822f18034288d"],
      rule pw_b150_q2_part_11)
     (simp_all only: arith_simps rel_simps)

lemma pw_b150_q2_part_13: "(2::int) ^ 0x1b0a08477e0029cf29ae2826945 mod 0x22b559b5c816ae00f2378e18df38c5410ed597 = 0xc7dad5c35b083b963178667ec408400bedb4e mod 0x22b559b5c816ae00f2378e18df38c5410ed597"
  by (rule pw_dbl1 [where x = "0x4bbf3702660b6de9d9f7c7c8f0d2dfa675d3a" and k = "0x14a9e04040033d06f416fafc81e1580adb416"],
      rule pw_dbl [where x = "0x34f72f31273ecac82b1cf7bbd9c4b659592" and k = "0x50d387401261f5f1329b17f67cca6b86"],
      rule pw_dbl1 [where x = "0xa411d7637cb8b2154d6672036a20d938ee0eb" and k = "0x60f24e03a7679072debd4de2ce81a2b323120"],
      rule pw_dbl [where x = "0x122be222fd85b0aede9443bf2b541ee0c02beb" and k = "0x98378bb13118d596067f16ec5ce99273ba362"],
      rule pw_dbl [where x = "0xa3897d7e899ea81ad3c5c4e48ea89c43b81f0" and k = "0x3028b713c4696c2e38ffe9e21084f38ca3833"],
      rule pw_dbl [where x = "0x20695f356ecbf3ae44b4f143a6466d2df76405" and k = "0x1e444d5f49344abfdbabe9288ded494cdd9a3f"],
      rule pw_dbl1 [where x = "0x4427dd79a8335c21d7d232fa32a0678d9de01" and k = "0x10bab93c0458305da1caf1c6514ddd3881d8b"],
      rule pw_dbl [where x = "0x122b827a9391ec2845e6e3d94a9e6ac8467780" and k = "0x98314928456b560e5c9a15612e5463bebf3d9"],
      rule pw_b150_q2_part_12)
     (simp_all only: arith_simps rel_simps)

lemma pw_b150_q2_part_14: "(2::int) ^ 0x3614108efc00539e535c504d28a mod 0x22b559b5c816ae00f2378e18df38c5410ed597 = 0x2cbe55ea53ac8f31a83a9d88b34f81060f414 mod 0x22b559b5c816ae00f2378e18df38c5410ed597"
  by (rule pw_dbl [where x = "0xc7dad5c35b083b963178667ec408400bedb4e" and k = "0x47ec949e2ad4948e5484e48eafda23e3bfbd0"],
      rule pw_b150_q2_part_13)
     (simp_all only: arith_simps rel_simps)

lemma pw_b150_q2_full_1: "(2::int) ^ 0x115 mod 0x22b559b5c816ae00f2378e18df38c5410ed597 = 0x1d4832654d3a4d87e39c5932322df9f86e4c9a mod 0x22b559b5c816ae00f2378e18df38c5410ed597"
  by (rule pw_dbl1 [where x = "0x40000000000000000000000000000000000" and k = "0xec0607bb0a0607b931f9f84409f3f08a"],
      rule pw_dbl [where x = "0x200000000000000000" and k = "0"],
      rule pw_dbl1 [where x = "0x400000000" and k = "0"],
      rule pw_dbl [where x = "0x20000" and k = "0"],
      rule pw_dbl1 [where x = "0x100" and k = "0"],
      rule pw_dbl [where x = "0x10" and k = "0"],
      rule pw_dbl [where x = "4" and k = "0"],
      rule pw_dbl [where x = "2" and k = "0"],
      rule pw_one)
     (simp_all only: arith_simps rel_simps)

lemma pw_b150_q2_full_2: "(2::int) ^ 0x115aa mod 0x22b559b5c816ae00f2378e18df38c5410ed597 = 0x20f0a6a87ef0eadde9d4f7ce6788d06725def4 mod 0x22b559b5c816ae00f2378e18df38c5410ed597"
  by (rule pw_dbl [where x = "0x102f4f52da16851a82fd549de421c9a81d71a8" and k = "0x78c0ef80d33e0798e0f6e1ea72d60dacb3c94"],
      rule pw_dbl1 [where x = "0x62c01be015d4271ba0e8a101c879754231dbb" and k = "0x231eb247a3654975bd4da2cbd2020ab84b606"],
      rule pw_dbl [where x = "0x1b9d2fb44ac25d5cfdf75593af25fef852f246" and k = "0x15f83ef2348c5cc1cc384a7e1de7ad950754ff"],
      rule pw_dbl1 [where x = "0x1ccd5462707e6161e908ed1f05f694058e960e" and k = "0x2fcd3813e2fc4ed5425559ee5175690d7b770e"],
      rule pw_dbl [where x = "0x7bdbd2e703508450c4e003dc44c5863245824" and k = "0x1b9fefa691e98acaaee3d404bbbdeabc51d4e"],
      rule pw_dbl1 [where x = "0x154cc28890123b63063d04adad0906fdeeda04" and k = "0x1a247f3a7a8dc43b36a3165d0833b0ab8e0f64"],
      rule pw_dbl [where x = "0x46e234018036d7b27bda9fb6bc1fc02e01247" and k = "0x90c347a82f6191c16dc23307629353e41f5b"],
      rule pw_dbl1 [where x = "0x1d4832654d3a4d87e39c5932322df9f86e4c9a" and k = "0x316873e46d714005f0fb27ef0ff12d4c748b27"],
      rule pw_b150_q2_full_1)
     (simp_all only: arith_simps rel_simps)

lemma pw_b150_q2_full_3: "(2::int) ^ 0x115aacd mod 0x22b559b5c816ae00f2378e18df38c5410ed597 = 0xa570d606f65129a1594af006d3bc48994711d mod 0x22b559b5c816ae00f2378e18df38c5410ed597"
  by (rule pw_dbl1 [where x = "0x1d9784f7e35caac9ad17428cc1e5853d436d7b" and k = "0x32758dab1864a0c17b5110de92e307763f2c33"],
      rule pw_dbl [where x = "0xfe063cd4d30a1d5e71c8f63952af80c2f6b3d" and k = "0x743284a56a2077c64328edccf225112dde722"],
      rule pw_dbl1 [where x = "0x54971747c70bb948a2d484e612c3eca2c4e95" and k = "0x19c522f7a315c732f9457d2597de6c3630013"],
      rule pw_dbl1 [where x = "0x260d032966417d8a9b4379c02b15d8c114393" and k = "0x536e26486de3d628163ca55b7de7bfdd0d4b"],
      rule pw_dbl [where x = "0x12ba35b99aa3f0cb5dd3fb7825f728c608d976" and k = "0xa1ac7b89d9a61f2ed3f8c475afd3293a7ebd7"],
      rule pw_dbl [where x = "0xa85d5c604393fb6b756e9c309e699db8d5ef9" and k = "0x330b58d0649c6d81177d0b69c6ab8768fe67d"],
      rule pw_dbl1 [where x = "0x19cf2fa496a1be06a818bbe028b2e9266ebd13" and k = "0x26624415d54e087f2f7f3d4be62a06ff0b240f"],
      rule pw_dbl1 [where x = "0x20f0a6a87ef0eadde9d4f7ce6788d06725def4" and k = "0x3e8608456ed8b1cfb749588c3c334b9c8d5ffb"],
      rule pw_b150_q2_full_2)
     (simp_all only: arith_simps rel_simps)

lemma pw_b150_q2_full_4: "(2::int) ^ 0x115aacdae mod 0x22b559b5c816ae00f2378e18df38c5410ed597 = 0x4bad2119c5fa835c0053355c7891e4a836a75 mod 0x22b559b5c816ae00f2378e18df38c5410ed597"
  by (rule pw_dbl [where x = "0x1b94c4a8b1927863e39521a8ccf63fd1cbb4c8" and k = "0x15eadbe1067311082a89dcb325e2e0bd5393ed"],
      rule pw_dbl1 [where x = "0x20ff5b0bb427cbc5908e26576f13dcbbfde4b1" and k = "0x3ebde71d44af57686f2f89a6017d37ce02d316"],
      rule pw_dbl1 [where x = "0x621f34893cabea456f8e753d7f1ad8a112939" and k = "0x22ac9cb07b93a19fa5b827eb85b540d84fcf7"],
      rule pw_dbl1 [where x = "0xd0f388acd97515632a4dfb6488f27069dda57" and k = "0x9d3dad44885e636e71c5a2f30fcfbc742ac7f"],
      rule pw_dbl [where x = "0x1ec6abe02f57677c1bf6af5c12654bdf4d5735" and k = "0x1b4a0ba967a7cf67a6f3ebb25893b5aa8186ae"],
      rule pw_dbl1 [where x = "0x14bf74684530ed396f3255f4019e199cdc211e" and k = "0x18ce2079b63300b519206377d07dcaddee1f25"],
      rule pw_dbl [where x = "0x203da8227d0d8b62e91518bc2d75f6678ef903" and k = "0x1df2df65dcb8199ff4b8de6eb24e9be3530dcd"],
      rule pw_dbl1 [where x = "0xa570d606f65129a1594af006d3bc48994711d" and k = "0x6292d56ac97ca0849e09979e3f6a9bc71a2c9"],
      rule pw_b150_q2_full_3)
     (simp_all only: arith_simps rel_simps)

lemma pw_b150_q2_full_5: "(2::int) ^ 0x115aacdae40 mod 0x22b559b5c816ae00f2378e18df38c5410ed597 = 0x125b531fd48f3556a44d2645d25c506f10e892 mod 0x22b559b5c816ae00f2378e18df38c5410ed597"
  by (rule pw_dbl [where x = "0x10c4b915150b5b28b2d0822b85a28adac83fdd" and k = "0x819ea8007b04517c77dc364091f41aca88261"],
      rule pw_dbl [where x = "0xd3baea40637f44fa6932aa43b93ecc5348786" and k = "0x50b9bacb4a9f12e886092936f55052f6916d1"],
      rule pw_dbl [where x = "0x12e68c18fa18a6103812e23c3cd5935d3ba02b" and k = "0xa4ad8d99a759ea330553919298f66192b8245"],
      rule pw_dbl [where x = "0x94d073c9d319389a646c9f4f5499ea3f78a75" and k = "0x27e0cbc621d065c913e9ed1b2a03a13d666e2"],
      rule pw_dbl [where x = "0x12f44e479be00e9480b487d84ffbab69df9819" and k = "0xa59da56079b05c8479b5302f0f6ffe8de2f64"],
      rule pw_dbl [where x = "0xe9a999945e0aecfd53ae023b2237b6b982cf7" and k = "0x6250da5dbd2bc6c164bcdacef27abc6262a88"],
      rule pw_dbl1 [where x = "0x8c82dcf1e364f5e390136726ba4157c2917f0" and k = "0x471ac1c332f237851a0d5a67ab63d498a3e5f"],
      rule pw_dbl [where x = "0x4bad2119c5fa835c0053355c7891e4a836a75" and k = "0xa5001afccb0618fc0adbb1ebe9ace88e05df"],
      rule pw_b150_q2_full_4)
     (simp_all only: arith_simps rel_simps)

lemma pw_b150_q2_full_6: "(2::int) ^ 0x115aacdae40b5 mod 0x22b559b5c816ae00f2378e18df38c5410ed597 = 0x157725938c8bcfe3e890de91e0b407b7b1256f mod 0x22b559b5c816ae00f2378e18df38c5410ed597"
  by (rule pw_dbl1 [where x = "0x1b84da4ca5be69b9116023865d59cb4d9fc195" and k = "0x2ba32f8cc2116e43e89b398e0fc562e9b67275"],
      rule pw_dbl [where x = "0x386ea3416907628187c291eba0e48ca544723" and k = "0x5bc0b381f13153da62e98fc14023a9632aec"],
      rule pw_dbl1 [where x = "0x1023300942a1c59947ac81168c55b7043c9d0c" and k = "0xf018a0df8e841822aac776a3e972da15c778b"],
      rule pw_dbl [where x = "0x1c4a1bcb8604073432668b6b0e91d635b25c67" and k = "0x170ec3deef8ee27f80adb411789fa6bc083d63"],
      rule pw_dbl1 [where x = "0xae33a93e9d3da6ddc9359ccf7a3844b0e19c7" and k = "0x6d4a41f623520b7e53046f9677ea91b05d03d"],
      rule pw_dbl1 [where x = "0x11a79a33e2f5480926de04f6121fa411436329" and k = "0x11f5dc8ceb6b5c84b91090674a96817e5e64dd"],
      rule pw_dbl [where x = "0x104e36d902a363006d0376d86d7607def3718a" and k = "0x7a8fce66236a5e5396305eeb37957dc6123fd"],
      rule pw_dbl1 [where x = "0x125b531fd48f3556a44d2645d25c506f10e892" and k = "0x136accf4e8d2c818c5411f0aa9dfa81eb3deb2"],
      rule pw_b150_q2_full_5)
     (simp_all only: arith_simps rel_simps)

lemma pw_b150_q2_full_7: "(2::int) ^ 0x115aacdae40b570 mod 0x22b559b5c816ae00f2378e18df38c5410ed597 = 0x21b90128cc1255450735b32f05e5ce4054499f mod 0x22b559b5c816ae00f2378e18df38c5410ed597"
  by (rule pw_dbl [where x = "0x49d7eec6050e8e4876e07a551e805e78e69c6" and k = "0x9d1adc5ba5bb10e6ed34a6e0bb08dfc57343"],
      rule pw_dbl [where x = "0x162fbe1df61ab3ce624d73e8257a2ab5bd9338" and k = "0xe2ea2e9b8d0252e49a498643055ef4e261496"],
      rule pw_dbl [where x = "0x1869c59a17fc7069dd4d4988b4514acd3a3c67" and k = "0x112bf5dc6ded04e64417c185f70299287f84af"],
      rule pw_dbl [where x = "0x1c257372e103fe23a51a4357b9fc9e4f781b80" and k = "0x16d328f1f8c6955cc81dc6a8ce67af5131f64f"],
      rule pw_dbl1 [where x = "0x2644bd83b98b639d2a3ca84d7e87f03737961" and k = "0x54633a108589377d2a8bec3853d58bf7324e"],
      rule pw_dbl1 [where x = "0x220eb7c675d17bed137de5a25bcfb8d52969fe" and k = "0x42d66ba9b1c00cfc830986a7c0857dd96e6971"],
      rule pw_dbl1 [where x = "0x163e279c28e11697f9ecc9ac1561cd7eaddc9" and k = "0x1c822b777d9390ef1da80812ef9c50d623fc"],
      rule pw_dbl [where x = "0x157725938c8bcfe3e890de91e0b407b7b1256f" and k = "0xd467982717ed5bc75796da66a326edd09d568"],
      rule pw_b150_q2_full_6)
     (simp_all only: arith_simps rel_simps)

lemma pw_b150_q2_full_8: "(2::int) ^ 0x115aacdae40b57007 mod 0x22b559b5c816ae00f2378e18df38c5410ed597 = 0x8761e52e0052f9e9b31670e7742a0a38120c2 mod 0x22b559b5c816ae00f2378e18df38c5410ed597"
  by (rule pw_dbl1 [where x = "0x10a57fd71d261f71e25e2c16327e6cdbebaeb4" and k = "0xff7b647c27d9c8fe381fe2c59dc540913fe52"],
      rule pw_dbl1 [where x = "0x1cc8d0c39737fda7bbdc9b04ed61c59b48a9a2" and k = "0x2fbe3d60c5e9e8cd41a3479b9965dc671f1ecc"],
      rule pw_dbl1 [where x = "0x5b9799ecbc1164f96baa5bd10a9616e228331" and k = "0x1e36803933002da264f24613f4565690fd7e0"],
      rule pw_dbl [where x = "0x13226a8c91ee198dc33ae3dae0faef8c9c4e96" and k = "0xa8c74426c887726a3370853cddebda1530d45"],
      rule pw_dbl [where x = "0x1326ff73420a04ae015b3a1aa51af2ee036022" and k = "0xa918215a782b3944e1f25db5d3a0a3021a342"],
      rule pw_dbl [where x = "0x2258291a9827921fec22c37564b3879112d8f" and k = "0x21fbf2b4e45950ba5256d62e798924c6b619"],
      rule pw_dbl [where x = "0x1e0470df974e12720da202f73582f8ce60dc4d" and k = "0x19f5d77793fc68814d002bcc02af133cbf6276"],
      rule pw_dbl [where x = "0x21b90128cc1255450735b32f05e5ce4054499f" and k = "0x20c3d34748c793a063f87ef71ff1f5427645ac"],
      rule pw_b150_q2_full_7)
     (simp_all only: arith_simps rel_simps)

lemma pw_b150_q2_full_9: "(2::int) ^ 0x115aacdae40b5700791 mod 0x22b559b5c816ae00f2378e18df38c5410ed597 = 0x14a8077af12bb8f2f971e52e45c141b395f181 mod 0x22b559b5c816ae00f2378e18df38c5410ed597"
  by (rule pw_dbl1 [where x = "0x513d8994f3651c377a205bceb456906428515" and k = "0x17c4fb554bebc26db0cbcd3e8d999d74a11b7"],
      rule pw_dbl [where x = "0xd9c4334f13c83cf6a4e14e3d885898da88375" and k = "0x5564db1e706abac5eb9368fb5702058a0793c"],
      rule pw_dbl [where x = "0x91a5c651685c89a958bf6f460fa19ad0783be" and k = "0x2632f0bc9a6dae5dc562664d353c118a9c6c9"],
      rule pw_dbl [where x = "0x8da656fb20348edc070864119c9d7d8b5820a" and k = "0x242179b4baae02bdfba4b27c335b323d9314a"],
      rule pw_dbl1 [where x = "0x412af33027fa278e3a65729bbd09669948f40" and k = "0xf4b71f66ef72513e52d7ade4495014074c7a"],
      rule pw_dbl [where x = "0x7fe2185efa2daebbb6ddcb3734072de848c2" and k = "0x1d72f9753faecece98d18924d936581dadc"],
      rule pw_dbl [where x = "0x62bc37ee2599aa0ad59c03435ccb7f77dd5bf" and k = "0x118df6f75749ab076c68b2c4423bed337c019"],
      rule pw_dbl1 [where x = "0x8761e52e0052f9e9b31670e7742a0a38120c2" and k = "0x42022cfadf47301b13e1d3a81eec1863f851f"],
      rule pw_b150_q2_full_8)
     (simp_all only: arith_simps rel_simps)

lemma pw_b150_q2_full_10: "(2::int) ^ 0x115aacdae40b5700791bc mod 0x22b559b5c816ae00f2378e18df38c5410ed597 = 0xdf6fc5eb649bdcb826a23e7b386d69e02de4f mod 0x22b559b5c816ae00f2378e18df38c5410ed597"
  by (rule pw_dbl [where x = "0x10d23dfb64a411ad3a39ea57559f205e435c54" and k = "0x826ffd9d3c2ae68e1d3ed562588a8f8a86ee7"],
      rule pw_dbl [where x = "0x852d52449fc2f93e45973eb8ba38c448ef7ec" and k = "0x1ff00f69c71fbad3bffb4c0985e04a5c28424"],
      rule pw_dbl1 [where x = "0x138f3a07a139f01ea04ba887853ace81935ca5" and k = "0x160b84b1555751e9fbb8781b8bb276e2c84e2a"],
      rule pw_dbl1 [where x = "0x1e821948e5ba3ea41ce7d5b9d04a2e03ab2ad" and k = "0x35a1ef68a686eb37e8fb740b610a69538bdb"],
      rule pw_dbl1 [where x = "0x1e02da76ec100ee170013d6b90ea85f55b9f9f" and k = "0x33e63128978eb6f17c9136785f6f6227787c73"],
      rule pw_dbl1 [where x = "0x1cb79367244349c2c9044e638b2fecfc44458d" and k = "0x2f851e1dc1fb2b404d59566cf121231615c245"],
      rule pw_dbl [where x = "0xecc451b865674a970cb1209df3aa7d4186f30" and k = "0x64f2115672efe2f70a1280a89520aefdf7485"],
      rule pw_dbl1 [where x = "0x14a8077af12bb8f2f971e52e45c141b395f181" and k = "0x18963cce1fb4e3c30c9dc4e784a36c772ecdfe"],
      rule pw_b150_q2_full_9)
     (simp_all only: arith_simps rel_simps)

lemma pw_b150_q2_full_11: "(2::int) ^ 0x115aacdae40b5700791bc70 mod 0x22b559b5c816ae00f2378e18df38c5410ed597 = 0xce90f4c2b2c253c977ba927e1a94b2e391477 mod 0x22b559b5c816ae00f2378e18df38c5410ed597"
  by (rule pw_dbl [where x = "0x16a2ee6a53bacd6d1b278ee4cd1f74dc560e74" and k = "0xec3648a74743999868d3f85dd95583c411dcf"],
      rule pw_dbl [where x = "0x1a700f26ddaa44ec612add574b70aa1cbdaf03" and k = "0x14234c2b277872c0b0b26fda59a3d8a71445b3"],
      rule pw_dbl [where x = "0xf6e048c12ad95b4596d42f11d7ffc89d5fb02" and k = "0x6dbfefd9c74d1ced8804348017806eaf94527"],
      rule pw_dbl [where x = "0x1440e0e955e82fc9c6f917328685c715f1687" and k = "0xbd189bcb4ac9425d7a4cfb245358aea6d29"],
      rule pw_dbl1 [where x = "0x176306c1846872b9009bb9ede050277e31892e" and k = "0x1f84388c90068d082baabb0f73dfc6a7295827"],
      rule pw_dbl1 [where x = "0x1c65c72f8284628279206d4afd6c9ec14fe42c" and k = "0x2e77e97560437165167ba347cbd9d7ec65fbde"],
      rule pw_dbl1 [where x = "0x19467d68ce3113f1308c9d32e285b0c8162d84" and k = "0x24cfe15933d365b9f22d4d70375066fbc6f22c"],
      rule pw_dbl [where x = "0xdf6fc5eb649bdcb826a23e7b386d69e02de4f" and k = "0x59e61a98133ac5cba68738c4ad7ae7fbe35ab"],
      rule pw_b150_q2_full_10)
     (simp_all only: arith_simps rel_simps)

lemma pw_b150_q2_full_12: "(2::int) ^ 0x115aacdae40b5700791bc70c6 mod 0x22b559b5c816ae00f2378e18df38c5410ed597 = 0x13daf940423224906ea29b8291d4e5a0418aa3 mod 0x22b559b5c816ae00f2378e18df38c5410ed597"
  by (rule pw_dbl [where x = "0xf657d87305df359c69cd73e0e998bcd44af3a" and k = "0x6d46c256bbe3854cfbc588ca09bd3cf136fa7"],
      rule pw_dbl1 [where x = "0xcca80d88730457695a44238a5945f5130c963" and k = "0x96d7e92fe13ae68748e4bbf06c55fb1c0dc68"],
      rule pw_dbl1 [where x = "0xb9dde0735b8dba0d92f03c3957daddeb96256" and k = "0x7c6aabcfc769df708e7c0828647e7de249163"],
      rule pw_dbl [where x = "0x643f3420338cf5ada783e09bc38daaafcece0" and k = "0x1218a022b402e8159d3c37f51db184c0ae4e6"],
      rule pw_dbl [where x = "0x18da894e9c2fa5d55d6a7dd8a2f60ad17f76d6" and k = "0x11cc061e02515766274131fa75c66ebbb90a9c"],
      rule pw_dbl [where x = "0x1707ebcf74ded33df8e62f3be9bd7888615541" and k = "0xf484501eab2d9b73cb249217d5cc03704cd0d"],
      rule pw_dbl1 [where x = "0x9492ffc3de9ce97d76391310e006f355941a" and k = "0x4f7fc628d51e729879523ec27ada2bc8711"],
      rule pw_dbl1 [where x = "0xce90f4c2b2c253c977ba927e1a94b2e391477" and k = "0x99abf8e7fb0c060b61f16adb30d1dd9fe6ab8"],
      rule pw_b150_q2_full_11)
     (simp_all only: arith_simps rel_simps)

lemma pw_b150_q2_full_13: "(2::int) ^ 0x115aacdae40b5700791bc70c6f9 mod 0x22b559b5c816ae00f2378e18df38c5410ed597 = 0x1a798801c15e30184a3fbbf94c0ea1ca3aeb30 mod 0x22b559b5c816ae00f2378e18df38c5410ed597"
  by (rule pw_dbl1 [where x = "0x182689354f4bfb23988def3a3a1c9773f7d82a" and k = "0x219bc4d91f03e3386fd89e7abc3dcce750f528"],
      rule pw_dbl [where x = "0x13624057c2517493a5cd6eca0a78fc07bc2f0e" and k = "0xad34bd73ad147f1178d6e89296f3c19bc0f76"],
      rule pw_dbl [where x = "0x1c36aa97a10543c88897a7041ae841a8d38cb7" and k = "0x16ef1d4ea64dc5c99242be2cbda93a6ae148b5"],
      rule pw_dbl1 [where x = "0x5a574bbe2c7cf451baf363888ab775f1fa02b" and k = "0x1d64a1593ad650fb8245fbab4aec6aface17d"],
      rule pw_dbl1 [where x = "0x45b9cd2a709fd9a237d9c9372fcaf09368691" and k = "0x11825042fc0c5f7c4d563a1da99b90d7e3d81"],
      rule pw_dbl1 [where x = "0xf13ed962e5f7b16c0298979c934011b7cfe3" and k = "0xd199ebc586da9e3551c3ac4ff460afbba27"],
      rule pw_dbl1 [where x = "0x1bcfa64ab019e4984921d1ce5d5deece24c251" and k = "0x2c91a8c0c4a7b975562703e32272b40359a179"],
      rule pw_dbl1 [where x = "0x13daf940423224906ea29b8291d4e5a0418aa3" and k = "0x16b78e04b98dd40c9f26dc68ffac997b16c6e7"],
      rule pw_b150_q2_full_12)
     (simp_all only: arith_simps rel_simps)

lemma pw_b150_q2_full_14: "(2::int) ^ 0x115aacdae40b5700791bc70c6f9c6 mod 0x22b559b5c816ae00f2378e18df38c5410ed597 = 0xe8296e32ead9c77a7591da0758ff87eaf0c5f mod 0x22b559b5c816ae00f2378e18df38c5410ed597"
  by (rule pw_dbl [where x = "0x841c18bbc7682e946d65ea707ef4dc7f55c3c" and k = "0x1f6d89fc1cdf8ea48d0867911950f9fbffbf7"],
      rule pw_dbl1 [where x = "0x1b19fb937f3824c8b587980a39e9896af79ba0" and k = "0x2a52d2f42e19bab5010f97f9d347ce0c0152dc"],
      rule pw_dbl1 [where x = "0x150d5590f3af3b6837f076eb14b6af4856ef04" and k = "0x1989b5d742ba22d37fe0e11d04546504c0df80"],
      rule pw_dbl [where x = "0x7390ded7f705006747faf5bed7baaae6ac770" and k = "0x180ca79ee535d4395dd14feaf20774ad70564"],
      rule pw_dbl [where x = "0xddc612f823d64fa8085d25b3b5e959a8812b3" and k = "0x5890d26a31a6f2d32882089e70651e6170d2f"],
      rule pw_dbl [where x = "0x1d89af03e3e7b0ddd63fd54101f055d252d0c7" and k = "0x192334b708d1d7140468f6f8e24ad3b5e263b2"],
      rule pw_dbl1 [where x = "0xb4b41b504444dcf532564d4215e50a0b24e52" and k = "0x7599b2e58a8c30415e0d03fc51c4b52ae3c67"],
      rule pw_dbl1 [where x = "0x1a798801c15e30184a3fbbf94c0ea1ca3aeb30" and k = "0x286379a6b7245c3e7d18c91ba2747826787b82"],
      rule pw_b150_q2_full_13)
     (simp_all only: arith_simps rel_simps)

lemma pw_b150_q2_full_15: "(2::int) ^ 0x115aacdae40b5700791bc70c6f9c62a mod 0x22b559b5c816ae00f2378e18df38c5410ed597 = 0x1ab7dd31acba0259103607f4277a9a927c6fd8 mod 0x22b559b5c816ae00f2378e18df38c5410ed597"
  by (rule pw_dbl [where x = "0x17fc99c86f35252656ba21230d206a00c78d73" and k = "0x1093b968cb65770016d060002bb1feb6a270d7"],
      rule pw_dbl1 [where x = "0x1be00bb7b6fab30aa456ee4395b6623fe0050f" and k = "0x2cc6457d7a15874bc520dee34c335e9ada9209"],
      rule pw_dbl [where x = "0x1933354ed88b18ba39e5f2b4d14636d19c6ee1" and k = "0x124be64012caa76ff13d0b37d3ba7dab0c331e"],
      rule pw_dbl1 [where x = "0x347b4abbc46e1d3cf4c1cad9d3b2d098718b6" and k = "0x9eb643b7d7c67267eff3f785c8907027de31"],
      rule pw_dbl [where x = "0x491dce28bb6b6d46ea7e4ac3129af11ff85c0" and k = "0x9a06c5e185677078ad9da53abbe5f3a2f046"],
      rule pw_dbl1 [where x = "0x1ccc1091b90bba35d4617b95ffecc4021a4157" and k = "0x2fc90552c94a86b4010fcca162a22cb17159ee"],
      rule pw_dbl [where x = "0x2169d4c4fa2f5b7be2c2d45e0ff15665a335b8" and k = "0x202aae5ac9c81c8f1410a4be4e769159de0b7f"],
      rule pw_dbl [where x = "0xe8296e32ead9c77a7591da0758ff87eaf0c5f" and k = "0x610e9ad7272a69b00f346c35b1dbe104151df"],
      rule pw_b150_q2_full_14)
     (simp_all only: arith_simps rel_simps)

lemma pw_b150_q2_full_16: "(2::int) ^ 0x115aacdae40b5700791bc70c6f9c62a08 mod 0x22b559b5c816ae00f2378e18df38c5410ed597 = 0x81fcc7de01ac2a24a0abded3d6ea4b5248034 mod 0x22b559b5c816ae00f2378e18df38c5410ed597"
  by (rule pw_dbl [where x = "0x11e33975fbc2f631a6836cfcd0f8fea9d11219" and k = "0x937fc3e443eb9f2474f7b857e4f349523854b"],
      rule pw_dbl [where x = "0x3034753be7839c8bf1403c985514fc8529049" and k = "0x42f3196416e51d0c994db14f73cb39affa08"],
      rule pw_dbl [where x = "0x2230dda7d5ac24426cc5af4a6f98891f7b7364" and k = "0x21ae5b4e0846367dba73f752de206f545f3651"],
      rule pw_dbl1 [where x = "0x1ce1cb0263dfe7d91d6a751a4c4f9da04f9a4e" and k = "0x30113ce0af6042842abb49cf14d3153abba17c"],
      rule pw_dbl [where x = "0xdca10a73ebe76c9e8515fd5592c26a6fd4fc9" and k = "0x57a76118823746eac1f53ba7e8b322b4c98f5"],
      rule pw_dbl [where x = "0x16a501721f635e78d63ace9320ffb3bf029869" and k = "0xec61954651cbf9a968e71c80b03db68ee87f8"],
      rule pw_dbl [where x = "0x219b11653190f6263f3b80a8610e3bcb708f21" and k = "0x2089c0e052ed2bd7e03e403649693479fd2fe8"],
      rule pw_dbl [where x = "0x1ab7dd31acba0259103607f4277a9a927c6fd8" and k = "0x14914448f1e608a8928fb0303d360637826bb9"],
      rule pw_b150_q2_full_15)
     (simp_all only: arith_simps rel_simps)

lemma pw_b150_q2_full_17: "(2::int) ^ 0x115aacdae40b5700791bc70c6f9c62a0876 mod 0x22b559b5c816ae00f2378e18df38c5410ed597 = 0x9861bd94488cb5a5f406222c18162009bf146 mod 0x22b559b5c816ae00f2378e18df38c5410ed597"
  by (rule pw_dbl [where x = "0xa76398c1cff1612a7f926b573de3ed517b149" and k = "0x327457160a24cd17471e47b60caf0020d062d"],
      rule pw_dbl1 [where x = "0x1f64f8de132d88f5c6bd6a27b457d9d37eb94f" and k = "0x38cb31e9ce8ca1c7276146b1b8cbb99f87996f"],
      rule pw_dbl1 [where x = "0x13ebe6cad89b9d622e216e779d27ed0d054f5a" and k = "0x16de5ac09a004f42bef138fdc196ce3e0b3aef"],
      rule pw_dbl [where x = "0xaaaecc34c31c8dc4d53350526d457ac05283d" and k = "0x3475a8343e284dd6e43190ba77801e0847629"],
      rule pw_dbl1 [where x = "0x11c11476b30562a988030ddc331d28ef13ca8e" and k = "0x1229d8592b2d55c830ad5c4a93b675ee996c6d"],
      rule pw_dbl1 [where x = "0x1727b1e73cdbeba39817755c6ab9aad0adb12f" and k = "0x1ee519dedcfc7818b7be8cd7d9ea70c231f16c"],
      rule pw_dbl1 [where x = "0x1aad74b525dc9ef27d5f57c6beba3934557321" and k = "0x2902826b8217acee264f48c0d1a5311ea4efa5"],
      rule pw_dbl [where x = "0x81fcc7de01ac2a24a0abded3d6ea4b5248034" and k = "0x1e6d1d36ed380b16d8eb3ed14a32b479377e9"],
      rule pw_b150_q2_full_16)
     (simp_all only: arith_simps rel_simps)

lemma pw_b150_q2_full_18: "(2::int) ^ 0x115aacdae40b5700791bc70c6f9c62a0876ac mod 0x22b559b5c816ae00f2378e18df38c5410ed597 = 0x21d7636c380b7a2831712db1b55503a09131c9 mod 0x22b559b5c816ae00f2378e18df38c5410ed597"
  by (rule pw_dbl [where x = "0xe44eda7329aeee16df786f878793406ac4ce3" and k = "0x5ddc8f16256c481dac71c2c892cd65ff38c80"],
      rule pw_dbl [where x = "0xf94f75ad461987ee6ce0c644df4a829578c9e" and k = "0x6fecbd242150a5bcffa0eaeed2fb99aac0e87"],
      rule pw_dbl1 [where x = "0x45213596bf505a170a10eac1cea6c937922ae" and k = "0x1136016407f62cb1bd8430e41f037f2dd30a6"],
      rule pw_dbl1 [where x = "0x17f7011e9041acb8529940de39fc8bee5d7ea1" and k = "0x2117fc35cd43f15750b047aabc5529fa4d614c"],
      rule pw_dbl [where x = "0xede58cd9fb194bb1017e938447ececa073c6d" and k = "0x65e948912cb31a9048040353ea66e1454bf78"],
      rule pw_dbl1 [where x = "0x1b0e71c7f7255cf3d8ce4c7a30d8bad202c555" and k = "0x2a2ed0eea383c76005a0928f8ef7e0b1bd42c3"],
      rule pw_dbl [where x = "0x1688ecf30b56b67118c8c22f604cc0a7e2b4c2" and k = "0xea18c2b2a22558de823131f116527c846eba9"],
      rule pw_dbl1 [where x = "0x9861bd94488cb5a5f406222c18162009bf146" and k = "0x53a04526ec3de4a95ec3ec6403ae158c74f6a"],
      rule pw_b150_q2_full_17)
     (simp_all only: arith_simps rel_simps)

lemma pw_b150_q2_full_19: "(2::int) ^ 0x22b559b5c816ae00f2378e18df38c5410ed596 mod 0x22b559b5c816ae00f2378e18df38c5410ed597 = 1 mod 0x22b559b5c816ae00f2378e18df38c5410ed597"
  by (rule pw_dbl [where x = "1" and k = "0"],
      rule pw_dbl1 [where x = "0x1abea63191bf017525f920f2ae93bf74c7d3b6" and k = "0x29376fbaf64a0c47a935744c19b91e2a14fa51"],
      rule pw_dbl1 [where x = "0xb5bce58d5928338c352173b2026858f127cd6" and k = "0x76f354dd7cc87d4b26a569efba470efb534be"],
      rule pw_dbl [where x = "0x213a28750770252509134571e6c6a5fd8b2267" and k = "0x1fcf25ea4ca552ac5394c027eb3691f1a1ad9d"],
      rule pw_dbl1 [where x = "0x21d7636c380b7a2831712db1b55503a09131c9" and k = "0x41fdf130657d0580393dcf3e964b4a8a0d31fd"],
      rule pw_b150_q2_full_18)
     (simp_all only: arith_simps rel_simps)

lemma prime_b150: "is_prime 0x22b559b5c816ae00f2378e18df38c5410ed597"
proof -
  have "is_prime (nat 0x22b559b5c816ae00f2378e18df38c5410ed597)"
  proof (rule pocklington2 [where ?a1.0 = "2" and ?m1.0 = "0x22b559b5c816ae00f2378e18df38c5410ed596" and ?e1.0 = "0x3647621a0c85b1150ad0194a" and ?q1.0 = "0xa3b2bf8c32ceaf"
      and ?w1.0 = "0xac1f69987a98cd70795a5538e728fc5b374b2" and ?u1.0 = "0x1c57608cca63bd0dec0bb61f90d77cc342f96e" and ?v1.0 = "0x8c8c32ecd9e78f5a7b15ea29193120df46efb"
      and ?a2.0 = "2" and ?m2.0 = "0x22b559b5c816ae00f2378e18df38c5410ed596" and ?e2.0 = "0x3614108efc00539e535c504d28a" and ?q2.0 = "0xa44e179dccf"
      and ?w2.0 = "0x2cbe55ea53ac8f31a83a9d88b34f81060f414" and ?u2.0 = "0xe62dfc289b94889baf37a7ecd87a1cba8a4a8" and ?v2.0 = "0x128bb03d7bb2a1c56a8b803543011de45b021"])
    show "is_prime 0xa3b2bf8c32ceaf" by (rule prime_b56)
    show "is_prime 0xa44e179dccf" by (rule prime_b44)
    show "(2::int) ^ 0x22b559b5c816ae00f2378e18df38c5410ed596 mod 0x22b559b5c816ae00f2378e18df38c5410ed597 = 1 mod 0x22b559b5c816ae00f2378e18df38c5410ed597" by (rule pw_b150_q1_full_19)
    show "(2::int) ^ 0x3647621a0c85b1150ad0194a mod 0x22b559b5c816ae00f2378e18df38c5410ed597 = 0xac1f69987a98cd70795a5538e728fc5b374b2 mod 0x22b559b5c816ae00f2378e18df38c5410ed597" by (rule pw_b150_q1_part_12)
    show "(2::int) ^ 0x22b559b5c816ae00f2378e18df38c5410ed596 mod 0x22b559b5c816ae00f2378e18df38c5410ed597 = 1 mod 0x22b559b5c816ae00f2378e18df38c5410ed597" by (rule pw_b150_q2_full_19)
    show "(2::int) ^ 0x3614108efc00539e535c504d28a mod 0x22b559b5c816ae00f2378e18df38c5410ed597 = 0x2cbe55ea53ac8f31a83a9d88b34f81060f414 mod 0x22b559b5c816ae00f2378e18df38c5410ed597" by (rule pw_b150_q2_part_14)
  qed simp_all
  then show ?thesis by (simp only: nat_numeral)
qed

lemma pw_b160_q1_part_1: "(2::int) ^ 0x10e mod 0x926d1276e41fae13fdda5f78edb7802a76951509 = 0x8d26628799a205e78779ac7e6b6f9ecd6ef5f01a mod 0x926d1276e41fae13fdda5f78edb7802a76951509"
  by (rule pw_dbl [where x = "0x8000000000000000000000000000000000" and k = "0x6fe4849cefe4849c101b7b62a036"],
      rule pw_dbl1 [where x = "0x80000000000000000" and k = "0"],
      rule pw_dbl1 [where x = "0x200000000" and k = "0"],
      rule pw_dbl1 [where x = "0x10000" and k = "0"],
      rule pw_dbl [where x = "0x100" and k = "0"],
      rule pw_dbl [where x = "0x10" and k = "0"],
      rule pw_dbl [where x = "4" and k = "0"],
      rule pw_dbl [where x = "2" and k = "0"],
      rule pw_one)
     (simp_all only: arith_simps rel_simps)

lemma pw_b160_q1_part_2: "(2::int) ^ 0x438 mod 0x926d1276e41fae13fdda5f78edb7802a76951509 = 0x84f6174410b13b7c641bfb1c0429a24ea8e8db82 mod 0x926d1276e41fae13fdda5f78edb7802a76951509"
  by (rule pw_dbl [where x = "0xdf13e0192b37adf2c82db25024a304500b24230" and k = "0x153dae2a357a1aec4e4fed836d930f365974f0e"],
      rule pw_dbl [where x = "0x8d26628799a205e78779ac7e6b6f9ecd6ef5f01a" and k = "0x88105dd341037d77d72f9ecc2975840f4666add4"],
      rule pw_b160_q1_part_1)
     (simp_all only: arith_simps rel_simps)

lemma pw_b160_q1_full_1: "(2::int) ^ 0x124 mod 0x926d1276e41fae13fdda5f78edb7802a76951509 = 0x3ee0510f3770a0fc3e2715a001204c4f84e4d3c mod 0x926d1276e41fae13fdda5f78edb7802a76951509"
  by (rule pw_dbl [where x = "0x4000000000000000000000000000000000000" and k = "0x1bf921273bf921270406ded8a80dbdb1a4"],
      rule pw_dbl [where x = "0x2000000000000000000" and k = "0"],
      rule pw_dbl1 [where x = "0x1000000000" and k = "0"],
      rule pw_dbl [where x = "0x40000" and k = "0"],
      rule pw_dbl [where x = "0x200" and k = "0"],
      rule pw_dbl1 [where x = "0x10" and k = "0"],
      rule pw_dbl [where x = "4" and k = "0"],
      rule pw_dbl [where x = "2" and k = "0"],
      rule pw_one)
     (simp_all only: arith_simps rel_simps)

lemma pw_b160_q1_full_2: "(2::int) ^ 0x124da mod 0x926d1276e41fae13fdda5f78edb7802a76951509 = 0x1c687d6822fd9a07b4359c10f49cf3cc709b3989 mod 0x926d1276e41fae13fdda5f78edb7802a76951509"
  by (rule pw_dbl [where x = "0x863d3bbc6f0408093ee47f48ff80099ac3497080" and k = "0x7b110e1b0de3927fb0f26f22997db17f4a179f7f"],
      rule pw_dbl1 [where x = "0xbed40c371f5334fef51a8f42c7ea84b9b76e02d" and k = "0x1f163e430fa02d70fcb169240bd96d5376edb42"],
      rule pw_dbl [where x = "0x2588635a428aa3ab9dac2343c544e2dff07823fa" and k = "0x99ee082c1a1227fe58d33ff62493beb86f69cff"],
      rule pw_dbl1 [where x = "0x4dbd2db2b40dab7c6dc70beb53ae9ca6c831351d" and k = "0x528b72697e09c1451161e9397141bddc4d83afd8"],
      rule pw_dbl1 [where x = "0x15137ae885863c9769e785086124c6e76adbf7e1" and k = "0x6113747549f829322d8f7988b92fe3b9cec457d"],
      rule pw_dbl [where x = "0x6ef7229412a3dc47cda5818ac4d29904cacf08d3" and k = "0x5417a51a440724f5e74595a280a7dfc06ba47fc8"],
      rule pw_dbl1 [where x = "0x7f76a02a1e4c0f4bef53352a7fb7cff986ceb5ca" and k = "0xdde9b18b8876df4913839659deb6b0bcbcbda88d"],
      rule pw_dbl1 [where x = "0x3ee0510f3770a0fc3e2715a001204c4f84e4d3c" and k = "0x35ffb61de54f7121d290329782511b78437f26"],
      rule pw_b160_q1_full_1)
     (simp_all only: arith_simps rel_simps)

lemma pw_b160_q1_full_3: "(2::int) ^ 0x124da24 mod 0x926d1276e41fae13fdda5f78edb7802a76951509 = 0x604bcff063ea1a873d8064cb3880abb72ec9207b mod 0x926d1276e41fae13fdda5f78edb7802a76951509"
  by (rule pw_dbl [where x = "0x1a9563386aa132608444ba3a8480c911038725c7" and k = "0x4d3835eca56468a5cf73fd76aaf364efeb3f206"],
      rule pw_dbl [where x = "0x6458862d1b096d0ee33e6992689b7e6257d812b2" and k = "0x44c45934aa0b912ae25a72d42149b717fa0dd255"],
      rule pw_dbl1 [where x = "0x77070928ada8a6d863b6695f663eae5d1e2016c7" and k = "0xc182de39c62a0ca0bcda1ed05ed100741d7c1130"],
      rule pw_dbl [where x = "0x358d6463d8906bf85eaf70b86c6339cc75e01e0c" and k = "0x1395ed6f141f1c483e89e1c91412151b0b386ec1"],
      rule pw_dbl [where x = "0x484bc3343ce5cea975f41a6c0c9e0499d1350454" and k = "0x23b1f703a4bc50c798e743592223b6ab4bfab664"],
      rule pw_dbl1 [where x = "0x14cf90a949620a269ddfe16be254a54e4adcc913" and k = "0x5ea5c32c1dfe12569cb8706cb8614f64f4a640e"],
      rule pw_dbl [where x = "0x87526816f3c2fd6cbf9fb01a83c2a491ea5de645" and k = "0x7d0f504066ac0be6a4dc7eba86fd3ea5bc3430d6"],
      rule pw_dbl [where x = "0x1c687d6822fd9a07b4359c10f49cf3cc709b3989" and k = "0x582f01a274d8a848ed711b94cea009fcc55ebac"],
      rule pw_b160_q1_full_2)
     (simp_all only: arith_simps rel_simps)

lemma pw_b160_q1_full_4: "(2::int) ^ 0x124da24ed mod 0x926d1276e41fae13fdda5f78edb7802a76951509 = 0x4e78405b72638781a4f90561abab8dc32f7f91ae mod 0x926d1276e41fae13fdda5f78edb7802a76951509"
  by (rule pw_dbl1 [where x = "0x779628d4f3dc722f59591d574f0ae81942b5e67d" and k = "0xc3555550136a217493f5de759a57868bf5ccba44"],
      rule pw_dbl [where x = "0x48ce4ce00e2915451ac6da90293ac41732afeb89" and k = "0x24335276067105d98831b9d0a9c36fee26c34b34"],
      rule pw_dbl1 [where x = "0x559d34dcdd409086e8ca72fd34c16e7948d44751" and k = "0x641d9cdab72f5ce5ffdd3eee577d1f188e067531"],
      rule pw_dbl1 [where x = "0xfcf9a2d9fff293c47c172444f91685732c351bd" and k = "0x36a1cc94490d46828834c45d45ed85f8f959ef9"],
      rule pw_dbl [where x = "0x6e0c76e05e0decf1c4760bc37d497810cf716a43" and k = "0x52b56f6db32df06665de9331c7861f91c5617c6c"],
      rule pw_dbl1 [where x = "0x44a946211c789dc140d9d954432d65217b4596e5" and k = "0x40647564eecd9b1b40dec46e9ad9d099fb316eb7"],
      rule pw_dbl1 [where x = "0x2a9c609a14352c2de4904b928d297a15e1321b63" and k = "0x18cccdf0ae12822efd9778e8b29bcb55b6352c85"],
      rule pw_dbl1 [where x = "0x604bcff063ea1a873d8064cb3880abb72ec9207b" and k = "0x7ea834b3b7af2a10c175319376b1055f90c7ff17"],
      rule pw_b160_q1_full_3)
     (simp_all only: arith_simps rel_simps)

lemma pw_b160_q1_full_5: "(2::int) ^ 0x124da24edc8 mod 0x926d1276e41fae13fdda5f78edb7802a76951509 = 0x7fa5a8ec535fe17cd2ec52d7facc9abe63bdf242 mod 0x926d1276e41fae13fdda5f78edb7802a76951509"
  by (rule pw_dbl [where x = "0x811e578d1c009b07c47599f452f3b1b9bb008ffc" and k = "0x71db52d2e94e3c86a3e477879f31b0d2ad6ed0de"],
      rule pw_dbl [where x = "0x8997d0b51eb703b19ce15edadc4119b4ba98fa81" and k = "0x814af7870c4dbf8b0febb046807586ee7975eb1d"],
      rule pw_dbl [where x = "0x54463ed1dd1627a4a1c7dc7ecc9ff26f80d776f3" and k = "0x3080e42908fca8ee16f27d30163e36d5247be0e8"],
      rule pw_dbl1 [where x = "0x2824fb751d2a96a88bd5ebc4aa7e7128812723c" and k = "0x16031db032bc9f2b4692d3f09f336970043c05"],
      rule pw_dbl [where x = "0x6bfc0f35b27e4be3b9ebcb81e0dd387d0f760a71" and k = "0x4fa29f66a84f6311c71c38effd23d662a6b4acbd"],
      rule pw_dbl [where x = "0x3f63e926ef7fb8aca997b74feefb4f859c1af5b8" and k = "0x1b715510769f3255a60843c220571932ce101617"],
      rule pw_dbl1 [where x = "0x8cea731825c0119fbdf728061b06ffab753a141f" and k = "0x10f39d26f30e0412c1cd1220f953bcb401a0b3ffa"],
      rule pw_dbl1 [where x = "0x4e78405b72638781a4f90561abab8dc32f7f91ae" and k = "0x541a96d455f2943d1a497f49573c978722cb5861"],
      rule pw_b160_q1_full_4)
     (simp_all only: arith_simps rel_simps)

lemma pw_b160_q1_full_6: "(2::int) ^ 0x124da24edc83f mod 0x926d1276e41fae13fdda5f78edb7802a76951509 = 0x258cc7e8bdb6aa33188675de5b323b76aa153ae8 mod 0x926d1276e41fae13fdda5f78edb7802a76951509"
  by (rule pw_dbl1 [where x = "0x75e7b80c251fc8953871814871fd8f07b237d951" and k = "0xbde10d053a523607d1f5da93db0ddd8eecaefa0a"],
      rule pw_dbl1 [where x = "0x8c65a93e0c2a550bdde8ff91a1c71db91770ebdd" and k = "0x10d3b98d69832e48d371928b126ee5cc1d1e17779"],
      rule pw_dbl1 [where x = "0x24c41fb66560272716d4da4a7af4756ded3c2ebd" and k = "0x12769434229c95d938377c8fc4c1e423ec0a93cd"],
      rule pw_dbl1 [where x = "0xbe25ebca039396d7236c072bb3ac4219b3dc25f" and k = "0x1edd9cb30532988fec1349c2e932a8d5ff66fdd"],
      rule pw_dbl1 [where x = "0x349beecc2099466e6a95895c3d8c092b1800bd89" and k = "0x25cdbb05bf8da417c214162a7054829e1698adeb"],
      rule pw_dbl1 [where x = "0x3fbddacb29478be02020a523332ff46b2be1a3c1" and k = "0x377ed95bc32be1963f27e06fd95d79fd68ed04f1"],
      rule pw_dbl [where x = "0x34695d945e9a8228f10256d22451d53ce2701d7d" and k = "0x12c298daa4fc23569b990ccfee68977a418ceb08"],
      rule pw_dbl [where x = "0x7fa5a8ec535fe17cd2ec52d7facc9abe63bdf242" and k = "0x6f46cac211cba283fa6e9ca4f0bf9e64f3e4800f"],
      rule pw_b160_q1_full_5)
     (simp_all only: arith_simps rel_simps)

lemma pw_b160_q1_full_7: "(2::int) ^ 0x124da24edc83f5c mod 0x926d1276e41fae13fdda5f78edb7802a76951509 = 0x594110ef73b540c699c9bfcf131064a8f191e999 mod 0x926d1276e41fae13fdda5f78edb7802a76951509"
  by (rule pw_dbl [where x = "0x8c4396815fe5f69a1ebaf24337d7cca5f0757085" and k = "0x865c7d2c96b220fda99cc5f6d185756ddd153f80"],
      rule pw_dbl [where x = "0x6c19d40902faa8f5032a0a94893633cba1c776b0" and k = "0x4fce8db0b8beb77b24ef8d0d7acd2671a0187663"],
      rule pw_dbl1 [where x = "0x7462496592306e16c07a2fa53aad628d962da240" and k = "0xb902d41570e08b88d2ac3547066aa4510a3b82d0"],
      rule pw_dbl1 [where x = "0x12a5de5ee4c530169c435cfecbe3a8d445fe2a5e" and k = "0x4bff0f255018439029eaa3d923d3fcee9ab7688"],
      rule pw_dbl1 [where x = "0x12ae8fc7c01541601aa7dae30169d59bde60ab26" and k = "0x4c45fa304bcd42dfd2d5261d14fa99fb9d2961a"],
      rule pw_dbl [where x = "0x30b812c60d7f4d589628233e2dbd7a9a3f14b405" and k = "0x1035b8ba64f659b64fe5c4b9570e96a0d7b23d1b"],
      rule pw_dbl1 [where x = "0x1a21ae210d923f2b362d8c4d0f11b5a891734e3c" and k = "0x953b6db4a319f1c744a88dde66b8dfd46464103"],
      rule pw_dbl [where x = "0x258cc7e8bdb6aa33188675de5b323b76aa153ae8" and k = "0x9a12125e986d38aa798de8684530ce76266a8e4"],
      rule pw_b160_q1_full_6)
     (simp_all only: arith_simps rel_simps)

lemma pw_b160_q1_full_8: "(2::int) ^ 0x124da24edc83f5c27 mod 0x926d1276e41fae13fdda5f78edb7802a76951509 = 0x5bdaf2a239d341a4208111ace7b5314ca376ca20 mod 0x926d1276e41fae13fdda5f78edb7802a76951509"
  by (rule pw_dbl1 [where x = "0x682fc8b63793d700033a5491c29f3e1ea1817ca2" and k = "0x944397b5865b444105d840ed24accc9e1727ada8"],
      rule pw_dbl1 [where x = "0x1bd087faff1d283f50321dce2205b76f4b039683" and k = "0xa912e7f153b37652758ec571414f92ecbbed1f0"],
      rule pw_dbl1 [where x = "0x8332caa1433286610525530ccd62dd44bf1290b5" and k = "0xeb1bd459915c7bafdad3308489429ff675dda0b7"],
      rule pw_dbl [where x = "0x1c71d39537c5b461031c094ae39fad3b994d3233" and k = "0x5869022918988585d225bf896b942c07756aad4"],
      rule pw_dbl [where x = "0x1142a279ac00b75840543cf1d60a0353dfcdddfc" and k = "0x208db301f64160851d683f08eb17bf9fcd22b35"],
      rule pw_dbl1 [where x = "0x2bba5dbd8fffed22da6483255d8fc026ea29673a" and k = "0x1a1e10e88a7e0a997920507a2d6cd83db014b0ec"],
      rule pw_dbl [where x = "0x48f87d44387d00e32694cf0d637fefba03058903" and k = "0x245d52f12fdf25da86a0bcefbb3b3a2484025317"],
      rule pw_dbl [where x = "0x594110ef73b540c699c9bfcf131064a8f191e999" and k = "0x3667ac44b909a6220742c0cbc5ae04a0783caa7e"],
      rule pw_b160_q1_full_7)
     (simp_all only: arith_simps rel_simps)

lemma pw_b160_q1_full_9: "(2::int) ^ 0x124da24edc83f5c27fb mod 0x926d1276e41fae13fdda5f78edb7802a76951509 = 0x12b5c57c85f5d0cb9c13f29dbde266495e1659d0 mod 0x926d1276e41fae13fdda5f78edb7802a76951509"
  by (rule pw_dbl1 [where x = "0x5858b9ccbcff87f5339f3322f7dc7a30fd92aa0e" and k = "0x6a9bbb948a4ac74a0862148b16fa0f5204537ff8"],
      rule pw_dbl1 [where x = "0x47abe366842855bba389a01a1a2eecccb6726598" and k = "0x46298ce124f3066efb3b96cfd716cd43600b3562"],
      rule pw_dbl [where x = "0x129f8c2ec5dd156e73a67708e177d0ac201ca823" and k = "0x25e5c94ca0805182296aa9f88a6266307ec9ae9"],
      rule pw_dbl1 [where x = "0x604e2b0d5d61cebc122c07d179b0a0ddb7d5915" and k = "0x7eae674fc33a1f6f784225978346546a66af97"],
      rule pw_dbl1 [where x = "0x91f42c7e2369cc0127ac93af05deafb1dfcfbd8" and k = "0x122f754af27f27251d042ac3662c6b4c67a35d3"],
      rule pw_dbl1 [where x = "0x6bb25dc4428cd0d94808dda5be81cb4d031928e0" and k = "0x9e6c264c9cdee7e618666b9994c880dfce849ce8"],
      rule pw_dbl1 [where x = "0x55d76321ea400b8b8250271aad28dfc205af302f" and k = "0x64a5dd4e6fbbfe807665c51992034e5295046fd2"],
      rule pw_dbl1 [where x = "0x5bdaf2a239d341a4208111ace7b5314ca376ca20" and k = "0x733e8f03b7584592dbd3286fce6a6cc94eb46689"],
      rule pw_b160_q1_full_8)
     (simp_all only: arith_simps rel_simps)

lemma pw_b160_q1_full_10: "(2::int) ^ 0x124da24edc83f5c27fbb4 mod 0x926d1276e41fae13fdda5f78edb7802a76951509 = 0x4aefde3aaa5684fe14e4559b337b52334fed9eee mod 0x926d1276e41fae13fdda5f78edb7802a76951509"
  by (rule pw_dbl [where x = "0x3a6637e60d7f7375bcb3341f516cfd78e39308e0" and k = "0x174a9d45cca8d5f44e0fa087198d525bf050e302"],
      rule pw_dbl [where x = "0x6df76e4a8b20e560da8629a5054c368ad72637f" and k = "0x5295d4b829c136c42fb58d371430d382872059"],
      rule pw_dbl1 [where x = "0x27c4d24cfc54c0b4f6358379f7c0372637a03875" and k = "0x159a27a24ce55e307335cb27525a595d3759139b"],
      rule pw_dbl [where x = "0x2db2c2d64f56506fd509408b981c790a0e1fa2d4" and k = "0xe431492e178c09c8f2c9f45071a68658f674803"],
      rule pw_dbl1 [where x = "0x8e694e380fd7805017110c2e003dffb280966b2" and k = "0x115036fc35f77c7ede10698d0dedc2cd0a46014"],
      rule pw_dbl1 [where x = "0x6c90ad9010a12994614b03c3040af23e23fd0a8d" and k = "0xa0fcd46f6ec51eb3f692dda77feed6d6e3801fa0"],
      rule pw_dbl [where x = "0x858931978847f187f3a85460cc856ef0cdadf8ab" and k = "0x79c7cf3ea24282e5a57c9848cc6de2d374f5f14c"],
      rule pw_dbl1 [where x = "0x12b5c57c85f5d0cb9c13f29dbde266495e1659d0" and k = "0x4c80e4a45262117ead4d893ad02177c79e920ed"],
      rule pw_b160_q1_full_9)
     (simp_all only: arith_simps rel_simps)

lemma pw_b160_q1_full_11: "(2::int) ^ 0x124da24edc83f5c27fbb4be mod 0x926d1276e41fae13fdda5f78edb7802a76951509 = 0x8da85dc4c90f66bdfda5eca9dfbe1f1f2463723c mod 0x926d1276e41fae13fdda5f78edb7802a76951509"
  by (rule pw_dbl [where x = "0x1a5154ee4507f57f8b9e68d66576b48e2daf1a03" and k = "0x4baecfe4211ea37f191bc45d788092649b983a5"],
      rule pw_dbl1 [where x = "0x65b2ab169bb36ca3f6f436b3c16d74714ccfcb33" and k = "0x8d43f0b3cc71f3cef3422a229d1e0da040fa2697"],
      rule pw_dbl1 [where x = "0x42c1931cda0106852fd00aedb9cca7de15eb2f3d" and k = "0x3cde6499185c56db42ec0bc8e4305714a7ad7da7"],
      rule pw_dbl1 [where x = "0x48a5fbd16a347fb9ee87e7c9c600ec80ea06316d" and k = "0x48168bcf2c0a13577b85bb7ffb2d7cd9e5a1372d"],
      rule pw_dbl1 [where x = "0x8bca6664354ffdcf530ea4dd0b8f09063525ba46" and k = "0x10ae968d7e2a17de116f313c08157aab5683227c3"],
      rule pw_dbl1 [where x = "0x2ffab53629652c23b800361892abcfa595634838" and k = "0x1f715539789f211859ed938d9110828bcca004ea"],
      rule pw_dbl [where x = "0x70eb811745229113ee102e5b75c7a05baa5acf34" and k = "0x5714b57d4640f118b76657190447ec50fc0eb598"],
      rule pw_dbl1 [where x = "0x4aefde3aaa5684fe14e4559b337b52334fed9eee" and k = "0x4cb397994ccb4f0626cb1c570061fb2905a769b4"],
      rule pw_b160_q1_full_10)
     (simp_all only: arith_simps rel_simps)

lemma pw_b160_q1_full_12: "(2::int) ^ 0x124da24edc83f5c27fbb4bef1 mod 0x926d1276e41fae13fdda5f78edb7802a76951509 = 0x18a8178901a317016574c0f624057382a411471d mod 0x926d1276e41fae13fdda5f78edb7802a76951509"
  by (rule pw_dbl1 [where x = "0x5a22e98a4dba786d0a18ca5434ca4d6ab074b709" and k = "0x6ef8b9eb059f1c64e7cb63daa90c06833f52d79d"],
      rule pw_dbl [where x = "0x3c86c6058e442f776d9d9165d6ef1b8168b7903f" and k = "0x1904e57fb22e4ca6e83be349451287fb5104cab8"],
      rule pw_dbl [where x = "0x20b6816eaddf760403e23591449c36774182cf5c" and k = "0x74ef0cc41b896bbdebe38bc12b6ccd2230a1f89"],
      rule pw_dbl [where x = "0x8e3a688783d1daf97ef8411974b91a9e31c1e638" and k = "0x8a268dddf8ea1940de7cbaa31b9b81b85b8632c4"],
      rule pw_dbl1 [where x = "0x520bdf3c87966bb70617df45da4e845eb8903a9" and k = "0x5bf20b47c032e394a63c3b2d9d16034c35321a"],
      rule pw_dbl1 [where x = "0x928be854188bcf416d6b2be277832513f859e43" and k = "0x12555895f4a238074a4d1722fa7364339b1d761"],
      rule pw_dbl1 [where x = "0x1b5fc22a67dc1c8f3565f996848fb12ce82f37ed" and k = "0xa3c2c2ca563ac8fc07695e9574e3a71f9e8cad7"],
      rule pw_dbl1 [where x = "0x8da85dc4c90f66bdfda5eca9dfbe1f1f2463723c" and k = "0x11216d36408c194e7685fc81909c69599add77a5b"],
      rule pw_b160_q1_full_11)
     (simp_all only: arith_simps rel_simps)

lemma pw_b160_q1_full_13: "(2::int) ^ 0x124da24edc83f5c27fbb4bef1db mod 0x926d1276e41fae13fdda5f78edb7802a76951509 = 0x3ee9a2c2a87d0dd4435edb9e23b1b9ef8a050e97 mod 0x926d1276e41fae13fdda5f78edb7802a76951509"
  by (rule pw_dbl1 [where x = "0x3baf4e2fa8310459d1aec00f65a9ce89b122f3ca" and k = "0x30a801fa244202d816a9bf7fdfedb04d0fe0abe9"],
      rule pw_dbl1 [where x = "0x7cc87e0c9b8ac9b8d8c7d1de99bffcaf8a1573bc" and k = "0xd4adb488b38ee41cd39e7143bfe0ff7b33178926"],
      rule pw_dbl [where x = "0x38db37fadea468207d2f48299c34173bc5bd88cd" and k = "0x1613b341f63a43ff21791e65053d95dee757ed45"],
      rule pw_dbl1 [where x = "0x3f94b373448acccc0606aa4c3ed845e24196a6c7" and k = "0x373747ac80c4282e710f3018ba9a8ca76aa4922d"],
      rule pw_dbl1 [where x = "0x41d16b5b21c05894c3daf700941fac602260ba97" and k = "0x3b2b8505cf7210d399916327ca31d2f0d34bd243"],
      rule pw_dbl [where x = "0x689452d899fffdc8111a41e44ee8a19f146b3aa1" and k = "0x4ab123d6c2ffc87cbf3d846dfc0ba51532434dda"],
      rule pw_dbl1 [where x = "0x659f5f3bc0125de1308e40ab31c7fc9479d53137" and k = "0x8d0e5a31866f3864c3782e30f439425751ed7a39"],
      rule pw_dbl1 [where x = "0x18a8178901a317016574c0f624057382a411471d" and k = "0x84dc7a10d8a4639eda08f1838c12bc8ed188043"],
      rule pw_b160_q1_full_12)
     (simp_all only: arith_simps rel_simps)

lemma pw_b160_q1_full_14: "(2::int) ^ 0x124da24edc83f5c27fbb4bef1db6f mod 0x926d1276e41fae13fdda5f78edb7802a76951509 = 0x69d68c8de4274cb435f4f4f2feb0fcb78f25a798 mod 0x926d1276e41fae13fdda5f78edb7802a76951509"
  by (rule pw_dbl1 [where x = "0x479d89e6254c5df7a9e7e4e5997d155dbffe55e1" and k = "0x460d7763b66b28b653381794ea3826882f4a2d1a"],
      rule pw_dbl1 [where x = "0x178bf6fbaeb89e4944c2dbbe3541521f90b30f5" and k = "0x792b5fef42d31c1e14678e320c1fe847da3c9"],
      rule pw_dbl1 [where x = "0x908a1550110f55fe79593992bf356855bde41c65" and k = "0x11d5aa29dc7b9396fb87e84f4f4ba882306042d15"],
      rule pw_dbl1 [where x = "0x70877786195c74b6ff4ca39994287fe76cec10ab" and k = "0xacf55df69c18c922ca9d26d13d21d9eb62fabfe5"],
      rule pw_dbl [where x = "0x8eefadabdce780188aadbfeb6d67c936397c4aee" and k = "0x8b8793c4a48a8ae111924a4d71efc6f6ac42c711"],
      rule pw_dbl1 [where x = "0x93b350f2ea9173ca599ae46bf8982e1d0e9b7e3" and k = "0x129f8cca405287519e21fd0f549bcbef24d2b84"],
      rule pw_dbl1 [where x = "0x767793e7efb9185ef40344a2996fad58ae291d00" and k = "0xbfb181c39a7cdf55c0ce1aa694115f8fb2c61375"],
      rule pw_dbl [where x = "0x3ee9a2c2a87d0dd4435edb9e23b1b9ef8a050e97" and k = "0x1b07dc8533b992f523795b2b5bea3e600c8d5cc9"],
      rule pw_b160_q1_full_13)
     (simp_all only: arith_simps rel_simps)

lemma pw_b160_q1_full_15: "(2::int) ^ 0x124da24edc83f5c27fbb4bef1db6f00 mod 0x926d1276e41fae13fdda5f78edb7802a76951509 = 0x8abb126cff7c4a49a3fe178099be838dfb4b652f mod 0x926d1276e41fae13fdda5f78edb7802a76951509"
  by (rule pw_dbl [where x = "0x315a2dbef64ce591dca3a987e5e91934b69e082c" and k = "0x10a24b5b5085ba3f030fd93cc1b49cf862835099"],
      rule pw_dbl [where x = "0x75f76dc0d4fad287d130bbe45958ac78ed5e2360" and k = "0x5f09d4e8c552649af61beb6e8078b324a99fe634"],
      rule pw_dbl [where x = "0x69630e196c075f507e4eefc9e04b1485d9c9352d" and k = "0x4bd994a83a074d7565d0e670b1f02503c7c8c581"],
      rule pw_dbl [where x = "0x1ace33425f95802dfaabc1ceb2dc40bbeff4c20" and k = "0x4e83a552b579329867dfc4b68ed4eff2f77fb"],
      rule pw_dbl [where x = "0x4a9428768e40e20f1d4b2c1e5fa7b0eeb86992c" and k = "0x25fc26a3fe6b81d1ccd106b404e03bf27783f0"],
      rule pw_dbl [where x = "0x6a1e916834020a9be80ef81511f45016474effb" and k = "0x4ce86f6ecc196ddda2890cc005eec986fcdfc5"],
      rule pw_dbl [where x = "0x24b785ecfc4e93f009335925008dc58555e2ffea" and k = "0x934f742d6944aa3fb3af4948e4899effca52de1"],
      rule pw_dbl [where x = "0x69d68c8de4274cb435f4f4f2feb0fcb78f25a798" and k = "0x4c802f5ce4ab874a95828ff59cb9cb168e4cf326"],
      rule pw_b160_q1_full_14)
     (simp_all only: arith_simps rel_simps)

lemma pw_b160_q1_full_16: "(2::int) ^ 0x124da24edc83f5c27fbb4bef1db6f0054 mod 0x926d1276e41fae13fdda5f78edb7802a76951509 = 0x8b6ed8f81e17f08242aa22df7c779e9ed62bec1e mod 0x926d1276e41fae13fdda5f78edb7802a76951509"
  by (rule pw_dbl [where x = "0x6838f3b7fd962e6f72bb1746bafc0f1b8de039a0" and k = "0x4a2ed85d348ae8478019b4e8dd601ac0fc7de352"],
      rule pw_dbl [where x = "0x5fce9b63b9e1af4adcb65db06748dfcbcf412d21" and k = "0x3eafd71cbffebc8d274a2d9164e3dda72caf10d9"],
      rule pw_dbl1 [where x = "0x524e243650ea7ce206fc920bd82ab1299d52bd7c" and k = "0x5c86cef413611991efc476ecdef76a7f158c59c7"],
      rule pw_dbl [where x = "0x3117d29c5d36751ed2c14a9b494788083f61c64e" and k = "0x1075ae8c8551a1c1673f251d841c76845e530a08"],
      rule pw_dbl1 [where x = "0x507667e3f7b91861bbffb9eb404e0fba5f9a4671" and k = "0x586e0acde80b2c7d461053fd97f62c327b7afad4"],
      rule pw_dbl [where x = "0x2587450357600671bc97e8e1c6a71e97ee702e67" and k = "0x99e4dba18cd41a1d2acf3c8abc1603610506f00"],
      rule pw_dbl1 [where x = "0x90bf10660640794cfb66828c82a6f92eb47ca79" and k = "0x11e2bfa444adb107901d5fee7e9eea630aa9de3"],
      rule pw_dbl [where x = "0x8abb126cff7c4a49a3fe178099be838dfb4b652f" and k = "0x83709a8d7386b784925b8245b80617b36cb024e8"],
      rule pw_b160_q1_full_15)
     (simp_all only: arith_simps rel_simps)

lemma pw_b160_q1_full_17: "(2::int) ^ 0x124da24edc83f5c27fbb4bef1db6f0054ed mod 0x926d1276e41fae13fdda5f78edb7802a76951509 = 0x9062956cf41f72f933bc140e1832761fd67b4c0c mod 0x926d1276e41fae13fdda5f78edb7802a76951509"
  by (rule pw_dbl1 [where x = "0x4b89f633bd4bcd8d61546c178b0f0ea68806eb02" and k = "0x4df04da3b2721307080ba7c38dd1b7fdee88871c"],
      rule pw_dbl [where x = "0x619c58a51213be0c19fed461a601a3226fb3bd8d" and k = "0x4111c356fbd8c8b769a6fae12ab0b13086f9f82f"],
      rule pw_dbl1 [where x = "0x8822ad647a6cc7977931dce9cddf2312e291a089" and k = "0xfd22d9003fda551d55055b711c0a69a6741caead"],
      rule pw_dbl1 [where x = "0x7c693884d0da943cc60e73e11faad056a7b5a126" and k = "0xd3696e393554b1f9e3edaec4f8f5e1f0d4985387"],
      rule pw_dbl [where x = "0x453a1a545089d821171d59bb4e14d5c7ede05d6d" and k = "0x20ba9d0ae143e3469143a84218d11482fc10f0eb"],
      rule pw_dbl1 [where x = "0x18a28cf163a8e56f7d2958f4f93d8f8b03b530fa" and k = "0x84a0c8b61e7c13c1ad69d839c3a28f6b2541dc3"],
      rule pw_dbl1 [where x = "0x4de3574f4be11d39f3de2fdc2991fe8f256eda2b" and k = "0x52dc916bab017e4c882fc1765407164bb4313fb8"],
      rule pw_dbl1 [where x = "0x8b6ed8f81e17f08242aa22df7c779e9ed62bec1e" and k = "0x1098c3dff6292cd535285cffcf92f56a4e4b56235"],
      rule pw_b160_q1_full_16)
     (simp_all only: arith_simps rel_simps)

lemma pw_b160_q1_full_18: "(2::int) ^ 0x124da24edc83f5c27fbb4bef1db6f0054ed2a mod 0x926d1276e41fae13fdda5f78edb7802a76951509 = 0x4c505ea1a8da514714f52ef85acb7f99af16a5a7 mod 0x926d1276e41fae13fdda5f78edb7802a76951509"
  by (rule pw_dbl [where x = "0x3db96550d2fc1a88705a0c53a7b8bccd8aafe6e9" and k = "0x1a04e4f9503f5d615336a61468fa02fc42665b9a"],
      rule pw_dbl1 [where x = "0x8587801f3811d395e6a37eb0389a61c5aed77154" and k = "0xf38971490058f7de0019375c3a77de8ca69a9b3f"],
      rule pw_dbl [where x = "0x10f6ab98f58d5b41c64f60d83e042c64f32ad87a" and k = "0x1f719e945f1b449946bff5bf20d86f94932e650"],
      rule pw_dbl1 [where x = "0x5bc59d11e530394137487cc7deee993d020de7f4" and k = "0x73090cbf74caac18e2a441dccddd9f70329a62f6"],
      rule pw_dbl [where x = "0x170bf43512c11424a1356832e003c042c9fb01ce" and k = "0x3a09f30869a27fb3c87716d2bb87c5cc76d4f50"],
      rule pw_dbl1 [where x = "0x17977fbad4b308fd251bc4291653d83e220d34e0" and k = "0x79a23227f8340122f16b6a9912dc4ca4193a322"],
      rule pw_dbl [where x = "0x6d3e24ebf39b81531bafa8d2304f6c8340939a0a" and k = "0x518071e67e634ab8ff188f14a3691123bcf0bc64"],
      rule pw_dbl [where x = "0x9062956cf41f72f933bc140e1832761fd67b4c0c" and k = "0x8e5f60c4e39af4ee0d4917040804fbd2d101a9d6"],
      rule pw_b160_q1_full_17)
     (simp_all only: arith_simps rel_simps)

lemma pw_b160_q1_full_19: "(2::int) ^ 0x124da24edc83f5c27fbb4bef1db6f0054ed2a2a mod 0x926d1276e41fae13fdda5f78edb7802a76951509 = 0x3d893f751c5ef5b97a0fbf0291a4962d91afdbc6 mod 0x926d1276e41fae13fdda5f78edb7802a76951509"
  by (rule pw_dbl [where x = "0x8d393446c8ae33ed1c68b7c0a6d90d39ec7e3432" and k = "0x8834a88b85e1e733650c9f728fbb91c702c3fb8e"],
      rule pw_dbl1 [where x = "0x4139f46a489d2b95789d842ffad9815415f54c92" and k = "0x3a1c6987f1db7b386ce7de041ab1e39c1a58db26"],
      rule pw_dbl [where x = "0x2b0bd24442614862e3dc2daf4175451766dffb03" and k = "0xca798642bcad6de76a95205be27d30d54dc767f"],
      rule pw_dbl1 [where x = "0xf315567e1927669a668eeb3535d0d6a1c02df9e" and k = "0x32717132632a1d04d09e6ddd385087237fffe1d"],
      rule pw_dbl [where x = "0x85faf2d5a9a7f873af6a63bc764ed3ca31bbe3d0" and k = "0x7a97a2e99d980701d4c77af6c94311aef2ab28d2"],
      rule pw_dbl1 [where x = "0xe905b2953a0e6f9a68755dd0872a1d3cceb514f" and k = "0x2e5a9a44431f5c118607b281e30db096430bfe2"],
      rule pw_dbl [where x = "0x35f8d1491cf906e5e4ea64759111c668de346ee4" and k = "0x13e4d0047208436a51fcb356fb0ebc82a16d54f9"],
      rule pw_dbl [where x = "0x4c505ea1a8da514714f52ef85acb7f99af16a5a7" and k = "0x27c5e9b3814e5bf5a22c7281c9aabc0579d89be5"],
      rule pw_b160_q1_full_18)
     (simp_all only: arith_simps rel_simps)

lemma pw_b160_q1_full_20: "(2::int) ^ 0x926d1276e41fae13fdda5f78edb7802a76951508 mod 0x926d1276e41fae13fdda5f78edb7802a76951509 = 1 mod 0x926d1276e41fae13fdda5f78edb7802a76951509"
  by (rule pw_dbl [where x = "1" and k = "0"],
      rule pw_dbl [where x = "1" and k = "0"],
      rule pw_dbl [where x = "1" and k = "0"],
      rule pw_dbl1 [where x = "0x2dcdb17b1149925b4342214ce0f9eb0c38cbdd94" and k = "0x1ca7d215ca878f66b6974fe888d0b35e854dc0e7"],
      rule pw_dbl [where x = "0x4aaba2b3766228e650a8dbfd797ed84686646e9e" and k = "0x261414c1e4a1fb120ba194303c6f0073b51c5870"],
      rule pw_dbl [where x = "0x478e2317fb30572a7f88c43ac6c109e50bc1e5b6" and k = "0x22f7ac8c80d22ddad6d2037b6a54a66e2037e016"],
      rule pw_dbl [where x = "0x3d893f751c5ef5b97a0fbf0291a4962d91afdbc6" and k = "0x19dc5d296a98243edaf0bba1c31d7f1459d9757e"],
      rule pw_b160_q1_full_19)
     (simp_all only: arith_simps rel_simps)

lemma prime_b160: "is_prime 0x926d1276e41fae13fdda5f78edb7802a76951509"
proof -
  have "is_prime (nat 0x926d1276e41fae13fdda5f78edb7802a76951509)"
  proof (rule pocklington [where a = "2" and m = "0x926d1276e41fae13fdda5f78edb7802a76951508" and e = "0x438" and q = "0x22b559b5c816ae00f2378e18df38c5410ed597"
      and w = "0x84f6174410b13b7c641bfb1c0429a24ea8e8db82"
      and u = "0x915a3c97e1f064769fa3c1c13714e947fde75b95"
      and v = "0x83fc873b067687e40e33c93e9edf628ae4e9ad74"])
    show "is_prime 0x22b559b5c816ae00f2378e18df38c5410ed597" by (rule prime_b150)
    show "(2::int) ^ 0x926d1276e41fae13fdda5f78edb7802a76951508 mod 0x926d1276e41fae13fdda5f78edb7802a76951509 = 1 mod 0x926d1276e41fae13fdda5f78edb7802a76951509"
      by (rule pw_b160_q1_full_20)
    show "(2::int) ^ 0x438 mod 0x926d1276e41fae13fdda5f78edb7802a76951509 = 0x84f6174410b13b7c641bfb1c0429a24ea8e8db82 mod 0x926d1276e41fae13fdda5f78edb7802a76951509"
      by (rule pw_b160_q1_part_2)
  qed simp_all
  then show ?thesis by (simp only: nat_numeral)
qed

lemma pw_p256_q1_part_1: "(2::int) ^ 0x1bf mod p256_P = 0x7fffffff800000020000000100000000800000007fffffff7fffffff7fffffff mod p256_P"
  by (rule pw_dbl1P [where x = "0x80000000000000000000000000000000000000000000000000000000" and k = "0x800000007fffffffffffffff7fffffff7fffffff7fffffff"],
      rule pw_dbl1P [where x = "0x8000000000000000000000000000" and k = "0"],
      rule pw_dbl1P [where x = "0x80000000000000" and k = "0"],
      rule pw_dbl1P [where x = "0x8000000" and k = "0"],
      rule pw_dbl1P [where x = "0x2000" and k = "0"],
      rule pw_dbl1P [where x = "0x40" and k = "0"],
      rule pw_dblP [where x = "8" and k = "0"],
      rule pw_dbl1P [where x = "2" and k = "0"],
      rule pw_one)
     (simp_all only: arith_simps rel_simps)

lemma pw_p256_q1_part_2: "(2::int) ^ 0x1bf92 mod p256_P = 0x68a62970084e6a7ec3edec680804b410c1180d1714efb7351f29e44619b47d2d mod p256_P"
  by (rule pw_dblP [where x = "0xeffbfbd4521e909bd43dd46096378c4aa6e29abe01638a6bcc58fe130ba82b7f" and k = "0xe0f8783f1c609b50cfce736f505a4fb4a0460ffb6166998e5e0b893611a0942c"],
      rule pw_dbl1P [where x = "0xda851d2b0fcfe8bebd5b6f61ba1988d0b5e3d8b445cf47a684ee77ebe9a649f3" and k = "0x1750df5cac70c94498a7a6e1ce8d51b6511d45d325e87f3fcd219648e66a7322d"],
      rule pw_dblP [where x = "0xd8d04dc9a7cee672ed1c72d66f6ead8c6c79d49c405c9891d4d71357abb7eb" and k = "0xb7a02cc38220efa69ce8ade4a8cc57fc551f8a28bf1d214646d8f792783a"],
      rule pw_dblP [where x = "0xd063fd07574f39cf1f4130ac894a0c31558e045f934f5316cb8441205e91aee1" and k = "0xa9a2a23a45486a396101626d322aa8e52f35ddc0ff046239a1a38d7e8953162a"],
      rule pw_dbl1P [where x = "0x9db5c6a40739d31937ff415f77e319378d5f37c1d54dbb99f6e00800a47d132f" and k = "0xc250ed7020337f5fa83e7f45ed34fba1d6b39ce9e8b396aa893d65c073e5a99f"],
      rule pw_dblP [where x = "0x3ffffc66c000106040000c8180001121c0000c697ffff8f53ffff34e3ffff36a" and k = "0xffffe33700cf9a10f9724f1c03c5e05e1c3894133fb5395e5a07db3a3deab4b"],
      rule pw_dblP [where x = "0x7fffffe87ffffffafffffff200000001800000170000000c800000037ffffff5" and k = "0x3fffffe8c000020bc0000300000003a0c00000fcfffff9fbfffff39b3ffff2f1"],
      rule pw_dbl1P [where x = "0x7fffffff800000020000000100000000800000007fffffff7fffffff7fffffff" and k = "0x7fffffff8000000380000002000000058000000b0000000a000000017ffffff3"],
      rule pw_p256_q1_part_1)
     (simp_all only: arith_simps rel_simps)

lemma pw_p256_q1_part_3: "(2::int) ^ 0x1bf9212 mod p256_P = 0x8da0ca7749d7f35fa38260203d856ee9707e54e9f6ba048a9bc38d080575888d mod p256_P"
  by (rule pw_dblP [where x = "0x1ea609944c60e4e3a304d3d16191ecdc3bdcc082701d0afa377d42b1dea7fffc" and k = "0x3ab55ef3240dc8496ec67bb9fb9511d327736abd6c289e811b5d456fab5887d"],
      rule pw_dbl1P [where x = "0xa26804a6f12f204d664f2a25d893e6be73e911bc56b49d29b90e121ca509f159" and k = "0xce0fa04ef0021f74d565489db55148135e48afc9297b2d5052ff00c2b3129e1a"],
      rule pw_dblP [where x = "0x9da7a0baaa4e852541fdfd622b9e6468d0774137ad9c7eae16177c7950e88765" and k = "0x611708e86e6f67a788ba6e765f4867169e244f577c02e2f1305c14cdd65e4380"],
      rule pw_dblP [where x = "0x9a1f927bfb349d78f1ccf80c7ccedb4a62e72cabe8b6b2d60641cfd1d80a93c3" and k = "0x5cca002254ddcae8fcf6727b6b54174328e30ec935c90cfa5685044a606300dc"],
      rule pw_dbl1P [where x = "0xaf750f5e9113f2ec92c36123f1c87ae7dc91b65cee347d6ef1bd0ace95da6ce2" and k = "0xf08281159feeb5aa0fe232b9904b435f312c9281fdbb86844b580e28719ba4bb"],
      rule pw_dblP [where x = "0x1b255669faeb1222b113030bcb41cf9892d2b8395891905f60d20b59abee5671" and k = "0x2e0e5ac759c63e8bd10d713bc34a2acf446f4ccb57d8d86e5baf4dcc88e4f01"],
      rule pw_dblP [where x = "0xae9f3fd923dbdfaee50028bce2d140728b9cac1c996e2cb2c09282ff46b5a07f" and k = "0x771cdddc0382e4e12ed1dbd123e33630f6d66a4e41695d7b67977db5dfb95770"],
      rule pw_dblP [where x = "0x68a62970084e6a7ec3edec680804b410c1180d1714efb7351f29e44619b47d2d" and k = "0x2ac76d84f586fd6e4955c0e714f0a6417fd82621437b1ef431e726b03838a696"],
      rule pw_p256_q1_part_2)
     (simp_all only: arith_simps rel_simps)

lemma pw_p256_q1_part_4: "(2::int) ^ 0x1bf921271 mod p256_P = 0x1d4d764db51b0d79f53d52d2032570396ec188be1211a58eeedc66e25a7cd69f mod p256_P"
  by (rule pw_dbl1P [where x = "0x6e6740d24d28e5deb3bb58a576b5482df4e70212160c67aecb62ad905933e3a" and k = "0x5f39cab4471fea4ae1cd998ff89ebf084a5e057dd0eb3291992ffcc7048c57"],
      rule pw_dblP [where x = "0x54a180f681c0bf53acc9fd9258eb0e580f3d983958ed3e27c1605061e27777ba" and k = "0x1bfa6285582783a32c583922c30934781ea951eaba78e4b69b8208c016a8cb16"],
      rule pw_dblP [where x = "0x750d7bc2f3298694b2adce2289dec61e337ea829b8266963428e448bd262de93" and k = "0x358553d6356ae530ef8d4eb9bcc2da8431a39604ec498de05fca29678c682f51"],
      rule pw_dblP [where x = "0x529d870ad195994bb0595a7d4b8f4cb7b0df9bbd67f75d86fead2ef7e48d8d8b" and k = "0x1aa94b71f36e9ca52f884665e67419150edf750a31b36b806c9ebbed0102751a"],
      rule pw_dbl1P [where x = "0xcff8bed9b42ebedd841279b3306db67dbfd7c6f2c1bd5abb1e1e08f5cba84c44" and k = "0x151e86cae1cd994558f4101ea909c8f4dad42a136f8d9fabf70f80b77d49ca96b"],
      rule pw_dbl1P [where x = "0x3d0996c58a18589a17566807d2ec6a5d48b19e20674415746f96f27ac10f84b" and k = "0x1d1b246c4a19f0d0387ed46217c21aeff3a00e537ccc75e20b09b847458052"],
      rule pw_dbl1P [where x = "0x152a425ee71f012195e1b63638830ae1cc95ebe30c1dff778db6bb1c5eaf035e" and k = "0x37febbad807e927a7c6a4d2da8c314e06be08b4d63bb6818b3751ca66f24b43"],
      rule pw_dblP [where x = "0x8da0ca7749d7f35fa38260203d856ee9707e54e9f6ba048a9bc38d080575888d" and k = "0x4e5a84056aef2c2b3662b8ec77b162bcef0938bb35b7e4c6f9071300c2f6e5b5"],
      rule pw_p256_q1_part_3)
     (simp_all only: arith_simps rel_simps)

lemma pw_p256_q1_part_5: "(2::int) ^ 0x1bf921271ff mod p256_P = 0x4ebbd3c0ce133a673b34fcb9de4ef857cb8fed165c0efbef5a67ded07c341895 mod p256_P"
  by (rule pw_dbl1P [where x = "0x1b28425f885e305c321968c86fc70c7c6c40ef1daaf7be560ceb14cf5fcd3c5" and k = "0x5c308a9f16acbdd296113e0da4f56722758221b74990509abc2cf22276d63"],
      rule pw_dbl1P [where x = "0x5b1b25958c80c8e7fa75f1fb750e17311bd4d9460ef0a40244269be7ba5a1292" and k = "0x40d89f32cac027254e18f7b3ed8878e96ce590991f4d934968bc0cfa85fb1d3d"],
      rule pw_dbl1P [where x = "0x9b54ffdf858076da2d60a74b4c07eb816f2d45d75a977344b54f38b7f61215a8" and k = "0xbc801423e8b08ad720daffa7e77baf63ba0ffeca644ede3d211029bbdf701612"],
      rule pw_dbl1P [where x = "0x60cf98d54bdd0ee3073a12f98761272107a7163aaadceedf6bf76a147daa2b40" and k = "0x4938b5f14361a2dd5752b12d2e94ae3f84adb75bffbb4fcd322076040574f5a8"],
      rule pw_dbl1P [where x = "0xf1207f524fafe702b409109198c574994b25e8093359cf37fe8de15eb5f70aec" and k = "0x1c63c67b3e21c2c9b2491576f1992796f6d0007480f67a6a5f41b27c4e5eb9820"],
      rule pw_dbl1P [where x = "0xcbece74e7078ef54c61658673aa9f4e6311fba347bbb3681a447ad3f3112518a" and k = "0x144e32424a4dec73cc2f2b5467438fb92df3776f65412b3f404348c79eb35ce24"],
      rule pw_dbl1P [where x = "0x6d08e14f1b976412556211517735bdf57fd5fe88acc2e746730e4b3ae29b8fcf" and k = "0x5ce12058ce5ab7987dd1d514e820ce1b0ef99bfc7ac693050050b4c54e2c7ec8"],
      rule pw_dbl1P [where x = "0x1d4d764db51b0d79f53d52d2032570396ec188be1211a58eeedc66e25a7cd69f" and k = "0x6b5487bff9ae43a38640dc5bfcce20636c601a996ef2ebea9a2fa320eaf224d"],
      rule pw_p256_q1_part_4)
     (simp_all only: arith_simps rel_simps)

lemma pw_p256_q1_part_6: "(2::int) ^ 0x1bf921271ffff mod p256_P = 0x577274d673da5f89d3fa83f58371bfed5bb463e345518b0bd869d382263ce2c2 mod p256_P"
  by (rule pw_dbl1P [where x = "0x4d8efa9fa33f5429fb343e4688544becdc057d6ac017c60a556e5325c833f884" and k = "0x2efea53e3c5167cb0eff78a400b3b080b6cd30de98122c3f0810797bba8cdaa2"],
      rule pw_dbl1P [where x = "0x7c54c1e17f0257077ed22e3822fd814384e58dbcabd368eda5e7c641aeecf13e" and k = "0x78c46fc4fc7b3bb953f7aee746528c58d428c1bcd31c18661f9b99b1dce8627c"],
      rule pw_dbl1P [where x = "0x5ccf5670c71c2fa19d54a52511870a4cc4be724562b06504fa556dbd3705d39d" and k = "0x434b5c1c30a7cea9d54d2e45916881bbbfb2b4be75713b58d020747edcd094ac"],
      rule pw_dbl1P [where x = "0x9ad3670ad2f67dfa3414a43fe191abb9a7c048b7e3e7126c00056efc98478e35" and k = "0xbb460d18d18a1d507d6e7271f16f80b0cf2e946afaad85ca92dc4b4ef63c25ab"],
      rule pw_dbl1P [where x = "0x1f5633aef7ef3a87474d23fe3c6ad5b925f5749b2bbf5f2a675929a9a1f5a138" and k = "0x7abfb164fbf61a509ae8540525ba89b9e43a88a3e2a1011d952162fc2d895b5"],
      rule pw_dbl1P [where x = "0xd432cab04801e81b85f005942ee83afe990295db47d575fd6747afb7f71acb69" and k = "0x15fc85390e8fc3bf43cb6edf6ac8b8fe1c7229ba3f183feec1102fec8800e3f16"],
      rule pw_dbl1P [where x = "0x996871dc976ec108196ed78839e361d869fe9946749ce97360e3ebdd6cebbee2" and k = "0xb7dc056d7d9fd6669c6ba85c2d268c17b3c5a062fb0b326d420b2f02949a4c61"],
      rule pw_dbl1P [where x = "0x4ebbd3c0ce133a673b34fcb9de4ef857cb8fed165c0efbef5a67ded07c341895" and k = "0x306dfdb1413e56e0709b5fc82d6bcef2598765777703183571fe2ac8bf233170"],
      rule pw_p256_q1_part_5)
     (simp_all only: arith_simps rel_simps)

lemma pw_p256_q1_part_7: "(2::int) ^ 0x1bf921271ffffff mod p256_P = 0x1cdb4c0b0b940f8c8bcf21d07ca04df5d46357b64a3bed365aa5777478198401 mod p256_P"
  by (rule pw_dbl1P [where x = "0xa80fe18b6be59fffbe2315a997f4568ddd51d5a7b41fc028ee4e223721e6219c" and k = "0xdca9b20741fe7f07308b9169567fb280c00d9971eb9c6c7fd7eb6e4f36a655e1"],
      rule pw_dbl1P [where x = "0xa74ea2e94127212a30840a1bde4308e195906b33c2fb21c7ce53b206d2a642d3" and k = "0xdaaf6168dc50f99ce336958d02b23a84e42e331b82b3db23988ea33553bb2dca"],
      rule pw_dbl1P [where x = "0x3d1c4da7468bedd2c5b2605cf7971ffabc2e99506db50f2bc609ee40d7b0b296" and k = "0x1d2d0045b4b557a51e50a62f6f874f94934a0ae20e4dbcb46cf6c02ad4fc630b"],
      rule pw_dbl1P [where x = "0xe2ecdc677da3c8e269ca896b7c6a80df3ea76849ea59d04ab72c4f94334a5c69" and k = "0x1924e209d3f1bdd7fa6bb5af840332145412a5bc85f5b77818745329a0f916c74"],
      rule pw_dbl1P [where x = "0xd1333eb2ef65b3d5e0059a85ca51df66ac3bf9afca469a31e2b382db72269d0c" and k = "0x155e96d45c0fea3a441e77fb08444dcbfd85860518721dc71a8adb720d37aeb49"],
      rule pw_dbl1P [where x = "0x787d6b74c41e90978c75e11c1e723ef091611dfd444b156f72ba6132db3f53df" and k = "0x716ba45f9b69a19576fa6d26721e06b4070ebcb02b72d17c2e792e4f97ade48a"],
      rule pw_dbl1P [where x = "0x1b5e5737a18c7311e41ca0407aaf7c14a49e72136189c71dfdf8a1712cb32a8e" and k = "0x5da1253d32450f0e8d07d4fbb00eeca213206bad3f1b2158179de7027f18657"],
      rule pw_dbl1P [where x = "0x577274d673da5f89d3fa83f58371bfed5bb463e345518b0bd869d382263ce2c2" and k = "0x3bbdfd2c49df4d4d30008f09eca79dee97fc7638ccf9a22cc5002bc7d51cf486"],
      rule pw_p256_q1_part_6)
     (simp_all only: arith_simps rel_simps)

lemma pw_p256_q1_part_8: "(2::int) ^ 0x1bf921271fffffffe mod p256_P = 0x288250328631884da9ac0b431a05b5d00fa18cb7e8759ec156c4557a2926dea6 mod p256_P"
  by (rule pw_dblP [where x = "0x6046d5d666af9a4b6fea1e6770253b69a6beb9c4f7bfb1521b7537951ac9dfbd" and k = "0x243533fa95178a2b739b06ca32841e485c54957cb7b6759a06130cd4aad20d1d"],
      rule pw_dbl1P [where x = "0x21cde7aeda745b05dfb02ff2cec57dc60c0794589aee79f7d7d2af18e503f2e8" and k = "0x8ed76aff0ff3da9d7ee8b3600ae1e6d9d781ac5fbf4c9eb6ac79f4fcaf2fb3d"],
      rule pw_dbl1P [where x = "0x2a4e4e6bc0141a3be97ab49f8bfb93835108d834d9bc209c9fce43013d448a52" and k = "0xdfb935e876689e285793d2cae345b2898855545c28d89b014af3547306aee60"],
      rule pw_dbl1P [where x = "0xa3a80c2404499537b4399e4731ff3d1df75bd5769d34b77e971a5bdb18ffbe80" and k = "0xd13edb8c6bdc4fad615c6f3e4e90c216a8fc6e6f139e88ae08ee7e971bc00a52"],
      rule pw_dbl1P [where x = "0x4d987fdb0ad46a67c4ddef92be12d12d414061c6abed73f744a4f1a8232a64c6" and k = "0x2f0a2f83e0019859d332930a922d0523d8facd78d6d8da59ff4efef45fb92c38"],
      rule pw_dbl1P [where x = "0x95755613c3f85768f883670da7739992e2ab683e4227516a38a0967ff7d6e841" and k = "0xae8397f648c697d8d7f2c947df1cc674134f3952b8b273026376e77f0866a3c4"],
      rule pw_dbl1P [where x = "0xf6ced981adea5f71c757268045c8095e8045ad27832f77cf7ccbca905dcfc6c4" and k = "0x1dbe46251db6340a0b042db2de63155558d35ef34e05f9468df557f65113f5c21"],
      rule pw_dbl1P [where x = "0x1cdb4c0b0b940f8c8bcf21d07ca04df5d46357b64a3bed365aa5777478198401" and k = "0x68168fb3e8aed21bb183bd7872dbd14e79cd004a743e64431d6d0286549b6c2"],
      rule pw_p256_q1_part_7)
     (simp_all only: arith_simps rel_simps)

lemma pw_p256_q1_part_9: "(2::int) ^ 0x1bf921271fffffffe40 mod p256_P = 0x52bfb5e8cc2dd3aeeec3c68c5b3e93b0a1d299fbc9e9f87f05d77093b556d9b0 mod p256_P"
  by (rule pw_dblP [where x = "0x4bc2ba664ac8a1fda28412f1a0536e1b7622163e866054df378cd095796d7ae0" and k = "0x166bad5710ff61e25555a8fb2007a89acc4c313eb4edcf1be621bada179c95b0"],
      rule pw_dblP [where x = "0x89027dd50baf00a86dc9db404d779289540ca8e0751c60acd6258efb76040bac" and k = "0x4953aab48502e6d9dc371525c8d8e54a71681a0814b4d723288b627a8b853f50"],
      rule pw_dblP [where x = "0x2ddef333daa9daaec018c0f28831e06a666b91a68b26218bee0897899cda2c90" and k = "0x83823aaf81294c2f612eb4f836144e3cc5877b493ffc2cbaaf55c9c09023aac"],
      rule pw_dblP [where x = "0x20436c1c87629535fb148ee68b5e3cad31b999ebd38689c6897ce175b901704d" and k = "0x410ecc8ea808519928577cadfb70952c6b45ab6237f1781910582d640fcb567"],
      rule pw_dblP [where x = "0xe7258e0e9a60ed59e160a79cb535d3016bcb9e658293c155ae930e03302650d3" and k = "0xd0b4cbe18a5c8c565161c300ec7dc633638bb37d8802fc7a885f847880d8e264"],
      rule pw_dblP [where x = "0x2342a228d12598b442f4e6a427c4b35e35a7ceeda59a8c5a35f6a763e9321b52" and k = "0x4db49af31cf1808d01791a022c26384b292cb5baac86ed3a828b10d3d33ea8f"],
      rule pw_dbl1P [where x = "0x6b8d01bc587fbdc4fb818851e9bbc20f8b289dcb5fe3a4c4b662395f0f6fb7cf" and k = "0x5a5e5a3d114ceb7654c9e57de369a2c07178689e9b14ec4bad98e389923ae890"],
      rule pw_dblP [where x = "0x288250328631884da9ac0b431a05b5d00fa18cb7e8759ec156c4557a2926dea6" and k = "0x668fb655cc85e23b12725a74ed30017e293e28ee1778bbd30ae4def0883642b"],
      rule pw_p256_q1_part_8)
     (simp_all only: arith_simps rel_simps)

lemma pw_p256_q1_part_10: "(2::int) ^ 0x1bf921271fffffffe406d mod p256_P = 0x1db9d0db98595cd286bf378e7007acf286785e894e0b322fa63c83a378d481be mod p256_P"
  by (rule pw_dbl1P [where x = "0xe5300fbc69c7f442e3cdd6cebc819291a88a5542a4a4a1b38076883cddb98825" and k = "0x19a5e0a5b941c1472730de00e2f57709b504d6ce14528043b02b289e79911d70c"],
      rule pw_dblP [where x = "0xeb6cada22aa8972585ea0483da792298c1fb9b695abe0ed81667f854f5aaf80f" and k = "0xd880b4eb896acd0afd327cf826d82dea4683e2e03f4099ffebd3fd69c3707744"],
      rule pw_dbl1P [where x = "0x27ac36a047d091deba1c86b344e1047b36e93cad7cc63402ff866883b9689fd5" and k = "0xc4bd8fc9e1ff7b3fe9cfcfdc9c7e666e3dd979462c45b7431fdecd0bff6699d"],
      rule pw_dbl1P [where x = "0x3f6d7cf11bdddd6e265ae42aa70ba69a0c6f6c431a9e66581214e4b3281854b1" and k = "0x1f6e24a4bb74eca2fbedea77f57c4f49ac2e7e02237d0f9de1e3bfe91eff5b13"],
      rule pw_dblP [where x = "0x8dbd178b396e8e254f83b70fd8ac116aa0046b9aa0ef6c9b98261421c8309df4" and k = "0x4e79d79b717abd77682ae1d8d117a8235e93df38a38acb229be20bc24b232421"],
      rule pw_dbl1P [where x = "0x5596dd39d85e15df2e2172089070d8842f9470ca2434989aa0f1d603f56a1e9" and k = "0x393b0fa10a84fa7982b269b90ede5bf30bfb1e615836645ae2209e0e4ad1d2"],
      rule pw_dbl1P [where x = "0xcf111c7a06b001081dd480fa9a93a2f616dcff12a7d68b7816a50850d973e5d" and k = "0x14ef95a65935a3bbc8b531595352302f06909ba6c67a01f9e53d8bc19884657"],
      rule pw_dblP [where x = "0x52bfb5e8cc2dd3aeeec3c68c5b3e93b0a1d299fbc9e9f87f05d77093b556d9b0" and k = "0x1abf601a30306c8388acdc02090ccf4b90c17aa5477adbcf3b1e631b323b655d"],
      rule pw_p256_q1_part_9)
     (simp_all only: arith_simps rel_simps)

lemma pw_p256_q1_part_11: "(2::int) ^ 0x1bf921271fffffffe406ded mod p256_P = 0x5a82e7b29197034cff249a0535f0d43056eac32742314c643170aedbf7b813a9 mod p256_P"
  by (rule pw_dbl1P [where x = "0x38b7c3100eaf5a66e424a2438f0f65ffa94325c66ad966f025a9cf1059898f93" and k = "0x1921d27f11282dc172d226d612abc655d6d78a017131c33487df769d9400f6d7"],
      rule pw_dblP [where x = "0x6dcb944556b977ccd39fdf80f68dbe76e9514f6a84483f7b031a44b764476729" and k = "0x2f16fe27b6c8b75e42a0090dbf37fb21e211fe64465a1bf7c72aadefef398b02"],
      rule pw_dbl1P [where x = "0xfe0eb32246a70fafb799f963c37089d3e2405968f1be053828041354f5f4c3c8" and k = "0x1f84258a22adaba35f152ff159480caea4da5df6c831d8568729d1cb22e52cea9"],
      rule pw_dbl1P [where x = "0xb9f52f977d9828c1bbeb9a73642a5352f2b34e4fbd4868a6e82846c1d027aeb6" and k = "0x10e28933b36d3270cbdad53c5f78dd1509a9fef0b975a09e4c50122601094f100"],
      rule pw_dblP [where x = "0x12cb1920a95cbe4922fa99cef553d549c7bc7a7f2bc3589a1d432a812e395d09" and k = "0x16130a9757639c06963301b8f875af83e86a2ae6372745dbac2e56604562465"],
      rule pw_dbl1P [where x = "0xf055fcb4b97a44d32fc72cf34f0821d63637b29d8aacaeee54cad3a35f700d03" and k = "0x1c342ad6b0dbc1f60c9c4d0e246692b803b1234b968cd138a585b6d75f3a6c0f7"],
      rule pw_dbl1P [where x = "0xed3c84144a6d600524506a38bdf1e7d24219fb0b1f6a7c914fdc8b19d89e779c" and k = "0x1b7b235b9369ee08d91b7f08f06abb533b4c218566a210d6e6445b2d5268b3ee3"],
      rule pw_dbl1P [where x = "0x1db9d0db98595cd286bf378e7007acf286785e894e0b322fa63c83a378d481be" and k = "0x6e74062977f48a0bafe7f5128f9108fa9985ec28f4ce131b4e15f1f4fbc6594"],
      rule pw_p256_q1_part_10)
     (simp_all only: arith_simps rel_simps)

lemma pw_p256_q1_part_12: "(2::int) ^ 0x1bf921271fffffffe406ded8e mod p256_P = 0x6e2de1e253b630ab90fb6c14c9913e3f79353ced1be9c68ed42e7ee18b96074e mod p256_P"
  by (rule pw_dblP [where x = "0x10a64e1ede6e32a1e6ac95d8bb8e9f77de896aaca90c0cc3008d3b1c95533904" and k = "0x11535cd44c2464f346ba0d2f12ad13471a3a4410645dcc4a8303294de4b3f3e"],
      rule pw_dbl1P [where x = "0xb8d750438b3ec2a13ef392c102c054de5fc28081399368d8e987dd334db0e0ea" and k = "0x10aec70f3107d390a40b4453d5fd3b473066788c127cda63dca32359efe9e8d3c"],
      rule pw_dbl1P [where x = "0x5517db7b40a0769c8ee4c4b7a8ec302f6403f045c5e8f1d30d5c809375905914" and k = "0x3891b3f2430a42f80368ac1f53babc9e98e7cd7450bc844fa718bda212b30dca"],
      rule pw_dbl1P [where x = "0xad2671ab5b4d61991792e44c536a93e6c8d524115725e36a6a3e9160b21f2856" and k = "0xea39f6cfffb6cb2db04f2ceb4b16b834848a649663b795cacc0e77ceaf325f4c"],
      rule pw_dblP [where x = "0xc8b62c05f013b16de9a586bf8ee12e5ef0af00e23e7b7d98694cbcc44082dd" and k = "0x9d5d266c847f5251f364aa9a44adad0471f2e873818f7e0e4c2498b9f58d"],
      rule pw_dblP [where x = "0x43707b63f214b59cc846323c371f07333656bb2b56026d3e2d73260ca8344db7" and k = "0x11c412029567ecd6851c1f4b0fca7813bfbd7a010bb5bbf9b580fee4ea50ea0c"],
      rule pw_dblP [where x = "0xaf411f5da18a1000595a4756b2bc2a393600ca8a88589cc62d38edb0d682dda3" and k = "0x77fa19736c38b2cdc2b40f359382243247053ab36fec2a97f2138a7a4ac577ee"],
      rule pw_dbl1P [where x = "0x5a82e7b29197034cff249a0535f0d43056eac32742314c643170aedbf7b813a9" and k = "0x40009bb3a2dc31b0ff913d9f80ab2646a2f521e93283400662b8bacc119dd281"],
      rule pw_p256_q1_part_11)
     (simp_all only: arith_simps rel_simps)

lemma pw_p256_q1_full_1: "(2::int) ^ 0x1ff mod p256_P = 0x80000001ffffffff7fffffffffffffff7ffffffe7fffffff8000000000000001 mod p256_P"
  by (rule pw_dbl1P [where x = "0x8000000000000000000000000000000000000000000000000000000000000000" and k = "0x800000007fffffffffffffff7fffffff7fffffff7fffffff8000000000000001"],
      rule pw_dbl1P [where x = "0x80000000000000000000000000000000" and k = "0"],
      rule pw_dbl1P [where x = "0x8000000000000000" and k = "0"],
      rule pw_dbl1P [where x = "0x80000000" and k = "0"],
      rule pw_dbl1P [where x = "0x8000" and k = "0"],
      rule pw_dbl1P [where x = "0x80" and k = "0"],
      rule pw_dbl1P [where x = "8" and k = "0"],
      rule pw_dbl1P [where x = "2" and k = "0"],
      rule pw_one)
     (simp_all only: arith_simps rel_simps)

lemma pw_p256_q1_full_2: "(2::int) ^ 0x1ffff mod p256_P = 0x59e69790c44d5392e6efb6e9d2d338a9ea68634e25fa6b8367d48eaa8c436f14 mod p256_P"
  by (rule pw_dbl1P [where x = "0x30744b359475269e8b59b9513022e693d56ef12fe27eae818bbf08caa7973895" and k = "0x1257a210befd73c47afaca7056748231d5977dad489c1b32375e0e1627b461a2"],
      rule pw_dbl1P [where x = "0x54ccd249bb1cfa7775d63d6abdf9fff81933c2e3ffa56c6384ba6dff2bebbafe" and k = "0x382e1bc0a242a94b25f1b6584dd5a3f8d95e08ceb0c06357b0c750fe51c3108d"],
      rule pw_dbl1P [where x = "0x5cce0675c0cbf50c55c7bf2e38d83ea63e67d954f2179af6140dcff4c7c1727" and k = "0x434974e653c6ac0b41babba06120442ff95822bfac3e73c6044acffc2bab1c"],
      rule pw_dbl1P [where x = "0xa466d7508b63b55047e6d4a2068218db9b5aa0700f3e8c834c59478ea9b5b660" and k = "0xd327da5fcae648d77177b894e18113c0a54e57752f5180a4c13ee0730122cf27"],
      rule pw_dbl1P [where x = "0xa4a1350954697e8c52628b44c9c63846458f52c6e74ebc9a801f058c162caf0d" and k = "0xd3bde2f03d7e4b2ec928fa04a2681ef13735562851397e707ec9eb58e960290e"],
      rule pw_dbl1P [where x = "0xffff8b3a00009f6f000061970000bec60000c8f0ffffd82bffff83b27fff5897" and k = "0x1fffe2cea6a88bceb47a5a6f4f1a66e3b410b3c5d0669dddcbaf8dc653b385ceb"],
      rule pw_dbl1P [where x = "0x80000034000000198000002000000008ffffffdeffffffe37fffffec8000000a" and k = "0x80000068800015bb00002a4a800033b600001d38ffffd9a77fff86be7fff57cf"],
      rule pw_dbl1P [where x = "0x80000001ffffffff7fffffffffffffff7ffffffe7fffffff8000000000000001" and k = "0x800000048000000b000000027ffffff6ffffffecffffffe57fffffec80000008"],
      rule pw_p256_q1_full_1)
     (simp_all only: arith_simps rel_simps)

lemma pw_p256_q1_full_3: "(2::int) ^ 0x1ffffff mod p256_P = 0x8baa9a6f187605ad8b07fd5eaa4822acae9e207e754952c2e9c252f8084dee26 mod p256_P"
  by (rule pw_dbl1P [where x = "0x13b599533384f197ee5fbe312ffaec7bbfcf14a51d7f729aa5bbe50d811196b1" and k = "0x308eb290d4b341c1d69ddaeb79fdae86195a5a1a536a5b69facecdc8be22164"],
      rule pw_dbl1P [where x = "0x21b628f0121ef0a9df6bfaedc6ccf1bc70788b3103ae99aad8b56413964d5935" and k = "0x8e0f0584a043a03886bb5f319cd17c4ae575c2f81c70c275101217fb721ccbf"],
      rule pw_dbl1P [where x = "0x43a69407cc3b784d403e64920a1d0cee9d0c41aae810eeae76a8c30d6c9316d2" and k = "0x23c13bc0ecfb40b4d36b702c8844ace1f3fde02af5c482532df409e2c7e3d0ad"],
      rule pw_dbl1P [where x = "0xf8871d63836dc47db6b3d06bfb9949445917f0c8c356d556f3a56cdd77aab50b" and k = "0x1e28c2083847e1a5ed0e01a5c9d66bc22616c0129437127463770bcc71349f9e0"],
      rule pw_dbl1P [where x = "0x8e174906ba4478bfe477927c952d16574df9210d87ae2eceac0c6ca9f7d856e1" and k = "0x9dbbae43f31837991c714776752db84bd4099ab82ea1e3228fadf5c7a952d189"],
      rule pw_dbl1P [where x = "0x29ac88eea6c94012cc813fc21449d61cb5774d020dca9f6792ee3149e384ce4" and k = "0xd91704984477992721fe493e21c160347f5479fad441672489ed3a22800c1"],
      rule pw_dbl1P [where x = "0xf7bb9ac7c441264169db3bd651c7c4d8ea17901e4855e922e3675f2dff33716f" and k = "0x1df771c53d3bde2545b7a2df06949e0647fbaaae1232cc6866d2f5065913df0a2"],
      rule pw_dbl1P [where x = "0x59e69790c44d5392e6efb6e9d2d338a9ea68634e25fa6b8367d48eaa8c436f14" and k = "0x3f244a2ef3d97b2ca2001ae2051a61c580567c404cc8ab9bf5e04b8b95debe4f"],
      rule pw_p256_q1_full_2)
     (simp_all only: arith_simps rel_simps)

lemma pw_p256_q1_full_4: "(2::int) ^ 0x1fffffffe mod p256_P = 0x39d7b547fb2128102767ba8a7871d3defd7a9586fa78b81b7addb3d84598147f mod p256_P"
  by (rule pw_dblP [where x = "0x3abcf6c22d4f4811ce46314b5736f692cead07676d7bb7a313f78b4c48b8b849" and k = "0xd7a2b4b650e66c255e36c34d5ed89a06eeb0cdf9bd3ffa32d8a958dc7ff0fae"],
      rule pw_dbl1P [where x = "0x4f827449beef450f6b0938fea4cbb3296ae0163bdf3f74069ee563e9e2397c8d" and k = "0x31638c7fd884905189789cc8680a816d48fc7a19ea33a3f13dace454f9f2ecf7"],
      rule pw_dbl1P [where x = "0x5ef4115fb988fedb8793ef219085b087e68ecd83b2a286c299284c551153764" and k = "0x46704ae71e409063c3e1a1e84ed0bee1fcf9c06b68c3fca7dbc67b0d713e6d"],
      rule pw_dbl1P [where x = "0x31270256209224946b327f994370e8de9cecae044bce3721301c994414d2bc48" and k = "0x12dfe9ad705691b5a7ca286ea2f55543d7a5f9f3280723e5dcab227befe18ee4"],
      rule pw_dbl1P [where x = "0x167d558229c9a7b99f88d48faf8bbc4f83703d6843398f53c6c44e83f7a007bb" and k = "0x3f3901dfda9e37e211c99c301a0504ec3abd634060b8cc1376478970cdb3716"],
      rule pw_dbl1P [where x = "0x9b709c0a2d634e94f3d6c8f9264155516629eccacb2cfa6b17ec12be1a3b7598" and k = "0xbcc31cfb32b7dc85f0532013f7cd90c339f6f096baca89f8e74c2fdf6377733b"],
      rule pw_dbl1P [where x = "0x37de1cdac8491674af2ed07a48c2c56e7493b51f8349329a61a8c30dd66281de" and k = "0x1862623839e91c9db8feb9f334efa674c836b0b948fad21ea2679b986a887c90"],
      rule pw_dbl1P [where x = "0x8baa9a6f187605ad8b07fd5eaa4822acae9e207e754952c2e9c252f8084dee26" and k = "0x98656accd2f26be8a883c71a5abd5fef6f812914aeba10ea1ed35296d5952696"],
      rule pw_p256_q1_full_3)
     (simp_all only: arith_simps rel_simps)

lemma pw_p256_q1_full_5: "(2::int) ^ 0x1fffffffe00 mod p256_P = 0x78cb57f34677e1ca40c55628a2a4e503e32c62c9150cafbfe7aa4b142519addb mod p256_P"
  by (rule pw_dblP [where x = "0x7cb7df453817df9d80193a5c36d41bc226b78723e69e7460afbf074064b60e93" and k = "0x3cc2a45c42c9a18f2e09f5ef8b2623e2602aa91891dcc434b6de3ab893414572"],
      rule pw_dblP [where x = "0xe6bfe95d5bbd2f572791de772691fb0940a7f3fbd7217f00fd8dab3968056262" and k = "0xcffd67329edf4f99368a269fd3487a76420f4b580e604025edb1eb8fc712e10f"],
      rule pw_dblP [where x = "0xeffaa7f012708c64dd59038232b5c34d1cc97106a765eb51e46c7df3a2cac04d" and k = "0xe0f5faff92733e26a750a4b187b2f2b6f22d5756e58219d3205c2b15ea0dcb39"],
      rule pw_dblP [where x = "0x211556a98d9a2226609868e3bbf254e757b05fbd8ec99b6212191218405ca980" and k = "0x446821f0fefd5a65da27d908a59c8d712dc0b460d222009a0083fa95e90804d"],
      rule pw_dblP [where x = "0x6bc2d9018e3ae0a993d3790819a7541d73a852169d3a1edd508bfbee4512fb8b" and k = "0x2d5c75b51890e1e16a25dc92e4233349dfb9b329e83ac0584df58ca2fba6cc07"],
      rule pw_dblP [where x = "0xf237b1d9caa45f9d5a7b9296f0dbb02bb3d793f385dd32b6cd2b2195294c6bae" and k = "0xe52d585e8f701344b63abd75c155da2753cb4def236cfbc5aab636146c781147"],
      rule pw_dblP [where x = "0x7c447343b423e4b9b536a6358dd988bd8acab3cc748b8fbf24d629aef52a5640" and k = "0x3c5261f742b2c05c79a0a522d6b2d275d460c7a3ce95b212da33527e3f3d5bae"],
      rule pw_dblP [where x = "0x39d7b547fb2128102767ba8a7871d3defd7a9586fa78b81b7addb3d84598147f" and k = "0xd11c47c1a2d375eaf2eedb924409ae464727e68c1db68d08558a3fa26b63f3f"],
      rule pw_p256_q1_full_4)
     (simp_all only: arith_simps rel_simps)

lemma pw_p256_q1_full_6: "(2::int) ^ 0x1fffffffe0000 mod p256_P = 0xb37d76b0b6937824eee4c68b4c4a329b717e1f3fd7ec1b8cdbe133d40b8919a4 mod p256_P"
  by (rule pw_dblP [where x = "0x93262072bcc8f377ed8867a02bfdb37bc67941da9807e8fd26cc87fed641943c" and k = "0x5494cef1bf9084d4586f76ea6e2615a2f00937337458a8c7c47610231f3bab94"],
      rule pw_dblP [where x = "0x32c14abb1bcf78d6236808021aacb2f6a2ef1255f4b504c97390ef8761b4e1e2" and k = "0xa101322e4ddc200497f75cbf7a4f4d6d0cd23394f25a5a20cb7bca7252288b8"],
      rule pw_dblP [where x = "0x500dc6b26c87e02ffde3cbe6dde543ed9ee3d06b11b479c30314a2c43b0eec40" and k = "0x19089ced65350b15597b837b19c2f808149a6a1ab71c1641aa164bc330aed1e2"],
      rule pw_dblP [where x = "0xf0b475c3826571b949f05ca3cab2b10a71b570496d5cf759cd1deb2dc5568101" and k = "0xe252dc0547ecba685fb653a7f0da186bd6ba0149ed6e8860657b32a3c360ea3f"],
      rule pw_dblP [where x = "0xc23bbf99751e96862e60d142f1b48d51be1498b262856308ca3e5fb289eb499" and k = "0x935e9c5709034d540e89ed9d1f0c9908b4948a53d3d543dd8612548912fd90"],
      rule pw_dblP [where x = "0xdc43c1c1e2bd2e523d13c650c769110df6602cb08fb41753358e5d82446b16ff" and k = "0xbd8486f4f95c4850bdc8203ef3ee626df8ebbe9282fd748415fe33fb7563e298"],
      rule pw_dblP [where x = "0xce8c7a7c174c5c0277af9841a8d64d3946db69a5529ba20825700e849884b5eb" and k = "0xa6a662368e794429deeeaed2074371871dadd33931aab691f24f325718ccf146"],
      rule pw_dblP [where x = "0x78cb57f34677e1ca40c55628a2a4e503e32c62c9150cafbfe7aa4b142519addb" and k = "0x38ff43f8e518aadab6090639f1a75b806971afd478565e0f27522377dfacfc92"],
      rule pw_p256_q1_full_5)
     (simp_all only: arith_simps rel_simps)

lemma pw_p256_q1_full_7: "(2::int) ^ 0x1fffffffe000000 mod p256_P = 0xd3c2a163a4ddcd24e948bfbe5d4c01e2aef45a752df962f8f127046dbfa65f1e mod p256_P"
  by (rule pw_dblP [where x = "0x5db4bdfd78eff7cc47e5c24fe9f7018f38471401ba170c9827262f42f3471a98" and k = "0x224cd1a6059d7caf5e27fa8028a684a3f933724f8102046c48696dd16c9324de"],
      rule pw_dblP [where x = "0xd16a9913a5551f673969a551e7ea5d8eb0b62093652e414388d2c817b1b77721" and k = "0xab4f3a55df119f3b75ef530df71158d3bbb963b79f9c67df9088011dc8a96857"],
      rule pw_dblP [where x = "0xaa35203a6abdbc6fb0558f8d8b4428e719495fa5e935f538d171f491bdc5444b" and k = "0x712a99d4632d72ac480a7a4ae2bd1c0dd9e9140032ef0c1238499448c6118928"],
      rule pw_dblP [where x = "0xf72fa7b1102d9147bb64b84eef451f3197fa22c01af018c7146df84f9a5963f0" and k = "0xeeacfe779cc15b1d459bbd3d8e6247daba05944c38bdda8e65359afe59e1c34b"],
      rule pw_dblP [where x = "0xc58d4d699e36e84ed257774c28538b527bfd5ccf3713465c474537aa72c98fb5" and k = "0x9872c72383b445e854619e72b9d9af65dfc2fb75aaf37581f3f1333b6b73adf7"],
      rule pw_dblP [where x = "0x3069ae0607d505e6f4eb4dedcd28ff3c97df70a1a5c919472a4a94c9285ac8ca" and k = "0x927cce283564ea1dfbb3b574338c5d7b62499a60c4a1f388d67db8587455051"],
      rule pw_dblP [where x = "0x8970730d305eeec4a08e19a22f0fccd1ce8da2db43c882ef1705e3bfde2f6041" and k = "0x49c98c8946ce554b9a36017e447377858538525415f856ee69857a15f04bf849"],
      rule pw_dblP [where x = "0xb37d76b0b6937824eee4c68b4c4a329b717e1f3fd7ec1b8cdbe133d40b8919a4" and k = "0x7dd8b178bcc499cab8ce642dc4d5c1cfc3132e570b14da75b0ef027f5215ef31"],
      rule pw_p256_q1_full_6)
     (simp_all only: arith_simps rel_simps)

lemma pw_p256_q1_full_8: "(2::int) ^ 0x1fffffffe00000002 mod p256_P = 0x9c3742585032fab900185f31b6470e1e19a5f36aedd0dbc986f064d13cfb180d mod p256_P"
  by (rule pw_dblP [where x = "0xd58962512eab200dd44317748f1f62787520ba8885b2d113b5e2f6fc709e40ac" and k = "0xb21de7562a6cdf4e5faa9dfbc55861571497520e2e49aa0611dba7c6d854a47d"],
      rule pw_dbl1P [where x = "0xdbb6c2908ff1f680b9df42aa68f8c260ae613af1015191aa256dc6d97541ade3" and k = "0x1792466ba988c8de88f01f36d596fc1415fe9279b0aeac1852334e5b9edd9121a"],
      rule pw_dblP [where x = "0xf9ea868b152d84e8425e85aa28d8082d3df12c3b149433ed6c9eb244d0847697" and k = "0xf3fa1095c0253a133e3257e7fcb28088f5c1372ed530e80ab5e94561929a20d2"],
      rule pw_dblP [where x = "0x165ab0ba815287ef0fe04fabae116c4e5ae59a9446abf1b36314ba9a09ab5c93" and k = "0x1f3b680cd51cd971e5a5351a27dfb6452591b4406b1b93e9e983631aca87a2e"],
      rule pw_dblP [where x = "0x53f325c8c4295294dd88795d88eaaf93b9a66ede4a97bba8ba138b7f2a5f508e" and k = "0x1b8791710b72699746ed45b263b347426bebcc167fe8a0f082f12fca8eee4dcf"],
      rule pw_dblP [where x = "0x2539384dd5a74a259bf3cafca27efab69f187f19017f41394b3e0eb35ecac829" and k = "0x5699710a4373c21ec046ddd94cbd15c0701326af6b2efd9dfa59a8a912b39fd"],
      rule pw_dblP [where x = "0xe1492527f9187ea69bebf5227b7809d9e3a6441662053a9011ca82d3904ef35b" and k = "0xc641a837404f5b0e7f9accdd79f632cdd12392e4e2f47887c6fb9091cc00e5d0"],
      rule pw_dblP [where x = "0xd3c2a163a4ddcd24e948bfbe5d4c01e2aef45a752df962f8f127046dbfa65f1e" and k = "0xaf2a6a03f1b46680f0cb81d079ddac6bbe8b7fc41e22b79ea486e5394e0fabd7"],
      rule pw_p256_q1_full_7)
     (simp_all only: arith_simps rel_simps)

lemma pw_p256_q1_full_9: "(2::int) ^ 0x1fffffffe0000000200 mod p256_P = 0xa80122908f15de6c75b6123375c2551f4f851e5d39f5e6c3de769757cb9da08a mod p256_P"
  by (rule pw_dblP [where x = "0xc055caa0b7222239c121eb5a9814894e4f81cfd89f5a3cf7b1afdb28bcded046" and k = "0x9080ccb1d24fa299e98bb5ece55e37fcc24207413aaa216d8971b9a318c3cd66"],
      rule pw_dblP [where x = "0xb12be52a425589f3cca29b2afda54657fa768a3eefe9a387faea14a67f336dfa" and k = "0x7a9dba6bb3aeed91900074281a37b0781de193f7098076511d92197db003f822"],
      rule pw_dblP [where x = "0x19f59fe6c3c80ba8f241a6035c608d6f3521ece841304564c79f815bc2580430" and k = "0x2a1e4e688722b4ab62bf90f0bf472c9b5dce0251d66a36fb4f535eade21e4fa"],
      rule pw_dblP [where x = "0x76e2ee1c1badb836e2439168d2fcbb9045dac916962dd7a1e55a11ed6109116e" and k = "0x3735fcab67d347c41d9f87e748ff7b876c3c23faa411be79b664c0282b6c38ec"],
      rule pw_dblP [where x = "0x65ac11bff4ab6316abcd3b0a8d2ad6208c01ee30b83e75248a74f076ea8197b6" and k = "0x286139a97a9c4a9420ffe38eac2ddf99ff2ddb8e0e6f64802dabcb3269b4dc0a"],
      rule pw_dblP [where x = "0x5983bed00380061d8ddd25d4da98359fd163553f47c5d9cd6d2c3538c8d6a047" and k = "0x1f4cde7998d8e5f801990ae6bb219274841853a773e70769a2395d079f74c405"],
      rule pw_dblP [where x = "0xedc9b799f72c23286e0dbd75d35d8905b3994d1cce255b9c3a19e9a3c660e06d" and k = "0xdcdf1ce5c3fa75477409a1e0acd39d0225c42cf4a988aa75a24400991657b1de"],
      rule pw_dblP [where x = "0x9c3742585032fab900185f31b6470e1e19a5f36aedd0dbc986f064d13cfb180d" and k = "0x5f5364c99435a413edf1a7defef72296c3d6475e0db6028eba6bd2db82a06fc4"],
      rule pw_p256_q1_full_8)
     (simp_all only: arith_simps rel_simps)

lemma pw_p256_q1_full_10: "(2::int) ^ 0x1fffffffe000000020000 mod p256_P = 0xe00fd69788b7831b16db9385b2c4cc85660bc83b74687d4665aa5ffa1af1b3d9 mod p256_P"
  by (rule pw_dblP [where x = "0xeae965594ce8be9b2b6f15ad87c7730f65f644ce4690ebb2fd59fa929ce0df64" and k = "0xd78f8211bcd69405be7932bab707c6a531a9682177c801f0e5316c20890254c9"],
      rule pw_dblP [where x = "0x5337aeeaaa6c06cdf2af5ae98707ad996e2f37162d147e5241f58646afc54ff6" and k = "0x1b0d2788e5e845241ae726ecff517de1eb5ae89c4806d44ddc315ca41f4b1f00"],
      rule pw_dblP [where x = "0x24c67ab949fdaf3598a74bd395fc0b59ba20972d495647f875e881382b07b880" and k = "0x5486c66338b5aba192318b7220d5baaaae13ba9c16b51fe3768361013cd0ff6"],
      rule pw_dblP [where x = "0x871cbc00d03da3b816d6284cb1615ec9215eacd15397d02be4cea6197fe9cde4" and k = "0x474f5182cd2f1385b01539c9b57d1f1147d051e87e9935ed8860cadf8468c570"],
      rule pw_dblP [where x = "0xda5def7c12144d9c72ed5f5028e33babef9c19c82eba07596ff8408e1cad7fc4" and k = "0xba441e57e93cbb29743c8e4a16ef5f17f1c29b436caadfb5cd7c7f20b13dbfd4"],
      rule pw_dblP [where x = "0xece36dbf124911ee88a9d3a0c38257bdf1712dc3ed83941de15e880034877013" and k = "0xdb341c64f4d18738363923e24b1eb6fee022aa504845ccc3ca28c35eff92de5b"],
      rule pw_dblP [where x = "0x1d78554f5ea2cdbaeeace7b2e6d96850cd2656bd00eaac701b38f33bd77911c8" and k = "0x3647be415abe494f3af69c50bcef818489d99114152cd590af210b0743b43d3"],
      rule pw_dblP [where x = "0xa80122908f15de6c75b6123375c2551f4f851e5d39f5e6c3de769757cb9da08a" and k = "0x6e417d5f73da071c3498e6b0a3ec024e147d7d9eb29e5a24c987abc6ad884764"],
      rule pw_p256_q1_full_9)
     (simp_all only: arith_simps rel_simps)

lemma pw_p256_q1_full_11: "(2::int) ^ 0x1fffffffe00000002000000 mod p256_P = 0x9dce9691fe3f9ccc99b4a29e7cb61f070e183297378bf90deaa6154f23572f80 mod p256_P"
  by (rule pw_dblP [where x = "0x40bb91a3173f193e9f148d8266556483ff592490c7414ccc5107b263cbe97947" and k = "0x105e523fb31bfd49ead3d5dcb3c33f7f3712d22c3e94b3ea551d71208ca4fdcf"],
      rule pw_dblP [where x = "0x4da03c1bee673a8e7d4aedc1eba32c0e41137485d759f76579b09d8fe24b313d" and k = "0x1789c87415fafd83732a2509e19bedcf58d7b5ef61c2b44c20b9053834b310be"],
      rule pw_dblP [where x = "0x59fc9ac0e3eac5c6f598b6d633f472874b8636aa45efd84d6414afbb9a0053ab" and k = "0x1fa19cdb47683421ff448708bed02ba651dadf05c06abb16037633140af2dd04"],
      rule pw_dblP [where x = "0x9a0b9aac2c01aa31f427df3f9348a4a71ac8f1f78fc2e6a7f603a3f89261fc10" and k = "0x5cb1f69e29e35843b1cdb50f3438e4d5f27799d356be00ee032c07b85db0d2ab"],
      rule pw_dblP [where x = "0x90fd72f5505ac09e253f403a68d1fc66a8fbe897ae0efd6691967b72baf56880" and k = "0x521e1c40b9046ef6c3dd7a6b2be4bdcafa3064df37e2159da27e0add62b9bc10"],
      rule pw_dblP [where x = "0x497f0bcd4dd41adb13f0cbe1e78c539df2ecc65d80a4f01b2efde85b49b8c5da" and k = "0x1519b3c7e1bb2ce15b09b4c382555b7fb4e177a648f8ccecc37fcc4364ac2adc"],
      rule pw_dblP [where x = "0xd6d64ff79e7839733c66713430b90076209d5e5af9340df6ee211600285a553e" and k = "0xb44b011c7c33b579df198febd6a4ddd7ec9de580903a6c3a5ffee5d7ddbe8ad6"],
      rule pw_dblP [where x = "0xe00fd69788b7831b16db9385b2c4cc85660bc83b74687d4665aa5ffa1af1b3d9" and k = "0xc41bb884cd0095ba2ec34020321a48e6dc13040d75a9b406d188c76ff76f274d"],
      rule pw_p256_q1_full_10)
     (simp_all only: arith_simps rel_simps)

lemma pw_p256_q1_full_12: "(2::int) ^ 0x1fffffffe0000000200000000 mod p256_P = 0x1372a1dfcbaec08b56853a8ae6e38a96d10d3a17627f11f6ee2232c20ac0f4f5 mod p256_P"
  by (rule pw_dblP [where x = "0xe6f9def08c99a118e3ecd841dae1e83ef6a5dc05e70a5de66b53acdae0518b95" and k = "0xd065f07c7f2196b22b623be8033ddfd4f162201cc0c1881b7a8372bfaa5bd03c"],
      rule pw_dblP [where x = "0xff04793e425a4ab5ab19cf83ae09887993fcd834e1ba30a891ce03b8e4b5d6b2" and k = "0xfe09e99f0997c723dba73bd73352062b3f1081743881e7856c1a7964848f77d1"],
      rule pw_dblP [where x = "0x72c62da4cba8986ec532d91fa658c910625998bb1de38226224872bb8cbf774f" and k = "0x33751a119be5a44eb309ee4dc6a130a0a5c32ceb994eef0f0601609d3d394c51"],
      rule pw_dblP [where x = "0x3352e8d3bd9c3406f6fed1e5e1f2e8489a9dfca644fba47e38236fd20478bc3b" and k = "0xa4a239e633c4f37ae0c55c41a5e56362b307ee1ebf2c888d0c2791cb308c1b6"],
      rule pw_dblP [where x = "0xdf800f85a58455b60bced1ef1029e6935d98e54f75cadd086ef7912a961c4d19" and k = "0xc3205b1b20135bee242160d31e6e81fecaaf4fdf752666ee4d40a423c3c8afca"],
      rule pw_dblP [where x = "0xba5e6a37a28dbc45269ecb71eb7eca1929d8e7bc9584233b9ce7ec3852163dfb" and k = "0x87ad552b8cd0c98a64126b105557ba16782d4e28a61885eba5a969b713f6b900"],
      rule pw_dblP [where x = "0xff515475493b7b3ac7a517136efccf510aa2a5102899c8fc8cc839b97a9867a3" and k = "0xfea32019349d250659177036d833bb61eda6468b29c90bdd1d15ef1fba91ac32"],
      rule pw_dblP [where x = "0x9dce9691fe3f9ccc99b4a29e7cb61f070e183297378bf90deaa6154f23572f80" and k = "0x61470b661ea5a94d977f3aedefd3b2eba57cc51f1154a9d1d04cf40b28c827a3"],
      rule pw_p256_q1_full_11)
     (simp_all only: arith_simps rel_simps)

lemma pw_p256_q1_full_13: "(2::int) ^ 0x1fffffffe000000020000000000 mod p256_P = 0xfceca7d8c95e0ad3406b0699ac72eb8a99733c21b954bc2011bb017382ee5170 mod p256_P"
  by (rule pw_dblP [where x = "0x79dea025cfa5db09e01c7d2991840f6d313a3c4a27d3f70c7ae2d9fda83d684b" and k = "0x3a0434fe1e126ada1f352242d40cefe6a7781e024cd8a4b65e8f0f9834b34b77"],
      rule pw_dblP [where x = "0x44f32d6e0c294317179b5729c450e901f3f8b92c66532336886e229e346d1e9d" and k = "0x12921721d002f8b05571e3d9ce5967d4692b03ef6146b8d19e66d93ecae23c02"],
      rule pw_dblP [where x = "0x9413aa888bab554c20d7749c2f8d28f1aac9960084bd1ccf41faa7145d947b6c" and k = "0x55a6beb0f90337139229b4ff46e5963b324f2008df642a2a270eb9f2cc0c290d"],
      rule pw_dblP [where x = "0x38dafdb387b08962f6b30c55722d5d05e87cb1a1462f9bb284091bbc3da8c23c" and k = "0xca08a53a92d3732dd6091dc0e70eb4a1012f45732febbc78212db2443757d5c"],
      rule pw_dblP [where x = "0x631a0ad9ae1ecbc8751d3108ca9a0cdb5d8da32a6081bc0b8629f69a55b3d540" and k = "0x265d270ab7b6119c0f344c21d1b300b07c015782605097985ea4a0cbd485323c"],
      rule pw_dblP [where x = "0x26847c4ce9036c2664d3c41b96534086b1a080b4646d0ebb123ff58414ea0d3b" and k = "0x5cb997746a381f0ad436476718b0c4fc82ff8728778aa9d26b9fbb4ed28c9a7"],
      rule pw_dblP [where x = "0x2dc299ecc3f56106c86b250ccf03e3b95ddd4f70ebcd3261bbae90a005ec3e31" and k = "0x82dfe0aec781f43856c4bb80a0fe70ecbda4f3d5abd2ee7c43c03d3717647da"],
      rule pw_dblP [where x = "0x1372a1dfcbaec08b56853a8ae6e38a96d10d3a17627f11f6ee2232c20ac0f4f5" and k = "0x17a375bcb62d16a3f8ac1a2cf54436d9e9b3ed7afbddf857203f4b888084bb8"],
      rule pw_p256_q1_full_12)
     (simp_all only: arith_simps rel_simps)

lemma pw_p256_q1_full_14: "(2::int) ^ 0x1fffffffe00000002000000000000 mod p256_P = 0x865bad69b01e2031ead20d1cd6ec5fa7ad579b1a7b75be868a3e9612be323b91 mod p256_P"
  by (rule pw_dblP [where x = "0xb45e8fc9900a5f5e42178caf29a566226da1c7b7387337209e0773b923b5ba34" and k = "0x7f151d21da6c487b09618e0a8b8dce1b3cc3e8565cc8b7c444798cffb13aa101"],
      rule pw_dblP [where x = "0x77784d9168b3e497eaef80bf53c3ab5bad87dd6c43ce61b43e5cfb1317152310" and k = "0x37c110a636eb436588201c8b02aa53310fa5ff53454283c3c88e114d7e485934"],
      rule pw_dblP [where x = "0xdcac0c51bc5e0643b1e5d39f33376c3fcd80aa01e8a3d6be094b52094462bc9d" and k = "0xbe3828cdc866a5ab5d9918abb994d0e9b220595c1b72f9658e5489c0bbea2ac7"],
      rule pw_dblP [where x = "0x51250c976fc433d738eb896afb498b024136a59953e6b536fa2956f37e9e50ed" and k = "0x19b8775492d77ae91677952f39ba4ab6c7bc3cb2fcba4b513bd43a89fa41c134"],
      rule pw_dblP [where x = "0xd10430b057b9d26cfa5c3f2049afe90bca4c05f9faf003da763fce6494365669" and k = "0xaaa7d79228aa99546eaf3b59ae7e976fcac1459a93ec03f01327f979852799dc"],
      rule pw_dblP [where x = "0x59fca54a09e36826e41da48ab8ab225dcdef050d4e163b48640dc8d2ced1b44b" and k = "0x1fa1a4436efdc08c42a5f2ebebcaf4d411015357967520c3edcaa967fec6c870"],
      rule pw_dblP [where x = "0xdd29c4ce8237152bc5d903be81b20391be35494d8853ae8886663547f9c374b6" and k = "0xbf11249ded56d2c9b530d4e72d4a457c5126092453d44a516e99e199c05842e7"],
      rule pw_dblP [where x = "0xfceca7d8c95e0ad3406b0699ac72eb8a99733c21b954bc2011bb017382ee5170" and k = "0xf9e2c539ac13be39adb92566be75cb6aee6c6c0efd7bc867eb0f4216b39b63b6"],
      rule pw_p256_q1_full_13)
     (simp_all only: arith_simps rel_simps)

lemma pw_p256_q1_full_15: "(2::int) ^ 0x1fffffffe0000000200000000000000 mod p256_P = 0xf19aed42ae67a1eeda183f76e6c0f5b78e72f6fe0f5a0007b8bbacc91a9776f6 mod p256_P"
  by (rule pw_dblP [where x = "0xf4110893fc9a706912bb506274df96fb2087dd5530d4e2441b987f75aa9c802b" and k = "0xe8b0797d2628019d30c52a8deb46c9f481ffcb6f45846af1c7bfa1958a046fbd"],
      rule pw_dblP [where x = "0x7c403a3e0ad681d0f4487212bd706ebc512b143a45dc1d909ab5f82c6d8d783" and k = "0x3c4e48898313ad7f0f14bd7981eec52a043340c4c2c8f37df43f5ea41f3322"],
      rule pw_dblP [where x = "0x133b488c4d1fdfbaa263c176ee9ea9238d6494e7a7ac932bd5456e3e42fc1585" and k = "0x171da7f5a1f5aac8cc108e7f937be4b77e1c6b6f9bea0c2f7d9b3c3d331c06a"],
      rule pw_dblP [where x = "0xd9fbac47f33b7df7da69cccb73926241dcf5d6872ae30a94bdf5aad59aad44c0" and k = "0xb99ca17dfcff36c53b0f29e0e7b33db3f94e8d058437ca59dcad1ac145058585"],
      rule pw_dblP [where x = "0xa0061fce163ff80ed8109caa126688d03d04bed76f6272af1c2a7242d34136ed" and k = "0x6407a7e7817438449b2953cf5e296c1ec9c4dead6037b38d2f51b379fc8a6d57"],
      rule pw_dblP [where x = "0x2336da87662649702abe7ce40158fc0dafc57cde1ba57e95f734e8aadf94f4b7" and k = "0x4d80b81f6707d53b2d195ad8af9af2dbaed150568e105a0df2ce63423bbdc1c"],
      rule pw_dblP [where x = "0x756ff48f70eb72e8c91fe5e53c8e4c918060c3b0b32f8393bf272e3af3bb7d75" and k = "0x35df8681511c6957b4d77130a4b0bf4b76bba0d18af666b86d768a2a3b2b7d3e"],
      rule pw_dblP [where x = "0x865bad69b01e2031ead20d1cd6ec5fa7ad579b1a7b75be868a3e9612be323b91" and k = "0x46841a5fa97edd2931aee9fbc45868d8dde1d35dff87aaf866be4790653b5554"],
      rule pw_p256_q1_full_14)
     (simp_all only: arith_simps rel_simps)

lemma pw_p256_q1_full_16: "(2::int) ^ 0x1fffffffe000000020000000000000000 mod p256_P = 0xc068bb8cf52fa9c4e8fb5a08fb0c645168f79df267f75e57abc86aa54a609541 mod p256_P"
  by (rule pw_dblP [where x = "0x9122ed3fef60491af9b5d7b0b04fb6ff92acdc15245d5c0434dee0cb2ec2ab26" and k = "0x52489586a04eaf1a40a5468ff33a3fb941efee6dcc7a52e78917f2d7ca5ccb9d"],
      rule pw_dblP [where x = "0xa2073bb5dcd1c1697ffecacd13ff8ca200bb78e7d3cfb334c38a5684538d60c7" and k = "0x668d27c6e3e609034557aa502a1e9d89bac40c14f6951ec7723c64be64f6d075"],
      rule pw_dblP [where x = "0x96ca39c35f0e3e195fdddbd19897efcbb703f3d9aca945b09dfef6a723ff3ad4" and k = "0x58d19b708190e41e2fc80aa0baabaceac0fb70fdcfc864c57dbc5d601bb0a137"],
      rule pw_dblP [where x = "0x5cb0d1f1df0d4cacc5b321af8ada90cdbf74fe2693d1a0f92e384c94cca90db9" and k = "0x218f910752a0a5263d4e4f040110ee92ed5a1d154b0458e879d3633d2d00eb23"],
      rule pw_dblP [where x = "0xb4bf068582a4c08b44a2517ded118beb5438e35fd4a027fca38b969278e7998c" and k = "0x7f9d2fb6fab858125e522aabb452d0f397685287ca7c7ad29efb276b15e86929"],
      rule pw_dblP [where x = "0xd2c1828a4a676222078553990a9745c2aae6708840404c4bc209951716d7ed26" and k = "0xad820c71a6a89798118cea24db053cbe3a3ae8f3d939e26fe7faeadbbf6437e8"],
      rule pw_dblP [where x = "0x76fd0a480aa6e6c93c5c7fe3caca1b5371ca3a249247ce1f672e9f7da1c3d28b" and k = "0x374e3f97f3eedf587262353c4969ef22573b5ebeca32983d9f196abbd3ed95ad"],
      rule pw_dblP [where x = "0xf19aed42ae67a1eeda183f76e6c0f5b78e72f6fe0f5a0007b8bbacc91a9776f6" and k = "0xe405107ac0828c56ac925193e4b2578e27b348bcac61deabaf54236a1c481e27"],
      rule pw_p256_q1_full_15)
     (simp_all only: arith_simps rel_simps)

lemma pw_p256_q1_full_17: "(2::int) ^ 0x1fffffffe00000002000000000000000000 mod p256_P = 0x3c1daf29b9891a9a64a33498458b03f19d508b4ee3acdb1c73e4c36c08f52b0e mod p256_P"
  by (rule pw_dblP [where x = "0x8d826298c67c70ccce8b278c1c827c6a8269b5d19b3acec668e4afe7b44ada78" and k = "0x4e38e304e200e0cc535688fe0a2bc689cbbac3eb29d53870996515c0412492ce"],
      rule pw_dblP [where x = "0x389688a0041cd3107822e70e22d1aaac9686f4c18200ce2e44269c3a4efe9fee" and k = "0xc82344a72be0accb6722291d5fffcc2b0e31ad3fbb8772247920158ec195934"],
      rule pw_dblP [where x = "0x66216038361a1e38dacc1feb958a78506914f691cb900f318c5fba4c682183c1" and k = "0x28be9d06e68394c3244eee2f285cd50e8e10e6e10a6eb132b132ae32436d886d"],
      rule pw_dblP [where x = "0x55c3b0f5dba8fbce20f5398f0b403ffbfdd7da6ba08c238871a626a6c254b6dd" and k = "0x1cbb891a71795de75aced6d5fddacf818b3b0948882c98c38c187680f07a88f8"],
      rule pw_dblP [where x = "0xd47436a315b1dfadbd151fa5c88d4368bda7350724da1aaa7f02a489e73a8284" and k = "0xb050af405bb427f5ceb89d91fa617eba9684043e6c2f57432ae2b07523fa62cd"],
      rule pw_dblP [where x = "0x25c00d0e2c1e484e24c3f2e5dd3c1baa4835dca7015691d4a3e59d8011ed314d" and k = "0x59113d9b43e7370a8c76e718ec224ba82e6713bc990c3f1605589395b29f15b"],
      rule pw_dblP [where x = "0xd842ac1d266024334ee3aa4f0a95e73b39c8713e604f2dd124c63a0525d960af" and k = "0xb6b093cf1a31c95a8b43e6d0d7248edf0df2b95c9ca52962dd4bfc226ebb79ac"],
      rule pw_dblP [where x = "0xc068bb8cf52fa9c4e8fb5a08fb0c645168f79df267f75e57abc86aa54a609541" and k = "0x909d442cec53355e6227e408cafb117e6a24b5b6f3917504278005814a14a62e"],
      rule pw_p256_q1_full_16)
     (simp_all only: arith_simps rel_simps)

lemma pw_p256_q1_full_18: "(2::int) ^ 0x1fffffffe0000000200000000000000000000 mod p256_P = 0x98b4878fbd4a0e750148cde71d68b256c2ad7044247ab282be20e279bc1f8ea4 mod p256_P"
  by (rule pw_dblP [where x = "0xce9d4568a109bd8139f5a89c7b9aae4dc057ad2b9562a6b2b8bd6ee60f459a04" and k = "0xa6c17c533f1440d37f7a1a25d604e181f33ce39a6b3236e851e37850e14ebe94"],
      rule pw_dblP [where x = "0x60610c0b560fb33e76082829537ff1bd05bfcbb848fdc98c0368974b1c06136a" and k = "0x2448edd2c5fcfcb94aa56f075130ba2f6b3c818e5ba45c45dd15ae65f4d4b220"],
      rule pw_dblP [where x = "0x3b60c409ec656ccb649086c97c88f880ece2552eed659065f5db475c1f7e5b7e" and k = "0xdc5bef03e4cfd8551718a2b725b27c8dbfc4c324b25e03190631834674b4166"],
      rule pw_dblP [where x = "0xb8a5d525f5c68a57b8a1ff8dcd2b14b19ce706b7f0048bb41840f5d51ef2e81c" and k = "0x852ecdd38ae3373ccdc0def7aa8644443f00f8e612721d6333a19be1e81b986e"],
      rule pw_dblP [where x = "0x89602d6eedf37128ea7a47ff80958ccd16fc9a5da08e850e6e1750410811ad70" and k = "0x49b814c31fa94a2e6fc23acf0d97d742a1f32974dfd7d9aa887fc6e5a092571c"],
      rule pw_dblP [where x = "0x55ae29c9c61ab809a1904deeacb87e5c3ef8c93584d0d5231e8bf976ddddfb66" and k = "0x1cad1e3cef566942a3402b48dccdc752ccc0443f2596a264695a1daee71480cc"],
      rule pw_dblP [where x = "0xb8c2a3376aaeb58c93a878f9dc57bc2346297409e4e43e1cbc2516fdbb8cdee5" and k = "0x85585e9bf6c0d23a2d7298e070b45737f37c2a35ff417139e432f1adc354028d"],
      rule pw_dblP [where x = "0x3c1daf29b9891a9a64a33498458b03f19d508b4ee3acdb1c73e4c36c08f52b0e" and k = "0xe1ded8cc4644d8b832eba8c0989b273c4d96ee10b1ee26c687131b16b832a21"],
      rule pw_p256_q1_full_17)
     (simp_all only: arith_simps rel_simps)

lemma pw_p256_q1_full_19: "(2::int) ^ 0x1fffffffe000000020000000000000000000000 mod p256_P = 0x84ea712b906a2efd538d919952c02abec4f19532dff971e043b23ef49c83c68 mod p256_P"
  by (rule pw_dblP [where x = "0x81cfd3f0ec3b1ce3ece714874ef8e20d65f14da74a4676bce7c43f93f20ae740" and k = "0x41d31c517efbbf2ce4f5920aa49bce2ca2d85ef7c0a87c752f0b72c367e3ac68"],
      rule pw_dblP [where x = "0x4e3f53c0b5a3fb86d85202cb13194f7997b316e82b9d56947901af9151fdcecf" and k = "0x17eaa6b3dada818907145226e761a61adbd2ee758ae9b1529fa05e9487d31bdf"],
      rule pw_dblP [where x = "0x903c602ae22cd61c89239c7d3938a1f04523536e776721616aee7ca2184b415e" and k = "0x5143fa6dc7f0a1228d73d98f64a8c229049cc89b27e6a51d6d59b2385438f04b"],
      rule pw_dblP [where x = "0x6d95f5949786900cdcc368f2a7da99a77995dafa9e3a3ed2f687ab68eceb3a1c" and k = "0x2ee90af8827fc48e138d4e83f23afe813ed5ec810de2f028b763529abbb28e4e"],
      rule pw_dblP [where x = "0x162ad5bef5c7f6cb38821cd01a0cd5da1a5ef2154025823dc07a7728066ea93f" and k = "0x1eb63e7a949bb60113c1b609dd04894132f69b5ea213f384264d5f416e2fc9b"],
      rule pw_dblP [where x = "0xd6b4a3e568f68535a932cddc2f4ede8dc9fa50efda5ffc54116198903dc65a7d" and k = "0xb412817b2318341a5b1273541daa9457ac8c85d2069f453f7a3e19b85b168836"],
      rule pw_dblP [where x = "0x9a92406a766466f99fd7d30589a8f72b8b2757c25149c07327a3412c7b1c9663" and k = "0x5d54490dfd6986efde8206e44112096778328f0655e744e953e924d3ddc63034"],
      rule pw_dblP [where x = "0x98b4878fbd4a0e750148cde71d68b256c2ad7044247ab282be20e279bc1f8ea4" and k = "0x5b16e049f5c9ebf200b54b6363b41766e959fe1e3087c838f6b67cbfbfea3d53"],
      rule pw_p256_q1_full_18)
     (simp_all only: arith_simps rel_simps)

lemma pw_p256_q1_full_20: "(2::int) ^ 0x1fffffffe00000002000000000000000000000001 mod p256_P = 0xc04de765298b256f576ae53a4b1db9bb0e5c757d1823d5c00a9d057b632aaf02 mod p256_P"
  by (rule pw_dbl1P [where x = "0x9c0f0b69028475a98d04aa4710f30aad79e64ba4defff435aaaa66f2a1166638" and k = "0xbe44ad956208860264d31fbab3f2658c2b8ee94c8195cfb62b86e4ab0e495682"],
      rule pw_dblP [where x = "0x143fed71706bfd516096c81ea8ff60533886c3cc8a161f017e27602bb217c6a1" and k = "0x19a0d10753b7e383c83848675a12af5159f0d958c48f12784c1da6f720af4f7"],
      rule pw_dblP [where x = "0x348706fbc5711166c93def2b296155557cb00f3b69c5205d177d53ed2619b72c" and k = "0xac7220eb0b8133ed2ea816200d66cce64b5427bbdf0929e77200bbd586fd711"],
      rule pw_dblP [where x = "0xc9778fcd426c85be3625cd0b5116aa6c185e46c83397520806d990440ea68423" and k = "0x9e8cf7a7f27617590c3ba8e9a585f42e82b8e48bea0f2b1c52331e91b0819a63"],
      rule pw_dblP [where x = "0xdc00f92ff2d3e673a2313db0620dd5850e91fbc56764cd65935945a4a012f221" and k = "0xbd11ac4c18fc2fbd6120048a1977d2c517d076db45d432981303dbebdd001be2"],
      rule pw_dblP [where x = "0x5fca99c32614bdd5175da40cc1d1f1c040dc23b81571a421df61509e5c0f519a" and k = "0x23d7fe75fe6e545d6a62c808c7af18bb5d5c8cbfa728a46c19a147fb4604217d"],
      rule pw_dblP [where x = "0xdc6e4d422b1761d235d18b8c9125f60875f65a372f57a1c400669b0afaf2357" and k = "0xbdcdc450f40bdb8fe38c40ef9affee96cdeb29212ac52902ee70dc143c6a09"],
      rule pw_dblP [where x = "0x84ea712b906a2efd538d919952c02abec4f19532dff971e043b23ef49c83c68" and k = "0x45029b68479b9ae2ba7eca33b905610182253cf9ef0fb58e6d606eeeee3917"],
      rule pw_p256_q1_full_19)
     (simp_all only: arith_simps rel_simps)

lemma pw_p256_q1_full_21: "(2::int) ^ 0x1fffffffe00000002000000000000000000000001ff mod p256_P = 0xf51392af32fbc7069bc32fd784486ab44db8f8b4abf0acef0a3272ac2ad920b3 mod p256_P"
  by (rule pw_dbl1P [where x = "0xf8f05bb2d4bf58444a9619f8d2ceaf42c2458219ec281d87ec8ec868a12b185d" and k = "0x1e42526aefcd9aa99e11b65d9385d0a36fdfb9cb84fa35620aec1c3bfd3b9fd21"],
      rule pw_dbl1P [where x = "0x534bd54b2868817a8b883a6dcdb074e092abd1815b6ffd10827aee6986948b18" and k = "0x3634858b061bb68aae9c9aa6ef5a082982702d7424f36e5e4859a56c2284f3dd"],
      rule pw_dbl1P [where x = "0xd770472b4203002175dd583fea5dbebc75d930bb759e0fac941dc60dfabd2bf1" and k = "0x16a9b91936fa3371c77bdcacb7103a99094e8420ed52714cb2fbc5e3c4bcad956"],
      rule pw_dbl1P [where x = "0xc3fa4b94bda7d249ed33af545d94c370a551118854a1082d25daadcae62ba243" and k = "0x12c0e87b9c78faf17a288956f458259578a104afcd5f2a25319aba895600770df"],
      rule pw_dbl1P [where x = "0xd395e6e0af2894c4332b190aa341316b210ed70bc0d86a67934099301b5fd391" and k = "0x15dc0e4bb42c3798aead695f12358b5815413f549204fd586e55aa80c513ef201"],
      rule pw_dbl1P [where x = "0xef1c05df840c718b317c1c9440492b3aa720f78b96f76d78209b2ba1bd13374e" and k = "0x1beaaac1301d7e6265952875c5bf8c5317a49f6b0a878e28efd8e4ec340529c09"],
      rule pw_dbl1P [where x = "0x58d1fb5ed210a3ef93700cf0378a5dc426f4786cb2441d3046ebe5cdef2f251c" and k = "0x3da2121b6dc517f319598bbc215ba197409c373edeb0ef9eab0dfdffe1c1012e"],
      rule pw_dbl1P [where x = "0xc04de765298b256f576ae53a4b1db9bb0e5c757d1823d5c00a9d057b632aaf02" and k = "0x120e9e59aa590c3366d0d6860e7cd6fa3c8840ef1f44264726d7b51030e97ad14"],
      rule pw_p256_q1_full_20)
     (simp_all only: arith_simps rel_simps)

lemma pw_p256_q1_full_22: "(2::int) ^ 0x1fffffffe00000002000000000000000000000001ffff mod p256_P = 0x22da262e6e99c782e709ea955e6b3f1174adface595894da8b1289b09022c0f3 mod p256_P"
  by (rule pw_dbl1P [where x = "0x8f66a4094202c1020dc9f42bbe8394d66751e62d2593c3c3af1d3c877e77180d" and k = "0xa0a7a8d3911ebe499b8f8b9da93dc1aa7c19ab805f8527873278b81c3b71dfa1"],
      rule pw_dbl1P [where x = "0xf4670ba17c4c77ee1c5d225e55045ac06eb33701d597f527e3b8d8bff32a838d" and k = "0x1d2a92f4e357f50b17fddd039cc973150e049c7042a08fc7c60ed4a2146bbe0bb"],
      rule pw_dbl1P [where x = "0x7121c1d29d6ad1abf45e78f3a0c5de2ce80756de1963958e5314b3dc2c56d845" and k = "0x63fda31f5805e5aa148bfd746c76d887a7d6c6dc0ba1b5b773647ff479097e5b"],
      rule pw_dbl1P [where x = "0xdf9eda86a076a9a78886bc8e7371c947b3a44f0ce087979c1e6092a269010732" and k = "0x186ac46938f3902d5915a37d92b80825a075051a9cf9ec9279eecbd7c07274cbd"],
      rule pw_dbl1P [where x = "0x2983e0c0eb4e4c21d891f8e6a554c126027b4327fb1f20eb1c6ca73f85034822" and k = "0xd7703db39bb2b3a5635809631512b22e2386eddac07f7117b54072e36c2be2a"],
      rule pw_dbl1P [where x = "0x2d33742ad29b52e7bd9dd4912ddc93f267a52fb99410c91c882042b1d49ca246" and k = "0xff6425d2798f87b30599d9f66aa9593564518db37fcc8d44fbc14734ca9f1da"],
      rule pw_dbl1P [where x = "0x8107ca7bfaaeefa81c0c874a17c826c39db2263f18570f6a52898407628a1a07" and k = "0x8211b49bcd39821a31a79669fae1d1dd6e1649016178ece1f07eed12f839c9e4"],
      rule pw_dbl1P [where x = "0xf51392af32fbc7069bc32fd784486ab44db8f8b4abf0acef0a3272ac2ad920b3" and k = "0x1d53cf086b8848545204ef1f9be174d4baf747906c670e852d692dd3103439fb5"],
      rule pw_p256_q1_full_21)
     (simp_all only: arith_simps rel_simps)

lemma pw_p256_q1_full_23: "(2::int) ^ 0x1fffffffe00000002000000000000000000000001ffffff mod p256_P = 0xe73a7bf7d798e784edb4691551f7bc77597e2c705c1236cd91ccfcf6f44ac482 mod p256_P"
  by (rule pw_dbl1P [where x = "0x290e8b4d92890d3c709b97555530768dd11444971d1cef4ad658ea5a5cbcfc59" and k = "0xd2b52e4cf9dd69efd333cef9254de414a9023de98d8016357d3f607cd5c16a0"],
      rule pw_dbl1P [where x = "0xb876e3e4f686e83f335d2623b791e91929478e2ed1c864289d2112784fbf9aa4" and k = "0x109d63da1128056088c074004b16a3a8933f92b8566e69b212d593527b0798a39"],
      rule pw_dbl1P [where x = "0xd6b3f33bcd3aafd7f59b3a0c5b57c2a68a3df068c1e4b4889a4dca4c8fa2135b" and k = "0x16822b24d77d619954bc5894f576a84ce4ee427c5854ab2139ce9edeffa7a55f2"],
      rule pw_dbl1P [where x = "0x7f9960d8f647b9120b0d4f37a68a4f95a6a527a53f754f1b08ed4f62a4b608d7" and k = "0x7f3313f8d7dd0bdb374251ed28be4a0613aafc074606d34b4087638c7b9dca39"],
      rule pw_dbl1P [where x = "0x2a8ae18e5922cb8c7100774b6a188a7d0c44a302a1081b0501a4c5455fc46e8d" and k = "0xe23bab56109d2fcbac1d8f721d374c210d97917988d069f5fe559d2696b1585"],
      rule pw_dbl1P [where x = "0xe845c49abc79f77fed30b0472edbf164a2ddf0df221381838104c4b2e2a63626" and k = "0x1a57d0eb9b584ffaac2be35e89202de55df5b681e621aad9811d6048aa64c5345"],
      rule pw_dbl1P [where x = "0xa300307ae0906a8735fa0b70bba86f5d7011b4ab14b25985fe203a5a50ab354d" and k = "0xcf927b79d5dee92b50efd4d84c095dd164ba92916217bf86769d20ca22b843d4"],
      rule pw_dbl1P [where x = "0x22da262e6e99c782e709ea955e6b3f1174adface595894da8b1289b09022c0f3" and k = "0x97d5812cdcb6863117c75a3c60fdaa3a27dbdecbf2e40e08edf3687ecb867fb"],
      rule pw_p256_q1_full_22)
     (simp_all only: arith_simps rel_simps)

lemma pw_p256_q1_full_24: "(2::int) ^ 0x1fffffffe00000002000000000000000000000001ffffffff mod p256_P = 0x3e69f011c1e5cc8e243b964a07ebd01c27bc8a544d91ceac4d0eafe09a804221 mod p256_P"
  by (rule pw_dbl1P [where x = "0xa4e9079cc56b633d413c09085734f289dbc35523d0876a997a168df3aed53c75" and k = "0xd476cbc0458c9a9bd85aa4942c1cdc80e332788e76683d53f336400b308e272f"],
      rule pw_dbl1P [where x = "0x85cdf08c650b67ce0150c604d3394f7fcfaf05cbf3927ab97eb1fe74aa7a982e" and k = "0x8bdf433a939db462c0521bcb8809dee1e10d42ff1eff900d9da610eeb237ebed"],
      rule pw_dbl1P [where x = "0x636b3fdd19528c8d1e6e1c08353c24b9db42b67ab08a6f1c82887d5f91d7c0e4" and k = "0x4d3840a735e76aeae81b131c891de07a9d31be9800e18c7bf3061f54f9dd020e"],
      rule pw_dbl1P [where x = "0xed9e290a52654f3f20f041cafdf4c03c234e00a6ebbce293528fa08a424b2c3c" and k = "0x1b91c736950dfa496fd3926a3007efbccb3c9fddc14364995c9756a3bcc3e64c4"],
      rule pw_dbl1P [where x = "0xa3654dc65a66b507e682b1e4aef97225d1832ccb613a6309fae05839f5ad3797" and k = "0xd0945242eb1a698b69790d5eac0b1510b7f3748bc13331e217d07ad7d9fab61a"],
      rule pw_dbl1P [where x = "0x93eb57e7626311e8f736febb7daa34a8807bc1ad792f70b8cf2721dc6016ddb2" and k = "0xaaf03e9d22e73b8968c260f7c121f7b56f0d4c8b52c3e358c95c2bb94083980f"],
      rule pw_dbl1P [where x = "0xbbfcf138a5d45d443f1c32c675c3348109151f90411b326ea8baf9c20fb18192" and k = "0x1141704aa2e43e2e15f293bc18f06386a0edbc751b4c0f282cebdc6c54d25ef2a"],
      rule pw_dbl1P [where x = "0xe73a7bf7d798e784edb4691551f7bc77597e2c705c1236cd91ccfcf6f44ac482" and k = "0x1a1b5322d008caa9e537b6d7fad56b0f3be282f8abeadc0228afa8d360bb2dd8a"],
      rule pw_p256_q1_full_23)
     (simp_all only: arith_simps rel_simps)

lemma pw_p256_q1_full_25: "(2::int) ^ 0x1fffffffe00000002000000000000000000000001ffffffffff mod p256_P = 0x9cec58f16351f91ecbc5dabdb7f6b16dccd35b6eb1c73fb96ac876a8406177d5 mod p256_P"
  by (rule pw_dbl1P [where x = "0x7eeb275d842e00e471a040fa03de4f7e4b4601ddbc01aa1e44afa7f18a3d86a8" and k = "0x7dd8a583318fd10e5e1f57788d37f5c759f5d23524f07527070e3e1b1a98db55"],
      rule pw_dbl1P [where x = "0xa6f52c34f7e4cdb8e8493af97696b0eb194241e2b95cfa01fef1fad23d2bcb08" and k = "0xd9c5c04586c8ae1866c7000290740986129d3ecbecc87f0a148a69323ed22628"],
      rule pw_dbl1P [where x = "0xef7dfed80cac5ea5783380fbaff7e95778c2d96b0638121f39ad84088bddaa72" and k = "0x1c018ffb648c850c62f5fc8b3763fb86347f85e91c2713ac076b49e83308c9580"],
      rule pw_dbl1P [where x = "0x4bd11f9373a8d79a066388adcad49576264b6d86a5c137b4b04cd67e89400b2c" and k = "0x2ce866aa1dc20c945c133a1f45528e031c4610dcc0ac239406d12d732ee40b52"],
      rule pw_dbl1P [where x = "0x50550770ccc1bf9bb5d446536be565031ad5eb5da7d93514504e23f59df93c99" and k = "0x326a81c9149b5c6acbd6c0de140a058a181efc114c0156afc79de2d5554be44a"],
      rule pw_dbl1P [where x = "0xabbfd574ca9824fabce2f98475de864b9dc564924cb75376372a1f0a1bbc9088" and k = "0xe673add56045eb83964ad265cc7046308bf68f431ddf3424e5930bf30b46ac19"],
      rule pw_dbl1P [where x = "0x323b4e9ac8be0794e70da24391de14a5af6d42e7e9c6c7df97fffa89ccfd52d7" and k = "0x13b670e3a78155d2c2e535f9e6c0276b93fa86141038dc71405f85671c33af66"],
      rule pw_dbl1P [where x = "0x3e69f011c1e5cc8e243b964a07ebd01c27bc8a544d91ceac4d0eafe09a804221" and k = "0x1e6ef83ef1aa4d0085607728c9042bc6bdaaed91b0c90afd3c912b6600d34255"],
      rule pw_p256_q1_full_24)
     (simp_all only: arith_simps rel_simps)

lemma pw_p256_q1_full_26: "(2::int) ^ 0x1fffffffe00000002000000000000000000000001ffffffffffff mod p256_P = 0xade96eea177de5e789e01bf680301942ef27256875a9a4f0a3d3bc82d1264893 mod p256_P"
  by (rule pw_dbl1P [where x = "0xaa54371d31071f951fbff0d220a92e295d1d693eea426203078ff75c15d3aa5c" and k = "0xe2a7e9cedaee4bd5f17bd1104f70cfa927496edba1d73691a4caf6581719a673"],
      rule pw_dbl1P [where x = "0x75a562f972fddce09e09e126b8ac7f37e1ce0e244e9e3e3b76a1d5f7a17b7cdd" and k = "0x6c212ea1e9fd9b20171362642c508383bdb754d8978340e873bd7131af49fcca"],
      rule pw_dbl1P [where x = "0x348f98a97c404a04a2745ce967f41ddb04b1cf9f9bddf7ee634659fe02a3ddd8" and k = "0x15954d219b4e906dee3df08e130af171b9368a164a0210d8577b14005ede305d"],
      rule pw_dbl1P [where x = "0x5d29aae2249b0bddf14d074d71766f07ccc800d63a201db51c89a7d8896fdf41" and k = "0x43ce99e13e019b383c84e8787ec0f6497b76d8b6ce118603b47166f0248340d6"],
      rule pw_dbl1P [where x = "0x1cb1dd708f1e844cb404e935195dd1d272c8bccd764f6ebb5b7f0975972f5048" and k = "0x66ec8092f6f0381122ad9d201803eba81de579458038e01b14f11518235b6c1"],
      rule pw_dbl1P [where x = "0x8255262865e675fb0fead03fa34bb050fd29fcac896070630221d917aa8b0324" and k = "0x84b52e274cb8ad2248ffb956d30445a4bdce6c2c7e0d08a5191a013524eb9628"],
      rule pw_dbl1P [where x = "0xeac8f295cc71dfeac911315a06bee025773af5532396de4943f4cf1616e0d63f" and k = "0x1aea7f26d42064d579692030618558fb7c9d5ad69fee5793d279d9adabf703c22"],
      rule pw_dbl1P [where x = "0x9cec58f16351f91ecbc5dabdb7f6b16dccd35b6eb1c73fb96ac876a8406177d5" and k = "0xc061cd355a658a7f508ede1137035e14a063f05a832d1ba92d27c5e907dd67cd"],
      rule pw_p256_q1_full_25)
     (simp_all only: arith_simps rel_simps)

lemma pw_p256_q1_full_27: "(2::int) ^ 0x1fffffffe00000002000000000000000000000001ffffffffffffff mod p256_P = 0xa726a94c7a7ed7f47e2345dd0a11dddb30fc1369e6e71aa5b0febc66712a2db0 mod p256_P"
  by (rule pw_dbl1P [where x = "0x1811717618144801dd324e11689dffc3e6271df41f783449b9f2aa8d1d1a2c44" and k = "0x4868cecd57f7cc8dd7a3ab34e768a7a29c2198dd0a0394a1602b52d963b4990"],
      rule pw_dbl1P [where x = "0x46b218d83fe995115411b99d04322752354b98f41af06d236d09db04085c57cd" and k = "0x270bc2f9cb3784fa9c7829519b6a5ba75db76c2a9d20ccebba5be4250a3037f2"],
      rule pw_dbl1P [where x = "0x17298e82671e5a28004a520f4bb2deff0a74216da0908926317727d17665420b" and k = "0x430fcb4cb73ce3209c078c7af0e1c26916538eb803104d97028793964ecfedb"],
      rule pw_dbl1P [where x = "0xefd8c5370d70ebdd4f31d34c2c899aa21ccd861336ee5ad26e09f62e4a4788b8" and k = "0x1c16cef9621478a8c02fd31ac5056b7194588eeba99adca1a338ec582783d398b"],
      rule pw_dbl1P [where x = "0xf9299b7c36cfe4bc550842615efb46033718e1a265b22ec506df31308964b76e" and k = "0x1e503ee7782b72edaa969e16b9503995f24bb524a223b44803f4e43c72f8aa230"],
      rule pw_dbl1P [where x = "0x41fb15c43aad88414f880551f37e20529d72df2108aaa68d527aca57aee59b2b" and k = "0x2202eea2cee4ddac20d8e2bfae9f6a41f79d4b4cb0103b74c40eb101af6e84fc"],
      rule pw_dbl1P [where x = "0x26fb5d129a5d56ade500b8976e47bc0db1ca43130bda702bc3a5333a6f478166" and k = "0xbdf2ce26029096d4c9e5748dab176e0abe52da1a487c80ebada1188b6edb1e3"],
      rule pw_dbl1P [where x = "0xade96eea177de5e789e01bf680301942ef27256875a9a4f0a3d3bc82d1264893" and k = "0xec4aa987e02485d41f43e1c58537e8daf859c622808dc1cb7a4ee82f22d97894"],
      rule pw_p256_q1_full_26)
     (simp_all only: arith_simps rel_simps)

lemma pw_p256_q1_full_28: "(2::int) ^ 0x1fffffffe00000002000000000000000000000001ffffffffffffffff mod p256_P = 0x7be2934d236277ed0db6c2d533689121e4d72060ca12c1c20b5a10f5573124f5 mod p256_P"
  by (rule pw_dbl1P [where x = "0x549d747e623fd58a7a76b1afd316d0ae724d6fe2cea51057d3c7b79f4c4bac85" and k = "0x37ef6a9648f1c6511593d58754d41823c1230a791eea007b070720ee52cf2ac3"],
      rule pw_dbl1P [where x = "0x5e10a80b920db151c5538810fd7278f733c21382f0ca5408d1a23bcf604a392" and k = "0x452078fc23277947fec36309880a61994029d5142c7e98a8898ddb12252dfd"],
      rule pw_dbl1P [where x = "0xede3706931c38b6025b7a19545814c92b4c41a478dc76e58c42b13b01f1dc22f" and k = "0x1ba1dd0685e3adfa2f4e0a618931c0c82d7a3a49c4d95965fb679bd830e221a50"],
      rule pw_dbl1P [where x = "0x910a83879341f3986e5cbd73fc73e76223056dc640d53888bb5154eca586cba" and k = "0xa459d2dce2525213eef74fdb6206a369203aa7c93ed1fc6ed234bf3302d3e7"],
      rule pw_dbl1P [where x = "0xccc8d9343f6033030a4a56e82bdc09f49b5fbfd4c013055ae5d0618693256b95" and k = "0x147a16f80057d5aeda2a9c4a14099b3bcbf1f65c8d49bc2f04ce6034c01c8a348"],
      rule pw_dbl1P [where x = "0xd2967384ce9892ec73870117cb42b82f30b3db0bf1513934e53ec0c51982b972" and k = "0x15a765be447e06098b2cf7ac0982175af1ba3e7237be1de829f91f8ac4ee97e0d"],
      rule pw_dbl1P [where x = "0x8e14d097d74f59316612fbde2d65091327a103b8bffb6a76ad5ce7ac420d58fd" and k = "0x9db6323406cfb8c62e474872a302c9ad67745273b39a70c74268a7abe040e560"],
      rule pw_dbl1P [where x = "0xa726a94c7a7ed7f47e2345dd0a11dddb30fc1369e6e71aa5b0febc66712a2db0" and k = "0xda46ed71cf3ec56c056320000c2c56899fa69664f25bc544b562909b763ea6fd"],
      rule pw_p256_q1_full_27)
     (simp_all only: arith_simps rel_simps)

lemma pw_p256_q1_full_29: "(2::int) ^ 0x1fffffffe00000002000000000000000000000001ffffffffffffffffff mod p256_P = 0x6dc1549019ef7b84c83e23ad5220015673e8472ed07b200bdb3ea54a86255097 mod p256_P"
  by (rule pw_dbl1P [where x = "0xf8a8ab3832cfe66820cb1e7e27e4203011bf6e58e018d20d85401384acce7bce" and k = "0x1e30e75be0081b4bc738ffac0f12605e4256803a2844a359d5551ea99ef561d0f"],
      rule pw_dbl1P [where x = "0x975930c72f102152829bc9cc5ca99799a835e9ffec0c54cb44210e78d4fb83de" and k = "0xb2f4ad3c8d92c7895df6a413842d66ab89db547401633f71e7f5303d9a4c92c6"],
      rule pw_dbl1P [where x = "0xb390e49c53e12e612906aea45382b52f510da30d330cc16861c143b978b632c1" and k = "0xfbe7e36a2e8c15882d11f4e177dd77769ed6692f88a275af9479aa128c0398dc"],
      rule pw_dbl1P [where x = "0x807d77d5583ab204ad076e0c5e09d0a9753e83f9033669e023afe8c82ee2afa9" and k = "0x80fb6aa7ae5134f93bb091e7a0aff0e5340d030a6a819ef7514f33e2c2dd379f"],
      rule pw_dbl1P [where x = "0x7ff483a6a29fa6fb47c518f2531370c3587a50636d414daed6cf7080de5386e5" and k = "0x7fe908559d51c629c455d33b75caf5c8b9454eeae227bf41c9bb6c5c57bd9df7"],
      rule pw_dbl1P [where x = "0xe545ba13c94754dd040f985f3f7d9aa55aeb47a409f6cbab7b8a08d1becb1312" and k = "0x19aaba3cc12b5645f152ba2491dff3a44fa2f03fc91700383920ec6ecee642c5d"],
      rule pw_dbl1P [where x = "0xe20433a99aff7a982331ce0c18e8e2f6e2cdc0c7e71a62b426d6555b61e3e002" and k = "0x18f16d693c9e0b7b2bc95a6882b6964cf6fddeadfaca377d52477e8c8a7ac130a"],
      rule pw_dbl1P [where x = "0x7be2934d236277ed0db6c2d533689121e4d72060ca12c1c20b5a10f5573124f5" and k = "0x77e7042989d0921eed1223d121299b6169d76cf5b3894c89c58aba5bffa43b10"],
      rule pw_p256_q1_full_28)
     (simp_all only: arith_simps rel_simps)

lemma pw_p256_q1_full_30: "(2::int) ^ 0x1fffffffe00000002000000000000000000000001ffffffffffffffffffff mod p256_P = 0x16d4b983c056ae847994c6efc70b3483f1272c17ba30fe49cfcde22730dfa160 mod p256_P"
  by (rule pw_dbl1P [where x = "0x8a6ad47d0cc6033604a5d0ab47c5046da01422bf73bb79e202377d048ffd548b" and k = "0x95aeb357891586b39d8b97c16a0ac44fafe9c747771d15b4656b1f302f8c9a6e"],
      rule pw_dbl1P [where x = "0xd4469da843a2d343ffeb91419316ebeef6a8806bd731dbd06ec01ddd5fa08215" and k = "0x1600a1133f24f0a3801cbda6d21e083f9f698fe7c2d6e4a567293be23ab4aa919"],
      rule pw_dbl1P [where x = "0x3759a01ab43cbc463b680bcd00e270f24bb53884664e8ef6d4b14994ae478405" and k = "0x17ef44587838e2c49a28a4a41567ab199652b6f73e802a013baa876ac9ea31e3"],
      rule pw_dbl1P [where x = "0xd3b58fae0f1381b714b112c11b87caa8f57cc4663f9e37c20f4df51564155c4e" and k = "0x15e29973c3168606dd9e1692b2f58bbfab1e495534b36687c943b0432421f347d"],
      rule pw_dbl1P [where x = "0x33539e77d4d4b7881819d295d8419beaf799f3f86e4e514433c12960f767fc41" and k = "0x1494d8e7d9c6a4a27f64df0781f988f185c9c6e883b69425f78249909e594b4c"],
      rule pw_dbl1P [where x = "0x5ae0d356f4f06ddb4e0e8da8c45d39162e30d253ea3f57fa3a2d78a07cb6bd80" and k = "0x4085b417964202afdd0b0336b6774c95c5aa23929d5515fc10145554fadb7c41"],
      rule pw_dbl1P [where x = "0xe1d86a7dbcfb5f8aa99d9f3efee72c41b6599f3c8de5697a00bc4ec4f65fbed5" and k = "0x18e7c444b5bd68d1445dd7aac7bc3f28f826ae1fb857529589879272f6409030e"],
      rule pw_dbl1P [where x = "0x6dc1549019ef7b84c83e23ad5220015673e8472ed07b200bdb3ea54a86255097" and k = "0x5e1c680704b440d9fa4306dd70027b241af13da03c501e5f5ef3a89004564cb3"],
      rule pw_p256_q1_full_29)
     (simp_all only: arith_simps rel_simps)

lemma pw_p256_q1_full_31: "(2::int) ^ 0x1fffffffe00000002000000000000000000000001ffffffffffffffffffffff mod p256_P = 0x88a827880fdee62cba9587239e9954045d6223e8c3cba9edcb2f8bc6fb029447 mod p256_P"
  by (rule pw_dbl1P [where x = "0xabf0fdf578bebd321c3769a053566c6c1bcb068ffbfa942cb0ece21ff991e20a" and k = "0xe6f7ac4715f851203e4b9d356b36968d2db1d95d5206ba38d6d8853c652f437f"],
      rule pw_dbl1P [where x = "0x8b34240ddc2c90a4bbcfe65c309ea7be8c9dc3892ee99fcac5d875d97205dea6" and k = "0x9763538c06fecf40027ee8c4d21e16337790a22e229b953e8c2c0a6b61513ac2"],
      rule pw_dbl1P [where x = "0xaa847c5fa0c3d6e2e40d93564c818826a0c77b16fae3f2bd69aa6516977a5df6" and k = "0xe328737fe445c921bfcd187d288c1af050ab939d0d5d2b17b6ccc69da81c8dde"],
      rule pw_dbl1P [where x = "0x4e5010ffd8fe57f6ad4662d0712dc0fe2883e338994dd7b5f2a91bd0d4f08346" and k = "0x2fe9c6cd4270f593454e17a16ec09d09d3bd93c862ce5ebf2d87c2d1ea58efae"],
      rule pw_dbl1P [where x = "0x33b5678ba9f64de0d86769080ca2e6a28e47cc0584bbb8a739cdb117161b4102" and k = "0x14e38f9a8b13e02a4c7bfcece6f1a93a3f052889bacd83fe9adad2f297147b3e"],
      rule pw_dbl1P [where x = "0xd6dc9d63e5d7a51a9eba280b0d4e206450135c87d7ae77555e8230e71d22a297" and k = "0x168ab2a853a21ada887065190d3e6a1ea8e3222a642f5ffce057fdd077b5c56e0"],
      rule pw_dbl1P [where x = "0x9b9e9df485408c0d3addd9063575ddb23921f69da1cabefbb876261cc08098fd" and k = "0xbd32eb1ba67fdfa39ce63c43922f4655250960c7ccd1a166376ebe0d6c47ce85"],
      rule pw_dbl1P [where x = "0x16d4b983c056ae847994c6efc70b3483f1272c17ba30fe49cfcde22730dfa160" and k = "0x412814cdf7ccc03def098c82e69b279c8b183189b1362a2c42b8fdfaa8cd0fd"],
      rule pw_p256_q1_full_30)
     (simp_all only: arith_simps rel_simps)

lemma pw_p256_q1_full_32: "(2::int) ^ 0xffffffff00000001000000000000000000000000fffffffffffffffffffffffe mod p256_P = 1 mod p256_P"
  by (rule pw_dblP [where x = "1" and k = "0"],
      rule pw_dbl1P [where x = "0x57c5deff466eaabbd65f9a2daa1e9467a017a74a69c32dcbf503c3f969d52e91" and k = "0x3c302d052e32e32c7b89c87581eddb394011564e8065775f1a67e469107b23bf"],
      rule pw_dbl1P [where x = "0xccc6a7204302cbe90e9fbd6a69fe8cf1626b541179088791b142f944083abfa" and k = "0x1479a69060338da9f63cfdfc6553945b8db44f75da3885abb96466c7f0d4e49"],
      rule pw_dbl1P [where x = "0x9417df146d4c9d0be79192660b774ecfe67c7b0b99f4a9be509f4a49403ec8e4" and k = "0xab5738539838db205d24b59478eb4eccaf2eb219540b204d048083d4685995da"],
      rule pw_dbl1P [where x = "0xc8f1389c08c2c5d90d7f6404f67278412bc165f8c74c538515cd138ec59d0b3" and k = "0x13b7397801b6e8515f7f987d66cd9499986572a5d95a6b9f2c4b10fa30c0e92"],
      rule pw_dbl1P [where x = "0xfb0023c4df6affe57a8df69b8d808fdefed706f076f035dc65df1e484c71d06f" and k = "0x1ec328c4a126908dc64739a9ec14ea5e1a344a2eb98a4557b5b32bfa1c4f4b071"],
      rule pw_dbl1P [where x = "0x88a827880fdee62cba9587239e9954045d6223e8c3cba9edcb2f8bc6fb029447" and k = "0x91e630e984fefd71c4e47710cf4f8f7f228035f619b3c03e377a110c8a75790d"],
      rule pw_p256_q1_full_31)
     (simp_all only: arith_simps rel_simps)

lemma prime_p256: "is_prime 0xffffffff00000001000000000000000000000000ffffffffffffffffffffffff"
proof -
  have "is_prime (nat 0xffffffff00000001000000000000000000000000ffffffffffffffffffffffff)"
  proof (rule pocklington [where a = "2" and m = "0xffffffff00000001000000000000000000000000fffffffffffffffffffffffe" and e = "0x1bf921271fffffffe406ded8e" and q = "0x926d1276e41fae13fdda5f78edb7802a76951509"
      and w = "0x6e2de1e253b630ab90fb6c14c9913e3f79353ced1be9c68ed42e7ee18b96074e"
      and u = "0x4f5b418eca523fb75369a24772ba6e620c00261d7f768df08143595c559af3ce"
      and v = "0x22276f3b6051c72a50251baf7be7d0e405575a296daf2bd8e083a1a94f06090b"])
    show "is_prime 0x926d1276e41fae13fdda5f78edb7802a76951509" by (rule prime_b160)
    show "(2::int) ^ 0xffffffff00000001000000000000000000000000fffffffffffffffffffffffe mod 0xffffffff00000001000000000000000000000000ffffffffffffffffffffffff = 1 mod 0xffffffff00000001000000000000000000000000ffffffffffffffffffffffff"
      by (rule pw_p256_q1_full_32 [unfolded p256_P_def])
    show "(2::int) ^ 0x1bf921271fffffffe406ded8e mod 0xffffffff00000001000000000000000000000000ffffffffffffffffffffffff = 0x6e2de1e253b630ab90fb6c14c9913e3f79353ced1be9c68ed42e7ee18b96074e mod 0xffffffff00000001000000000000000000000000ffffffffffffffffffffffff"
      by (rule pw_p256_q1_part_12 [unfolded p256_P_def])
  qed simp_all
  then show ?thesis by (simp only: nat_numeral)
qed

section \<open>The square root of P-256\<close>

lemma SetBit1_0: "SetBit1 0 k = 2 ^ k"
  by (simp add: SetBit1_def)

lemma Exp_pos: "0 < m \<Longrightarrow> Exp v e m = v ^ e mod m"
  by (simp add: Exp_def)

lemma chain_step:
  assumes m: "0 < m" and x: "x mod m = c ^ a mod m" and y: "y mod m = c ^ b mod m"
  shows "(Exp x (SetBit1 0 k) m * y) mod m = c ^ (a * 2 ^ k + b) mod m"
proof -
  have "(Exp x (SetBit1 0 k) m * y) mod m = ((x mod m) ^ 2 ^ k mod m * (y mod m)) mod m"
    using m by (simp add: Exp_pos SetBit1_0 power_mod mod_mult_right_eq)
  also have "\<dots> = ((c ^ a) ^ 2 ^ k * c ^ b) mod m"
    unfolding x y by (simp add: power_mod mod_mult_right_eq mod_mult_left_eq)
  also have "\<dots> = c ^ (a * 2 ^ k + b) mod m"
    by (simp add: power_add power_mult)
  finally show ?thesis .
qed

lemma chain_last:
  assumes m: "0 < m" and x: "x mod m = c ^ a mod m"
  shows "Exp x (SetBit1 0 k) m = c ^ (a * 2 ^ k) mod m"
proof -
  have "Exp x (SetBit1 0 k) m = (x mod m) ^ 2 ^ k mod m"
    using m by (simp add: Exp_pos SetBit1_0 power_mod)
  also have "\<dots> = (c ^ a) ^ 2 ^ k mod m" unfolding x by (simp add: power_mod)
  also have "\<dots> = c ^ (a * 2 ^ k) mod m" by (simp add: power_mult)
  finally show ?thesis .
qed

lemma P256_sqrt_power:
  assumes m: "0 < prm_P prm"
  shows "P256_sqrt prm c = c ^ (2 ^ 254 - 2 ^ 222 + 2 ^ 190 + 2 ^ 94) mod prm_P prm"
proof -
  let ?m = "prm_P prm"
  define t1 where "t1 = c * c * c"
  define t2 where "t2 = Exp t1 (SetBit1 0 2) ?m * t1"
  define t3 where "t3 = Exp t2 (SetBit1 0 4) ?m * t2"
  define t4 where "t4 = Exp t3 (SetBit1 0 8) ?m * t3"
  define r5 where "r5 = Exp t4 (SetBit1 0 16) ?m * t4"
  define r6 where "r6 = Exp r5 (SetBit1 0 32) ?m * c"
  define r7 where "r7 = Exp r6 (SetBit1 0 96) ?m * c"
  have c1: "c mod ?m = c ^ 1 mod ?m" by simp
  have e1: "t1 mod ?m = c ^ 3 mod ?m"
    by (simp add: t1_def power3_eq_cube)
  have e2: "t2 mod ?m = c ^ (3 * 2 ^ 2 + 3) mod ?m"
    unfolding t2_def by (rule chain_step [OF m e1 e1])
  have e3: "t3 mod ?m = c ^ ((3 * 2 ^ 2 + 3) * 2 ^ 4 + (3 * 2 ^ 2 + 3)) mod ?m"
    unfolding t3_def by (rule chain_step [OF m e2 e2])
  have e4: "t4 mod ?m = c ^ (255 * 2 ^ 8 + 255) mod ?m"
    unfolding t4_def using chain_step [OF m e3 e3, of 8] by simp
  have e5: "r5 mod ?m = c ^ (65535 * 2 ^ 16 + 65535) mod ?m"
    unfolding r5_def using chain_step [OF m e4 e4, of 16] by simp
  have e6: "r6 mod ?m = c ^ (4294967295 * 2 ^ 32 + 1) mod ?m"
    unfolding r6_def using chain_step [OF m e5 c1, of 32] by simp
  have e7: "r7 mod ?m = c ^ ((4294967295 * 2 ^ 32 + 1) * 2 ^ 96 + 1) mod ?m"
    unfolding r7_def by (rule chain_step [OF m e6 c1])
  have "P256_sqrt prm c = Exp r7 (SetBit1 0 94) ?m"
    by (simp add: P256_sqrt_def Let_def r7_def r6_def r5_def t4_def t3_def t2_def t1_def)
  also have "\<dots> = c ^ (((4294967295 * 2 ^ 32 + 1) * 2 ^ 96 + 1) * 2 ^ 94) mod ?m"
    by (rule chain_last [OF m e7])
  also have "(((4294967295 * 2 ^ 32 + 1) * 2 ^ 96 + 1) * 2 ^ 94 :: nat) = 2 ^ 254 - 2 ^ 222 + 2 ^ 190 + 2 ^ 94"
    by simp
  finally show ?thesis .
qed

lemma p256_prime: "is_prime (nat p256_P)"
  using prime_p256 by (simp add: p256_P_def)

lemma p256_exp4: "4 * (2 ^ 254 - 2 ^ 222 + 2 ^ 190 + 2 ^ 94 :: nat) = nat p256_P + 1"
  by (simp add: p256_P_def)

lemma p256_fermat_sq:
  shows "(s :: int) ^ (4 * (2 ^ 254 - 2 ^ 222 + 2 ^ 190 + 2 ^ 94)) mod p256_P = s * s mod p256_P"
proof (cases "p256_P dvd s")
  case True
  then have "s mod p256_P = 0" by simp
  then have "s ^ n mod p256_P = 0" if "0 < n" for n :: nat
    using that by (metis mod_0 power_mod zero_power)
  moreover have "s * s mod p256_P = 0" using True by simp
  ultimately show ?thesis by simp
next
  case False
  have ip: "int (nat p256_P) = p256_P" using p256_P_pos by simp
  have "s ^ (nat p256_P - 1) mod p256_P = 1"
    using fermat_little [OF p256_prime, of s] False unfolding ip by simp
  moreover have "4 * (2 ^ 254 - 2 ^ 222 + 2 ^ 190 + 2 ^ 94 :: nat) = (nat p256_P - 1) + 2"
    unfolding p256_exp4 using p256_P_pos by simp
  ultimately have "s ^ (4 * (2 ^ 254 - 2 ^ 222 + 2 ^ 190 + 2 ^ 94)) mod p256_P
      = (1 * (s ^ 2)) mod p256_P"
    by (metis mod_mult_left_eq power_add)
  then show ?thesis by (simp add: power2_eq_square)
qed

lemma P256_sqrt_sq:
  "P256_sqrt p256_params c * P256_sqrt p256_params c mod p256_P
     = c ^ (2 * (2 ^ 254 - 2 ^ 222 + 2 ^ 190 + 2 ^ 94)) mod p256_P"
proof -
  let ?E = "2 ^ 254 - 2 ^ 222 + 2 ^ 190 + 2 ^ 94 :: nat"
  have "P256_sqrt p256_params c = c ^ ?E mod p256_P"
    using P256_sqrt_power [of p256_params c] p256_P_pos by (simp add: prm_P_p256)
  then have "P256_sqrt p256_params c * P256_sqrt p256_params c mod p256_P = (c ^ ?E * c ^ ?E) mod p256_P"
    by (simp only: mod_mult_eq)
  also have "c ^ ?E * c ^ ?E = c ^ (2 * ?E)" by (simp only: mult_2 power_add)
  finally show ?thesis .
qed

lemma residue_check_pass:
  assumes "0 \<le> c" "c < p256_P" "s * s mod p256_P = c"
  shows "P256_sqrt p256_params c * P256_sqrt p256_params c mod p256_P = c"
proof -
  let ?E = "2 ^ 254 - 2 ^ 222 + 2 ^ 190 + 2 ^ 94 :: nat"
  have "c ^ (2 * ?E) mod p256_P = (s * s mod p256_P) ^ (2 * ?E) mod p256_P"
    by (simp only: assms(3))
  also have "\<dots> = (s * s) ^ (2 * ?E) mod p256_P" by (simp only: power_mod)
  also have "(s * s) ^ (2 * ?E) = s ^ (4 * ?E)"
    by (simp only: power2_eq_square [symmetric] power_mult [symmetric]) simp
  also have "s ^ (4 * ?E) mod p256_P = s * s mod p256_P" by (rule p256_fermat_sq)
  finally show ?thesis using assms(3) by (simp only: P256_sqrt_sq)
qed

lemma residue_check_fail:
  assumes "0 < c" "c < p256_P" "s * s mod p256_P = (- c) mod p256_P"
  shows "P256_sqrt p256_params c * P256_sqrt p256_params c mod p256_P \<noteq> c"
proof -
  let ?E = "2 ^ 254 - 2 ^ 222 + 2 ^ 190 + 2 ^ 94 :: nat"
  have "c ^ (2 * ?E) = (- c) ^ (2 * ?E)" by (simp only: power_mult power2_eq_square) simp
  then have "c ^ (2 * ?E) mod p256_P = ((- c) mod p256_P) ^ (2 * ?E) mod p256_P"
    by (simp only: power_mod)
  also have "\<dots> = (s * s mod p256_P) ^ (2 * ?E) mod p256_P" by (simp only: assms(3))
  also have "\<dots> = (s * s) ^ (2 * ?E) mod p256_P" by (simp only: power_mod)
  also have "(s * s) ^ (2 * ?E) = s ^ (4 * ?E)"
    by (simp only: power2_eq_square [symmetric] power_mult [symmetric]) simp
  also have "s ^ (4 * ?E) mod p256_P = s * s mod p256_P" by (rule p256_fermat_sq)
  also have "\<dots> = (- c) mod p256_P" by (rule assms(3))
  also have "\<dots> = p256_P - c" using assms(1,2) by (simp add: zmod_zminus1_eq_if)
  finally have r: "P256_sqrt p256_params c * P256_sqrt p256_params c mod p256_P = p256_P - c"
    by (simp only: P256_sqrt_sq)
  have "odd p256_P" by (simp add: p256_P_def)
  then have "p256_P - c \<noteq> c" by presburger
  then show ?thesis using r by simp
qed

text \<open>
  Claim C2. For every \<open>c\<close> in \<open>[0, p)\<close> that is a quadratic residue modulo the P-256
  prime \<open>p\<close>, \<^verbatim>\<open>sqrt(c)\<close> is \<open>c\<close> raised to \<open>2\<^sup>2\<^sup>5\<^sup>4 - 2\<^sup>2\<^sup>2\<^sup>2 + 2\<^sup>1\<^sup>9\<^sup>0 + 2\<^sup>9\<^sup>4\<close> modulo
  \<open>p\<close>; this exponent is \<open>(p + 1) / 4\<close>; and the square of the returned value is \<open>c\<close>
  modulo \<open>p\<close>.
\<close>

theorem C2_sqrt_correct:
  assumes "0 \<le> c" "c < p256_P" "\<exists>s. s * s mod p256_P = c"
  shows "P256_sqrt p256_params c = c ^ (2 ^ 254 - 2 ^ 222 + 2 ^ 190 + 2 ^ 94) mod p256_P
       \<and> (2 ^ 254 - 2 ^ 222 + 2 ^ 190 + 2 ^ 94 :: int) = (p256_P + 1) div 4
       \<and> P256_sqrt p256_params c * P256_sqrt p256_params c mod p256_P = c"
proof (intro conjI)
  show "P256_sqrt p256_params c = c ^ (2 ^ 254 - 2 ^ 222 + 2 ^ 190 + 2 ^ 94) mod p256_P"
    using P256_sqrt_power [of p256_params c] p256_P_pos by (simp add: prm_P_p256)
  show "(2 ^ 254 - 2 ^ 222 + 2 ^ 190 + 2 ^ 94 :: int) = (p256_P + 1) div 4"
    by (simp add: p256_P_def)
  from assms(3) obtain s where "s * s mod p256_P = c" by blast
  with assms(1,2) show "P256_sqrt p256_params c * P256_sqrt p256_params c mod p256_P = c"
    by (rule residue_check_pass)
qed

theorem C2_witness:
  "(0 :: int) \<le> 4 \<and> 4 < p256_P \<and> (\<exists>s. s * s mod p256_P = 4)
   \<and> P256_sqrt p256_params 4 = 4 ^ (2 ^ 254 - 2 ^ 222 + 2 ^ 190 + 2 ^ 94) mod p256_P
   \<and> P256_sqrt p256_params 4 * P256_sqrt p256_params 4 mod p256_P = 4"
proof -
  have a: "(0 :: int) \<le> 4" by simp
  have b: "4 < p256_P" by (simp add: p256_P_def)
  have "(2 :: int) * 2 mod p256_P = 4" using b by simp
  then have c: "\<exists>s. s * s mod p256_P = 4" by blast
  from C2_sqrt_correct [OF a b c] a b c show ?thesis by blast
qed

section \<open>Embedding\<close>

lemma XORKeyStream_1: "XORKeyStream [0] rand = ([rand 0], \<lambda>i. rand (i + 1))"
  by (simp add: XORKeyStream_def)

lemma XORKeyStream_zeros:
  "XORKeyStream (replicate n 0) rand = (map rand [0..<n], \<lambda>i. rand (i + n))"
  by (simp add: XORKeyStream_def)

lemma random_Bits_256: "random_Bits 256 rand = (map rand [0..<32], \<lambda>i. rand (i + 32))"
proof -
  have "(256 + 7) div 8 = (32 :: nat)" "256 mod 8 = (0 :: nat)" by simp_all
  then show ?thesis
    unfolding random_Bits_def by (simp only: XORKeyStream_zeros Let_def split: prod.splits) simp
qed

lemma mod_abs_mult: "(a + m * k) mod \<bar>m\<bar> = a mod \<bar>m :: int\<bar>"
proof (cases "0 \<le> m")
  case True
  then show ?thesis by simp
next
  case False
  then have "\<bar>m\<bar> = - m" by simp
  moreover have "a + m * k = a + (- m) * (- k)" by simp
  ultimately show ?thesis by (simp only: mod_mult_self2)
qed

lemma sq_neg_mod: "Mod ((m - r) * (m - r)) m = Mod (r * r) m"
proof -
  have "(m - r) * (m - r) = r * r + m * (m - 2 * r)" by (simp add: algebra_simps)
  then show ?thesis by (simp only: Mod_def mod_abs_mult)
qed

lemma genPoint_cases:
  assumes "genPoint Pt ax rand s = Inr (ok, Pt', rand', s')"
  shows "rand' = (\<lambda>i. rand (i + 1))
       \<and> ok = residue_check (curve Pt) (heap s ax)
       \<and> Pt' = (if ok then Pt\<lparr>cp_x := Some ax, cp_y := Some (nxt s)\<rparr> else Pt)
       \<and> nxt s' = Suc (nxt s)
       \<and> (\<forall>a. a \<noteq> nxt s \<longrightarrow> heap s' a = heap s a)"
proof -
  let ?p = "prm_P (params (curve Pt))"
  have p: "?p \<noteq> 0" using assms by (auto simp add: genPoint_def Let_def split: if_splits)
  let ?y2 = "Mod (heap s ax * heap s ax * heap s ax - (Lsh (heap s ax) 1 + heap s ax) + prm_B (params (curve Pt))) ?p"
  let ?r = "curve_sqrt (curve Pt) ?y2"
  have rc: "residue_check (curve Pt) (heap s ax) = (Mod (?r * ?r) ?p = ?y2)"
    by (simp add: residue_check_def Let_def)
  show ?thesis
    using assms p
    by (auto simp add: genPoint_def Let_def new_def upd_def XORKeyStream_1 rc sq_neg_mod
        split: if_splits prod.splits)
qed

lemma genPoint_total:
  assumes "prm_P (params (curve Pt)) \<noteq> 0"
  shows "\<exists>ok Pt' rand' s'. genPoint Pt ax rand s = Inr (ok, Pt', rand', s')"
  using assms by (auto simp add: genPoint_def Let_def split: if_splits prod.splits)

lemma random_Bits_stream:
  "random_Bits n rand = (b, rand1) \<Longrightarrow> rand1 = (\<lambda>i. rand (i + (n + 7) div 8))"
  by (auto simp add: random_Bits_def XORKeyStream_zeros Let_def split: if_splits)

text \<open>
  Claim C4, as the code has it. In every iteration of the loop of \<^verbatim>\<open>Embed\<close> the byte
  that chooses the sign is drawn before the verification: \<^verbatim>\<open>genPoint\<close> takes one byte
  from the key stream after the candidate bytes whether the candidate passes or not,
  and an iteration whose candidate fails leaves the receiver unchanged and continues
  the loop from the stream after that byte.
\<close>

theorem C4_sign_byte_drawn_before_check:
  assumes bits: "random_Bits (nat (BitLen (prm_P (params (curve Pt))))) rand = (b, rand1)"
    and emb: "embed_bytes l dl data b = Inr b'"
    and alloc: "new (SetBytes b') s = (ax, s1)"
    and gen: "genPoint Pt ax rand1 s1 = Inr (ok, Pt', rand2, s2)"
  shows "rand1 = (\<lambda>i. rand (i + (nat (BitLen (prm_P (params (curve Pt)))) + 7) div 8))
       \<and> rand2 = (\<lambda>i. rand1 (i + 1))
       \<and> (\<not> ok \<longrightarrow> Pt' = Pt \<and> Embed_loop Pt data l dl rand s = Embed_loop Pt data l dl rand2 s2)"
proof (intro conjI impI)
  show "rand1 = (\<lambda>i. rand (i + (nat (BitLen (prm_P (params (curve Pt)))) + 7) div 8))"
    using bits by (rule random_Bits_stream)
  show "rand2 = (\<lambda>i. rand1 (i + 1))"
    using genPoint_cases [OF gen] by simp
next
  assume "\<not> ok"
  then show "Pt' = Pt" using genPoint_cases [OF gen] by simp
next
  assume "\<not> ok"
  then show "Embed_loop Pt data l dl rand s = Embed_loop Pt data l dl rand2 s2"
    by (subst Embed_loop.simps) (simp add: bits emb alloc gen)
qed

lemma curve_P256_Init [simp]:
  "prm_P (params (P256_Init E)) = p256_P"
  "prm_B (params (P256_Init E)) = p256_B"
  "curve_sqrt (P256_Init E) = P256_sqrt p256_params"
  by (simp_all add: P256_Init_def p256_params_def)

lemma Lsh_1: "Lsh v 1 + v = 3 * v" "Lsh v (Suc 0) + v = 3 * v"
  by (simp_all add: Lsh_def)

lemma mod_cert: "v = k * m + c \<Longrightarrow> 0 \<le> c \<Longrightarrow> c < m \<Longrightarrow> v mod m = (c :: int)"
  by simp

lemma residue_check_P256_pass:
  assumes "(xv * xv * xv - 3 * xv + p256_B) mod p256_P = c" "s * s mod p256_P = c"
  shows "residue_check (P256_Init E) xv"
proof -
  have "0 \<le> c" "c < p256_P"
    using pos_mod_sign [OF p256_P_pos] pos_mod_bound [OF p256_P_pos] assms(1) by blast+
  then have "P256_sqrt p256_params c * P256_sqrt p256_params c mod p256_P = c"
    using assms(2) by (rule residue_check_pass)
  then show ?thesis
    using assms(1) p256_P_pos by (simp add: residue_check_def Let_def Lsh_1 Mod_pos)
qed

lemma residue_check_P256_fail:
  assumes "(xv * xv * xv - 3 * xv + p256_B) mod p256_P = c" "c \<noteq> 0" "s * s mod p256_P = p256_P - c"
  shows "\<not> residue_check (P256_Init E) xv"
proof -
  have "0 \<le> c" "c < p256_P"
    using pos_mod_sign [OF p256_P_pos] pos_mod_bound [OF p256_P_pos] assms(1) by blast+
  then have c: "0 < c" "c < p256_P" using assms(2) by simp_all
  have "(- c) mod p256_P = p256_P - c" using c by (simp add: zmod_zminus1_eq_if)
  then have "s * s mod p256_P = (- c) mod p256_P" using assms(3) by simp
  with c have "P256_sqrt p256_params c * P256_sqrt p256_params c mod p256_P \<noteq> c"
    by (rule residue_check_fail)
  then show ?thesis
    using assms(1) p256_P_pos by (simp add: residue_check_def Let_def Lsh_1 Mod_pos)
qed

lemma BitLen_P256_Init: "nat (BitLen (prm_P (params (P256_Init E)))) = 256"
  by (simp add: BitLen_p256)

lemma Embed_loop_P256_iter:
  assumes c: "curve Pt = P256_Init E"
    and emb: "embed_bytes l dl data (map rand [0..<32]) = Inr b'"
  shows "(residue_check (P256_Init E) (SetBytes b') \<longrightarrow>
           (\<exists>s'. Embed_loop Pt data l dl rand s =
                   Some (Inr (Pt\<lparr>cp_x := Some (nxt s), cp_y := Some (Suc (nxt s))\<rparr>,
                              \<lambda>i. rand (i + 33), s'))
                 \<and> heap s' (nxt s) = SetBytes b'))
       \<and> (\<not> residue_check (P256_Init E) (SetBytes b') \<longrightarrow>
           (\<exists>s'. Embed_loop Pt data l dl rand s = Embed_loop Pt data l dl (\<lambda>i. rand (i + 33)) s'))"
proof -
  let ?s1 = "s\<lparr>heap := (heap s)(nxt s := SetBytes b'), nxt := Suc (nxt s)\<rparr>"
  have n: "new (SetBytes b') s = (nxt s, ?s1)" by (simp add: new_def)
  have h: "heap ?s1 (nxt s) = SetBytes b'" "nxt ?s1 = Suc (nxt s)" by simp_all
  have p: "prm_P (params (curve Pt)) \<noteq> 0" using c p256_P_pos by simp
  from genPoint_total [OF p] obtain ok Pt' rand' s' where
    g: "genPoint Pt (nxt s) (\<lambda>i. rand (i + 32)) ?s1 = Inr (ok, Pt', rand', s')" by blast
  note gc = genPoint_cases [OF g]
  have ok: "ok = residue_check (P256_Init E) (SetBytes b')" using gc h c by simp
  have r: "rand' = (\<lambda>i. rand (i + 33))" using gc by (simp add: add.commute)
  have hs: "heap s' (nxt s) = SetBytes b'" using gc h by simp
  have u: "Embed_loop Pt data l dl rand s =
      (if ok then Some (Inr (Pt', rand', s')) else Embed_loop Pt data l dl rand' s')"
    by (subst Embed_loop.simps) (simp add: c BitLen_p256 random_Bits_256 emb n g)
  show ?thesis using u ok r hs gc h by auto
qed

lemma embed_bytes_Some:
  assumes "length b = 32" "length d \<le> 30" 
  shows "embed_bytes 32 (int (length d)) (Some d) b =
           Inr (take (31 - length d) b @ d @ [word_of_int (int (length d))])"
proof -
  have "b[31 := w] = take 31 b @ w # drop (Suc 31) b" for w :: byte
    using assms(1) by (intro upd_conv_take_nth_drop) simp
  then have "drop 31 (b[31 := w]) = [w]" for w :: byte
    using assms(1) by simp
  then show ?thesis using assms
    by (simp add: embed_bytes_def Let_def nat_diff_distrib')
qed

lemma Data_of_embedded:
  assumes c: "curve Pt = P256_Init E" and x: "cp_x Pt = Some ax"
    and h: "heap s ax = SetBytes (hi @ d @ [word_of_int (int (length d))])"
    and len: "length hi + length d = 31" "length d \<le> 30"
  shows "Data Pt s = Inr d"
proof -
  define bb where "bb = hi @ d @ [word_of_int (int (length d)) :: byte]"
  let ?z = "dropWhile (\<lambda>b. b = 0) bb"
  have lb: "length bb = 32" using len by (simp add: bb_def)
  have pad: "(if int (length ?z) < 32 then replicate (nat (32 - int (length ?z))) 0 @ ?z else ?z) = bb"
  proof (cases "int (length ?z) < 32")
    case True
    have "nat (32 - int (length ?z)) = length bb - length ?z" using lb by simp
    then show ?thesis using True pad_dropWhile [of bb] by simp
  next
    case False
    have "length ?z \<le> length bb" by (rule length_dropWhile_le)
    then have "length ?z = length bb" using False lb by simp
    then have "?z = bb" by (metis pad_dropWhile append_self_conv2 diff_self_eq_0 replicate_0)
    then show ?thesis using False by simp
  qed
  have tag: "uint (bb ! 31) = int (length d)"
  proof -
    have "((hi @ d) @ [word_of_int (int (length d)) :: byte]) ! length (hi @ d) = word_of_int (int (length d))"
      by (rule nth_append_length)
    then have "bb ! 31 = word_of_int (int (length d))"
      using len by (simp add: bb_def)
    moreover have "uint (word_of_int (int (length d)) :: byte) = int (length d)"
      using len(2) by (simp add: uint_nat unat_of_nat)
    ultimately show ?thesis by simp
  qed
  have sl: "drop (31 - length d) (take 31 bb) = d"
    using len by (simp add: bb_def)
  have idx: "nat (32 - int (length d) - 1) = 31 - length d" "nat (32 - 1) = (31 :: nat)"
    by simp_all
  have B: "Bytes (heap s ax) = ?z" by (simp only: h bb_def Bytes_SetBytes)
  have "Data Pt s =
      (if uint (bb ! 31) > 30 then Inl ErrInvalidEmbedLen
       else if 32 - uint (bb ! 31) - 1 < 0 then Inl Panic
       else Inr (drop (nat (32 - uint (bb ! 31) - 1)) (take (nat (32 - 1)) bb)))"
    unfolding Data_def x c coordLen_P256 EmbedLen_P256 [OF c] B Let_def option.case pad
    using lb by simp
  also have "\<dots> = Inr d"
    unfolding tag idx sl using len(2) by simp
  finally show ?thesis .
qed

lemma min_EmbedLen:
  "length d \<le> 30 \<Longrightarrow> (if (30 :: int) > int (length d) then int (length d) else 30) = int (length d)"
  by simp

lemma candidate_P256:
  assumes c: "curve Pt = P256_Init E" and len: "length d \<le> 30"
  shows "candidate Pt (Some d) rand k =
           Inr (SetBytes (take (31 - length d) (map (\<lambda>i. rand (i + k * 33)) [0..<32]) @ d
                          @ [word_of_int (int (length d))]))"
proof -
  have e: "embed_bytes 32 (int (length d)) (Some d) (map R [0..<32]) =
      Inr (take (31 - length d) (map R [0..<32]) @ d @ [word_of_int (int (length d))])" for R
    by (rule embed_bytes_Some) (simp_all add: len)
  have n: "nat (BitLen (prm_P (params (P256_Init E)))) = 256" by (simp add: BitLen_p256)
  have m: "(256 + 7) div 8 + 1 = (33 :: nat)" by simp
  show ?thesis
    unfolding candidate_def Let_def option.case n m c coordLen_P256 EmbedLen_P256 [OF c]
      min_EmbedLen [OF len] random_Bits_256 prod.case e sum.case ..
qed

lemma Embed_loop_P256_returns:
  assumes c: "curve Pt = P256_Init E" and len: "length d \<le> 30"
    and pass: "residue_check (P256_Init E)
        (SetBytes (take (31 - length d) (map (\<lambda>i. rand (i + k * 33)) [0..<32]) @ d
                   @ [word_of_int (int (length d))]))"
  shows "\<exists>Pt' rand' s'. Embed_loop Pt (Some d) 32 (int (length d)) rand s = Some (Inr (Pt', rand', s'))
           \<and> Data Pt' s' = Inr d"
  using pass
proof (induction k arbitrary: rand s)
  case 0
  let ?hi = "take (31 - length d) (map rand [0..<32])"
  let ?b = "?hi @ d @ [word_of_int (int (length d)) :: byte]"
  have e: "embed_bytes 32 (int (length d)) (Some d) (map rand [0..<32]) = Inr ?b"
    by (rule embed_bytes_Some) (simp_all add: len)
  have p: "residue_check (P256_Init E) (SetBytes ?b)" using "0.prems" by simp
  from Embed_loop_P256_iter [OF c e, of s] p obtain s' where
    r: "Embed_loop Pt (Some d) 32 (int (length d)) rand s =
          Some (Inr (Pt\<lparr>cp_x := Some (nxt s), cp_y := Some (Suc (nxt s))\<rparr>, \<lambda>i. rand (i + 33), s'))"
    and h: "heap s' (nxt s) = SetBytes ?b" by blast
  have "Data (Pt\<lparr>cp_x := Some (nxt s), cp_y := Some (Suc (nxt s))\<rparr>) s' = Inr d"
    by (rule Data_of_embedded [where E = E and ax = "nxt s" and hi = ?hi])
       (use len in \<open>simp_all add: c h\<close>)
  then show ?case using r by blast
next
  case (Suc k)
  let ?hi = "take (31 - length d) (map rand [0..<32])"
  let ?b = "?hi @ d @ [word_of_int (int (length d)) :: byte]"
  have e: "embed_bytes 32 (int (length d)) (Some d) (map rand [0..<32]) = Inr ?b"
    by (rule embed_bytes_Some) (simp_all add: len)
  show ?case
  proof (cases "residue_check (P256_Init E) (SetBytes ?b)")
    case True
    from Embed_loop_P256_iter [OF c e, of s] True obtain s' where
      r: "Embed_loop Pt (Some d) 32 (int (length d)) rand s =
            Some (Inr (Pt\<lparr>cp_x := Some (nxt s), cp_y := Some (Suc (nxt s))\<rparr>, \<lambda>i. rand (i + 33), s'))"
      and h: "heap s' (nxt s) = SetBytes ?b" by blast
    have "Data (Pt\<lparr>cp_x := Some (nxt s), cp_y := Some (Suc (nxt s))\<rparr>) s' = Inr d"
      by (rule Data_of_embedded [where E = E and ax = "nxt s" and hi = ?hi])
         (use len in \<open>simp_all add: c h\<close>)
    then show ?thesis using r by blast
  next
    case False
    from Embed_loop_P256_iter [OF c e, of s] False obtain s' where
      r: "Embed_loop Pt (Some d) 32 (int (length d)) rand s =
            Embed_loop Pt (Some d) 32 (int (length d)) (\<lambda>i. rand (i + 33)) s'" by blast
    have "(\<lambda>i. rand (i + Suc k * 33)) = (\<lambda>i. rand (i + k * 33 + 33))"
      by (simp add: add.commute add.left_commute)
    then have "residue_check (P256_Init E)
        (SetBytes (take (31 - length d) (map (\<lambda>i. (\<lambda>j. rand (j + 33)) (i + k * 33)) [0..<32]) @ d
                   @ [word_of_int (int (length d))]))"
      using Suc.prems by simp
    from Suc.IH [OF this, of s'] show ?thesis using r by simp
  qed
qed

text \<open>
  Claim C1, as the code has it. On the P-256 curve, for every byte string \<open>d\<close> that is
  not nil, with \<open>len(d) \<le> EmbedLen()\<close>, and every key stream on which the candidate of
  some iteration passes the verification of \<^verbatim>\<open>genPoint\<close>: \<^verbatim>\<open>Embed(d, keystream)\<close>
  returns, and \<^verbatim>\<open>Data()\<close> on the resulting point returns exactly \<open>d\<close> with no error.
\<close>

theorem C1_roundtrip_amended:
  assumes c: "curve Pt = P256_Init E"
    and len: "int (length d) \<le> EmbedLen Pt"
    and cand: "candidate Pt (Some d) rand k = Inr xv"
    and pass: "residue_check (curve Pt) xv"
  shows "\<exists>Pt' rand' s'. Embed Pt (Some d) rand s = Some (Inr (Pt', rand', s'))
           \<and> Data Pt' s' = Inr d"
proof -
  have l: "length d \<le> 30" using len by (simp add: EmbedLen_P256 [OF c])
  have "residue_check (P256_Init E)
        (SetBytes (take (31 - length d) (map (\<lambda>i. rand (i + k * 33)) [0..<32]) @ d
                   @ [word_of_int (int (length d))]))"
    using cand pass by (simp add: candidate_P256 [OF c l] c)
  from Embed_loop_P256_returns [OF c l this, of s]
  show ?thesis
    unfolding Embed_def Let_def option.case c coordLen_P256 EmbedLen_P256 [OF c] min_EmbedLen [OF l] .
qed

subsection \<open>Candidates on P-256\<close>

lemma y2_x1: "(1 * 1 * 1 - 3 * 1 + p256_B) mod p256_P = 0x5ac635d8aa3a93e7b3ebbd55769886bc651d06b0cc53b0f63bce3c3e27d26049"
  by (rule mod_cert [where k = "0"]) (simp_all add: p256_B_def p256_P_def)

lemma root_x1: "0xde17b2671045fe58740248c17a8bd2fb2ef7c3c49b01da9f903efa3dcda669c7 * 0xde17b2671045fe58740248c17a8bd2fb2ef7c3c49b01da9f903efa3dcda669c7 mod p256_P = p256_P - 0x5ac635d8aa3a93e7b3ebbd55769886bc651d06b0cc53b0f63bce3c3e27d26049"
  by (rule mod_cert [where k = "0xc0ad1b9d0bbee970d7391bdb1caecaa8c8187a30d35865a7fab2bd55c864c705"]) (simp_all add: p256_P_def)

lemma fail_x1: "\<not> residue_check (P256_Init E) 1"
  by (rule residue_check_P256_fail [OF y2_x1 _ root_x1]) simp

lemma y2_x31: "(0x1f * 0x1f * 0x1f - 3 * 0x1f + p256_B) mod p256_P = 0x5ac635d8aa3a93e7b3ebbd55769886bc651d06b0cc53b0f63bce3c3e27d2d44d"
  by (rule mod_cert [where k = "0"]) (simp_all add: p256_B_def p256_P_def)

lemma root_x31: "0x72763d6d461b00d9908f870b6f111166b66066302192b7e8d14547a0a382c415 * 0x72763d6d461b00d9908f870b6f111166b66066302192b7e8d14547a0a382c415 mod p256_P = (0x5ac635d8aa3a93e7b3ebbd55769886bc651d06b0cc53b0f63bce3c3e27d2d44d :: int)"
  by (rule mod_cert [where k = "0x332d85523517750633d437c455ba81ab7ff3870e6d681cbee9d3b37fae4eaa94"]) (simp_all add: p256_P_def)

lemma pass_x31: "residue_check (P256_Init E) 0x1f"
  by (rule residue_check_P256_pass [OF y2_x31 root_x31])

lemma y2_xAB: "(0x2ab01 * 0x2ab01 * 0x2ab01 - 3 * 0x2ab01 + p256_B) mod p256_P = 0x5ac635d8aa3a93e7b3ebbd55769886bc651d06b0cc53b0f63be139f5957d6049"
  by (rule mod_cert [where k = "0"]) (simp_all add: p256_B_def p256_P_def)

lemma root_xAB: "0x28a35b38d6fd01bb7f7f55052965da47c96b51eba7032c03412e2d87593e6e9b * 0x28a35b38d6fd01bb7f7f55052965da47c96b51eba7032c03412e2d87593e6e9b mod p256_P = (0x5ac635d8aa3a93e7b3ebbd55769886bc651d06b0cc53b0f63be139f5957d6049 :: int)"
  by (rule mod_cert [where k = "0x67374bf1485c0f07d267a877e1007571c9e0f7d4d272dca94559c5a0c9fce70"]) (simp_all add: p256_P_def)

lemma pass_xAB: "residue_check (P256_Init E) 0x2ab01"
  by (rule residue_check_P256_pass [OF y2_xAB root_xAB])

lemma y2_xP5: "(0xffffffff00000001000000000000000000000001000000000000000000000004 * 0xffffffff00000001000000000000000000000001000000000000000000000004 * 0xffffffff00000001000000000000000000000001000000000000000000000004 - 3 * 0xffffffff00000001000000000000000000000001000000000000000000000004 + p256_B) mod p256_P = 0x5ac635d8aa3a93e7b3ebbd55769886bc651d06b0cc53b0f63bce3c3e27d260b9"
  by (rule mod_cert [where k = "0xfffffffe00000002fffffffe0000000100000001fffffffe000000020000000cfffffff30000000e00000000000000000000000d00000000000000000000003a"]) (simp_all add: p256_B_def p256_P_def)

lemma root_xP5: "0x459243b9aa581806fe913bce99817ade11ca503c64d9a3c533415c083248fbcc * 0x459243b9aa581806fe913bce99817ade11ca503c64d9a3c533415c083248fbcc mod p256_P = (0x5ac635d8aa3a93e7b3ebbd55769886bc651d06b0cc53b0f63bce3c3e27d260b9 :: int)"
  by (rule mod_cert [where k = "0x12e82c137a6cab5455f8a8bc3652ad7b07c4c0c61639df3372cb4853dd68b629"]) (simp_all add: p256_P_def)

lemma pass_xP5: "residue_check (P256_Init E) 0xffffffff00000001000000000000000000000001000000000000000000000004"
  by (rule residue_check_P256_pass [OF y2_xP5 root_xP5])

lemma curve_Point: "curve (Point c) = c" "cp_x (Point c) = None" "cp_y (Point c) = None"
  by (simp_all add: Point_def)

lemma P256_is_Init: "P256 = P256_Init (elliptic_std p256_params)"
  by (rule P256_def)

lemma SetBytes_zeros: "SetBytes (replicate n 0 @ bs) = SetBytes bs"
proof (induction n)
  case 0
  show ?case by simp
next
  case (Suc n)
  have "SetBytes (0 # xs) = SetBytes xs" for xs by (simp add: SetBytes_def)
  then show ?case using Suc by simp
qed

lemma SetBytes_single: "SetBytes [b] = uint b"
  by (simp add: SetBytes_def)

lemma genPoint_P256_fail:
  assumes "\<not> residue_check P256 (heap s ax)"
  shows "\<exists>s'. genPoint (Point P256) ax rand s = Inr (False, Point P256, \<lambda>i. rand (i + 1), s')"
proof -
  have p: "prm_P (params (curve (Point P256))) \<noteq> 0"
    using p256_P_pos by (simp add: curve_Point params_P256 prm_P_p256)
  from genPoint_total [OF p] obtain ok Pt' rand' s' where
    g: "genPoint (Point P256) ax rand s = Inr (ok, Pt', rand', s')" by blast
  from genPoint_cases [OF g] assms show ?thesis using g by (simp add: curve_Point)
qed

lemma embed_zero_one:
  "embed_bytes 32 1 (Some [0]) (replicate 32 0) = Inr (replicate 30 0 @ [0, 1])"
  using embed_bytes_Some [of "replicate 32 0" "[0]"] by simp

lemma C4_setup:
  "random_Bits (nat (BitLen (prm_P (params (curve (Point P256)))))) (\<lambda>i. if i = 32 then 1 else 0)
     = (replicate 32 0, \<lambda>i. if i = 0 then 1 else 0)"
proof -
  have "map (\<lambda>i. if i = 32 then 1 else (0 :: byte)) [0..<32] = map (\<lambda>i. 0) [0..<32]"
    by (rule map_cong) simp_all
  also have "\<dots> = replicate 32 0" by (simp add: map_replicate_const)
  finally show ?thesis
    by (simp add: curve_Point params_P256 prm_P_p256 BitLen_p256 random_Bits_256)
qed

text \<open>
  The claim as stated fails: with the data \<open>[0]\<close> and a key stream of zero bytes but
  for a 1 at position 32, the first candidate is \<open>x = 1\<close>, which fails the
  verification, and the iteration has taken the byte at position 32 from the stream.
\<close>

theorem C4_counterexample:
  "\<exists>b rand1 b' ax s1 Pt' rand2 s2.
      random_Bits (nat (BitLen (prm_P (params (curve (Point P256)))))) (\<lambda>i. if i = 32 then 1 else 0)
        = (b, rand1)
      \<and> embed_bytes 32 1 (Some [0]) b = Inr b'
      \<and> new (SetBytes b') \<lparr>heap = (\<lambda>a. 0), nxt = 0\<rparr> = (ax, s1)
      \<and> genPoint (Point P256) ax rand1 s1 = Inr (False, Pt', rand2, s2)
      \<and> rand1 0 = 1 \<and> rand2 0 = 0"
proof -
  let ?s0 = "\<lparr>heap = (\<lambda>a. 0), nxt = 0\<rparr>"
  let ?r1 = "\<lambda>i :: nat. if i = 0 then 1 else (0 :: byte)"
  let ?s1 = "?s0\<lparr>heap := (heap ?s0)(nxt ?s0 := 1), nxt := Suc (nxt ?s0)\<rparr>"
  have sb: "SetBytes (replicate 30 0 @ [0, 1]) = 1"
    by (simp only: SetBytes_zeros) (simp add: SetBytes_def)
  have n: "new (SetBytes (replicate 30 0 @ [0, 1])) ?s0 = (0, ?s1)"
    by (simp add: sb new_def)
  have "\<not> residue_check P256 (heap ?s1 0)" using fail_x1 [of "elliptic_std p256_params"]
    by (simp add: P256_def)
  from genPoint_P256_fail [OF this, of ?r1] obtain s2 where
    g: "genPoint (Point P256) 0 ?r1 ?s1 = Inr (False, Point P256, \<lambda>i. ?r1 (i + 1), s2)" by blast
  show ?thesis
    by (intro exI conjI, rule C4_setup, rule embed_zero_one, rule n, rule g) simp_all
qed

theorem C4_witness:
  "\<exists>b rand1 b' ax s1 Pt' rand2 s2.
      random_Bits (nat (BitLen (prm_P (params (curve (Point P256)))))) (\<lambda>i. if i = 32 then 1 else 0)
        = (b, rand1)
      \<and> embed_bytes 32 1 (Some [0]) b = Inr b'
      \<and> new (SetBytes b') \<lparr>heap = (\<lambda>a. 0), nxt = 0\<rparr> = (ax, s1)
      \<and> genPoint (Point P256) ax rand1 s1 = Inr (False, Pt', rand2, s2)
      \<and> rand1 = (\<lambda>i. (if i + 32 = 32 then 1 else 0))
      \<and> rand2 = (\<lambda>i. rand1 (i + 1))
      \<and> Pt' = Point P256
      \<and> Embed_loop (Point P256) (Some [0]) 32 1 (\<lambda>i. if i = 32 then 1 else 0) \<lparr>heap = (\<lambda>a. 0), nxt = 0\<rparr>
          = Embed_loop (Point P256) (Some [0]) 32 1 rand2 s2"
proof -
  let ?s0 = "\<lparr>heap = (\<lambda>a. 0), nxt = 0\<rparr>"
  let ?r1 = "\<lambda>i :: nat. if i = 0 then 1 else (0 :: byte)"
  let ?s1 = "?s0\<lparr>heap := (heap ?s0)(nxt ?s0 := 1), nxt := Suc (nxt ?s0)\<rparr>"
  have sb: "SetBytes (replicate 30 0 @ [0, 1]) = 1"
    by (simp only: SetBytes_zeros) (simp add: SetBytes_def)
  have n: "new (SetBytes (replicate 30 0 @ [0, 1])) ?s0 = (0, ?s1)"
    by (simp add: sb new_def)
  have "\<not> residue_check P256 (heap ?s1 0)" using fail_x1 [of "elliptic_std p256_params"]
    by (simp add: P256_def)
  from genPoint_P256_fail [OF this, of ?r1] obtain s2 where
    g: "genPoint (Point P256) 0 ?r1 ?s1 = Inr (False, Point P256, \<lambda>i. ?r1 (i + 1), s2)" by blast
  from C4_sign_byte_drawn_before_check [OF C4_setup embed_zero_one n g]
  have f1: "?r1 = (\<lambda>i. (if i + 32 = 32 then 1 else 0))"
    and f2: "Embed_loop (Point P256) (Some [0]) 32 1 (\<lambda>i. if i = 32 then 1 else 0) ?s0
          = Embed_loop (Point P256) (Some [0]) 32 1 (\<lambda>i. ?r1 (i + 1)) s2"
    by (simp_all add: curve_Point params_P256 prm_P_p256 BitLen_p256)
  show ?thesis
    by (intro exI conjI, rule C4_setup, rule embed_zero_one, rule n, rule g, rule f1, rule refl,
        rule refl, rule f2)
qed

subsection \<open>The round trip on concrete key streams\<close>

lemma Data_of_bytes:
  assumes c: "curve Pt = P256_Init E" and x: "cp_x Pt = Some ax"
    and h: "heap s ax = SetBytes bb" and lb: "length bb = 32"
  shows "Data Pt s =
      (if uint (bb ! 31) > 30 then Inl ErrInvalidEmbedLen
       else Inr (drop (nat (31 - uint (bb ! 31))) (take 31 bb)))"
proof -
  let ?z = "dropWhile (\<lambda>b. b = 0) bb"
  have pad: "(if int (length ?z) < 32 then replicate (nat (32 - int (length ?z))) 0 @ ?z else ?z) = bb"
  proof (cases "int (length ?z) < 32")
    case True
    have "nat (32 - int (length ?z)) = length bb - length ?z" using lb by simp
    then show ?thesis using True pad_dropWhile [of bb] by simp
  next
    case False
    have "length ?z \<le> length bb" by (rule length_dropWhile_le)
    then have "length ?z = length bb" using False lb by simp
    then have "?z = bb" by (metis pad_dropWhile append_self_conv2 diff_self_eq_0 replicate_0)
    then show ?thesis using False by simp
  qed
  have B: "Bytes (heap s ax) = ?z" by (simp only: h Bytes_SetBytes)
  have "Data Pt s =
      (if uint (bb ! 31) > 30 then Inl ErrInvalidEmbedLen
       else if 32 - uint (bb ! 31) - 1 < 0 then Inl Panic
       else Inr (drop (nat (32 - uint (bb ! 31) - 1)) (take (nat (32 - 1)) bb)))"
    unfolding Data_def x c coordLen_P256 EmbedLen_P256 [OF c] B Let_def option.case pad
    using lb by simp
  also have "\<dots> = (if uint (bb ! 31) > 30 then Inl ErrInvalidEmbedLen
       else Inr (drop (nat (31 - uint (bb ! 31))) (take 31 bb)))"
    by (simp add: algebra_simps)
  finally show ?thesis .
qed

lemma map_single_nonzero:
  "k < n \<Longrightarrow> map (\<lambda>i. if i = k then v else (0 :: byte)) [0..<n]
     = replicate k 0 @ [v] @ replicate (n - Suc k) 0"
proof -
  assume k: "k < n"
  have "[0..<n] = [0..<k] @ [k] @ [Suc k..<n]"
    using k by (metis append_Cons append_Nil le0 less_imp_le_nat upt_add_eq_append upt_conv_Cons less_iff_Suc_add add_Suc_right le_add1 Suc_leI)
  moreover have "map (\<lambda>i. if i = k then v else (0 :: byte)) [0..<k] = replicate k 0"
  proof -
    have "map (\<lambda>i. if i = k then v else (0 :: byte)) [0..<k] = map (\<lambda>i. 0) [0..<k]"
      by (rule map_cong) simp_all
    then show ?thesis by (simp add: map_replicate_const)
  qed
  moreover have "map (\<lambda>i. if i = k then v else (0 :: byte)) [Suc k..<n] = replicate (n - Suc k) 0"
  proof -
    have "map (\<lambda>i. if i = k then v else (0 :: byte)) [Suc k..<n] = map (\<lambda>i. 0) [Suc k..<n]"
      by (rule map_cong) simp_all
    then show ?thesis by (simp add: map_replicate_const)
  qed
  ultimately show ?thesis by simp
qed

lemma Embed_nil_P256:
  "Embed (Point P256) None rand s = Embed_loop (Point P256) None 32 0 rand s"
  by (simp add: Embed_def Let_def curve_Point P256_def coordLen_P256
        EmbedLen_P256 [of "Point (P256_Init E)" E for E])

lemma Embed_data_P256:
  "length d \<le> 30 \<Longrightarrow>
   Embed (Point P256) (Some d) rand s = Embed_loop (Point P256) (Some d) 32 (int (length d)) rand s"
  unfolding Embed_def Let_def option.case curve_Point P256_def coordLen_P256
    EmbedLen_P256 [of "Point (P256_Init E)" E for E, simplified curve_Point, OF refl]
  by (simp only: min_EmbedLen)

lemma Embed_loop_diverges:
  assumes "Embed_loop Pt data l dl rand s = Some y"
  shows "\<not> (Pt = Point P256 \<and> data = Some [0] \<and> l = 32 \<and> dl = 1 \<and> rand = (\<lambda>i. 0))"
proof (rule Embed_loop.raw_induct
    [where P = "\<lambda>Pt data l dl rand s y.
        \<not> (Pt = Point P256 \<and> data = Some [0] \<and> l = 32 \<and> dl = 1 \<and> rand = (\<lambda>i. 0))", OF _ assms])
  fix f Pt data l dl rand s y
  assume IH: "\<And>Pt data l dl rand s y. f Pt data l dl rand s = Some y \<Longrightarrow>
      \<not> (Pt = Point P256 \<and> data = Some [0] \<and> l = 32 \<and> dl = 1 \<and> rand = (\<lambda>i. 0))"
    and body: "(case random_Bits (nat (BitLen (prm_P (params (curve Pt))))) rand of
      (b, rand) \<Rightarrow>
        case embed_bytes l dl data b of Inl e \<Rightarrow> Some (Inl e)
        | Inr b \<Rightarrow>
            case new (SetBytes b) s of
            (ax, s) \<Rightarrow>
              case genPoint Pt ax rand s of Inl e \<Rightarrow> Some (Inl e)
              | Inr (ok, Pt', rand, s) \<Rightarrow>
                  if ok then Some (Inr (Pt', rand, s))
                  else f Pt data l dl rand s) = Some y"
  show "\<not> (Pt = Point P256 \<and> data = Some [0] \<and> l = 32 \<and> dl = 1 \<and> rand = (\<lambda>i. 0))"
  proof
    assume a: "Pt = Point P256 \<and> data = Some [0] \<and> l = 32 \<and> dl = 1 \<and> rand = (\<lambda>i. 0)"
    let ?s1 = "s\<lparr>heap := (heap s)(nxt s := 1), nxt := Suc (nxt s)\<rparr>"
    have rb: "random_Bits (nat (BitLen (prm_P (params (curve (Point P256)))))) (\<lambda>i. 0)
        = (replicate 32 0, \<lambda>i. 0)"
      by (simp add: curve_Point params_P256 prm_P_p256 BitLen_p256 random_Bits_256 map_replicate_const)
    have sb: "SetBytes (replicate 30 0 @ [0, 1]) = 1"
      by (simp only: SetBytes_zeros) (simp add: SetBytes_def)
    have n: "new (SetBytes (replicate 30 0 @ [0, 1])) s = (nxt s, ?s1)"
      by (simp add: sb new_def)
    have "\<not> residue_check P256 (heap ?s1 (nxt s))"
      using fail_x1 [of "elliptic_std p256_params"] by (simp add: P256_def)
    from genPoint_P256_fail [OF this, of "\<lambda>i. 0"] obtain s2 where
      g: "genPoint (Point P256) (nxt s) (\<lambda>i. 0) ?s1 = Inr (False, Point P256, \<lambda>i. 0, s2)" by auto
    have "f (Point P256) (Some [0]) 32 1 (\<lambda>i. 0) s2 = Some y"
      using body a by (simp add: rb embed_zero_one n g)
    from IH [OF this] show False by simp
  qed
qed

text \<open>
  The claim as stated fails twice. For the nil byte string the candidate keeps its
  random low byte: on a key stream that gives the candidate \<open>x = 31\<close>, \<^verbatim>\<open>Embed(nil)\<close>
  returns a point on which \<^verbatim>\<open>Data()\<close> fails with the invalid-length error. And on the
  key stream of zero bytes, \<^verbatim>\<open>Embed\<close> of the one byte 0 tries the candidate \<open>x = 1\<close>,
  which fails the verification, in every iteration: it never returns.
\<close>

theorem C1_counterexample:
  "(\<exists>Pt' rand' s'.
      Embed (Point P256) None (\<lambda>i. if i = 31 then 31 else 0) \<lparr>heap = (\<lambda>a. 0), nxt = 0\<rparr>
        = Some (Inr (Pt', rand', s'))
      \<and> Data Pt' s' = Inl ErrInvalidEmbedLen)
   \<and> Embed (Point P256) (Some [0]) (\<lambda>i. 0) \<lparr>heap = (\<lambda>a. 0), nxt = 0\<rparr> = None"
proof
  let ?s0 = "\<lparr>heap = (\<lambda>a. 0), nxt = 0\<rparr>"
  let ?rand = "\<lambda>i :: nat. if i = 31 then 31 else (0 :: byte)"
  let ?bb = "replicate 31 0 @ [31 :: byte]"
  have m: "map ?rand [0..<32] = ?bb"
    using map_single_nonzero [of 31 32 31] by simp
  have c: "curve (Point P256) = P256_Init (elliptic_std p256_params)"
    by (simp add: curve_Point P256_def)
  have emb: "embed_bytes 32 0 None (map ?rand [0..<32]) = Inr ?bb"
    by (simp add: embed_bytes_def m)
  have sb: "SetBytes ?bb = 31" by (simp only: SetBytes_zeros) (simp add: SetBytes_def)
  have "residue_check (P256_Init (elliptic_std p256_params)) (SetBytes ?bb)"
    unfolding sb by (rule pass_x31)
  with Embed_loop_P256_iter [OF c emb, of ?s0] obtain s' where
    r: "Embed_loop (Point P256) None 32 0 ?rand ?s0 =
          Some (Inr ((Point P256)\<lparr>cp_x := Some (nxt ?s0), cp_y := Some (Suc (nxt ?s0))\<rparr>,
                     \<lambda>i. ?rand (i + 33), s'))"
    and h: "heap s' (nxt ?s0) = SetBytes ?bb" by blast
  let ?P = "(Point P256)\<lparr>cp_x := Some (nxt ?s0), cp_y := Some (Suc (nxt ?s0))\<rparr>"
  have "Data ?P s' = (if uint (?bb ! 31) > 30 then Inl ErrInvalidEmbedLen
       else Inr (drop (nat (31 - uint (?bb ! 31))) (take 31 ?bb)))"
    by (rule Data_of_bytes [where E = "elliptic_std p256_params" and ax = "nxt ?s0"])
       (use h in \<open>simp_all add: c\<close>)
  moreover have "?bb ! 31 = 31" using nth_append_length [of "replicate 31 0" "31 :: byte" "[]"] by simp
  ultimately have "Data ?P s' = Inl ErrInvalidEmbedLen" by simp
  then show "\<exists>Pt' rand' s'. Embed (Point P256) None ?rand ?s0 = Some (Inr (Pt', rand', s'))
      \<and> Data Pt' s' = Inl ErrInvalidEmbedLen"
    using r by (simp only: Embed_nil_P256) blast
next
  show "Embed (Point P256) (Some [0]) (\<lambda>i. 0) \<lparr>heap = (\<lambda>a. 0), nxt = 0\<rparr> = None"
  proof (cases "Embed (Point P256) (Some [0]) (\<lambda>i. 0) \<lparr>heap = (\<lambda>a. 0), nxt = 0\<rparr>")
    case None
    then show ?thesis .
  next
    case (Some y)
    then have "Embed_loop (Point P256) (Some [0]) 32 1 (\<lambda>i. 0) \<lparr>heap = (\<lambda>a. 0), nxt = 0\<rparr> = Some y"
      using Embed_data_P256 [of "[0]"] by simp
    from Embed_loop_diverges [OF this] show ?thesis by simp
  qed
qed

theorem C1_witness:
  "curve (Point P256) = P256_Init (elliptic_std p256_params)
   \<and> int (length [0xAB :: byte]) \<le> EmbedLen (Point P256)
   \<and> candidate (Point P256) (Some [0xAB]) (\<lambda>i. if i = 29 then 1 else if i = 62 then 2 else 0) 1
        = Inr 0x2AB01
   \<and> residue_check (curve (Point P256)) 0x2AB01
   \<and> (\<exists>Pt' rand' s'.
         Embed (Point P256) (Some [0xAB]) (\<lambda>i. if i = 29 then 1 else if i = 62 then 2 else 0)
           \<lparr>heap = (\<lambda>a. 0), nxt = 0\<rparr> = Some (Inr (Pt', rand', s'))
         \<and> Data Pt' s' = Inr [0xAB])"
proof -
  let ?rand = "\<lambda>i :: nat. if i = 29 then 1 else if i = 62 then 2 else (0 :: byte)"
  have c: "curve (Point P256) = P256_Init (elliptic_std p256_params)"
    by (simp add: curve_Point P256_def)
  have l: "int (length [0xAB :: byte]) \<le> EmbedLen (Point P256)"
    by (simp add: EmbedLen_P256 [OF c])
  have "(\<lambda>i. ?rand (i + 1 * 33)) = (\<lambda>i. if i = 29 then 2 else 0)"
    by (rule ext) simp
  then have "map (\<lambda>i. ?rand (i + 1 * 33)) [0..<32] = replicate 29 0 @ [2] @ replicate 2 0"
    using map_single_nonzero [of 29 32 2] by simp
  then have e1: "take (31 - length [0xAB :: byte]) (map (\<lambda>i. ?rand (i + 1 * 33)) [0..<32]) @ [0xAB]
        @ [word_of_int (int (length [0xAB :: byte]))] = replicate 29 0 @ [2, 0xAB, 1]"
    by simp
  have e2: "SetBytes (replicate 29 0 @ [2, 0xAB, 1]) = 0x2AB01"
    by (simp only: SetBytes_zeros) (simp add: SetBytes_def)
  have "candidate (Point P256) (Some [0xAB]) ?rand 1 =
      Inr (SetBytes (take (31 - length [0xAB :: byte]) (map (\<lambda>i. ?rand (i + 1 * 33)) [0..<32]) @ [0xAB]
        @ [word_of_int (int (length [0xAB :: byte]))]))"
    by (rule candidate_P256 [OF c]) simp
  then have k: "candidate (Point P256) (Some [0xAB]) ?rand 1 = Inr 0x2AB01"
    by (simp only: e1 e2)
  have p: "residue_check (curve (Point P256)) 0x2AB01"
    unfolding c by (rule pass_xAB)
  from C1_roundtrip_amended [OF c l k p, of "\<lparr>heap = (\<lambda>a. 0), nxt = 0\<rparr>"] c l k p
  show ?thesis by blast
qed

end
